(* ===== verification/Prelude.thy ===== *)
theory Prelude
  imports Main "HOL-Library.Word"
begin

text \<open>
  Shared vocabulary of the development: the machine integers of the C++ sources as words, the
  byte order of the host as a parameter, the little- and big-endian images of a word, and the
  \<open>prefix_codec\<close> interface (a writer and a reader that consumes exactly what was written),
  with the collections of rewrite rules the component theories use.
\<close>

unbundle bit_operations_syntax

named_theorems codec_simps \<open>round trips of writers and readers\<close>
named_theorems size_simps \<open>sizes of what writers produce\<close>

section \<open>Machine integers\<close>

type_synonym byte = "8 word"
type_synonym u16 = "16 word"
type_synonym u32 = "32 word"
type_synonym i32 = "32 word" \<comment> \<open>an \<open>int32_t\<close>: read with \<open>sint\<close>\<close>
type_synonym u64 = "64 word"
type_synonym bytes = "byte list"

lemma unat_less_pow: "unat (w :: 'a::len word) < 2 ^ LENGTH('a)"
  by (rule unsigned_less)

lemma unat_inj: "unat (a :: 'a::len word) = unat b \<Longrightarrow> a = b"
  by (rule unsigned_word_eqI)

section \<open>Bytes of a word\<close>

text \<open>
  \<open>le_bytes n w\<close> is the list of the \<open>n\<close> low bytes of \<open>w\<close>, least significant first;
  \<open>of_le\<close> puts a list of bytes together again.
\<close>

primrec le_bytes :: "nat \<Rightarrow> 'a::len word \<Rightarrow> bytes" where
  "le_bytes 0 w = []"
| "le_bytes (Suc n) w = ucast w # le_bytes n (drop_bit 8 w)"

primrec of_le :: "bytes \<Rightarrow> 'a::len word" where
  "of_le [] = 0"
| "of_le (b # bs) = ucast b OR push_bit 8 (of_le bs)"

definition be_bytes :: "nat \<Rightarrow> 'a::len word \<Rightarrow> bytes" where
  "be_bytes n w = rev (le_bytes n w)"

definition of_be :: "bytes \<Rightarrow> 'a::len word" where
  "of_be bs = of_le (rev bs)"

lemma length_le_bytes [simp]: "length (le_bytes n w) = n"
  by (induction n arbitrary: w) auto

lemma length_be_bytes [simp]: "length (be_bytes n w) = n"
  by (simp add: be_bytes_def)

lemma take_bit_Suc_byte:
  fixes w :: "'a::len word"
  shows "ucast (ucast w :: byte) OR push_bit 8 (take_bit k (drop_bit 8 w)) = take_bit (8 + k) w"
  by (rule bit_word_eqI) (auto simp: bit_simps)

lemma of_le_le_bytes: "of_le (le_bytes n (w :: 'a::len word)) = take_bit (8 * n) w"
proof (induction n arbitrary: w)
  case 0
  then show ?case by simp
next
  case (Suc n)
  then show ?case using take_bit_Suc_byte [of w "8 * n"] by simp
qed

lemma of_le_full [codec_simps]:
  "LENGTH('a) \<le> 8 * n \<Longrightarrow> of_le (le_bytes n (w :: 'a::len word)) = w"
  by (simp add: of_le_le_bytes take_bit_word_eq_self)

lemma of_be_full [codec_simps]:
  "LENGTH('a) \<le> 8 * n \<Longrightarrow> of_be (be_bytes n (w :: 'a::len word)) = w"
  by (simp add: of_be_def be_bytes_def of_le_full)

lemma ucast_byte_or_push:
  fixes w :: "'a::len word"
  assumes "8 \<le> LENGTH('a)"
  shows "(ucast (ucast (b :: byte) OR push_bit 8 w) :: byte) = b"
  using assms by (intro bit_word_eqI) (auto simp: bit_simps)

lemma drop_byte_or_push:
  fixes w :: "'a::len word"
  assumes "8 + k \<le> LENGTH('a)" and "take_bit k w = w"
  shows "drop_bit 8 (ucast (b :: byte) OR push_bit 8 w) = w"
proof (rule bit_word_eqI)
  fix i
  assume i: "i < LENGTH('a)"
  have "bit w i \<Longrightarrow> i < k"
    by (metis assms(2) bit_take_bit_iff)
  with i assms(1) show "bit (drop_bit 8 (ucast b OR push_bit 8 w)) i = bit w i"
    by (auto simp: bit_simps dest: bit_imp_le_length)
qed

lemma take_bit_of_le: "take_bit (8 * length bs) (of_le bs :: 'a::len word) = of_le bs"
proof (induction bs)
  case Nil
  then show ?case by simp
next
  case (Cons b bs)
  show ?case
  proof (rule bit_word_eqI)
    fix i
    assume "i < LENGTH('a)"
    have "bit (of_le bs :: 'a word) (i - 8) \<Longrightarrow> i - 8 < 8 * length bs"
      by (metis Cons bit_take_bit_iff)
    then show "bit (take_bit (8 * length (b # bs)) (of_le (b # bs) :: 'a word)) i
        = bit (of_le (b # bs) :: 'a word) i"
      by (auto simp: bit_simps dest: bit_imp_le_length)
  qed
qed

lemma le_bytes_of_le [codec_simps]:
  assumes "length bs = n" and "8 * n \<le> LENGTH('a)"
  shows "le_bytes n (of_le bs :: 'a::len word) = bs"
  using assms
proof (induction n arbitrary: bs)
  case 0
  then show ?case by simp
next
  case (Suc n)
  then obtain b bs' where bs: "bs = b # bs'" "length bs' = n" by (cases bs) auto
  have "drop_bit 8 (of_le bs :: 'a word) = of_le bs'"
    unfolding bs of_le.simps
    by (rule drop_byte_or_push [where k = "8 * n"]) (use Suc.prems bs take_bit_of_le [of bs'] in auto)
  moreover have "(ucast (of_le bs :: 'a word) :: byte) = b"
    unfolding bs of_le.simps by (rule ucast_byte_or_push) (use Suc.prems in simp)
  ultimately show ?case using Suc bs by simp
qed

lemma be_bytes_of_be [codec_simps]:
  assumes "length bs = n" and "8 * n \<le> LENGTH('a)"
  shows "be_bytes n (of_be bs :: 'a::len word) = bs"
  using assms by (simp add: be_bytes_def of_be_def le_bytes_of_le)

section \<open>Loops that may not end\<close>

text \<open>
  A loop with its body as a function: the body goes on with \<open>Inl\<close>, leaves the loop with
  \<open>Inr\<close>, and is \<open>None\<close> where it does not return; the loop is \<open>None\<close> where it does not end.
\<close>

partial_function (option) iterate :: "('a \<Rightarrow> ('a + 'b) option) \<Rightarrow> 'a \<Rightarrow> 'b option" where
  "iterate body x =
     Option.bind (body x) (\<lambda>r. if isl r then iterate body (projl r) else Some (projr r))"

lemma iterate_Inl: "body x = Some (Inl y) \<Longrightarrow> iterate body x = iterate body y"
  by (subst iterate.simps) simp

lemma iterate_Inr: "body x = Some (Inr z) \<Longrightarrow> iterate body x = Some z"
  by (subst iterate.simps) simp

text \<open>What the rounds of a loop keep holds where it is left.\<close>

lemma iterate_leaves:
  assumes "iterate body x = Some z" and "I x"
    and "\<And>x y. I x \<Longrightarrow> body x = Some (Inl y) \<Longrightarrow> I y" and "\<And>x z. I x \<Longrightarrow> body x = Some (Inr z) \<Longrightarrow> Q z"
  shows "Q z"
proof -
  have "b = body \<longrightarrow> I x \<longrightarrow> Q z" if "iterate b x = Some z" for b x z
    using that
  proof (induction rule: iterate.raw_induct [where xa = "(b, x)" for b x, unfolded prod.case, rotated 1, consumes 1])
    case (1 iterate b x z)
    show ?case
    proof (intro impI)
      assume b: "b = body" and i: "I x"
      from 1(2) obtain r where r: "body x = Some r" and
        rest: "(if isl r then iterate b (projl r) else Some (projr r)) = Some z" by (auto simp: b bind_eq_Some_conv)
      show "Q z"
      proof (cases r)
        case (Inl y)
        then show ?thesis using 1(1) rest assms(3) [OF i] r b by simp
      next
        case (Inr y)
        then show ?thesis using rest assms(4) [OF i] r by simp
      qed
    qed
  qed
  then show ?thesis using assms(1,2) by blast
qed
section \<open>Writers and readers\<close>

text \<open>
  The contract every pair of a writer \<open>enc\<close> and a reader \<open>dec\<close> of this program keeps: the
  reader, put in front of what the writer wrote and of anything after it, returns the value and
  exactly what follows. \<open>ok\<close> says for which values the contract holds.
\<close>

primrec read_many :: "(bytes \<Rightarrow> ('a \<times> bytes) option) \<Rightarrow> nat \<Rightarrow> bytes \<Rightarrow> ('a list \<times> bytes) option" where
  "read_many dec 0 bs = Some ([], bs)"
| "read_many dec (Suc n) bs =
     (case dec bs of
        None \<Rightarrow> None
      | Some (x, bs') \<Rightarrow>
          (case read_many dec n bs' of
             None \<Rightarrow> None
           | Some (xs, bs'') \<Rightarrow> Some (x # xs, bs'')))"

locale prefix_codec =
  fixes enc :: "'a \<Rightarrow> bytes"
    and dec :: "bytes \<Rightarrow> ('a \<times> bytes) option"
    and ok :: "'a \<Rightarrow> bool"
  assumes dec_enc: "ok x \<Longrightarrow> dec (enc x @ r) = Some (x, r)"
begin

lemma dec_enc_all: "ok x \<Longrightarrow> dec (enc x) = Some (x, [])"
  using dec_enc [of x "[]"] by simp

lemma unambiguous:
  assumes "ok x" and "ok y" and "enc x @ r = enc y @ r'"
  shows "x = y \<and> r = r'"
proof -
  have "Some (x, r) = Some (y, r')"
    unfolding dec_enc [OF assms(1), symmetric] dec_enc [OF assms(2), symmetric] assms(3) ..
  then show ?thesis by simp
qed

lemma inj: "ok x \<Longrightarrow> ok y \<Longrightarrow> enc x = enc y \<Longrightarrow> x = y"
  by (rule unambiguous [where r = "[]" and r' = "[]", THEN conjunct1]) simp_all

lemma read_many_enc:
  "list_all ok xs \<Longrightarrow> read_many dec (length xs) (concat (map enc xs) @ r) = Some (xs, r)"
  by (induction xs) (simp_all add: dec_enc)

end

text \<open>
  A codec of fixed width also fails cleanly: with fewer bytes than the width nothing is read.
\<close>

locale fixed_codec = prefix_codec enc dec ok
  for enc :: "'a \<Rightarrow> bytes" and dec :: "bytes \<Rightarrow> ('a \<times> bytes) option" and ok :: "'a \<Rightarrow> bool" +
  fixes width :: nat
  assumes width_enc: "length (enc x) = width"
    and dec_short: "length bs < width \<Longrightarrow> dec bs = None"
begin

lemma truncated: "k < width \<Longrightarrow> dec (take k (enc x)) = None"
  by (rule dec_short) (simp add: width_enc)

lemma width_many: "length (concat (map enc xs)) = width * length xs"
  by (induction xs) (simp_all add: width_enc)

end

end
