(* ===== verification/Transactions.thy ===== *)
theory Transactions
  imports Prelude
begin

text \<open>
  The transaction state of \<open>sqlrservercontroller\<close>
  (\<open>src/server/sqlrservercontroller.cpp\<close>) and the queries
  \<open>sqlrserverconnection\<close> runs for it (\<open>src/server/sqlrserverconnection.cpp\<close>).
  The model follows the functions one by one: \<open>setAutoCommitOn\<close>,
  \<open>setAutoCommitOff\<close>, \<open>begin\<close>, \<open>commit\<close>, \<open>rollback\<close>,
  \<open>setTransactionModel\<close>, the interception of transaction queries, what executing a query
  changes, and the transaction part of \<open>logIn\<close> and \<open>endSession\<close>.

  The database and the driver are the argument \<open>D\<close>: what running a begin, commit or rollback
  query and switching autocommit do to the connection, each with its result. Debug output is
  left out; the notifications of the modules and the events raised are kept in order.
\<close>

section \<open>State\<close>

datatype sqlrtxmodel =
  TX_Unknown | TX_None | TX_Implicit | TX_Explicit | TX_Explicit_Deferred | TX_Explicit_Error

record 'c dbconn =
  nativeModel :: sqlrtxmodel
  supportsAutoCommit :: bool
  getDefaultAutoCommit :: bool
  ac_on :: "'c \<Rightarrow> bool \<times> 'c"
  ac_off :: "'c \<Rightarrow> bool \<times> 'c"
  run_begin :: "'c \<Rightarrow> bool \<times> 'c"
  run_commit :: "'c \<Rightarrow> bool \<times> 'c"
  run_rollback :: "'c \<Rightarrow> bool \<times> 'c"

datatype txerror =
  Autocommit_On_In_Tx_Block | Autocommit_Off_In_Tx_Block | Begin_In_Tx_Block
  | Commit_Not_In_Tx_Block | Rollback_Not_In_Tx_Block | Db_Error

datatype txevent =
  Modules_Ended bool | Caches_Cleared | Begin_Event | Commit_Event | Rollback_Event

record 'c txst =
  txmodel :: sqlrtxmodel
  intransaction :: bool
  autocommit :: bool
  eotautocommit :: bool
  needscommitorrollback :: bool
  conn :: 'c
  connerror :: "txerror option"
  txevents :: "txevent list"

definition raise :: "txevent list \<Rightarrow> 'c txst \<Rightarrow> 'c txst" where
  "raise es s = s\<lparr>txevents := txevents s @ es\<rparr>"

definition setError :: "txerror \<Rightarrow> 'c txst \<Rightarrow> 'c txst" where
  "setError e s = s\<lparr>connerror := Some e\<rparr>"

section \<open>The connection's own operations\<close>

definition call :: "('c \<Rightarrow> bool \<times> 'c) \<Rightarrow> 'c txst \<Rightarrow> bool \<times> 'c txst" where
  "call op s = (case op (conn s) of (ok, c) \<Rightarrow> (ok, s\<lparr>conn := c\<rparr>))"

text \<open>
  A transaction query: the error is cleared, the query is run with a cursor of its own, an error
  is saved, and on success the controller is told whether the session's end has to commit or
  roll back.
\<close>

definition conn_begin :: "'c dbconn \<Rightarrow> 'c txst \<Rightarrow> bool \<times> 'c txst" where
  "conn_begin D s =
     (case call (run_begin D) (s\<lparr>connerror := None\<rparr>) of
        (True, s) \<Rightarrow> (True, s\<lparr>needscommitorrollback := True\<rparr>)
      | (False, s) \<Rightarrow> (False, setError Db_Error s))"

definition conn_commit :: "'c dbconn \<Rightarrow> 'c txst \<Rightarrow> bool \<times> 'c txst" where
  "conn_commit D s =
     (case call (run_commit D) (s\<lparr>connerror := None\<rparr>) of
        (True, s) \<Rightarrow> (True, s\<lparr>needscommitorrollback := False\<rparr>)
      | (False, s) \<Rightarrow> (False, setError Db_Error s))"

definition conn_rollback :: "'c dbconn \<Rightarrow> 'c txst \<Rightarrow> bool \<times> 'c txst" where
  "conn_rollback D s =
     (case call (run_rollback D) (s\<lparr>connerror := None\<rparr>) of
        (True, s) \<Rightarrow> (True, s\<lparr>needscommitorrollback := False\<rparr>)
      | (False, s) \<Rightarrow> (False, setError Db_Error s))"

section \<open>Transaction models\<close>

definition isTransactional :: "'c txst \<Rightarrow> bool" where
  "isTransactional s \<longleftrightarrow> txmodel s \<noteq> TX_None"

definition supportsImplicitTransactions :: "'c dbconn \<Rightarrow> bool" where
  "supportsImplicitTransactions D \<longleftrightarrow> nativeModel D = TX_Implicit"

definition supportsExplicitTransactions :: "'c dbconn \<Rightarrow> bool" where
  "supportsExplicitTransactions D \<longleftrightarrow> nativeModel D \<noteq> TX_None \<and> nativeModel D \<noteq> TX_Implicit"

definition fakingImplicitTransactions :: "'c dbconn \<Rightarrow> 'c txst \<Rightarrow> bool" where
  "fakingImplicitTransactions D s \<longleftrightarrow> nativeModel D \<noteq> TX_Implicit \<and> txmodel s = TX_Implicit"

definition fakingExplicitTransactions :: "'c dbconn \<Rightarrow> 'c txst \<Rightarrow> bool" where
  "fakingExplicitTransactions D s \<longleftrightarrow> nativeModel D = TX_Implicit \<and> txmodel s \<noteq> TX_Implicit"

definition fakingExplicitDeferredTransactions :: "'c dbconn \<Rightarrow> 'c txst \<Rightarrow> bool" where
  "fakingExplicitDeferredTransactions D s \<longleftrightarrow>
     nativeModel D \<noteq> TX_Explicit_Deferred \<and> txmodel s = TX_Explicit_Deferred"

definition stringToTransactionModel :: "string \<Rightarrow> sqlrtxmodel" where
  "stringToTransactionModel str =
     (if str = ''none'' then TX_None
      else if str = ''implicit'' then TX_Implicit
      else if str = ''explicit'' then TX_Explicit
      else if str = ''explicit-deferred'' then TX_Explicit_Deferred
      else if str = ''explicit-error'' then TX_Explicit_Error
      else TX_Unknown)"

fun transactionModelToString :: "sqlrtxmodel \<Rightarrow> string" where
  "transactionModelToString TX_None = ''none''"
| "transactionModelToString TX_Implicit = ''implicit''"
| "transactionModelToString TX_Explicit = ''explicit''"
| "transactionModelToString TX_Explicit_Deferred = ''explicit-deferred''"
| "transactionModelToString TX_Explicit_Error = ''explicit-error''"
| "transactionModelToString TX_Unknown = ''unknown''"

section \<open>Beginning and ending transactions\<close>

definition beginTransaction :: "'c txst \<Rightarrow> bool \<times> 'c txst" where
  "beginTransaction s = (True, raise [Begin_Event] (s\<lparr>intransaction := True, autocommit := False\<rparr>))"

text \<open>\<open>endTransaction\<close> always returns true; what the connection returns in it is ignored.\<close>

definition endTransaction :: "'c dbconn \<Rightarrow> bool \<Rightarrow> 'c txst \<Rightarrow> bool \<times> 'c txst" where
  "endTransaction D commit s0 =
     (let s1 = raise [Modules_Ended commit, Caches_Cleared] s0;
          s2 =
            (if txmodel s1 = TX_Explicit_Deferred then
               (let s' =
                  (if fakingExplicitTransactions D s1 then
                     (if supportsAutoCommit D then
                        (if eotautocommit s1 then snd (call (ac_on D) s1) else snd (call (ac_off D) s1))
                      else s1)
                   else if \<not> eotautocommit s1 then snd (conn_begin D s1)
                   else s1)
                in s'\<lparr>autocommit := eotautocommit s', eotautocommit := False\<rparr>)
             else if fakingImplicitTransactions D s1 then
               (if \<not> autocommit s1 \<and> \<not> supportsAutoCommit D then snd (conn_begin D s1) else s1)
             else if supportsExplicitTransactions D \<or> fakingExplicitTransactions D s1 then
               (let s' = (if supportsAutoCommit D then snd (call (ac_on D) s1) else s1)
                in s'\<lparr>autocommit := True\<rparr>)
             else s1)
      in (True, raise [if commit then Commit_Event else Rollback_Event]
                  (s2\<lparr>intransaction := \<not> autocommit s2, needscommitorrollback := False\<rparr>)))"

section \<open>Autocommit\<close>

definition setAutoCommitOn :: "'c dbconn \<Rightarrow> 'c txst \<Rightarrow> bool \<times> 'c txst" where
  "setAutoCommitOn D s =
     (if \<not> isTransactional s then (True, s\<lparr>autocommit := True\<rparr>)
      else if autocommit s \<or> \<not> intransaction s then (True, s)
      else if txmodel s = TX_Explicit_Deferred \<and> eotautocommit s then (True, s)
      else if txmodel s = TX_Explicit_Error then (False, setError Autocommit_On_In_Tx_Block s)
      else if supportsAutoCommit D then
        (case call (ac_on D) s of
           (False, s) \<Rightarrow> (False, s)
         | (True, s) \<Rightarrow>
             (let s = (if txmodel s = TX_Explicit_Deferred then s\<lparr>eotautocommit := True\<rparr> else s)
              in endTransaction D True (s\<lparr>autocommit := True\<rparr>)))
      else if fakingImplicitTransactions D s then
        (case conn_commit D s of
           (False, s) \<Rightarrow> (False, s)
         | (True, s) \<Rightarrow> endTransaction D True (s\<lparr>autocommit := True\<rparr>))
      else if supportsExplicitTransactions D \<or> fakingExplicitTransactions D s then
        (case conn_commit D s of
           (False, s) \<Rightarrow> (False, s)
         | (True, s) \<Rightarrow>
             (let s = (if txmodel s = TX_Explicit_Deferred then s\<lparr>eotautocommit := True\<rparr> else s)
              in endTransaction D True s))
      else (False, s\<lparr>autocommit := False\<rparr>))"

definition setAutoCommitOff :: "'c dbconn \<Rightarrow> 'c txst \<Rightarrow> bool \<times> 'c txst" where
  "setAutoCommitOff D s =
     (if \<not> isTransactional s then (False, s\<lparr>autocommit := True\<rparr>)
      else if \<not> autocommit s \<or> intransaction s then
        (if txmodel s = TX_Explicit_Error then (False, setError Autocommit_Off_In_Tx_Block s)
         else if txmodel s = TX_Explicit_Deferred then
           (if \<not> fakingExplicitDeferredTransactions D s \<and> supportsAutoCommit D then
              (case call (ac_off D) s of
                 (False, s) \<Rightarrow> (False, s)
               | (True, s) \<Rightarrow> (True, s\<lparr>eotautocommit := False\<rparr>))
            else (True, s\<lparr>eotautocommit := False\<rparr>))
         else (True, s))
      else if supportsAutoCommit D then
        (case call (ac_off D) s of
           (False, s) \<Rightarrow> (False, s)
         | (True, s) \<Rightarrow>
             beginTransaction (if txmodel s = TX_Explicit_Deferred then s\<lparr>eotautocommit := False\<rparr> else s))
      else if fakingImplicitTransactions D s then
        (case conn_begin D s of (False, s) \<Rightarrow> (False, s) | (True, s) \<Rightarrow> beginTransaction s)
      else if supportsExplicitTransactions D \<or> fakingExplicitTransactions D s then
        (case conn_begin D s of
           (False, s) \<Rightarrow> (False, s)
         | (True, s) \<Rightarrow>
             beginTransaction (if txmodel s = TX_Explicit_Deferred then s\<lparr>eotautocommit := False\<rparr> else s))
      else (True, s\<lparr>autocommit := False\<rparr>))"

definition setAutoCommit :: "'c dbconn \<Rightarrow> bool \<Rightarrow> 'c txst \<Rightarrow> bool \<times> 'c txst" where
  "setAutoCommit D ac s = (if ac then setAutoCommitOn D s else setAutoCommitOff D s)"

section \<open>Begin, commit and rollback\<close>

definition begin_tx :: "'c dbconn \<Rightarrow> 'c txst \<Rightarrow> bool \<times> 'c txst" where
  "begin_tx D s =
     (if \<not> isTransactional s then (True, s)
      else if \<not> autocommit s then (True, s)
      else if intransaction s then (False, setError Begin_In_Tx_Block s)
      else if \<not> supportsExplicitTransactions D \<and> \<not> fakingExplicitTransactions D s then (True, s)
      else if fakingExplicitTransactions D s then
        (if supportsAutoCommit D then
           (case call (ac_off D) s of
              (False, s) \<Rightarrow> (False, s)
            | (True, s) \<Rightarrow>
                beginTransaction (if txmodel s = TX_Explicit_Deferred then s\<lparr>eotautocommit := True\<rparr> else s))
         else (False, s))
      else
        (case conn_begin D s of
           (False, s) \<Rightarrow> (False, s)
         | (True, s) \<Rightarrow>
             beginTransaction (if txmodel s = TX_Explicit_Deferred then s\<lparr>eotautocommit := True\<rparr> else s)))"

definition commit :: "'c dbconn \<Rightarrow> 'c txst \<Rightarrow> bool \<times> 'c txst" where
  "commit D s =
     (if \<not> isTransactional s then (True, s)
      else if autocommit s then (True, s)
      else if \<not> intransaction s then (False, setError Commit_Not_In_Tx_Block s)
      else (case conn_commit D s of (False, s) \<Rightarrow> (False, s) | (True, s) \<Rightarrow> endTransaction D True s))"

definition rollback :: "'c dbconn \<Rightarrow> 'c txst \<Rightarrow> bool \<times> 'c txst" where
  "rollback D s =
     (if \<not> isTransactional s then (True, s)
      else if autocommit s then (True, s)
      else if \<not> intransaction s then (False, setError Rollback_Not_In_Tx_Block s)
      else (case conn_rollback D s of (False, s) \<Rightarrow> (False, s) | (True, s) \<Rightarrow> endTransaction D False s))"

definition setTransactionModel :: "'c dbconn \<Rightarrow> sqlrtxmodel \<Rightarrow> 'c txst \<Rightarrow> bool \<times> 'c txst" where
  "setTransactionModel D m s =
     (let switch = (\<lambda>s. let s = s\<lparr>txmodel := m\<rparr> in
                          if m = TX_Implicit then setAutoCommitOff D s else (True, s))
      in if m = txmodel s then (True, s)
         else if txmodel s \<noteq> TX_None then
           (let savedtxmodel = txmodel s
            in case commit D (s\<lparr>txmodel := nativeModel D\<rparr>) of
                 (False, s) \<Rightarrow> (False, s\<lparr>txmodel := savedtxmodel\<rparr>)
               | (True, s) \<Rightarrow>
                   (case setAutoCommitOn D s of
                      (False, s) \<Rightarrow> (False, s\<lparr>txmodel := savedtxmodel\<rparr>)
                    | (True, s) \<Rightarrow> switch s))
         else switch s)"

section \<open>Queries\<close>

datatype sqlrquerytype =
  QT_Select | QT_Insert | QT_InsertSelect | QT_SelectInto | QT_MultiInsert | QT_Update | QT_Delete
  | QT_Create | QT_Drop | QT_Alter | QT_Custom | QT_Etc | QT_Begin | QT_Commit | QT_Rollback
  | QT_Autocommit_On | QT_Autocommit_Off | QT_Set_Including_Autocommit_On
  | QT_Set_Including_Autocommit_Off

text \<open>What the transaction code asks a cursor about its query, and what it changes of the cursor.\<close>

record txcursor =
  querytype :: sqlrquerytype
  isCommitOrRollback :: bool
  isNotSelect :: bool
  isForUpdate :: bool
  wasintercepted :: bool
  inbindcount :: nat
  outbindcount :: nat
  inoutbindcount :: nat
  curerror :: "txerror option"

definition checkInterceptQuery :: "txcursor \<Rightarrow> bool" where
  "checkInterceptQuery cur \<longleftrightarrow>
     querytype cur \<in> {QT_Begin, QT_Commit, QT_Rollback, QT_Autocommit_On, QT_Autocommit_Off,
       QT_Set_Including_Autocommit_On, QT_Set_Including_Autocommit_Off}"

text \<open>
  An intercepted query: the cursor is marked, its bind counts are cleared, and the controller's
  own operation runs instead; a failure copies the connection's error to the cursor. The result
  is the return value, the cursor and the state. \<open>_sendcolumninfo\<close> is true at the end in every
  case.
\<close>

definition intercepted ::
  "('c txst \<Rightarrow> bool \<times> 'c txst) \<Rightarrow> txcursor \<Rightarrow> 'c txst \<Rightarrow> bool \<times> txcursor \<times> 'c txst" where
  "intercepted op cur s =
     (let cur = cur\<lparr>wasintercepted := True, inbindcount := 0, outbindcount := 0, inoutbindcount := 0\<rparr>
      in case op s of
           (True, s) \<Rightarrow> (True, cur, s)
         | (False, s) \<Rightarrow> (False, cur\<lparr>curerror := connerror s\<rparr>, s))"

definition interceptQuery ::
  "'c dbconn \<Rightarrow> txcursor \<Rightarrow> 'c txst \<Rightarrow> bool \<times> txcursor \<times> 'c txst" where
  "interceptQuery D cur s =
     (let cur = cur\<lparr>wasintercepted := False\<rparr>
      in case querytype cur of
           QT_Begin \<Rightarrow> intercepted (begin_tx D) cur s
         | QT_Commit \<Rightarrow> intercepted (commit D) cur s
         | QT_Rollback \<Rightarrow> intercepted (rollback D) cur s
         | QT_Autocommit_On \<Rightarrow> intercepted (setAutoCommitOn D) cur s
         | QT_Autocommit_Off \<Rightarrow> intercepted (setAutoCommitOff D) cur s
         | _ \<Rightarrow> (False, cur, s))"

definition commitOrRollback :: "txcursor \<Rightarrow> 'c txst \<Rightarrow> 'c txst" where
  "commitOrRollback cur s =
     (if isTransactional s then
        (if isCommitOrRollback cur then s\<lparr>needscommitorrollback := False\<rparr>
         else if isNotSelect cur then s\<lparr>needscommitorrollback := True\<rparr>
         else if \<not> autocommit s \<and> isForUpdate cur then s\<lparr>needscommitorrollback := True\<rparr>
         else s)
      else s)"

text \<open>What \<open>executeQuery\<close> does to the transaction state after the database ran the query.\<close>

definition afterExecute :: "'c dbconn \<Rightarrow> bool \<Rightarrow> txcursor \<Rightarrow> 'c txst \<Rightarrow> 'c txst" where
  "afterExecute D success cur s =
     (if success then
        (let s = commitOrRollback cur s
         in if querytype cur = QT_Set_Including_Autocommit_On then
              (let s = s\<lparr>autocommit := True\<rparr>
               in if intransaction s then snd (endTransaction D True s) else s)
            else if querytype cur = QT_Set_Including_Autocommit_Off then
              (let s = s\<lparr>autocommit := False\<rparr>
               in if \<not> intransaction s then snd (beginTransaction s) else s)
            else s)
      else s)"

section \<open>Sessions\<close>

text \<open>The part of \<open>logIn\<close> that sets up the transaction state.\<close>

definition logIn_tx :: "'c dbconn \<Rightarrow> bool \<Rightarrow> 'c txst \<Rightarrow> 'c txst" where
  "logIn_tx D initialautocommit s =
     (let s = s\<lparr>autocommit := getDefaultAutoCommit D\<rparr>;
          s = s\<lparr>intransaction := \<not> autocommit s\<rparr>
      in snd (setAutoCommit D initialautocommit s))"

text \<open>
  The transaction part of \<open>endSession\<close>: the end-of-session commit or rollback, the
  truncation and dropping of temporary tables (the argument \<open>cleanup\<close>) and the commit that
  follows it, the session-end queries (the argument \<open>endqueries\<close>), and the return to the
  initial transaction model and autocommit state.
\<close>

record session_cfg =
  endofsessioncommit :: bool
  initialtxmodel :: sqlrtxmodel
  initialautocommit :: bool

definition endSession_tx ::
  "'c dbconn \<Rightarrow> session_cfg \<Rightarrow> bool \<Rightarrow> ('c txst \<Rightarrow> 'c txst) \<Rightarrow> ('c txst \<Rightarrow> 'c txst) \<Rightarrow>
   'c txst \<Rightarrow> 'c txst" where
  "endSession_tx D cfg temptablecleanup cleanup endqueries s =
     (let s = (if fakingExplicitTransactions D s \<or> fakingImplicitTransactions D s \<or>
                  (isTransactional s \<and> needscommitorrollback s)
               then (if endofsessioncommit cfg then snd (commit D s) else snd (rollback D s))
               else s);
          s = cleanup s;
          s = (if temptablecleanup then snd (commit D s) else s);
          s = endqueries s;
          s = snd (setTransactionModel D (initialtxmodel cfg) s)
      in snd (setAutoCommit D (initialautocommit cfg) s))"

end
