(* ===== verification/Transaction_State.thy ===== *)
theory Transaction_State
  imports Transactions
begin

text \<open>
  What the transaction code of \<open>Transactions\<close> keeps true: the two flags of the controller stay
  opposite, and, as long as the database does what its documentation says, the controller's idea
  of autocommit is the database's own.
\<close>

section \<open>The operations of a session\<close>

text \<open>
  One step of a session: a command of the client or a query that was executed. \<open>ok\<close> says in
  which states a begin is allowed.
\<close>

inductive session_step :: "'c dbconn \<Rightarrow> ('c txst \<Rightarrow> bool) \<Rightarrow> 'c txst \<Rightarrow> 'c txst \<Rightarrow> bool" for D ok where
  On: "session_step D ok s (snd (setAutoCommitOn D s))"
| Off: "session_step D ok s (snd (setAutoCommitOff D s))"
| Begin: "ok s \<Longrightarrow> session_step D ok s (snd (begin_tx D s))"
| Commit: "session_step D ok s (snd (commit D s))"
| Rollback: "session_step D ok s (snd (rollback D s))"
| Model: "m \<noteq> TX_None \<Longrightarrow> session_step D ok s (snd (setTransactionModel D m s))"
| Query: "querytype cur \<notin> {QT_Set_Including_Autocommit_On, QT_Set_Including_Autocommit_Off} \<Longrightarrow>
    session_step D ok s (afterExecute D success cur s)"

inductive session :: "'c dbconn \<Rightarrow> ('c txst \<Rightarrow> bool) \<Rightarrow> 'c txst \<Rightarrow> 'c txst \<Rightarrow> bool" for D ok where
  Start: "session D ok s s"
| More: "session D ok s s' \<Longrightarrow> session_step D ok s' s'' \<Longrightarrow> session D ok s s''"

inductive_cases session_stepE: "session_step D ok s s'"

lemma session_invariant:
  assumes "session D ok s s'" and "I s" and "\<And>t t'. I t \<Longrightarrow> session_step D ok t t' \<Longrightarrow> I t'"
  shows "I s'"
  using assms by induction auto

section \<open>The two flags\<close>

definition settled :: "'c txst \<Rightarrow> bool" where
  "settled s \<longleftrightarrow> txmodel s \<noteq> TX_None \<and> intransaction s = (\<not> autocommit s)"

lemma call_eq: "call op s = (fst (op (conn s)), s\<lparr>conn := snd (op (conn s))\<rparr>)"
  by (simp add: call_def split: prod.splits)

lemma conn_ops:
  "conn_begin D s = (fst (run_begin D (conn s)),
     if fst (run_begin D (conn s))
     then s\<lparr>conn := snd (run_begin D (conn s)), connerror := None, needscommitorrollback := True\<rparr>
     else s\<lparr>conn := snd (run_begin D (conn s)), connerror := Some Db_Error\<rparr>)"
  "conn_commit D s = (fst (run_commit D (conn s)),
     if fst (run_commit D (conn s))
     then s\<lparr>conn := snd (run_commit D (conn s)), connerror := None, needscommitorrollback := False\<rparr>
     else s\<lparr>conn := snd (run_commit D (conn s)), connerror := Some Db_Error\<rparr>)"
  "conn_rollback D s = (fst (run_rollback D (conn s)),
     if fst (run_rollback D (conn s))
     then s\<lparr>conn := snd (run_rollback D (conn s)), connerror := None, needscommitorrollback := False\<rparr>
     else s\<lparr>conn := snd (run_rollback D (conn s)), connerror := Some Db_Error\<rparr>)"
  by (simp_all add: conn_begin_def conn_commit_def conn_rollback_def call_eq setError_def)

lemmas tx_models = isTransactional_def supportsExplicitTransactions_def fakingImplicitTransactions_def
  fakingExplicitTransactions_def fakingExplicitDeferredTransactions_def

lemmas tx_basic = tx_models call_eq conn_ops raise_def setError_def

text \<open>What \<open>endTransaction\<close> leaves of the flags.\<close>

lemma endTransaction_settled:
  assumes "txmodel s \<noteq> TX_None"
  shows "settled (snd (endTransaction D b s))" and "txmodel (snd (endTransaction D b s)) = txmodel s"
    and "fst (endTransaction D b s)"
  using assms by (simp_all add: endTransaction_def settled_def Let_def tx_basic)

lemma beginTransaction_settled:
  "txmodel s \<noteq> TX_None \<Longrightarrow> settled (snd (beginTransaction s))"
  "txmodel (snd (beginTransaction s)) = txmodel s"
  "fst (beginTransaction s)"
  by (simp_all add: beginTransaction_def settled_def raise_def)

text \<open>
  The databases the controller can switch: one that begins transactions by itself has to have
  an autocommit of its own. All drivers of the repository with an implicit native model do.
\<close>

definition manageable :: "'c dbconn \<Rightarrow> bool" where
  "manageable D \<longleftrightarrow> nativeModel D \<noteq> TX_None \<and> (nativeModel D = TX_Implicit \<longrightarrow> supportsAutoCommit D)"

lemma endTransaction_model: "txmodel (snd (endTransaction D b s)) = txmodel s"
  by (simp add: endTransaction_def Let_def tx_basic)

lemma endTransaction_true: "fst (endTransaction D b s)"
  by (simp add: endTransaction_def Let_def)

lemma endTransaction_flags:
  "intransaction (snd (endTransaction D b s)) = (\<not> autocommit (snd (endTransaction D b s)))"
  by (simp add: endTransaction_def Let_def tx_basic)

lemma settled_on:
  assumes "manageable D" and "settled s"
  shows "settled (snd (setAutoCommitOn D s))"
  using assms unfolding setAutoCommitOn_def
  by (auto simp: tx_basic Let_def settled_def manageable_def endTransaction_model
      intro!: endTransaction_flags split: bool.splits)

lemma settled_off:
  assumes "manageable D" and "settled s"
  shows "settled (snd (setAutoCommitOff D s))"
  using assms unfolding setAutoCommitOff_def
  by (auto simp: tx_basic Let_def settled_def manageable_def beginTransaction_def split: bool.splits)

lemma settled_begin: "settled s \<Longrightarrow> settled (snd (begin_tx D s))"
  unfolding begin_tx_def
  by (auto simp: tx_basic Let_def settled_def beginTransaction_def split: bool.splits)

lemma settled_commit:
  assumes "settled s"
  shows "settled (snd (commit D s))" and "settled (snd (rollback D s))"
  using assms unfolding commit_def rollback_def
  by (auto simp: tx_basic settled_def endTransaction_model
      endTransaction_flags split: bool.splits)

lemma settled_setTransactionModel:
  assumes "manageable D" and "m \<noteq> TX_None" and "settled s"
  shows "settled (snd (setTransactionModel D m s))"
proof -
  have tr: "settled (t\<lparr>txmodel := k\<rparr>)" if "settled t" "k \<noteq> TX_None" for t :: "'a txst" and k
    using that by (simp add: settled_def)
  have native: "nativeModel D \<noteq> TX_None" using assms(1) by (simp add: manageable_def)
  obtain r1 s1 where c: "commit D (s\<lparr>txmodel := nativeModel D\<rparr>) = (r1, s1)" by fastforce
  have s1: "settled s1"
    using settled_commit(1) [of "s\<lparr>txmodel := nativeModel D\<rparr>" D] tr [OF assms(3) native] by (simp add: c)
  obtain r2 s2 where on: "setAutoCommitOn D s1 = (r2, s2)" by fastforce
  have s2: "settled s2"
    using settled_on [OF assms(1) s1] by (simp add: on)
  have "txmodel s \<noteq> TX_None" using assms(3) by (simp add: settled_def)
  then show ?thesis
    using assms tr [OF s1] tr [OF s2] settled_off [OF assms(1) tr [OF s2 assms(2)]]
    by (auto simp: setTransactionModel_def Let_def c on split: bool.splits)
qed

lemma settled_afterExecute:
  assumes "settled s"
    and "querytype cur \<notin> {QT_Set_Including_Autocommit_On, QT_Set_Including_Autocommit_Off}"
  shows "settled (afterExecute D success cur s)"
  using assms by (simp add: afterExecute_def commitOrRollback_def Let_def settled_def)

lemma settled_step:
  assumes "manageable D" and "settled s" and "session_step D ok s s'"
  shows "settled s'"
  using assms(3) assms(1,2)
  by cases (auto intro: settled_on settled_off settled_begin settled_commit settled_setTransactionModel
      settled_afterExecute)

text \<open>
  The states in which the database agrees. \<open>manual\<close> says that the database's own autocommit
  is off, \<open>opened\<close> that a transaction begun by a query is open.
\<close>

definition db_contract :: "'c dbconn \<Rightarrow> ('c \<Rightarrow> bool) \<Rightarrow> ('c \<Rightarrow> bool) \<Rightarrow> bool" where
  "db_contract D manual opened \<longleftrightarrow> (\<forall>c.
     fst (ac_on D c) \<and> \<not> manual (snd (ac_on D c)) \<and> \<not> opened (snd (ac_on D c)) \<and>
     fst (ac_off D c) \<and> manual (snd (ac_off D c)) \<and> opened (snd (ac_off D c)) = opened c \<and>
     fst (run_begin D c) \<and> manual (snd (run_begin D c)) = manual c \<and> opened (snd (run_begin D c)) \<and>
     manual (snd (run_commit D c)) = manual c \<and>
     opened (snd (run_commit D c)) = (opened c \<and> \<not> fst (run_commit D c)) \<and>
     manual (snd (run_rollback D c)) = manual c \<and>
     opened (snd (run_rollback D c)) = (opened c \<and> \<not> fst (run_rollback D c)))"

definition agrees :: "'c dbconn \<Rightarrow> ('c \<Rightarrow> bool) \<Rightarrow> ('c \<Rightarrow> bool) \<Rightarrow> 'c txst \<Rightarrow> bool" where
  "agrees D manual opened s \<longleftrightarrow>
     autocommit s = (\<not> manual (conn s) \<and> \<not> opened (conn s)) \<and>
     (nativeModel D = TX_Implicit \<longrightarrow> \<not> opened (conn s)) \<and>
     (\<not> supportsAutoCommit D \<longrightarrow> \<not> manual (conn s)) \<and>
     (nativeModel D \<noteq> TX_Implicit \<longrightarrow> supportsAutoCommit D \<longrightarrow>
        (txmodel s = TX_Implicit \<longrightarrow> \<not> autocommit s \<longrightarrow> manual (conn s)) \<and>
        (txmodel s = TX_Explicit_Deferred \<longrightarrow> \<not> autocommit s \<longrightarrow> eotautocommit s \<longrightarrow> \<not> manual (conn s))) \<and>
     (nativeModel D = TX_Explicit_Deferred \<longrightarrow> eotautocommit s \<longrightarrow>
        txmodel s = TX_Explicit_Deferred \<and> \<not> autocommit s)"

lemma db_contract_simps:
  assumes "db_contract D manual opened"
  shows "fst (ac_on D c)" "\<not> manual (snd (ac_on D c))" "\<not> opened (snd (ac_on D c))"
    "fst (ac_off D c)" "manual (snd (ac_off D c))" "opened (snd (ac_off D c)) = opened c"
    "fst (run_begin D c)" "manual (snd (run_begin D c)) = manual c" "opened (snd (run_begin D c))"
    "manual (snd (run_commit D c)) = manual c"
    "opened (snd (run_commit D c)) = (opened c \<and> \<not> fst (run_commit D c))"
    "manual (snd (run_rollback D c)) = manual c"
    "opened (snd (run_rollback D c)) = (opened c \<and> \<not> fst (run_rollback D c))"
  using assms by (simp_all add: db_contract_def)

text \<open>The end of a transaction, after the database has ended it.\<close>

lemma agrees_end:
  assumes "db_contract D manual opened" and "manageable D" and "agrees D manual opened s" and "\<not> autocommit s"
    and "manual (conn t) = manual (conn s)" and "\<not> opened (conn t)"
    and "txmodel t = txmodel s" and "autocommit t = autocommit s" and "eotautocommit t = eotautocommit s"
  shows "agrees D manual opened (snd (endTransaction D b t))"
  using assms(2-9)
  by (cases "txmodel s"; cases "nativeModel D"; cases "supportsAutoCommit D"; cases "eotautocommit s")
    (simp_all add: tx_basic Let_def manageable_def agrees_def endTransaction_def db_contract_simps [OF assms(1)])

lemma agrees_conn:
  "manual c = manual (conn s) \<Longrightarrow> opened c = opened (conn s) \<Longrightarrow>
     agrees D manual opened (s\<lparr>conn := c, connerror := e\<rparr>) = agrees D manual opened s"
  by (simp add: agrees_def)

lemma agrees_commit:
  assumes "db_contract D manual opened" and "manageable D" and "settled s" and "agrees D manual opened s"
  shows "agrees D manual opened (snd (commit D s))"
proof (cases "autocommit s")
  case True
  then show ?thesis using assms(4) by (simp add: commit_def tx_models)
next
  case False
  let ?c = "run_commit D (conn s)"
  have st: "txmodel s \<noteq> TX_None" "intransaction s" using assms(3) False by (simp_all add: settled_def)
  show ?thesis
  proof (cases "fst ?c")
    case True
    have "snd (commit D s) = snd (endTransaction D True (s\<lparr>conn := snd ?c, connerror := None, needscommitorrollback := False\<rparr>))"
      using st False True by (simp add: commit_def tx_models conn_ops)
    moreover have "manual (snd ?c) = manual (conn s)" "\<not> opened (snd ?c)"
      using True by (simp_all add: db_contract_simps [OF assms(1)])
    ultimately show ?thesis by (simp add: agrees_end [OF assms(1,2,4) False])
  next
    case failed: False
    have "snd (commit D s) = s\<lparr>conn := snd ?c, connerror := Some Db_Error\<rparr>"
      using st False failed by (simp add: commit_def tx_models conn_ops setError_def)
    moreover have "manual (snd ?c) = manual (conn s)" "opened (snd ?c) = opened (conn s)"
      using failed by (simp_all add: db_contract_simps [OF assms(1)])
    ultimately show ?thesis using assms(4) by (simp add: agrees_conn)
  qed
qed

lemma agrees_rollback:
  assumes "db_contract D manual opened" and "manageable D" and "settled s" and "agrees D manual opened s"
  shows "agrees D manual opened (snd (rollback D s))"
proof (cases "autocommit s")
  case True
  then show ?thesis using assms(4) by (simp add: rollback_def tx_models)
next
  case False
  let ?c = "run_rollback D (conn s)"
  have st: "txmodel s \<noteq> TX_None" "intransaction s" using assms(3) False by (simp_all add: settled_def)
  show ?thesis
  proof (cases "fst ?c")
    case True
    have "snd (rollback D s) = snd (endTransaction D False (s\<lparr>conn := snd ?c, connerror := None, needscommitorrollback := False\<rparr>))"
      using st False True by (simp add: rollback_def tx_models conn_ops)
    moreover have "manual (snd ?c) = manual (conn s)" "\<not> opened (snd ?c)"
      using True by (simp_all add: db_contract_simps [OF assms(1)])
    ultimately show ?thesis by (simp add: agrees_end [OF assms(1,2,4) False])
  next
    case failed: False
    have "snd (rollback D s) = s\<lparr>conn := snd ?c, connerror := Some Db_Error\<rparr>"
      using st False failed by (simp add: rollback_def tx_models conn_ops setError_def)
    moreover have "manual (snd ?c) = manual (conn s)" "opened (snd ?c) = opened (conn s)"
      using failed by (simp_all add: db_contract_simps [OF assms(1)])
    ultimately show ?thesis using assms(4) by (simp add: agrees_conn)
  qed
qed

text \<open>
  A begin while autocommit is on in a faked implicit model, on a database that has an autocommit
  of its own, is left out; \<open>implicit_begin_desync\<close> shows why.
\<close>

definition begin_safe :: "'c dbconn \<Rightarrow> 'c txst \<Rightarrow> bool" where
  "begin_safe D s \<longleftrightarrow> \<not> (fakingImplicitTransactions D s \<and> supportsAutoCommit D \<and> autocommit s)"

lemma agrees_begin:
  assumes "db_contract D manual opened" and "manageable D" and "settled s" and "agrees D manual opened s"
    and "begin_safe D s"
  shows "agrees D manual opened (snd (begin_tx D s))"
  using assms(2-5)
  by (cases "txmodel s"; cases "nativeModel D"; cases "supportsAutoCommit D"; cases "autocommit s")
    (simp_all add: tx_basic Let_def manageable_def agrees_def begin_tx_def settled_def begin_safe_def
      beginTransaction_def db_contract_simps [OF assms(1)])

lemma agrees_off:
  assumes "db_contract D manual opened" and "manageable D" and "settled s" and "agrees D manual opened s"
  shows "agrees D manual opened (snd (setAutoCommitOff D s))"
  using assms(2-4)
  by (cases "txmodel s"; cases "nativeModel D"; cases "supportsAutoCommit D"; cases "autocommit s")
    (simp_all add: tx_basic Let_def manageable_def agrees_def setAutoCommitOff_def settled_def
      beginTransaction_def db_contract_simps [OF assms(1)])

text \<open>The end of a transaction by switching autocommit on.\<close>

lemma agrees_end_on:
  assumes "db_contract D manual opened" and "manageable D" and "\<not> manual (conn t)" and "\<not> opened (conn t)"
    and "nativeModel D \<noteq> TX_Implicit \<and> txmodel t = TX_Implicit \<or> nativeModel D = TX_Implicit \<longrightarrow> autocommit t"
    and "txmodel t = TX_Explicit_Deferred \<longrightarrow> eotautocommit t"
    and "nativeModel D = TX_Explicit_Deferred \<longrightarrow> txmodel t \<noteq> TX_Explicit_Deferred \<longrightarrow> \<not> eotautocommit t"
  shows "agrees D manual opened (snd (endTransaction D b t))"
  using assms(2-7)
  by (cases "txmodel t = TX_Explicit_Deferred"; cases "txmodel t = TX_Implicit"; cases "nativeModel D = TX_Implicit";
      cases "supportsAutoCommit D")
    (simp_all add: tx_basic Let_def manageable_def agrees_def endTransaction_def db_contract_simps [OF assms(1)])

lemma agrees_on:
  assumes "db_contract D manual opened" and "manageable D" and "settled s" and "agrees D manual opened s"
  shows "agrees D manual opened (snd (setAutoCommitOn D s))"
proof (cases "autocommit s \<or> txmodel s = TX_Explicit_Error \<or> (txmodel s = TX_Explicit_Deferred \<and> eotautocommit s)")
  case True
  then have "snd (setAutoCommitOn D s) = s \<or> snd (setAutoCommitOn D s) = setError Autocommit_On_In_Tx_Block s"
    using assms(3) by (auto simp: setAutoCommitOn_def isTransactional_def settled_def)
  moreover have "agrees D manual opened (setError Autocommit_On_In_Tx_Block s) = agrees D manual opened s"
    by (simp add: agrees_def setError_def)
  ultimately show ?thesis using assms(4) by auto
next
  case False
  then have s: "\<not> autocommit s" "intransaction s" "txmodel s \<noteq> TX_None" "txmodel s \<noteq> TX_Explicit_Error"
    "txmodel s = TX_Explicit_Deferred \<longrightarrow> \<not> eotautocommit s" using assms(3) by (auto simp: settled_def)
  have eot: "nativeModel D = TX_Explicit_Deferred \<longrightarrow> txmodel s \<noteq> TX_Explicit_Deferred \<longrightarrow> \<not> eotautocommit s"
    using assms(4) unfolding agrees_def by blast
  show ?thesis
  proof (cases "supportsAutoCommit D")
    case True
    then show ?thesis
      using s eot by (cases "txmodel s = TX_Explicit_Deferred")
        (simp_all add: setAutoCommitOn_def tx_models call_eq db_contract_simps [OF assms(1)] Let_def
          agrees_end_on [OF assms(1,2)])
  next
    case noac: False
    let ?c = "run_commit D (conn s)"
    have native: "nativeModel D \<noteq> TX_Implicit" "nativeModel D \<noteq> TX_None" "\<not> manual (conn s)"
      using noac assms(2,4) by (auto simp: manageable_def agrees_def)
    show ?thesis
    proof (cases "fst ?c")
      case True
      then have "\<not> manual (snd ?c)" "\<not> opened (snd ?c)" using native by (simp_all add: db_contract_simps [OF assms(1)])
      then show ?thesis
        using s eot noac native True by (cases "txmodel s = TX_Explicit_Deferred"; cases "txmodel s = TX_Implicit")
          (simp_all add: setAutoCommitOn_def tx_models conn_ops Let_def agrees_end_on [OF assms(1,2)])
    next
      case failed: False
      have "manual (snd ?c) = manual (conn s)" "opened (snd ?c) = opened (conn s)"
        using failed by (simp_all add: db_contract_simps [OF assms(1)])
      then show ?thesis
        using s noac native failed assms(4) by (simp add: setAutoCommitOn_def tx_models conn_ops agrees_conn)
    qed
  qed
qed

text \<open>
  A change of the model runs the commit and the autocommit-on under the native model, which
  agrees too, and leaves it with autocommit on.
\<close>

lemma agrees_native:
  assumes "manageable D" and "settled s" and "agrees D manual opened s"
  shows "agrees D manual opened (s\<lparr>txmodel := nativeModel D\<rparr>)"
  using assms
  by (cases "txmodel s"; cases "nativeModel D"; cases "supportsAutoCommit D")
    (simp_all add: manageable_def agrees_def settled_def)

lemma agrees_autocommit_any_model:
  assumes "agrees D manual opened s" and "autocommit s"
  shows "agrees D manual opened (s\<lparr>txmodel := m\<rparr>)"
  using assms by (simp add: agrees_def)

lemma on_gives_autocommit:
  assumes "manageable D" and "settled s" and "txmodel s = nativeModel D"
    and "eotautocommit s \<longrightarrow> txmodel s \<noteq> TX_Explicit_Deferred"
    and "fst (setAutoCommitOn D s)"
  shows "autocommit (snd (setAutoCommitOn D s))"
  using assms
  by (cases "nativeModel D"; cases "supportsAutoCommit D"; cases "autocommit s"; cases "eotautocommit s";
      cases "fst (ac_on D (conn s))"; cases "fst (run_commit D (conn s))")
    (simp_all add: tx_basic Let_def manageable_def setAutoCommitOn_def settled_def
      endTransaction_def split: if_splits)

lemma commit_ends_eot:
  assumes "agrees D manual opened s" and "nativeModel D = TX_Explicit_Deferred" and "fst (commit D s)"
    and "settled s" and "txmodel s = nativeModel D"
  shows "\<not> eotautocommit (snd (commit D s))"
  using assms
  by (cases "autocommit s"; cases "fst (run_commit D (conn s))")
    (simp_all add: commit_def tx_basic endTransaction_def Let_def agrees_def settled_def)

lemma model_kept:
  "txmodel (snd (commit D s)) = txmodel s" "txmodel (snd (setAutoCommitOn D s)) = txmodel s"
  by (auto simp: commit_def setAutoCommitOn_def tx_basic endTransaction_model split: bool.splits)

text \<open>A commit under the native model that fails changes nothing the predicate reads.\<close>

lemma agrees_commit_failed:
  assumes "db_contract D manual opened" and "\<not> fst (commit D t)"
  shows "agrees D manual opened ((snd (commit D t))\<lparr>txmodel := k\<rparr>) = agrees D manual opened (t\<lparr>txmodel := k\<rparr>)"
  using assms(2)
  by (cases "fst (run_commit D (conn t))"; cases "txmodel t = TX_None"; cases "autocommit t"; cases "intransaction t")
    (simp_all add: commit_def tx_basic agrees_def endTransaction_true db_contract_simps [OF assms(1)])

lemma commit_error_model:
  assumes "manageable D" and "settled s" and "txmodel s = nativeModel D"
    and "nativeModel D = TX_Explicit_Error" and "fst (commit D s)"
  shows "autocommit (snd (commit D s))"
  using assms
  by (cases "autocommit s"; cases "fst (run_commit D (conn s))"; cases "supportsAutoCommit D")
    (simp_all add: commit_def tx_basic endTransaction_def Let_def settled_def)

text \<open>Switching autocommit on under the native model fails only where a commit query fails.\<close>

lemma agrees_on_failed:
  assumes "db_contract D manual opened" and "manageable D" and "settled s" and "txmodel s = nativeModel D"
    and "nativeModel D = TX_Explicit_Error \<longrightarrow> autocommit s"
    and "nativeModel D = TX_Explicit_Deferred \<longrightarrow> \<not> eotautocommit s"
    and "agrees D manual opened s" and "\<not> fst (setAutoCommitOn D s)"
  shows "agrees D manual opened ((snd (setAutoCommitOn D s))\<lparr>txmodel := k\<rparr>)"
  using assms(2-8)
  by (cases "nativeModel D"; cases "supportsAutoCommit D"; cases "autocommit s"; cases "fst (run_commit D (conn s))")
    (simp_all add: tx_basic Let_def manageable_def agrees_def setAutoCommitOn_def settled_def
      endTransaction_def db_contract_simps [OF assms(1)])

lemma agrees_setTransactionModel:
  assumes "db_contract D manual opened" and "manageable D" and "m \<noteq> TX_None"
    and "settled s" and "agrees D manual opened s"
  shows "agrees D manual opened (snd (setTransactionModel D m s))"
proof -
  let ?t = "s\<lparr>txmodel := nativeModel D\<rparr>"
  obtain r1 s1 where c: "commit D ?t = (r1, s1)" by fastforce
  obtain r2 s2 where on: "setAutoCommitOn D s1 = (r2, s2)" by fastforce
  have t: "settled ?t" "agrees D manual opened ?t"
    using assms by (simp_all add: settled_def manageable_def agrees_native)
  have s1: "settled s1" "agrees D manual opened s1" "txmodel s1 = nativeModel D"
    using settled_commit(1) [OF t(1), of D] agrees_commit [OF assms(1,2) t] model_kept(1) [of D ?t]
    by (simp_all add: c)
  have s2: "settled s2" "agrees D manual opened s2"
    using settled_on [OF assms(2) s1(1)] agrees_on [OF assms(1,2) s1(1,2)] by (simp_all add: on)
  have saved: "s\<lparr>txmodel := txmodel s\<rparr> = s" by simp
  show ?thesis
  proof (cases "m = txmodel s")
    case True
    then show ?thesis using assms(5) by (simp add: setTransactionModel_def)
  next
    case False
    have None: "txmodel s \<noteq> TX_None" using assms(4) by (simp add: settled_def)
    show ?thesis
    proof (cases r1)
      case r1: False
      then have "agrees D manual opened (s1\<lparr>txmodel := txmodel s\<rparr>)"
        using agrees_commit_failed [OF assms(1), of ?t "txmodel s"] assms(5) by (simp add: c)
      with False None r1 show ?thesis by (simp add: setTransactionModel_def Let_def c)
    next
      case r1: True
      have eot: "nativeModel D = TX_Explicit_Deferred \<longrightarrow> \<not> eotautocommit s1"
      proof
        assume "nativeModel D = TX_Explicit_Deferred"
        then show "\<not> eotautocommit s1"
          using commit_ends_eot [OF t(2) _ _ t(1)] r1 c by simp
      qed
      have err: "nativeModel D = TX_Explicit_Error \<longrightarrow> autocommit s1"
      proof
        assume "nativeModel D = TX_Explicit_Error"
        then show "autocommit s1"
          using commit_error_model [OF assms(2) t(1)] r1 c by simp
      qed
      show ?thesis
      proof (cases r2)
        case r2: False
        then have "agrees D manual opened (s2\<lparr>txmodel := txmodel s\<rparr>)"
          using agrees_on_failed [OF assms(1,2) s1(1,3) err eot s1(2)] by (simp add: on)
        with False None r1 r2 show ?thesis by (simp add: setTransactionModel_def Let_def c on)
      next
        case r2: True
        then have "autocommit s2"
          using on_gives_autocommit [OF assms(2) s1(1,3)] eot s1(3) by (auto simp: on)
        then have "agrees D manual opened (s2\<lparr>txmodel := m\<rparr>)" "settled (s2\<lparr>txmodel := m\<rparr>)"
          using s2 assms(3) by (simp_all add: agrees_autocommit_any_model settled_def)
        with agrees_off [OF assms(1,2), of "s2\<lparr>txmodel := m\<rparr>"] False None r1 r2 show ?thesis
          by (auto simp: setTransactionModel_def Let_def c on)
      qed
    qed
  qed
qed

lemma agrees_needs: "agrees D manual opened (s\<lparr>needscommitorrollback := b\<rparr>) = agrees D manual opened s"
  by (simp add: agrees_def)

lemma agrees_afterExecute:
  assumes "agrees D manual opened s"
    and "querytype cur \<notin> {QT_Set_Including_Autocommit_On, QT_Set_Including_Autocommit_Off}"
  shows "agrees D manual opened (afterExecute D success cur s)"
  using assms by (simp add: afterExecute_def commitOrRollback_def Let_def agrees_needs)

lemma agrees_step:
  assumes "db_contract D manual opened" and "manageable D"
    and "settled s \<and> agrees D manual opened s" and "session_step D (begin_safe D) s s'"
  shows "settled s' \<and> agrees D manual opened s'"
  using assms(4)
proof cases
  case On
  then show ?thesis using assms settled_on agrees_on by blast
next
  case Off
  then show ?thesis using assms settled_off agrees_off by blast
next
  case Begin
  then show ?thesis using assms settled_begin agrees_begin by blast
next
  case Commit
  then show ?thesis using assms settled_commit(1) agrees_commit by blast
next
  case Rollback
  then show ?thesis using assms settled_commit(2) agrees_rollback by blast
next
  case (Model m)
  then show ?thesis using assms settled_setTransactionModel agrees_setTransactionModel by blast
next
  case (Query cur success)
  then show ?thesis using assms settled_afterExecute agrees_afterExecute by blast
qed

section \<open>A documented database\<close>

text \<open>
  A connection that does what \<open>db_contract\<close> says, as the pair of its two flags: autocommit
  off, and a transaction open. The witnesses run on it.
\<close>

definition flag_db :: "sqlrtxmodel \<Rightarrow> bool \<Rightarrow> (bool \<times> bool) dbconn" where
  "flag_db native ac =
     \<lparr>nativeModel = native, supportsAutoCommit = ac, getDefaultAutoCommit = (native \<noteq> TX_Implicit),
      ac_on = (\<lambda>c. (True, (False, False))), ac_off = (\<lambda>c. (True, (True, snd c))),
      run_begin = (\<lambda>c. (True, (fst c, True))), run_commit = (\<lambda>c. (True, (fst c, False))),
      run_rollback = (\<lambda>c. (True, (fst c, False)))\<rparr>"

definition flag_session :: "sqlrtxmodel \<Rightarrow> bool \<Rightarrow> (bool \<times> bool) txst" where
  "flag_session m ac =
     \<lparr>txmodel = m, intransaction = \<not> ac, autocommit = ac, eotautocommit = False,
      needscommitorrollback = False, conn = (\<not> ac, False), connerror = None, txevents = []\<rparr>"

lemma flag_db_contract: "db_contract (flag_db native ac) fst snd"
  by (simp add: db_contract_def flag_db_def)

lemma flag_db_manageable:
  "manageable (flag_db native ac) \<longleftrightarrow> native \<noteq> TX_None \<and> (native = TX_Implicit \<longrightarrow> ac)"
  by (simp add: manageable_def flag_db_def)

section \<open>Properties\<close>

text \<open>
  C12: whatever the database answers, a session that starts with its two flags opposite keeps
  them opposite: after any sequence of autocommit-on, autocommit-off, begin, commit, rollback,
  changes of the transaction model and executed queries, the controller is in a transaction
  exactly when autocommit is off. So no commit or rollback of a client is ever refused for not
  being in a transaction, and no begin for being in one.
\<close>

theorem session_settled:
  assumes "manageable D" and "settled s" and "session D (\<lambda>_. True) s s'"
  shows "settled s' \<and>
     (fst (commit D s') \<or> connerror (snd (commit D s')) = Some Db_Error) \<and>
     (fst (rollback D s') \<or> connerror (snd (rollback D s')) = Some Db_Error) \<and>
     \<not> (autocommit s' \<and> intransaction s')"
proof -
  have s': "settled s'"
    by (rule session_invariant [OF assms(3)]) (use assms(2) settled_step [OF assms(1)] in auto)
  moreover have "fst (commit D s') \<or> connerror (snd (commit D s')) = Some Db_Error"
    "fst (rollback D s') \<or> connerror (snd (rollback D s')) = Some Db_Error"
    using s' by (simp_all add: commit_def rollback_def tx_basic settled_def endTransaction_true split: bool.splits)
  ultimately show ?thesis by (simp add: settled_def)
qed

lemma flag_session_run:
  "session (flag_db TX_Explicit True) (\<lambda>_. True) (flag_session TX_Explicit True)
     (snd (begin_tx (flag_db TX_Explicit True) (flag_session TX_Explicit True)))"
  by (rule session.More [OF session.Start session_step.Begin]) simp

theorem session_settled_witness:
  "settled (snd (begin_tx (flag_db TX_Explicit True) (flag_session TX_Explicit True))) \<and>
   intransaction (snd (begin_tx (flag_db TX_Explicit True) (flag_session TX_Explicit True)))"
proof
  show "settled (snd (begin_tx (flag_db TX_Explicit True) (flag_session TX_Explicit True)))"
    by (rule session_settled [OF _ _ flag_session_run, THEN conjunct1])
      (simp_all add: flag_db_manageable settled_def flag_session_def)
  show "intransaction (snd (begin_tx (flag_db TX_Explicit True) (flag_session TX_Explicit True)))"
    by code_simp
qed


lemma flag_session_deferred_run:
  "session (flag_db TX_Explicit_Deferred True) (begin_safe (flag_db TX_Explicit_Deferred True))
     (flag_session TX_Explicit_Deferred True)
     (snd (commit (flag_db TX_Explicit_Deferred True)
       (snd (begin_tx (flag_db TX_Explicit_Deferred True) (flag_session TX_Explicit_Deferred True)))))"
  by (rule session.More [OF session.More [OF session.Start session_step.Begin] session_step.Commit])
    (simp add: begin_safe_def tx_models flag_session_def)


text \<open>
  What \<open>begin_safe\<close> leaves out: in the faked implicit model, on a database with an autocommit of
  its own, a begin with autocommit on followed by a commit leaves the controller in a
  transaction and the database in autocommit, so a later rollback rolls nothing back.
\<close>

theorem implicit_begin_desync:
  "let D = flag_db TX_Explicit_Deferred True;
       s = snd (setAutoCommitOff D (flag_session TX_Implicit True));
       s = snd (setAutoCommitOn D s);
       s = snd (begin_tx D s);
       s = snd (commit D s)
   in \<not> autocommit s \<and> intransaction s \<and> conn s = (False, False)"
  by code_simp

text \<open>
  The model \<open>none\<close> on a database that starts in a transaction: logging in leaves both flags set,
  so after a change to the explicit model every begin is refused.
\<close>

theorem none_model_flags:
  "let D = flag_db TX_Implicit True;
       s = logIn_tx D True (flag_session TX_None False);
       (r, s) = setTransactionModel D TX_Explicit s
   in r \<and> autocommit s \<and> intransaction s \<and> begin_tx D s = (False, setError Begin_In_Tx_Block s)"
  by code_simp

end
