(* ===== verification/Transaction_Session.thy ===== *)
theory Transaction_Session
  imports Transaction_State
begin

text \<open>
  The end of a session: what \<open>endSession\<close> leaves of the transaction state for the client that
  the pooled connection serves next.
\<close>

section \<open>A database that does not fail\<close>

definition db_total :: "'c dbconn \<Rightarrow> ('c \<Rightarrow> bool) \<Rightarrow> ('c \<Rightarrow> bool) \<Rightarrow> bool" where
  "db_total D manual opened \<longleftrightarrow>
     db_contract D manual opened \<and> (\<forall>c. fst (run_commit D c) \<and> fst (run_rollback D c))"

text \<open>What the queries that \<open>endSession\<close> runs leave alone.\<close>

definition same_tx :: "('c \<Rightarrow> bool) \<Rightarrow> ('c \<Rightarrow> bool) \<Rightarrow> 'c txst \<Rightarrow> 'c txst \<Rightarrow> bool" where
  "same_tx manual opened s t \<longleftrightarrow>
     txmodel t = txmodel s \<and> autocommit t = autocommit s \<and> intransaction t = intransaction s \<and>
     eotautocommit t = eotautocommit s \<and>
     manual (conn t) = manual (conn s) \<and> opened (conn t) = opened (conn s)"

text \<open>The states from which autocommit can still be switched on under the model \<open>m\<close>.\<close>

definition resettable :: "sqlrtxmodel \<Rightarrow> 'c txst \<Rightarrow> bool" where
  "resettable m s \<longleftrightarrow>
     (txmodel s = m \<longrightarrow> \<not> autocommit s \<longrightarrow>
        m \<noteq> TX_Explicit_Error \<and> (m = TX_Explicit_Deferred \<longrightarrow> \<not> eotautocommit s))"

definition at_rest :: "'c dbconn \<Rightarrow> ('c \<Rightarrow> bool) \<Rightarrow> ('c \<Rightarrow> bool) \<Rightarrow> 'c txst \<Rightarrow> bool" where
  "at_rest D manual opened s \<longleftrightarrow> settled s \<and> agrees D manual opened s"

lemma at_rest_same:
  assumes "same_tx manual opened s t" and "at_rest D manual opened s \<and> resettable m s"
  shows "at_rest D manual opened t \<and> resettable m t"
proof -
  have "settled t = settled s" "resettable m t = resettable m s" "agrees D manual opened t = agrees D manual opened s"
    using assms(1) by (simp_all add: same_tx_def settled_def resettable_def agrees_def)
  with assms(2) show ?thesis by (simp add: at_rest_def)
qed

lemma commit_resettable:
  assumes "db_total D manual opened" and "manageable D" and "settled s"
  shows "resettable m (snd (commit D s))" and "resettable m (snd (rollback D s))"
  using assms
  by (cases "txmodel s"; cases "supportsAutoCommit D"; cases "autocommit s"; cases "eotautocommit s";
      simp add: db_total_def resettable_def commit_def rollback_def tx_basic Let_def settled_def
        manageable_def endTransaction_def)+

lemma commit_succeeds:
  assumes "db_total D manual opened" and "settled s"
  shows "fst (commit D s)"
  using assms by (simp add: db_total_def commit_def tx_basic settled_def endTransaction_true)

lemma on_succeeds:
  assumes "db_total D manual opened" and "manageable D" and "settled s"
    and "txmodel s = TX_Explicit_Error \<longrightarrow> autocommit s"
  shows "fst (setAutoCommitOn D s)"
  using assms db_contract_simps [of D manual opened]
  by (simp add: db_total_def setAutoCommitOn_def tx_basic Let_def settled_def manageable_def
      endTransaction_true)

lemma off_model: "txmodel (snd (setAutoCommitOff D v)) = txmodel v"
  by (auto simp: setAutoCommitOff_def tx_basic beginTransaction_def Let_def split: bool.splits)

lemma setTransactionModel_resets:
  assumes "db_total D manual opened" and "manageable D" and "m \<noteq> TX_None"
    and "at_rest D manual opened s \<and> resettable m s"
  shows "at_rest D manual opened (snd (setTransactionModel D m s)) \<and>
     resettable m (snd (setTransactionModel D m s)) \<and> txmodel (snd (setTransactionModel D m s)) = m"
proof (cases "m = txmodel s")
  case True
  then show ?thesis using assms(4) by (simp add: setTransactionModel_def)
next
  case False
  let ?t = "s\<lparr>txmodel := nativeModel D\<rparr>"
  obtain r1 s1 where c: "commit D ?t = (r1, s1)" by fastforce
  obtain r2 s2 where on: "setAutoCommitOn D s1 = (r2, s2)" by fastforce
  have contract: "db_contract D manual opened" using assms(1) by (simp add: db_total_def)
  have s: "settled s" "agrees D manual opened s" using assms(4) by (simp_all add: at_rest_def)
  have t: "settled ?t" "agrees D manual opened ?t"
    using s assms(2) agrees_native [OF assms(2) s] by (simp_all add: settled_def manageable_def)
  have r1: "r1" using commit_succeeds [OF assms(1) t(1)] c by simp
  have s1: "settled s1" "txmodel s1 = nativeModel D" "agrees D manual opened s1"
    using settled_commit(1) [OF t(1), of D] model_kept(1) [of D ?t] agrees_commit [OF contract assms(2) t] c
    by simp_all
  have err: "nativeModel D = TX_Explicit_Error \<longrightarrow> autocommit s1"
  proof
    assume "nativeModel D = TX_Explicit_Error"
    then show "autocommit s1"
      using commit_error_model [OF assms(2) t(1)] r1 c by simp
  qed
  have eot: "nativeModel D = TX_Explicit_Deferred \<longrightarrow> \<not> eotautocommit s1"
  proof
    assume "nativeModel D = TX_Explicit_Deferred"
    then show "\<not> eotautocommit s1"
      using commit_ends_eot [OF t(2) _ _ t(1)] r1 c by simp
  qed
  have r2: "r2" using on_succeeds [OF assms(1,2) s1(1)] err s1(2) on by simp
  have s2: "settled s2" "agrees D manual opened s2" "autocommit s2"
    using settled_on [OF assms(2) s1(1)] agrees_on [OF contract assms(2) s1(1,3)]
      on_gives_autocommit [OF assms(2) s1(1,2)] eot s1(2) r2 on
    by (auto simp: settled_def)
  have u: "settled (s2\<lparr>txmodel := m\<rparr>)" "agrees D manual opened (s2\<lparr>txmodel := m\<rparr>)"
    using s2 assms(3) agrees_autocommit_any_model [OF s2(2,3)] by (simp_all add: settled_def)
  have "txmodel s \<noteq> TX_None" using s(1) by (simp add: settled_def)
  with False have e: "setTransactionModel D m s =
      (if m = TX_Implicit then setAutoCommitOff D (s2\<lparr>txmodel := m\<rparr>) else (True, s2\<lparr>txmodel := m\<rparr>))"
    using r1 r2 by (simp add: setTransactionModel_def Let_def c on)
  show ?thesis
  proof (cases "m = TX_Implicit")
    case True
    then show ?thesis
      using settled_off [OF assms(2) u(1)] agrees_off [OF contract assms(2) u] e
      by (simp add: at_rest_def off_model resettable_def)
  next
    case False
    then show ?thesis
      using u s2(3) e by (simp add: at_rest_def resettable_def)
  qed
qed

lemma on_resets:
  assumes "db_total D manual opened" and "manageable D" and "settled s" and "resettable (txmodel s) s"
  shows "autocommit (snd (setAutoCommitOn D s))"
proof -
  have ok: "fst (ac_on D c)" "fst (run_commit D c)" for c
    using assms(1) by (simp_all add: db_total_def db_contract_def)
  show ?thesis
    using assms(2-4)
    by (cases "txmodel s"; cases "nativeModel D = TX_Implicit"; cases "supportsAutoCommit D"; cases "autocommit s")
      (simp_all add: ok setAutoCommitOn_def resettable_def tx_basic Let_def settled_def manageable_def
        endTransaction_def)
qed

lemma off_resets:
  assumes "db_total D manual opened" and "manageable D" and "settled s"
  shows "\<not> autocommit (snd (setAutoCommitOff D s))"
proof -
  have ok: "fst (ac_off D c)" "fst (run_begin D c)" for c
    using assms(1) by (simp_all add: db_total_def db_contract_def)
  show ?thesis
    using assms(2-3)
    by (cases "txmodel s"; cases "nativeModel D"; cases "supportsAutoCommit D"; cases "autocommit s")
      (simp_all add: ok setAutoCommitOff_def tx_basic Let_def settled_def manageable_def
        beginTransaction_def)
qed

section \<open>Property\<close>



text \<open>
  What the hypothesis on the error-raising model leaves out: a client that only switched
  autocommit off and read leaves it off for the next session.
\<close>

theorem error_model_leaks_autocommit_off:
  "let D = flag_db TX_Explicit True;
       cfg = \<lparr>endofsessioncommit = False, initialtxmodel = TX_Explicit_Error, initialautocommit = True\<rparr>;
       s = snd (setAutoCommitOff D (flag_session TX_Explicit_Error True));
       s' = endSession_tx D cfg False id id s
   in \<not> autocommit s' \<and> intransaction s' \<and> conn s' = (True, False) \<and>
      connerror s' = Some Autocommit_On_In_Tx_Block"
  by code_simp

end
