(* ===== verification/Query_Text.thy ===== *)
theory Query_Text
  imports Transactions
begin

text \<open>
  What the controller reads out of the text of a query: the skipping of white space, comments
  and literals (\<open>src/server/sqlrservercontroller.cpp\<close>) and the classification of a query
  (\<open>src/server/sqlrservercursor.cpp\<close>). A C string is the list of its characters before the
  terminating zero, a pointer into it is the suffix it points to, and reading the character at
  the terminator is the empty suffix.

  Rudiments' \<open>character\<close> and \<open>charstring\<close> functions are the fields of \<open>charlib\<close>;
  \<open>charlib_ok\<close> states their documented behaviour.
\<close>

section \<open>Characters\<close>

record charlib =
  isWhitespace :: "char \<Rightarrow> bool"
  isAlphabetical :: "char \<Rightarrow> bool"
  isAlphanumeric :: "char \<Rightarrow> bool"
  startsWith :: "string \<Rightarrow> string \<Rightarrow> bool" \<comment> \<open>\<open>!compare(ptr, w, length w)\<close>\<close>
  startsWithIgnoringCase :: "string \<Rightarrow> string \<Rightarrow> bool" \<comment> \<open>\<open>!compareIgnoringCase(ptr, w, length w)\<close>\<close>
  containsIgnoringCase :: "string \<Rightarrow> string \<Rightarrow> bool"
  findEndOfQuotedString :: "string \<Rightarrow> char \<Rightarrow> bool \<Rightarrow> bool \<Rightarrow> string"

definition newline :: char where
  "newline = CHR 0x0A"

text \<open>Advances to the newline or to the end, and past the newline.\<close>

definition skipLine :: "string \<Rightarrow> string" where
  "skipLine ptr = (case dropWhile (\<lambda>c. c \<noteq> newline) ptr of [] \<Rightarrow> [] | _ # rest \<Rightarrow> rest)"

lemma length_skipLine: "length (skipLine ptr) \<le> length ptr"
  using length_dropWhile_le [of "\<lambda>c. c \<noteq> newline" ptr]
  by (auto simp: skipLine_def split: list.splits)

lemma skipLine_Cons: "length (skipLine (c # ptr)) < Suc (length ptr)"
  using length_skipLine [of ptr] by (simp add: skipLine_def less_Suc_eq_le)

section \<open>Skipping\<close>

definition skipWhitespace :: "charlib \<Rightarrow> string \<Rightarrow> string" where
  "skipWhitespace L query = dropWhile (isWhitespace L) query"

function skipComments :: "charlib \<Rightarrow> string \<Rightarrow> string" where
  "skipComments L [] = []"
| "skipComments L (c # ptr) =
     (if startsWith L (c # ptr) ''--'' then skipComments L (skipLine (c # ptr)) else c # ptr)"
  by pat_completeness auto
termination
  by (relation "measure (\<lambda>(L, ptr). length ptr)") (auto simp: skipLine_Cons)

function skipWhitespaceAndComments :: "charlib \<Rightarrow> string \<Rightarrow> string" where
  "skipWhitespaceAndComments L [] = []"
| "skipWhitespaceAndComments L (c # ptr) =
     (if isWhitespace L c then skipWhitespaceAndComments L ptr
      else if startsWith L (c # ptr) ''--'' then skipWhitespaceAndComments L (skipLine (c # ptr))
      else c # ptr)"
  by pat_completeness auto
termination
  by (relation "measure (\<lambda>(L, ptr). length ptr)") (auto simp: skipLine_Cons)

text \<open>
  The literals. The texts end at the \<open>end\<close> pointer of the code; \<open>backslash\<close> and
  \<open>quoteescapes\<close> (\<open>quoteEscapesQuotes()\<close>) are the database's rules.
\<close>

definition skipStringLiteral :: "charlib \<Rightarrow> bool \<Rightarrow> bool \<Rightarrow> string \<Rightarrow> string" where
  "skipStringLiteral L quoteescapes backslash ptr =
     (case ptr of [] \<Rightarrow> [] | q # _ \<Rightarrow> findEndOfQuotedString L ptr q backslash quoteescapes)"

text \<open>The search for the closing delimiter of a dollar-quoted literal.\<close>

primrec findClosing :: "string \<Rightarrow> string \<Rightarrow> string" where
  "findClosing tag [] = []"
| "findClosing tag (c # q) =
     (if Suc (length q) < length tag + 2 then []
      else if c = CHR ''$'' \<and> q ! length tag = CHR ''$'' \<and> take (length tag) q = tag
      then drop (length tag + 1) q
      else findClosing tag q)"

text \<open>The length of the optional tag after the opening dollar.\<close>

definition dollarTagLength :: "charlib \<Rightarrow> string \<Rightarrow> nat" where
  "dollarTagLength L tag =
     (case tag of
        [] \<Rightarrow> 0
      | a # r \<Rightarrow>
          if isAlphabetical L a \<or> a = CHR ''_''
          then 1 + length (takeWhile (\<lambda>x. isAlphanumeric L x \<or> x = CHR ''_'') r)
          else 0)"

definition skipDollarQuotedLiteral :: "charlib \<Rightarrow> string \<Rightarrow> string" where
  "skipDollarQuotedLiteral L ptr =
     (case ptr of
        [] \<Rightarrow> ptr
      | c # tag \<Rightarrow>
          if c \<noteq> CHR ''$'' then ptr
          else
            (case drop (dollarTagLength L tag) tag of
               [] \<Rightarrow> ptr
             | d # q \<Rightarrow>
                 if d \<noteq> CHR ''$'' then ptr else findClosing (take (dollarTagLength L tag) tag) q))"

text \<open>
  The next top-level comma or closing parenthesis, \<open>Some None\<close> where the code returns
  \<open>NULL\<close>. The outer \<open>option\<close> is the loop's: \<open>None\<close> where it does not end.
\<close>

partial_function (option) findCommaOrCloseParen ::
  "charlib \<Rightarrow> bool \<Rightarrow> bool \<Rightarrow> bool \<Rightarrow> int \<Rightarrow> string \<Rightarrow> string option option" where
  "findCommaOrCloseParen L dollarquoting quoteescapes backslash depth ptr =
     (case ptr of
        [] \<Rightarrow> Some None
      | c # rest \<Rightarrow>
          if c = CHR 0x27 \<or> c = CHR 0x22 \<or> c = CHR 0x60 then
            findCommaOrCloseParen L dollarquoting quoteescapes backslash depth
              (skipStringLiteral L quoteescapes backslash ptr)
          else if dollarquoting \<and> c = CHR ''$'' \<and> skipDollarQuotedLiteral L ptr \<noteq> ptr then
            findCommaOrCloseParen L dollarquoting quoteescapes backslash depth
              (skipDollarQuotedLiteral L ptr)
          else if c = CHR ''('' then
            findCommaOrCloseParen L dollarquoting quoteescapes backslash (depth + 1) rest
          else if c = CHR '')'' then
            (if depth = 0 then Some (Some ptr)
             else findCommaOrCloseParen L dollarquoting quoteescapes backslash (depth - 1) rest)
          else if c = CHR '','' \<and> depth = 0 then Some (Some ptr)
          else findCommaOrCloseParen L dollarquoting quoteescapes backslash depth rest)"

section \<open>Classifying a query\<close>

text \<open>\<open>*(ptr+n)\<close> is white space; at the terminating zero it is not.\<close>

definition whitespaceAt :: "charlib \<Rightarrow> string \<Rightarrow> nat \<Rightarrow> bool" where
  "whitespaceAt L ptr n \<longleftrightarrow> n < length ptr \<and> isWhitespace L (ptr ! n)"

definition blockCanBeIntercepted :: "charlib \<Rightarrow> string \<Rightarrow> bool" where
  "blockCanBeIntercepted L block \<longleftrightarrow>
     \<not> (containsIgnoringCase L block ''commit'' \<or> containsIgnoringCase L block ''rollback'')"

definition isBeginTransactionQuery :: "charlib \<Rightarrow> string \<Rightarrow> bool" where
  "isBeginTransactionQuery L query =
     (if startsWithIgnoringCase L query ''begin'' then
        (let spaceptr = skipWhitespaceAndComments L (drop 5 query)
         in if spaceptr = [] then True
            else (startsWithIgnoringCase L spaceptr ''work'' \<and> blockCanBeIntercepted L (drop 4 spaceptr)) \<or>
              (startsWithIgnoringCase L spaceptr ''transaction'' \<and>
               blockCanBeIntercepted L (drop 11 spaceptr)))
      else if startsWithIgnoringCase L query ''start '' then True
      else startsWithIgnoringCase L query ''bt'' \<and> length query = 2)"

definition isAutoCommitQuery :: "charlib \<Rightarrow> string \<Rightarrow> bool \<Rightarrow> bool" where
  "isAutoCommitQuery L query on =
     (if \<not> startsWithIgnoringCase L query ''autocommit'' then False
      else
        (let query = skipWhitespaceAndComments L (drop 10 query);
             query = (if query \<noteq> [] \<and> hd query = CHR ''='' then tl query
                      else if startsWithIgnoringCase L query ''to'' then drop 2 query
                      else query);
             query = skipWhitespaceAndComments L query;
             value =
               (if on then
                  (if query \<noteq> [] \<and> hd query = CHR ''1'' then Some (tl query)
                   else if startsWithIgnoringCase L query ''on'' then Some (drop 2 query)
                   else if startsWithIgnoringCase L query ''yes'' then Some (drop 3 query)
                   else if startsWithIgnoringCase L query ''immediate'' then Some (drop 9 query)
                   else None)
                else
                  (if query \<noteq> [] \<and> hd query = CHR ''0'' then Some (tl query)
                   else if startsWithIgnoringCase L query ''off'' then Some (drop 3 query)
                   else if startsWithIgnoringCase L query ''no'' then Some (drop 2 query)
                   else None))
         in case value of
              None \<Rightarrow> False
            | Some query \<Rightarrow> skipWhitespaceAndComments L query = []))"

definition isAutoCommitOnQuery :: "charlib \<Rightarrow> string \<Rightarrow> bool" where
  "isAutoCommitOnQuery L query = isAutoCommitQuery L query True"

definition isAutoCommitOffQuery :: "charlib \<Rightarrow> string \<Rightarrow> bool" where
  "isAutoCommitOffQuery L query = isAutoCommitQuery L query False"

text \<open>
  The loop of \<open>isSetIncludingAutoCommitQuery\<close> that finds the word among the comma-separated
  settings; \<open>None\<close> is its \<open>return false\<close>.
\<close>

lemma length_skipWhitespaceAndComments: "length (skipWhitespaceAndComments L ptr) \<le> length ptr"
proof (induction L ptr rule: skipWhitespaceAndComments.induct)
  case (2 L c ptr)
  then show ?case
    using skipLine_Cons [of c ptr] by (auto intro: le_trans [of _ _ "Suc (length ptr)"])
qed simp

function findAutoCommitWord :: "charlib \<Rightarrow> string \<Rightarrow> string option" where
  "findAutoCommitWord L query0 =
     (let query = skipWhitespaceAndComments L query0
      in if startsWithIgnoringCase L query ''autocommit'' then Some (drop 10 query)
         else if startsWithIgnoringCase L query ''auto'' then Some (drop 4 query)
         else if startsWithIgnoringCase L query ''implicit_transactions'' then Some (drop 21 query)
         else (case dropWhile (\<lambda>c. c \<noteq> CHR '','') query of
                 [] \<Rightarrow> None
               | _ # rest \<Rightarrow> findAutoCommitWord L rest))"
  by pat_completeness auto
termination
proof (relation "measure (\<lambda>(L, ptr). length ptr)", goal_cases)
  case (2 L query0 query c rest)
  then have "length (c # rest) \<le> length query"
    by (metis length_dropWhile_le)
  also have "\<dots> \<le> length query0"
    using 2(1) by (simp add: length_skipWhitespaceAndComments)
  finally show ?case by simp
qed simp

declare findAutoCommitWord.simps [simp del]

text \<open>The result is the return value and \<open>*on\<close>.\<close>

definition isSetIncludingAutoCommitQuery :: "charlib \<Rightarrow> string \<Rightarrow> bool \<times> bool" where
  "isSetIncludingAutoCommitQuery L query =
     (if \<not> startsWithIgnoringCase L query ''set'' then (False, False)
      else
        (case findAutoCommitWord L (drop 3 query) of
           None \<Rightarrow> (False, False)
         | Some query \<Rightarrow>
             (case skipWhitespaceAndComments L query of
                [] \<Rightarrow> (False, False)
              | c # query \<Rightarrow>
                  if c \<noteq> CHR ''='' then (False, False)
                  else
                    (case skipWhitespaceAndComments L query of
                       [] \<Rightarrow> (False, False)
                     | c # query \<Rightarrow>
                         if c = CHR ''1'' \<or> c = CHR ''0'' then
                           (let query = skipWhitespaceAndComments L query
                            in (\<not> (query \<noteq> [] \<and> hd query = CHR '','') \<or> query \<noteq> [], c = CHR ''1''))
                         else (False, False)))))"

definition determineQueryType :: "charlib \<Rightarrow> string \<Rightarrow> sqlrquerytype" where
  "determineQueryType L query =
     (let ptr = skipWhitespaceAndComments L query;
          checked = (\<lambda>n t. if whitespaceAt L ptr n then t else QT_Etc)
      in if startsWithIgnoringCase L ptr ''select'' then checked 6 QT_Select
         else if startsWithIgnoringCase L ptr ''insert'' then checked 6 QT_Insert
         else if startsWithIgnoringCase L ptr ''update'' then checked 6 QT_Update
         else if startsWithIgnoringCase L ptr ''delete'' then checked 6 QT_Delete
         else if startsWithIgnoringCase L ptr ''create'' then checked 6 QT_Create
         else if startsWithIgnoringCase L ptr ''drop'' then checked 4 QT_Drop
         else if startsWithIgnoringCase L ptr ''alter'' then checked 5 QT_Alter
         else if isBeginTransactionQuery L ptr then QT_Begin
         else if startsWithIgnoringCase L ptr ''commit'' \<or>
                 (startsWithIgnoringCase L ptr ''et'' \<and> length ptr = 2) then QT_Commit
         else if startsWithIgnoringCase L ptr ''rollback'' then
           (let after = skipWhitespaceAndComments L (drop 8 ptr)
            in if startsWithIgnoringCase L after ''to'' \<and> whitespaceAt L after 2 then QT_Etc
               else QT_Rollback)
         else if isAutoCommitOnQuery L ptr then QT_Autocommit_On
         else if isAutoCommitOffQuery L ptr then QT_Autocommit_Off
         else (case isSetIncludingAutoCommitQuery L ptr of
                 (found, on) \<Rightarrow>
                   if found then
                     (if on then QT_Set_Including_Autocommit_On else QT_Set_Including_Autocommit_Off)
                   else QT_Etc))"

definition queryIsNotSelect :: "charlib \<Rightarrow> string \<Rightarrow> bool" where
  "queryIsNotSelect L querybuffer =
     (let ptr = skipWhitespaceAndComments L querybuffer
      in \<not> (startsWithIgnoringCase L ptr ''select'' \<and> \<not> startsWithIgnoringCase L ptr ''select into ''))"

definition queryIsCommitOrRollback :: "charlib \<Rightarrow> string \<Rightarrow> bool" where
  "queryIsCommitOrRollback L querybuffer =
     (let ptr = skipWhitespaceAndComments L querybuffer
      in startsWithIgnoringCase L ptr ''commit'' \<or> startsWithIgnoringCase L ptr ''rollback'')"

text \<open>
  \<open>hasForUpdate\<close>: \<open>before\<close> is the character before the pointer, if there is one.
\<close>

fun hasForUpdate_at :: "charlib \<Rightarrow> char option \<Rightarrow> string \<Rightarrow> bool" where
  "hasForUpdate_at L before [] = False"
| "hasForUpdate_at L before (c # ptr) =
     (if (case before of None \<Rightarrow> True | Some b \<Rightarrow> \<not> isAlphanumeric L b) \<and>
         startsWithIgnoringCase L (c # ptr) ''for'' \<and> whitespaceAt L (c # ptr) 3 \<and>
         (let after = skipWhitespace L (drop 3 (c # ptr))
          in startsWithIgnoringCase L after ''update'' \<and>
             \<not> (6 < length after \<and> isAlphanumeric L (after ! 6)))
      then True
      else hasForUpdate_at L (Some c) ptr)"

definition hasForUpdate :: "charlib \<Rightarrow> string \<Rightarrow> bool" where
  "hasForUpdate L query = hasForUpdate_at L None query"

section \<open>Hexadecimal and octal\<close>

text \<open>The tables \<open>asciitohex\<close> and \<open>asciitooctal\<close>, row by row, and their readers.\<close>

definition asciitohex :: "string list" where
  "asciitohex =
     [''00'', ''01'', ''02'', ''03'', ''04'', ''05'', ''06'', ''07'',
      ''08'', ''09'', ''0A'', ''0B'', ''0C'', ''0D'', ''0E'', ''0F'',
      ''10'', ''11'', ''12'', ''13'', ''14'', ''15'', ''16'', ''17'',
      ''18'', ''19'', ''1A'', ''1B'', ''1C'', ''1D'', ''1E'', ''1F'',
      ''20'', ''21'', ''22'', ''23'', ''24'', ''25'', ''26'', ''27'',
      ''28'', ''29'', ''2A'', ''2B'', ''2C'', ''2D'', ''2E'', ''2F'',
      ''30'', ''31'', ''32'', ''33'', ''34'', ''35'', ''36'', ''37'',
      ''38'', ''39'', ''3A'', ''3B'', ''3C'', ''3D'', ''3E'', ''3F'',
      ''40'', ''41'', ''42'', ''43'', ''44'', ''45'', ''46'', ''47'',
      ''48'', ''49'', ''4A'', ''4B'', ''4C'', ''4D'', ''4E'', ''4F'',
      ''50'', ''51'', ''52'', ''53'', ''54'', ''55'', ''56'', ''57'',
      ''58'', ''59'', ''5A'', ''5B'', ''5C'', ''5D'', ''5E'', ''5F'',
      ''60'', ''61'', ''62'', ''63'', ''64'', ''65'', ''66'', ''67'',
      ''68'', ''69'', ''6A'', ''6B'', ''6C'', ''6D'', ''6E'', ''6F'',
      ''70'', ''71'', ''72'', ''73'', ''74'', ''75'', ''76'', ''77'',
      ''78'', ''79'', ''7A'', ''7B'', ''7C'', ''7D'', ''7E'', ''7F'',
      ''80'', ''81'', ''82'', ''83'', ''84'', ''85'', ''86'', ''87'',
      ''88'', ''89'', ''8A'', ''8B'', ''8C'', ''8D'', ''8E'', ''8F'',
      ''90'', ''91'', ''92'', ''93'', ''94'', ''95'', ''96'', ''97'',
      ''98'', ''99'', ''9A'', ''9B'', ''9C'', ''9D'', ''9E'', ''9F'',
      ''A0'', ''A1'', ''A2'', ''A3'', ''A4'', ''A5'', ''A6'', ''A7'',
      ''A8'', ''A9'', ''AA'', ''AB'', ''AC'', ''AD'', ''AE'', ''AF'',
      ''B0'', ''B1'', ''B2'', ''B3'', ''B4'', ''B5'', ''B6'', ''B7'',
      ''B8'', ''B9'', ''BA'', ''BB'', ''BC'', ''BD'', ''BE'', ''BF'',
      ''C0'', ''C1'', ''C2'', ''C3'', ''C4'', ''C5'', ''C6'', ''C7'',
      ''C8'', ''C9'', ''CA'', ''CB'', ''CC'', ''CD'', ''CE'', ''CF'',
      ''D0'', ''D1'', ''D2'', ''D3'', ''D4'', ''D5'', ''D6'', ''D7'',
      ''D8'', ''D9'', ''DA'', ''DB'', ''DC'', ''DD'', ''DE'', ''DF'',
      ''E0'', ''E1'', ''E2'', ''E3'', ''E4'', ''E5'', ''E6'', ''E7'',
      ''E8'', ''E9'', ''EA'', ''EB'', ''EC'', ''ED'', ''EE'', ''EF'',
      ''F0'', ''F1'', ''F2'', ''F3'', ''F4'', ''F5'', ''F6'', ''F7'',
      ''F8'', ''F9'', ''FA'', ''FB'', ''FC'', ''FD'', ''FE'', ''FF'']"

definition asciiToHex :: "byte \<Rightarrow> string" where
  "asciiToHex ch = asciitohex ! unat ch"

definition asciitooctal :: "string list" where
  "asciitooctal =
     [''000'', ''001'', ''002'', ''003'', ''004'', ''005'', ''006'', ''007'',
      ''010'', ''011'', ''012'', ''013'', ''014'', ''015'', ''016'', ''017'',
      ''020'', ''021'', ''022'', ''023'', ''024'', ''025'', ''026'', ''027'',
      ''030'', ''031'', ''032'', ''033'', ''034'', ''035'', ''036'', ''037'',
      ''040'', ''041'', ''042'', ''043'', ''044'', ''045'', ''046'', ''047'',
      ''050'', ''051'', ''052'', ''053'', ''054'', ''055'', ''056'', ''057'',
      ''060'', ''061'', ''062'', ''063'', ''064'', ''065'', ''066'', ''067'',
      ''070'', ''071'', ''072'', ''073'', ''074'', ''075'', ''076'', ''077'',
      ''100'', ''101'', ''102'', ''103'', ''104'', ''105'', ''106'', ''107'',
      ''110'', ''111'', ''112'', ''113'', ''114'', ''115'', ''116'', ''117'',
      ''120'', ''121'', ''122'', ''123'', ''124'', ''125'', ''126'', ''127'',
      ''130'', ''131'', ''132'', ''133'', ''134'', ''135'', ''136'', ''137'',
      ''140'', ''141'', ''142'', ''143'', ''144'', ''145'', ''146'', ''147'',
      ''150'', ''151'', ''152'', ''153'', ''154'', ''155'', ''156'', ''157'',
      ''160'', ''161'', ''162'', ''163'', ''164'', ''165'', ''166'', ''167'',
      ''170'', ''171'', ''172'', ''173'', ''174'', ''175'', ''176'', ''177'',
      ''200'', ''201'', ''202'', ''203'', ''204'', ''205'', ''206'', ''207'',
      ''210'', ''211'', ''212'', ''213'', ''214'', ''215'', ''216'', ''217'',
      ''220'', ''221'', ''222'', ''223'', ''224'', ''225'', ''226'', ''227'',
      ''230'', ''231'', ''232'', ''233'', ''234'', ''235'', ''236'', ''237'',
      ''240'', ''241'', ''242'', ''243'', ''244'', ''245'', ''246'', ''247'',
      ''250'', ''251'', ''252'', ''253'', ''254'', ''255'', ''256'', ''257'',
      ''260'', ''261'', ''262'', ''263'', ''264'', ''265'', ''266'', ''267'',
      ''270'', ''271'', ''272'', ''273'', ''274'', ''275'', ''276'', ''277'',
      ''300'', ''301'', ''302'', ''303'', ''304'', ''305'', ''306'', ''307'',
      ''310'', ''311'', ''312'', ''313'', ''314'', ''315'', ''316'', ''317'',
      ''320'', ''321'', ''322'', ''323'', ''324'', ''325'', ''326'', ''327'',
      ''330'', ''331'', ''332'', ''333'', ''334'', ''335'', ''336'', ''337'',
      ''340'', ''341'', ''342'', ''343'', ''344'', ''345'', ''346'', ''347'',
      ''350'', ''351'', ''352'', ''353'', ''354'', ''355'', ''356'', ''357'',
      ''360'', ''361'', ''362'', ''363'', ''364'', ''365'', ''366'', ''367'',
      ''370'', ''371'', ''372'', ''373'', ''374'', ''375'', ''376'', ''377'']"

definition asciiToOctal :: "byte \<Rightarrow> string" where
  "asciiToOctal ch = asciitooctal ! unat ch"

end
