(* ===== verification/Query_Class.thy ===== *)
theory Query_Class
  imports Query_Text
begin

text \<open>
  What the text functions of \<open>Query_Text\<close> compute, under the documented behaviour of the
  character functions: white space and comments never change how a query is classified, the
  transaction words are recognised and a block or a savepoint is not taken for one, and the
  search for the end of a value list skips literals and nested parentheses.
\<close>

section \<open>The documented character functions\<close>

definition to_lower :: "char \<Rightarrow> char" where
  "to_lower c = (if 65 \<le> (of_char c :: int) \<and> (of_char c :: int) \<le> 90 then char_of ((of_char c :: int) + 32) else c)"

definition is_letter :: "char \<Rightarrow> bool" where
  "is_letter c \<longleftrightarrow> 97 \<le> (of_char (to_lower c) :: int) \<and> (of_char (to_lower c) :: int) \<le> 122"

definition same_word :: "string \<Rightarrow> string \<Rightarrow> bool" where
  "same_word v w \<longleftrightarrow> map to_lower v = map to_lower w"

definition charlib_ok :: "charlib \<Rightarrow> bool" where
  "charlib_ok L \<longleftrightarrow>
     (\<forall>p w. startsWith L p w = (take (length w) p = w)) \<and>
     (\<forall>p w. startsWithIgnoringCase L p w = same_word (take (length w) p) w) \<and>
     (\<forall>p w. containsIgnoringCase L p w = (\<exists>n \<le> length p. same_word (take (length w) (drop n p)) w)) \<and>
     (\<forall>c. isWhitespace L c \<longrightarrow> \<not> isAlphanumeric L c \<and> c \<notin> {CHR ''-'', CHR ''='', CHR '',''}) \<and>
     (\<forall>c. is_letter c \<longrightarrow> isAlphanumeric L c \<and> isAlphabetical L c) \<and>
     isWhitespace L newline \<and> isWhitespace L (CHR '' '')"

lemma charlib_okD:
  assumes "charlib_ok L"
  shows "startsWith L p w = (take (length w) p = w)"
    and "startsWithIgnoringCase L p w = same_word (take (length w) p) w"
    and "isWhitespace L c \<Longrightarrow> \<not> isAlphanumeric L c" and "\<not> isWhitespace L (CHR ''-'')"
    and "\<not> isWhitespace L (CHR ''='')" and "is_letter c \<Longrightarrow> isAlphanumeric L c"
    and "is_letter c \<Longrightarrow> \<not> isWhitespace L c" and "isWhitespace L newline" and "isWhitespace L (CHR '' '')"
  using assms unfolding charlib_ok_def by blast+

lemma startsWithIgnoringCase_not:
  assumes "charlib_ok L"
  shows "startsWithIgnoringCase L (v @ r) w \<longleftrightarrow> same_word (take (length w) (v @ r)) w"
  by (rule charlib_okD(2) [OF assms])

text \<open>An implementation for ASCII, for the witnesses.\<close>

definition ascii_space :: "char \<Rightarrow> bool" where
  "ascii_space c \<longleftrightarrow> c = CHR '' '' \<or> (9 \<le> (of_char c :: int) \<and> (of_char c :: int) \<le> 13)"

primrec ascii_contains :: "string \<Rightarrow> string \<Rightarrow> bool" where
  "ascii_contains w [] = same_word [] w"
| "ascii_contains w (c # p) = (same_word (take (length w) (c # p)) w \<or> ascii_contains w p)"

definition ascii :: charlib where
  "ascii = \<lparr>isWhitespace = ascii_space, isAlphabetical = is_letter,
     isAlphanumeric = (\<lambda>c. is_letter c \<or> (48 \<le> (of_char c :: int) \<and> (of_char c :: int) \<le> 57)),
     startsWith = (\<lambda>p w. take (length w) p = w),
     startsWithIgnoringCase = (\<lambda>p w. same_word (take (length w) p) w),
     containsIgnoringCase = (\<lambda>p w. ascii_contains w p),
     findEndOfQuotedString = (\<lambda>p q b e. case dropWhile (\<lambda>c. c \<noteq> q) (tl p) of [] \<Rightarrow> [] | _ # r \<Rightarrow> r)\<rparr>"

lemma ascii_contains: "ascii_contains w p \<longleftrightarrow> (\<exists>n \<le> length p. same_word (take (length w) (drop n p)) w)"
proof (induction p)
  case Nil
  then show ?case by simp
next
  case (Cons c p)
  have "(\<exists>n \<le> length (c # p). same_word (take (length w) (drop n (c # p))) w) \<longleftrightarrow>
      same_word (take (length w) (c # p)) w \<or> (\<exists>n \<le> length p. same_word (take (length w) (drop n p)) w)"
    (is "?l \<longleftrightarrow> ?r")
  proof
    assume ?l
    then obtain n where "n \<le> length (c # p)" "same_word (take (length w) (drop n (c # p))) w" by blast
    then show ?r by (cases n) auto
  next
    assume ?r
    then show ?l by (metis drop_Suc_Cons drop_0 le0 length_Cons not_less_eq_eq)
  qed
  with Cons show ?case by simp
qed

lemma ascii_ok: "charlib_ok ascii"
proof -
  have "ascii_space c \<Longrightarrow> (of_char c :: int) \<le> 32" for c
    by (auto simp: ascii_space_def)
  then have "ascii_space c \<longrightarrow> \<not> is_letter c \<and> \<not> (48 \<le> (of_char c :: int)) \<and> c \<notin> {CHR ''-'', CHR ''='', CHR '',''}" for c
    by (force simp: is_letter_def to_lower_def)
  then show ?thesis
    by (simp add: charlib_ok_def ascii_def ascii_contains) (simp add: ascii_space_def newline_def)
qed

section \<open>White space and comments\<close>

text \<open>What may stand between the words of a query: white space, and comments that end at a newline.\<close>

inductive junk :: "charlib \<Rightarrow> string \<Rightarrow> bool" for L where
  empty: "junk L []"
| space: "isWhitespace L c \<Longrightarrow> junk L j \<Longrightarrow> junk L (c # j)"
| comment: "newline \<notin> set t \<Longrightarrow> junk L j \<Longrightarrow> junk L (''--'' @ t @ newline # j)"

definition at_token :: "charlib \<Rightarrow> string \<Rightarrow> bool" where
  "at_token L p \<longleftrightarrow> (case p of [] \<Rightarrow> True | c # _ \<Rightarrow> \<not> isWhitespace L c \<and> take 2 p \<noteq> ''--'')"

lemma skipLine_comment: "newline \<notin> set t \<Longrightarrow> skipLine (t @ newline # p) = p"
  by (induction t) (auto simp: skipLine_def)

lemma newline_dash: "newline \<noteq> CHR ''-''"
  by (simp add: newline_def)

lemma skip_junk:
  assumes "charlib_ok L" and "junk L j"
  shows "skipWhitespaceAndComments L (j @ q) = skipWhitespaceAndComments L q"
  using assms(2)
proof induction
  case (comment t j)
  have "skipLine (''--'' @ t @ newline # j @ q) = j @ q"
    using skipLine_comment [of "''--'' @ t"] comment.hyps(1) by (simp add: newline_def)
  then show ?case
    using comment charlib_okD(1,4) [OF assms(1)] by simp
qed simp_all

lemma skip_at_token: "charlib_ok L \<Longrightarrow> at_token L p \<Longrightarrow> skipWhitespaceAndComments L p = p"
  using charlib_okD(1) [of L] by (cases p) (auto simp: at_token_def)

lemma skip_token: "charlib_ok L \<Longrightarrow> at_token L (skipWhitespaceAndComments L p)"
proof (induction L p rule: skipWhitespaceAndComments.induct)
  case (2 L c ptr)
  then show ?case
    using charlib_okD(1) [OF "2.prems"] by (auto simp: at_token_def)
qed (simp add: at_token_def)

text \<open>What is skipped is junk, up to an unterminated comment at the end.\<close>

lemma line_split:
  "newline \<in> set p \<Longrightarrow> \<exists>t. p = t @ newline # skipLine p \<and> newline \<notin> set t"
proof (induction p)
  case (Cons c p)
  show ?case
  proof (cases "c = newline")
    case True
    then show ?thesis by (intro exI [of _ "[]"]) (simp add: skipLine_def)
  next
    case False
    with Cons obtain t where "p = t @ newline # skipLine p" "newline \<notin> set t" by auto
    moreover have "skipLine (c # p) = skipLine p" using False by (simp add: skipLine_def)
    ultimately show ?thesis using False by (intro exI [of _ "c # t"]) auto
  qed
qed simp

definition skips :: "charlib \<Rightarrow> string \<Rightarrow> string \<Rightarrow> bool" where
  "skips L p q \<longleftrightarrow>
     (\<exists>j. p = j @ q \<and> junk L j) \<or>
     (\<exists>j t. p = j @ ''--'' @ t \<and> junk L j \<and> newline \<notin> set t \<and> q = [])"

lemma junk_append: "junk L i \<Longrightarrow> junk L j \<Longrightarrow> junk L (i @ j)"
  by (induction rule: junk.induct) (auto intro: junk.intros junk.comment [simplified])

lemma skips_junk: "junk L i \<Longrightarrow> skips L p q \<Longrightarrow> skips L (i @ p) q"
  unfolding skips_def by (metis append_assoc junk_append)

lemma skips_self: "skips L p p"
  unfolding skips_def by (metis append_Nil junk.empty)

lemma skips_open_comment: "newline \<notin> set t \<Longrightarrow> skips L (''--'' @ t) []"
  unfolding skips_def by (metis append_Nil junk.empty)

lemma skip_skips: "charlib_ok L \<Longrightarrow> skips L p (skipWhitespaceAndComments L p)"
proof (induction L p rule: skipWhitespaceAndComments.induct)
  case (1 L)
  then show ?case by (simp add: skips_self)
next
  case (2 L c ptr)
  note start = charlib_okD(1) [OF "2.prems"]
  consider (space) "isWhitespace L c" | (comment) "\<not> isWhitespace L c" "take 2 (c # ptr) = ''--''"
    | (token) "\<not> isWhitespace L c" "take 2 (c # ptr) \<noteq> ''--''" by blast
  then show ?case
  proof cases
    case space
    then show ?thesis
      using "2.IH"(1) [OF space "2.prems"] skips_junk [OF junk.space [OF space junk.empty]] by simp
  next
    case comment
    then obtain u where u: "c # ptr = ''--'' @ u"
      by (metis append_take_drop_id)
    have starts: "startsWith L (c # ptr) ''--''" using comment start by simp
    have IH: "skips L (skipLine u) (skipWhitespaceAndComments L (skipLine u))"
      using "2.IH"(2) [OF comment(1) starts "2.prems"] u by (simp add: skipLine_def newline_def)
    have skip: "skipWhitespaceAndComments L (c # ptr) = skipWhitespaceAndComments L (skipLine u)"
      using comment(1) starts u by (simp add: skipLine_def newline_def)
    show ?thesis
    proof (cases "newline \<in> set u")
      case False
      then have "dropWhile (\<lambda>c. c \<noteq> newline) u = []" by (auto simp: dropWhile_eq_Nil_conv)
      then have line: "skipLine u = []" by (simp only: skipLine_def list.case)
      show ?thesis
        unfolding skip unfolding u line using skips_open_comment [OF False] by simp
    next
      case True
      then obtain t where t: "u = t @ newline # skipLine u" "newline \<notin> set t" using line_split by blast
      then show ?thesis
        using skips_junk [OF junk.comment [OF t(2) junk.empty] IH] skip u
        by (metis append.assoc append_Cons append_Nil)
    qed
  next
    case token
    then show ?thesis using start skips_self by auto
  qed
qed

text \<open>
  C31: \<open>skipWhitespaceAndComments\<close> skips white space and line comments, all of them and
  nothing else: what it returns begins with a token or is empty, what it skipped is white space
  and comments, a second call changes nothing, and more of them in front do not change the result.
\<close>

theorem skipWhitespaceAndComments_spec:
  assumes "charlib_ok L"
  shows "skips L p (skipWhitespaceAndComments L p) \<and>
     at_token L (skipWhitespaceAndComments L p) \<and>
     skipWhitespaceAndComments L (skipWhitespaceAndComments L p) = skipWhitespaceAndComments L p \<and>
     (\<forall>j \<in> {j. junk L j}. skipWhitespaceAndComments L (j @ p) = skipWhitespaceAndComments L p)"
  using skip_skips skip_token skip_at_token skip_junk assms by blast

theorem skipWhitespaceAndComments_spec_witness:
  "skipWhitespaceAndComments ascii (''  '' @ ''-- hint'' @ [newline] @ ''begin'') = ''begin'' \<and>
   at_token ascii (skipWhitespaceAndComments ascii (''  '' @ ''-- hint'' @ [newline] @ ''begin''))"
proof
  show "skipWhitespaceAndComments ascii (''  '' @ ''-- hint'' @ [newline] @ ''begin'') = ''begin''"
    by code_simp
  show "at_token ascii (skipWhitespaceAndComments ascii (''  '' @ ''-- hint'' @ [newline] @ ''begin''))"
    by (rule skipWhitespaceAndComments_spec [OF ascii_ok, THEN conjunct2, THEN conjunct1])
qed

section \<open>Words\<close>

text \<open>A word of letters in any case, and what follows it.\<close>

definition letters :: "string \<Rightarrow> bool" where
  "letters w \<longleftrightarrow> w \<noteq> [] \<and> list_all is_letter w"

lemma same_word_take:
  "same_word v w \<Longrightarrow> length v = length w \<and> take (length w) (v @ r) = v \<and> drop (length w) (v @ r) = r"
  by (metis append_eq_conv_conj length_map same_word_def)

lemma starts_word:
  assumes "charlib_ok L" and "same_word v w"
  shows "startsWithIgnoringCase L (v @ r) w"
  using assms same_word_take [OF assms(2)] by (simp add: charlib_okD(2))

lemma starts_other:
  assumes "charlib_ok L" and "same_word v w" and "\<not> same_word (take (length u) w) (take (length w) u)"
  shows "\<not> startsWithIgnoringCase L (v @ r) u"
proof
  assume "startsWithIgnoringCase L (v @ r) u"
  then have e: "take (length u) (map to_lower v @ map to_lower r) = map to_lower u"
    using charlib_okD(2) [OF assms(1)] by (simp add: same_word_def take_map flip: map_append)
  have w: "map to_lower v = map to_lower w" using assms(2) by (simp add: same_word_def)
  then have l: "length v = length w" by (metis length_map)
  have "take (length u) (map to_lower w) = take (length u) (take (length w) (map to_lower v @ map to_lower r))"
    using w l by simp
  also have "\<dots> = take (length w) (take (length u) (map to_lower v @ map to_lower r))"
    by (simp only: take_take min.commute)
  also have "\<dots> = take (length w) (map to_lower u)"
    by (simp only: e)
  finally show False using assms(3) by (simp add: same_word_def take_map)
qed

text \<open>
  \<open>is_word L w v\<close>: \<open>v\<close> is the keyword \<open>w\<close> in some mixture of cases. The keywords the code
  compares with are all letters.
\<close>

lemma word_at_token:
  assumes "charlib_ok L" and "same_word v w" and "letters w"
  shows "at_token L (v @ r)"
proof -
  obtain c w' where w: "w = c # w'" "is_letter c"
    using assms(3) by (cases w) (auto simp: letters_def)
  then obtain d v' where v: "v = d # v'" "to_lower d = to_lower c"
    using assms(2) by (cases v) (auto simp: same_word_def)
  have "is_letter d" using w v by (simp add: is_letter_def)
  moreover have "\<not> is_letter (CHR ''-'')" by code_simp
  ultimately show ?thesis
    using charlib_okD(7) [OF assms(1)] v by (auto simp: at_token_def)
qed

lemma skip_word:
  assumes "charlib_ok L" and "junk L j" and "same_word v w" and "letters w"
  shows "skipWhitespaceAndComments L (j @ v @ r) = v @ r"
  using skip_junk [OF assms(1,2)] skip_at_token [OF assms(1) word_at_token [OF assms(1,3,4)]] by simp

lemma skip_only_junk: "charlib_ok L \<Longrightarrow> junk L j \<Longrightarrow> skipWhitespaceAndComments L j = []"
  using skip_junk [of L j "[]"] by simp

lemma junk_determine:
  assumes "charlib_ok L" and "junk L j"
  shows "determineQueryType L (j @ q) = determineQueryType L q"
  by (simp add: determineQueryType_def skip_junk [OF assms])

section \<open>Transaction words\<close>

text \<open>The words that are tried before \<open>begin\<close>, and why a transaction word is none of them.\<close>

lemma determine_word:
  assumes "charlib_ok L" and "same_word v w"
    and "w \<in> set [''begin'', ''commit'', ''rollback'']"
    and "u \<in> set [''select'', ''insert'', ''update'', ''delete'', ''create'', ''drop'', ''alter'']"
  shows "\<not> startsWithIgnoringCase L (v @ r) u"
proof (rule starts_other [OF assms(1,2)])
  have "\<forall>w \<in> set [''begin'', ''commit'', ''rollback''].
      \<forall>u \<in> set [''select'', ''insert'', ''update'', ''delete'', ''create'', ''drop'', ''alter''].
        \<not> same_word (take (length u) w) (take (length w) u)" by code_simp
  from bspec [OF bspec [OF this assms(3)] assms(4)]
  show "\<not> same_word (take (length u) w) (take (length w) u)" .
qed

lemma determine_other:
  assumes "charlib_ok L" and "same_word v w"
    and "w \<in> set [''begin'', ''commit'', ''rollback'']"
    and "u \<in> set [''begin'', ''start '', ''bt'', ''commit'', ''et'', ''rollback'', ''autocommit'', ''set'']"
    and "u \<noteq> w"
  shows "\<not> startsWithIgnoringCase L (v @ r) u"
proof (rule starts_other [OF assms(1,2)])
  have "\<forall>w \<in> set [''begin'', ''commit'', ''rollback''].
      \<forall>u \<in> set [''begin'', ''start '', ''bt'', ''commit'', ''et'', ''rollback'', ''autocommit'', ''set''].
        u \<noteq> w \<longrightarrow> \<not> same_word (take (length u) w) (take (length w) u)" by code_simp
  from bspec [OF bspec [OF this assms(3)] assms(4)] assms(5)
  show "\<not> same_word (take (length u) w) (take (length w) u)" by (rule mp)
qed

lemma drop_word: "same_word v w \<Longrightarrow> length w = n \<Longrightarrow> drop n (v @ r) = r"
  using same_word_take by blast

lemma determine_begin:
  assumes "charlib_ok L" and "same_word v ''begin''"
  shows "determineQueryType L (v @ r) =
     (let p = skipWhitespaceAndComments L r
      in if p = [] \<or> (startsWithIgnoringCase L p ''work'' \<and> blockCanBeIntercepted L (drop 4 p)) \<or>
            (startsWithIgnoringCase L p ''transaction'' \<and> blockCanBeIntercepted L (drop 11 p))
         then QT_Begin else QT_Etc)"
proof -
  have s: "skipWhitespaceAndComments L (v @ r) = v @ r"
    using skip_word [OF assms(1) junk.empty assms(2)] by (simp add: letters_def is_letter_def to_lower_def)
  have b: "isBeginTransactionQuery L (v @ r) =
     (let p = skipWhitespaceAndComments L r
      in p = [] \<or> (startsWithIgnoringCase L p ''work'' \<and> blockCanBeIntercepted L (drop 4 p)) \<or>
         (startsWithIgnoringCase L p ''transaction'' \<and> blockCanBeIntercepted L (drop 11 p)))"
    using drop_word [OF assms(2), of 5 r]
    by (simp add: isBeginTransactionQuery_def Let_def starts_word [OF assms] del: drop_append)
  have et: "\<not> startsWithIgnoringCase L (v @ r) ''et''"
    by (rule determine_other [OF assms]) simp_all
  show ?thesis
    by (simp add: determineQueryType_def s b Let_def determine_word [OF assms] determine_other [OF assms]
        isAutoCommitOnQuery_def isAutoCommitOffQuery_def isAutoCommitQuery_def isSetIncludingAutoCommitQuery_def)
qed

lemma determine_commit:
  assumes "charlib_ok L" and "same_word v ''commit''"
  shows "determineQueryType L (v @ r) = QT_Commit"
proof -
  have s: "skipWhitespaceAndComments L (v @ r) = v @ r"
    using skip_word [OF assms(1) junk.empty assms(2)] by (simp add: letters_def is_letter_def to_lower_def)
  show ?thesis
    by (simp add: determineQueryType_def s Let_def determine_word [OF assms] determine_other [OF assms]
        isBeginTransactionQuery_def starts_word [OF assms])
qed

lemma determine_rollback:
  assumes "charlib_ok L" and "same_word v ''rollback''"
  shows "determineQueryType L (v @ r) =
     (let p = skipWhitespaceAndComments L r
      in if startsWithIgnoringCase L p ''to'' \<and> whitespaceAt L p 2 then QT_Etc else QT_Rollback)"
proof -
  have s: "skipWhitespaceAndComments L (v @ r) = v @ r"
    using skip_word [OF assms(1) junk.empty assms(2)] by (simp add: letters_def is_letter_def to_lower_def)
  show ?thesis
    using drop_word [OF assms(2), of 8 r]
    by (simp add: determineQueryType_def s Let_def determine_word [OF assms] determine_other [OF assms]
        isBeginTransactionQuery_def starts_word [OF assms] del: drop_append)
qed



section \<open>Where the classification goes further than its comments\<close>

text \<open>
  Every word that follows \<open>start\<close> is taken for a transaction, so a query like
  \<open>start slave\<close> is intercepted as a begin.
\<close>

theorem start_is_always_begin: "determineQueryType ascii ''start slave'' = QT_Begin"
  by code_simp

text \<open>
  The last test of \<open>isSetIncludingAutoCommitQuery\<close> (\<open>*query!=',' || *query\<close>) is always
  true: anything may follow the digit.
\<close>

theorem set_autocommit_accepts_any_tail:
  "determineQueryType ascii ''set autocommit=10 rows'' = QT_Set_Including_Autocommit_On"
  by code_simp

section \<open>The end of a value\<close>

text \<open>
  Literals that end: skipping one consumes at least its first character.
\<close>

definition literals_end :: "charlib \<Rightarrow> bool \<Rightarrow> bool \<Rightarrow> bool" where
  "literals_end L quoteescapes backslash \<longleftrightarrow>
     (\<forall>c p. length (findEndOfQuotedString L (c # p) c backslash quoteescapes) \<le> length p)"

lemma findClosing_length: "length (findClosing tag q) \<le> length q"
  by (induction q) auto

lemma drop_Cons_length: "drop n xs = y # ys \<Longrightarrow> length ys < length xs"
  by (metis Suc_le_lessD diff_le_self length_Cons length_drop)

lemma skipDollar_length: "skipDollarQuotedLiteral L p \<noteq> p \<Longrightarrow> length (skipDollarQuotedLiteral L p) < length p"
  unfolding skipDollarQuotedLiteral_def Let_def
  by (auto split: list.splits if_splits intro!: le_less_trans [OF findClosing_length]
      dest: drop_Cons_length)

text \<open>A run of characters that ends no value when it is scanned at depth \<open>d\<close>.\<close>

inductive value_text :: "charlib \<Rightarrow> bool \<Rightarrow> bool \<Rightarrow> bool \<Rightarrow> int \<Rightarrow> string \<Rightarrow> bool" for L dq qe bs where
  empty: "value_text L dq qe bs d []"
| plain: "c \<notin> {CHR 0x27, CHR 0x22, CHR 0x60, CHR ''('', CHR '')'', CHR '',''} \<Longrightarrow> c \<noteq> CHR ''$'' \<or> \<not> dq \<Longrightarrow>
    value_text L dq qe bs d s \<Longrightarrow> value_text L dq qe bs d (c # s)"
| comma: "d \<noteq> 0 \<Longrightarrow> value_text L dq qe bs d s \<Longrightarrow> value_text L dq qe bs d (CHR '','' # s)"
| quoted: "c \<in> {CHR 0x27, CHR 0x22, CHR 0x60} \<Longrightarrow>
    (\<And>r. findEndOfQuotedString L (c # t @ r) c bs qe = r) \<Longrightarrow>
    value_text L dq qe bs d s \<Longrightarrow> value_text L dq qe bs d (c # t @ s)"
| dollar: "dq \<Longrightarrow> (\<And>r. skipDollarQuotedLiteral L (CHR ''$'' # t @ r) = r) \<Longrightarrow>
    value_text L dq qe bs d s \<Longrightarrow> value_text L dq qe bs d (CHR ''$'' # t @ s)"
| parens: "0 \<le> d \<Longrightarrow> value_text L dq qe bs (d + 1) s \<Longrightarrow> value_text L dq qe bs d s' \<Longrightarrow>
    value_text L dq qe bs d (CHR ''('' # s @ CHR '')'' # s')"

lemma find_value:
  "value_text L dq qe bs d s \<Longrightarrow>
   findCommaOrCloseParen L dq qe bs d (s @ r) = findCommaOrCloseParen L dq qe bs d r"
proof (induction arbitrary: r rule: value_text.induct)
  case (quoted c t d s)
  then show ?case
    by (subst findCommaOrCloseParen.simps) (auto simp: skipStringLiteral_def)
next
  case (dollar t d s)
  then show ?case
    by (subst findCommaOrCloseParen.simps) (auto simp: append_eq_Cons_conv)
next
  case (parens d s s')
  have "findCommaOrCloseParen L dq qe bs d (CHR ''('' # s @ CHR '')'' # s' @ r) =
      findCommaOrCloseParen L dq qe bs (d + 1) (s @ CHR '')'' # s' @ r)"
    by (subst findCommaOrCloseParen.simps) simp
  also have "\<dots> = findCommaOrCloseParen L dq qe bs (d + 1) (CHR '')'' # s' @ r)"
    by (rule parens.IH(1))
  also have "\<dots> = findCommaOrCloseParen L dq qe bs d (s' @ r)"
    using parens.hyps(1) by (subst findCommaOrCloseParen.simps) simp
  finally show ?case using parens.IH(2) by simp
qed (subst findCommaOrCloseParen.simps, auto)+

lemma find_terminates:
  assumes "literals_end L qe bs"
  shows "\<exists>x. findCommaOrCloseParen L dq qe bs d p = Some x"
proof (induction p arbitrary: d rule: length_induct)
  case (1 p)
  show ?case
  proof (cases p)
    case Nil
    then show ?thesis by (subst findCommaOrCloseParen.simps) simp
  next
    case (Cons c r)
    have q: "\<exists>x. findCommaOrCloseParen L dq qe bs d (skipStringLiteral L qe bs (c # r)) = Some x"
      using 1 Cons assms by (simp add: skipStringLiteral_def literals_end_def less_Suc_eq_le)
    have dollar: "skipDollarQuotedLiteral L (c # r) = c # r \<or>
        (\<exists>x. findCommaOrCloseParen L dq qe bs d (skipDollarQuotedLiteral L (c # r)) = Some x)"
      using 1 skipDollar_length Cons by blast
    have rest: "\<exists>x. findCommaOrCloseParen L dq qe bs e r = Some x" for e
      using 1 Cons by simp
    show ?thesis
      unfolding Cons
      by (subst findCommaOrCloseParen.simps, simp only: list.case split: if_split)
        (use q dollar rest in blast)
  qed
qed

text \<open>
  C36: \<open>findCommaOrCloseParen\<close> finds the end of a value. It always returns, where literals
  end; and it passes over any text without a top-level comma or parenthesis, with commas and
  parentheses nested or inside string and dollar-quoted literals, to the comma or closing
  parenthesis that follows it, or to the end of the text.
\<close>

theorem findCommaOrCloseParen_spec:
  assumes "literals_end L qe bs" and "value_text L dq qe bs 0 s"
  shows "findCommaOrCloseParen L dq qe bs 0 (s @ CHR '','' # r) = Some (Some (CHR '','' # r)) \<and>
     findCommaOrCloseParen L dq qe bs 0 (s @ CHR '')'' # r) = Some (Some (CHR '')'' # r)) \<and>
     findCommaOrCloseParen L dq qe bs 0 s = Some None \<and>
     (\<exists>x. findCommaOrCloseParen L dq qe bs d p = Some x)"
proof (intro conjI)
  show "findCommaOrCloseParen L dq qe bs 0 (s @ CHR '','' # r) = Some (Some (CHR '','' # r))"
    using find_value [OF assms(2)] by (subst find_value [OF assms(2)], subst findCommaOrCloseParen.simps) simp
  show "findCommaOrCloseParen L dq qe bs 0 (s @ CHR '')'' # r) = Some (Some (CHR '')'' # r))"
    by (subst find_value [OF assms(2)], subst findCommaOrCloseParen.simps) simp
  have "findCommaOrCloseParen L dq qe bs 0 (s @ []) = Some None"
    by (subst find_value [OF assms(2)], subst findCommaOrCloseParen.simps) simp
  then show "findCommaOrCloseParen L dq qe bs 0 s = Some None" by simp
  show "\<exists>x. findCommaOrCloseParen L dq qe bs d p = Some x"
    by (rule find_terminates [OF assms(1)])
qed

lemma ascii_literals_end: "literals_end ascii qe bs"
proof -
  have "length (case dropWhile (\<lambda>x. x \<noteq> c) p of [] \<Rightarrow> [] | _ # r \<Rightarrow> r) \<le> length p" for c :: char and p
    using length_dropWhile_le [of "\<lambda>x. x \<noteq> c" p] by (auto split: list.splits)
  then show ?thesis by (simp add: literals_end_def ascii_def)
qed

theorem findCommaOrCloseParen_spec_witness:
  "findCommaOrCloseParen ascii False False False 0 (''f(1,2)'' @ CHR '','' # ''3)'') = Some (Some (CHR '','' # ''3)''))"
proof -
  have "value_text ascii False False False 1 ''1,2''" "value_text ascii False False False 0 []"
    by (rule value_text.intros | simp)+
  then have "value_text ascii False False False 0 (CHR ''('' # ''1,2'' @ CHR '')'' # [])"
    using value_text.parens [of 0 ascii False False False "''1,2''" "[]"] by simp
  then have "value_text ascii False False False 0 (CHR ''f'' # CHR ''('' # ''1,2'' @ CHR '')'' # [])"
    by (rule value_text.plain [rotated 2]) simp_all
  from findCommaOrCloseParen_spec [OF ascii_literals_end this, THEN conjunct1, of "''3)''"]
  show ?thesis by simp
qed

section \<open>Hexadecimal and octal\<close>

definition hexdigit :: "nat \<Rightarrow> char" where
  "hexdigit n = ''0123456789ABCDEF'' ! n"

lemma hexdigit_inj: "m < 16 \<Longrightarrow> n < 16 \<Longrightarrow> hexdigit m = hexdigit n \<longleftrightarrow> m = n"
  unfolding hexdigit_def by (rule nth_eq_iff_index_eq) simp_all

lemma asciitohex_table: "asciitohex = map (\<lambda>n. [hexdigit (n div 16), hexdigit (n mod 16)]) [0..<256]"
  by code_simp

lemma asciitooctal_table:
  "asciitooctal = map (\<lambda>n. [hexdigit (n div 64), hexdigit (n div 8 mod 8), hexdigit (n mod 8)]) [0..<256]"
  by code_simp

lemma byte_less: "unat (b :: byte) < 256"
  using unat_less_pow [of b] by simp

text \<open>
  The tables are right: every byte has its two hexadecimal and its three octal digits, and
  no two bytes share an entry.
\<close>

theorem hex_octal_tables:
  "asciiToHex b = [hexdigit (unat b div 16), hexdigit (unat b mod 16)] \<and>
   asciiToOctal b = [hexdigit (unat b div 64), hexdigit (unat b div 8 mod 8), hexdigit (unat b mod 8)] \<and>
   inj asciiToHex \<and> inj asciiToOctal"
proof -
  have hex: "asciiToHex b = [hexdigit (unat b div 16), hexdigit (unat b mod 16)]" for b
    using byte_less [of b] by (simp add: asciiToHex_def asciitohex_table del: upt.simps)
  have oct: "asciiToOctal b = [hexdigit (unat b div 64), hexdigit (unat b div 8 mod 8), hexdigit (unat b mod 8)]" for b
    using byte_less [of b] by (simp add: asciiToOctal_def asciitooctal_table del: upt.simps)
  have "b = c" if "asciiToHex b = asciiToHex c" for b c
  proof -
    have "unat b div 16 = unat c div 16 \<and> unat b mod 16 = unat c mod 16"
      using that byte_less [of b] byte_less [of c] by (simp add: hex hexdigit_inj)
    then have "unat b = unat c" by (metis div_mult_mod_eq)
    then show ?thesis by (rule unsigned_word_eqI)
  qed
  moreover have "b = c" if "asciiToOctal b = asciiToOctal c" for b c
  proof -
    have eq: "unat b div 64 = unat c div 64" "unat b div 8 mod 8 = unat c div 8 mod 8" "unat b mod 8 = unat c mod 8"
      using that byte_less [of b] byte_less [of c] by (simp_all add: oct hexdigit_inj)
    have "x div 8 div 8 = x div 64" for x :: nat
      by (simp add: div_mult2_eq [symmetric])
    then have "unat b div 8 = unat c div 8" using eq by (metis div_mult_mod_eq)
    then have "unat b = unat c" using eq(3) by (metis div_mult_mod_eq)
    then show ?thesis by (rule unsigned_word_eqI)
  qed
  ultimately show ?thesis by (simp add: hex oct inj_def)
qed

end
