(* ===== verification/Firebird_SDL.thy ===== *)
theory Firebird_SDL
  imports Prelude
begin

text \<open>
  The interpreter for Firebird's slice description language (SDL), \<open>src/protocols/firebirdsdl.cpp\<close>
  and \<open>.h\<close>: the object's state, the byte readers, one definition per parsing method, the accessors,
  and the row-major index arithmetic. A method that returns \<open>false\<close> after \<open>setError\<close> is
  \<open>Inl s\<close>, with the state the object is left in; one that returns \<open>true\<close> is \<open>Inr s\<close>.
\<close>

section \<open>State\<close>

record sdlbound =
  bvariable :: byte
  blower :: i32
  bupper :: i32

text \<open>
  \<open>rest\<close> is the buffer between \<open>ptr\<close> and \<open>end\<close>: a method that advances \<open>ptr\<close>
  drops bytes from it, and \<open>ptr+n>end\<close> is \<open>length rest < n\<close>. \<open>dimensioncount\<close> is a
  \<open>nat\<close>, since \<open>parseLoop\<close> keeps it at most 16.
\<close>

record sdl =
  rest :: bytes
  err :: "string option"
  schemaname :: "bytes option"
  relationname :: "bytes option"
  fieldname :: "bytes option"
  relationidset :: bool
  relationid :: u16
  fieldidset :: bool
  fieldid :: u16
  elementtype :: byte
  elementscale :: byte \<comment> \<open>an \<open>int8_t\<close>\<close>
  elementlength :: u16
  dimensioncount :: nat
  bounds :: "sdlbound list"

abbreviation "max_dimensions \<equiv> (16 :: nat)" \<comment> \<open>\<open>SQLRFIREBIRDSDL_MAX_DIMENSIONS\<close>\<close>

text \<open>The opcodes and the type codes of \<open>firebirdsdl.h\<close>.\<close>

abbreviation "isc_sdl_version1 \<equiv> (1 :: byte)"
abbreviation "isc_sdl_relation \<equiv> (2 :: byte)"
abbreviation "isc_sdl_rid \<equiv> (3 :: byte)"
abbreviation "isc_sdl_field \<equiv> (4 :: byte)"
abbreviation "isc_sdl_fid \<equiv> (5 :: byte)"
abbreviation "isc_sdl_struct \<equiv> (6 :: byte)"
abbreviation "isc_sdl_variable \<equiv> (7 :: byte)"
abbreviation "isc_sdl_scalar \<equiv> (8 :: byte)"
abbreviation "isc_sdl_tiny_integer \<equiv> (9 :: byte)"
abbreviation "isc_sdl_short_integer \<equiv> (10 :: byte)"
abbreviation "isc_sdl_long_integer \<equiv> (11 :: byte)"
abbreviation "isc_sdl_do3 \<equiv> (33 :: byte)"
abbreviation "isc_sdl_do2 \<equiv> (34 :: byte)"
abbreviation "isc_sdl_do1 \<equiv> (35 :: byte)"
abbreviation "isc_sdl_element \<equiv> (36 :: byte)"
abbreviation "isc_sdl_schema \<equiv> (37 :: byte)"
abbreviation "isc_sdl_eoc \<equiv> (255 :: byte)"

text \<open>
  The three groups \<open>parseElementDescriptor\<close> tells apart: \<open>blr_text2\<close>, \<open>blr_cstring2\<close>,
  \<open>blr_varying2\<close>; \<open>blr_text\<close>, \<open>blr_cstring\<close>, \<open>blr_varying\<close>; \<open>blr_short\<close>,
  \<open>blr_long\<close>, \<open>blr_quad\<close>, \<open>blr_int64\<close>, \<open>blr_int128\<close>; and the types with nothing
  after them.
\<close>

definition text2_types :: "byte list" where
  "text2_types = [15, 41, 38]"

definition text_types :: "byte list" where
  "text_types = [14, 40, 37]"

definition scale_types :: "byte list" where
  "scale_types = [7, 8, 9, 16, 26]"

definition plain_types :: "byte list" where
  "plain_types = [10, 27, 11, 24, 25, 12, 13, 28, 30, 35, 29, 31, 23]"

definition init_sdl :: "sdl \<Rightarrow> sdl" where
  "init_sdl s = s\<lparr>rest := [], err := None, relationidset := False, relationid := 0,
     fieldidset := False, fieldid := 0, elementtype := 0, elementscale := 0, elementlength := 0,
     dimensioncount := 0,
     bounds := replicate max_dimensions \<lparr>bvariable = 0, blower = 0, bupper = 0\<rparr>\<rparr>"

definition clear_sdl :: "sdl \<Rightarrow> sdl" where
  "clear_sdl s = init_sdl (s\<lparr>schemaname := None, relationname := None, fieldname := None\<rparr>)"

text \<open>The constructor: the members start at null and \<open>init\<close> sets the rest.\<close>

definition new_sdl :: sdl where
  "new_sdl = init_sdl \<lparr>rest = [], err = None, schemaname = None, relationname = None,
     fieldname = None, relationidset = False, relationid = 0, fieldidset = False, fieldid = 0,
     elementtype = 0, elementscale = 0, elementlength = 0, dimensioncount = 0, bounds = []\<rparr>"

definition setError :: "string \<Rightarrow> sdl \<Rightarrow> sdl + 'a" where
  "setError e s = Inl (s\<lparr>err := Some e\<rparr>)"

abbreviation "truncated_SDL \<equiv> ''truncated SDL''"

section \<open>Byte readers\<close>

definition getByte :: "sdl \<Rightarrow> (byte \<times> sdl) option" where
  "getByte s = (case rest s of [] \<Rightarrow> None | b # bs \<Rightarrow> Some (b, s\<lparr>rest := bs\<rparr>))"

definition peekByte :: "sdl \<Rightarrow> byte option" where
  "peekByte s = (case rest s of [] \<Rightarrow> None | b # bs \<Rightarrow> Some b)"

definition getWord :: "sdl \<Rightarrow> (u16 \<times> sdl) option" where
  "getWord s =
     (if length (rest s) < 2 then None
      else Some (ucast (rest s ! 0) OR push_bit 8 (ucast (rest s ! 1)), s\<lparr>rest := drop 2 (rest s)\<rparr>))"

definition getLong :: "sdl \<Rightarrow> (u32 \<times> sdl) option" where
  "getLong s =
     (if length (rest s) < 4 then None
      else Some (ucast (rest s ! 0) OR push_bit 8 (ucast (rest s ! 1)) OR
                 push_bit 16 (ucast (rest s ! 2)) OR push_bit 24 (ucast (rest s ! 3)),
                 s\<lparr>rest := drop 4 (rest s)\<rparr>))"

section \<open>Clauses\<close>

definition parseScale :: "sdl \<Rightarrow> sdl + sdl" where
  "parseScale s =
     (case getByte s of
        None \<Rightarrow> setError truncated_SDL s
      | Some (scale, s') \<Rightarrow> Inr (s'\<lparr>elementscale := scale\<rparr>))"

definition parseTextLength :: "sdl \<Rightarrow> sdl + sdl" where
  "parseTextLength s =
     (case getWord s of
        None \<Rightarrow> setError truncated_SDL s
      | Some (len, s') \<Rightarrow>
          (let s'' = s'\<lparr>elementlength := len\<rparr> in
           if len = 0 then setError ''invalid SDL element length'' s'' else Inr s''))"

definition parseElementDescriptor :: "sdl \<Rightarrow> sdl + sdl" where
  "parseElementDescriptor s =
     (case getByte s of
        None \<Rightarrow> setError truncated_SDL s
      | Some (count, s1) \<Rightarrow>
          if count \<noteq> 1 then setError ''unsupported SDL struct count'' s1
          else (case getByte s1 of
            None \<Rightarrow> setError truncated_SDL s1
          | Some (ty, s2) \<Rightarrow>
              (let s3 = s2\<lparr>elementtype := ty\<rparr> in
               if ty \<in> set text2_types then
                 (case getWord s3 of
                    None \<Rightarrow> setError truncated_SDL s3
                  | Some (charsetandcollation, s4) \<Rightarrow> parseTextLength s4)
               else if ty \<in> set text_types then parseTextLength s3
               else if ty \<in> set scale_types then parseScale s3
               else if ty \<in> set plain_types then Inr s3
               else setError ''unsupported SDL element type'' s3)))"

text \<open>
  \<open>parseName\<close> is called with the member to set; the model takes its update function.
\<close>

definition parseName :: "(bytes option \<Rightarrow> sdl \<Rightarrow> sdl) \<Rightarrow> sdl \<Rightarrow> sdl + sdl" where
  "parseName setname s =
     (case getByte s of
        None \<Rightarrow> setError truncated_SDL s
      | Some (len, s1) \<Rightarrow>
          if length (rest s1) < unat len then setError truncated_SDL s1
          else Inr ((setname (Some (take (unat len) (rest s1))) s1)
                      \<lparr>rest := drop (unat len) (rest s1)\<rparr>))"

definition parseId :: "(u16 \<Rightarrow> sdl \<Rightarrow> sdl) \<Rightarrow> sdl \<Rightarrow> sdl + sdl" where
  "parseId setid s =
     (case getWord s of
        None \<Rightarrow> setError truncated_SDL s
      | Some (n, s1) \<Rightarrow> Inr (setid n s1))"

definition parseLiteral :: "sdl \<Rightarrow> sdl + (i32 \<times> sdl)" where
  "parseLiteral s =
     (case getByte s of
        None \<Rightarrow> setError truncated_SDL s
      | Some (op, s1) \<Rightarrow>
          if op = isc_sdl_tiny_integer then
            (case getByte s1 of
               None \<Rightarrow> setError truncated_SDL s1
             | Some (tiny, s2) \<Rightarrow> Inr (scast tiny, s2))
          else if op = isc_sdl_short_integer then
            (case getWord s1 of
               None \<Rightarrow> setError truncated_SDL s1
             | Some (shrt, s2) \<Rightarrow> Inr (scast shrt, s2))
          else if op = isc_sdl_long_integer then
            (case getLong s1 of
               None \<Rightarrow> setError truncated_SDL s1
             | Some (lng, s2) \<Rightarrow> Inr (lng, s2))
          else setError ''unsupported SDL bound expression'' s1)"

definition addBound :: "byte \<Rightarrow> i32 \<Rightarrow> i32 \<Rightarrow> sdl \<Rightarrow> sdl" where
  "addBound variable lower upper s =
     s\<lparr>bounds := (bounds s)[dimensioncount s := \<lparr>bvariable = variable, blower = lower, bupper = upper\<rparr>],
       dimensioncount := dimensioncount s + 1\<rparr>"

definition parseIncrement :: "byte \<Rightarrow> sdl \<Rightarrow> sdl + sdl" where
  "parseIncrement op s =
     (if op \<noteq> isc_sdl_do3 then Inr s
      else (case parseLiteral s of
        Inl s' \<Rightarrow> Inl s'
      | Inr (increment, s') \<Rightarrow>
          if increment \<noteq> 1 then setError ''unsupported SDL loop increment'' s' else Inr s'))"

definition parseLoop :: "byte \<Rightarrow> sdl \<Rightarrow> sdl + sdl" where
  "parseLoop op s =
     (if dimensioncount s = max_dimensions then setError ''too many SDL dimensions'' s
      else (case getByte s of
        None \<Rightarrow> setError truncated_SDL s
      | Some (variable, s1) \<Rightarrow>
          (case (if op \<noteq> isc_sdl_do1 then parseLiteral s1 else Inr (1, s1)) of
             Inl s' \<Rightarrow> Inl s'
           | Inr (lower, s2) \<Rightarrow>
               (case parseLiteral s2 of
                  Inl s' \<Rightarrow> Inl s'
                | Inr (upper, s3) \<Rightarrow>
                    (case parseIncrement op s3 of
                       Inl s' \<Rightarrow> Inl s'
                     | Inr s4 \<Rightarrow> Inr (addBound variable lower upper s4))))))"

text \<open>The subscripts of a scalar: one loop variable per dimension, in the order of the loops.\<close>

fun parseSubscripts :: "nat \<Rightarrow> nat \<Rightarrow> sdl \<Rightarrow> sdl + sdl" where
  "parseSubscripts 0 i s = Inr s"
| "parseSubscripts (Suc n) i s =
     (case getByte s of
        None \<Rightarrow> setError truncated_SDL s
      | Some (op, s1) \<Rightarrow>
          if op \<noteq> isc_sdl_variable then setError ''unsupported SDL scalar subscript'' s1
          else (case getByte s1 of
            None \<Rightarrow> setError truncated_SDL s1
          | Some (variable, s2) \<Rightarrow>
              if variable \<noteq> bvariable (bounds s2 ! i)
              then setError ''SDL scalar/loop variable mismatch'' s2
              else parseSubscripts n (Suc i) s2))"

definition parseScalar :: "sdl \<Rightarrow> sdl + sdl" where
  "parseScalar s =
     (case getByte s of
        None \<Rightarrow> setError truncated_SDL s
      | Some (member, s1) \<Rightarrow>
          if member \<noteq> 0 then setError ''unsupported SDL scalar member'' s1
          else (case getByte s1 of
            None \<Rightarrow> setError truncated_SDL s1
          | Some (count, s2) \<Rightarrow>
              if unat count \<noteq> dimensioncount s2
              then setError ''SDL scalar/loop dimension mismatch'' s2
              else parseSubscripts (unat count) 0 s2))"

definition parseElement :: "sdl \<Rightarrow> sdl + sdl" where
  "parseElement s =
     (case getByte s of
        None \<Rightarrow> setError truncated_SDL s
      | Some (count, s1) \<Rightarrow>
          if count \<noteq> 1 then setError ''unsupported SDL element count'' s1
          else (case getByte s1 of
            None \<Rightarrow> setError truncated_SDL s1
          | Some (op, s2) \<Rightarrow>
              if op \<noteq> isc_sdl_scalar then setError ''unsupported SDL element expression'' s2
              else parseScalar s2))"

section \<open>Every method only moves forward\<close>

named_theorems sdl_forward \<open>what a method leaves of the buffer\<close>

lemma getByte_SomeD: "getByte s = Some (b, s') \<Longrightarrow> rest s = b # rest s' \<and> s' = s\<lparr>rest := rest s'\<rparr>"
  by (auto simp: getByte_def split: list.splits)

lemma getByte_forward [sdl_forward]: "getByte s = Some (b, s') \<Longrightarrow> length (rest s') < length (rest s)"
  by (auto dest: getByte_SomeD)

lemma getWord_forward [sdl_forward]: "getWord s = Some (w, s') \<Longrightarrow> length (rest s') < length (rest s)"
  by (auto simp: getWord_def split: if_splits)

lemma getLong_forward [sdl_forward]: "getLong s = Some (w, s') \<Longrightarrow> length (rest s') < length (rest s)"
  by (auto simp: getLong_def split: if_splits)

lemma setError_Inr [simp]: "setError e s \<noteq> Inr x" "Inr x \<noteq> setError e s"
  by (simp_all add: setError_def)

lemma parseScale_forward [sdl_forward]: "parseScale s = Inr s' \<Longrightarrow> length (rest s') < length (rest s)"
  by (auto simp: parseScale_def split: option.splits dest!: sdl_forward)

lemma parseTextLength_forward [sdl_forward]:
  "parseTextLength s = Inr s' \<Longrightarrow> length (rest s') < length (rest s)"
  by (auto simp: parseTextLength_def Let_def split: option.splits if_splits dest!: sdl_forward)

lemma parseElementDescriptor_forward [sdl_forward]:
  "parseElementDescriptor s = Inr s' \<Longrightarrow> length (rest s') < length (rest s)"
  by (auto simp: parseElementDescriptor_def Let_def split: option.splits if_splits
      dest!: sdl_forward)

lemma parseName_forward [sdl_forward]:
  "parseName f s = Inr s' \<Longrightarrow> length (rest s') < length (rest s)"
  by (auto simp: parseName_def split: option.splits if_splits dest!: getByte_forward)

lemma parseId_forward [sdl_forward]:
  assumes "parseId f s = Inr s'" and "\<And>n t. rest (f n t) = rest t"
  shows "length (rest s') < length (rest s)"
  using assms by (auto simp: parseId_def split: option.splits dest!: sdl_forward)

lemma parseLiteral_forward [sdl_forward]:
  "parseLiteral s = Inr (v, s') \<Longrightarrow> length (rest s') < length (rest s)"
  by (auto simp: parseLiteral_def split: option.splits if_splits dest!: sdl_forward)

lemma parseIncrement_forward [sdl_forward]:
  "parseIncrement op s = Inr s' \<Longrightarrow> length (rest s') \<le> length (rest s)"
  by (auto simp: parseIncrement_def split: sum.splits if_splits dest!: sdl_forward)

lemma parseLoop_forward [sdl_forward]:
  "parseLoop op s = Inr s' \<Longrightarrow> length (rest s') < length (rest s)"
  by (auto simp: parseLoop_def addBound_def split: sum.splits option.splits if_splits
      dest!: sdl_forward)

lemma parseSubscripts_forward [sdl_forward]:
  "parseSubscripts n i s = Inr s' \<Longrightarrow> length (rest s') \<le> length (rest s)"
proof (induction n i s rule: parseSubscripts.induct)
  case (1 i s)
  then show ?case by simp
next
  case (2 n i s)
  then show ?case by (fastforce split: option.splits if_splits dest: getByte_forward)
qed

lemma parseElement_forward [sdl_forward]:
  "parseElement s = Inr s' \<Longrightarrow> length (rest s') < length (rest s)"
  by (auto simp: parseElement_def parseScalar_def split: option.splits if_splits
      dest!: sdl_forward)

section \<open>The clause loop and parse\<close>

text \<open>One clause: the cases of the \<open>switch\<close> in \<open>parse\<close>, end-of-clauses excepted.\<close>

definition clause :: "byte \<Rightarrow> bool \<Rightarrow> bool \<Rightarrow> sdl \<Rightarrow> sdl + (bool \<times> bool \<times> sdl)" where
  "clause op gotstruct gotelement s =
     (let goon = (\<lambda>gs ge r. case r of Inl s' \<Rightarrow> Inl s' | Inr s' \<Rightarrow> Inr (gs, ge, s')) in
      if op = isc_sdl_struct then
        (if gotstruct then setError ''duplicate SDL struct clause'' s
         else goon True gotelement (parseElementDescriptor s))
      else if op = isc_sdl_schema then
        goon gotstruct gotelement (parseName (\<lambda>n t. t\<lparr>schemaname := n\<rparr>) s)
      else if op = isc_sdl_relation then
        goon gotstruct gotelement (parseName (\<lambda>n t. t\<lparr>relationname := n\<rparr>) s)
      else if op = isc_sdl_field then
        goon gotstruct gotelement (parseName (\<lambda>n t. t\<lparr>fieldname := n\<rparr>) s)
      else if op = isc_sdl_rid then
        goon gotstruct gotelement (parseId (\<lambda>n t. t\<lparr>relationid := n, relationidset := True\<rparr>) s)
      else if op = isc_sdl_fid then
        goon gotstruct gotelement (parseId (\<lambda>n t. t\<lparr>fieldid := n, fieldidset := True\<rparr>) s)
      else if op = isc_sdl_do1 \<or> op = isc_sdl_do2 \<or> op = isc_sdl_do3 then
        (if gotelement then setError ''SDL loop after element clause'' s
         else goon gotstruct gotelement (parseLoop op s))
      else if op = isc_sdl_element then
        (if gotelement then setError ''duplicate SDL element clause'' s
         else goon gotstruct True (parseElement s))
      else setError ''unsupported SDL opcode'' s)"

lemma clause_forward [sdl_forward]:
  "clause op gs ge s = Inr (gs', ge', s') \<Longrightarrow> length (rest s') < length (rest s)"
  by (auto simp: clause_def Let_def split: if_splits sum.splits dest!: sdl_forward)

function clauses :: "bool \<Rightarrow> bool \<Rightarrow> sdl \<Rightarrow> sdl + (bool \<times> bool \<times> sdl)" where
  "clauses gotstruct gotelement s =
     (case getByte s of
        None \<Rightarrow> setError truncated_SDL s
      | Some (op, s1) \<Rightarrow>
          if op = isc_sdl_eoc then Inr (gotstruct, gotelement, s1)
          else (case clause op gotstruct gotelement s1 of
            Inl s' \<Rightarrow> Inl s'
          | Inr (gs, ge, s2) \<Rightarrow> clauses gs ge s2))"
  by pat_completeness auto
termination
  by (relation "measure (\<lambda>(gs, ge, s). length (rest s))")
    (auto dest!: getByte_forward clause_forward)

declare clauses.simps [simp del]

text \<open>
  \<open>parse\<close>: \<open>None\<close> is a null buffer; the buffer holds exactly \<open>sdllen\<close> bytes.
\<close>

definition parse :: "sdl \<Rightarrow> bytes option \<Rightarrow> sdl + sdl" where
  "parse s0 sdlbuf =
     (let s = clear_sdl s0 in
      case sdlbuf of
        None \<Rightarrow> setError ''empty SDL'' s
      | Some buf \<Rightarrow>
          if buf = [] then setError ''empty SDL'' s
          else (case getByte (s\<lparr>rest := buf\<rparr>) of
            None \<Rightarrow> setError truncated_SDL (s\<lparr>rest := buf\<rparr>)
          | Some (version, s1) \<Rightarrow>
              if version \<noteq> isc_sdl_version1 then setError ''unsupported SDL version'' s1
              else (case clauses False False s1 of
                Inl s' \<Rightarrow> Inl s'
              | Inr (gotstruct, gotelement, s2) \<Rightarrow>
                  if rest s2 \<noteq> [] then setError ''trailing bytes after SDL'' s2
                  else if \<not> gotstruct then setError ''missing SDL struct clause'' s2
                  else if dimensioncount s2 = 0 then setError ''missing SDL loop clause'' s2
                  else if \<not> gotelement then setError ''missing SDL element clause'' s2
                  else Inr s2)))"

end
