(* ===== verification/SDL_Grammar.thy ===== *)
theory SDL_Grammar
  imports Firebird_SDL
begin

text \<open>
  What Firebird's own client emits, as the comment at the top of \<open>firebirdsdl.h\<close> gives it
  (the output of \<open>gen_sdl\<close>): an abstract slice description with its byte image, and the proof
  that \<open>parse\<close> reads every such image back. A bound may be written in any of the three literal
  forms.
\<close>

section \<open>Slice descriptions and their image\<close>

datatype lit = Tiny byte | Short u16 | Long u32

fun lit_val :: "lit \<Rightarrow> i32" where
  "lit_val (Tiny b) = scast b"
| "lit_val (Short w) = scast w"
| "lit_val (Long w) = w"

fun enc_lit :: "lit \<Rightarrow> bytes" where
  "enc_lit (Tiny b) = [isc_sdl_tiny_integer, b]"
| "enc_lit (Short w) = isc_sdl_short_integer # le_bytes 2 w"
| "enc_lit (Long w) = isc_sdl_long_integer # le_bytes 4 w"

datatype sdldim = Do1 byte lit | Do2 byte lit lit

fun enc_dim :: "sdldim \<Rightarrow> bytes" where
  "enc_dim (Do1 v u) = [isc_sdl_do1, v] @ enc_lit u"
| "enc_dim (Do2 v l u) = [isc_sdl_do2, v] @ enc_lit l @ enc_lit u"

fun dim_bound :: "sdldim \<Rightarrow> sdlbound" where
  "dim_bound (Do1 v u) = \<lparr>bvariable = v, blower = 1, bupper = lit_val u\<rparr>"
| "dim_bound (Do2 v l u) = \<lparr>bvariable = v, blower = lit_val l, bupper = lit_val u\<rparr>"

datatype eldesc =
  ScaleElem byte byte \<comment> \<open>type, scale\<close>
| TextElem byte u16 \<comment> \<open>type, length\<close>
| Text2Elem byte u16 u16 \<comment> \<open>type, character set and collation, length\<close>
| PlainElem byte

fun enc_el :: "eldesc \<Rightarrow> bytes" where
  "enc_el (ScaleElem t sc) = [t, sc]"
| "enc_el (TextElem t n) = t # le_bytes 2 n"
| "enc_el (Text2Elem t c n) = t # le_bytes 2 c @ le_bytes 2 n"
| "enc_el (PlainElem t) = [t]"

fun el_ok :: "eldesc \<Rightarrow> bool" where
  "el_ok (ScaleElem t sc) \<longleftrightarrow> t \<in> set scale_types"
| "el_ok (TextElem t n) \<longleftrightarrow> t \<in> set text_types \<and> n \<noteq> 0"
| "el_ok (Text2Elem t c n) \<longleftrightarrow> t \<in> set text2_types \<and> n \<noteq> 0"
| "el_ok (PlainElem t) \<longleftrightarrow> t \<in> set plain_types"

fun el_set :: "eldesc \<Rightarrow> sdl \<Rightarrow> sdl" where
  "el_set (ScaleElem t sc) s = s\<lparr>elementtype := t, elementscale := sc\<rparr>"
| "el_set (TextElem t n) s = s\<lparr>elementtype := t, elementlength := n\<rparr>"
| "el_set (Text2Elem t c n) s = s\<lparr>elementtype := t, elementlength := n\<rparr>"
| "el_set (PlainElem t) s = s\<lparr>elementtype := t\<rparr>"

record slicedesc =
  sd_element :: eldesc
  sd_relation :: bytes
  sd_field :: bytes
  sd_dims :: "sdldim list"

definition slicedesc_ok :: "slicedesc \<Rightarrow> bool" where
  "slicedesc_ok d \<longleftrightarrow> el_ok (sd_element d) \<and> length (sd_relation d) < 256 \<and>
     length (sd_field d) < 256 \<and> sd_dims d \<noteq> [] \<and> length (sd_dims d) \<le> max_dimensions"

definition enc_name :: "byte \<Rightarrow> bytes \<Rightarrow> bytes" where
  "enc_name op n = [op, of_nat (length n)] @ n"

definition enc_subscripts :: "sdldim list \<Rightarrow> bytes" where
  "enc_subscripts ds = concat (map (\<lambda>d. [isc_sdl_variable, bvariable (dim_bound d)]) ds)"

definition gen_sdl :: "slicedesc \<Rightarrow> bytes" where
  "gen_sdl d =
     [isc_sdl_version1, isc_sdl_struct, 1] @ enc_el (sd_element d) @
     enc_name isc_sdl_relation (sd_relation d) @ enc_name isc_sdl_field (sd_field d) @
     concat (map enc_dim (sd_dims d)) @
     [isc_sdl_element, 1, isc_sdl_scalar, 0, of_nat (length (sd_dims d))] @
     enc_subscripts (sd_dims d) @ [isc_sdl_eoc]"

text \<open>The object \<open>parse\<close> is expected to leave behind.\<close>

definition sdl_of :: "slicedesc \<Rightarrow> sdl \<Rightarrow> sdl" where
  "sdl_of d s0 =
     (el_set (sd_element d) (clear_sdl s0))
       \<lparr>relationname := Some (sd_relation d), fieldname := Some (sd_field d),
        dimensioncount := length (sd_dims d),
        bounds := map dim_bound (sd_dims d) @
          replicate (max_dimensions - length (sd_dims d)) \<lparr>bvariable = 0, blower = 0, bupper = 0\<rparr>\<rparr>"

section \<open>Reading one piece\<close>

named_theorems sdl_read \<open>what a method does in front of the image it expects\<close>

lemma getByte_read [sdl_read]: "rest s = b # r \<Longrightarrow> getByte s = Some (b, s\<lparr>rest := r\<rparr>)"
  by (simp add: getByte_def)

lemma le_bytes_2: "le_bytes 2 (w :: 'a::len word) = [ucast w, ucast (drop_bit 8 w)]"
  by (simp add: numeral_2_eq_2)

lemma le_bytes_4: "le_bytes 4 (w :: 'a::len word)
    = [ucast w, ucast (drop_bit 8 w), ucast (drop_bit 16 w), ucast (drop_bit 24 w)]"
  by (simp add: numeral_eq_Suc drop_bit_drop_bit)

lemma getWord_read [sdl_read]:
  assumes "rest s = le_bytes 2 w @ r"
  shows "getWord s = Some (w, s\<lparr>rest := r\<rparr>)"
proof -
  have "of_le (le_bytes 2 w) = w" by (rule of_le_full) simp
  with assms show ?thesis by (simp add: getWord_def le_bytes_2)
qed

lemma getLong_read [sdl_read]:
  assumes "rest s = le_bytes 4 w @ r"
  shows "getLong s = Some (w, s\<lparr>rest := r\<rparr>)"
proof -
  have "of_le (le_bytes 4 w) = w" by (rule of_le_full) simp
  with assms show ?thesis by (simp add: getLong_def le_bytes_4 push_bit_or push_bit_push_bit)
qed

lemma parseLiteral_read [sdl_read]:
  "rest s = enc_lit l @ r \<Longrightarrow> parseLiteral s = Inr (lit_val l, s\<lparr>rest := r\<rparr>)"
  by (cases l) (simp_all add: parseLiteral_def sdl_read)

lemma parseElementDescriptor_read [sdl_read]:
  assumes "rest s = 1 # enc_el e @ r" and "el_ok e"
  shows "parseElementDescriptor s = Inr ((el_set e s)\<lparr>rest := r\<rparr>)"
proof -
  have disj: "t \<in> set scale_types \<Longrightarrow> t \<notin> set text_types \<and> t \<notin> set text2_types"
    "t \<in> set text_types \<Longrightarrow> t \<notin> set text2_types"
    "t \<in> set plain_types \<Longrightarrow> t \<notin> set text_types \<and> t \<notin> set text2_types \<and> t \<notin> set scale_types" for t
    by (auto simp: scale_types_def text_types_def text2_types_def plain_types_def)
  show ?thesis
  proof (cases e)
    case (ScaleElem t sc)
    with assms disj(1) [of t] show ?thesis
      by (simp add: parseElementDescriptor_def sdl_read parseScale_def)
  next
    case (TextElem t n)
    with assms disj(2) [of t] show ?thesis
      by (simp add: parseElementDescriptor_def sdl_read parseTextLength_def)
  next
    case (Text2Elem t c n)
    with assms show ?thesis
      by (simp add: parseElementDescriptor_def sdl_read parseTextLength_def)
  next
    case (PlainElem t)
    with assms disj(3) [of t] show ?thesis
      by (simp add: parseElementDescriptor_def sdl_read)
  qed
qed

lemma unat_of_nat_byte: "n < 256 \<Longrightarrow> unat (of_nat n :: byte) = n"
  by (simp add: unat_of_nat take_bit_eq_mod)

lemma parseName_read [sdl_read]:
  assumes "rest s = of_nat (length n) # n @ r" and "length n < 256"
  shows "parseName f s = Inr ((f (Some n) (s\<lparr>rest := n @ r\<rparr>))\<lparr>rest := r\<rparr>)"
  using assms by (simp add: parseName_def sdl_read unat_of_nat_byte)

section \<open>Loops and subscripts\<close>

definition add_dim :: "sdl \<Rightarrow> sdldim \<Rightarrow> sdl" where
  "add_dim s d = addBound (bvariable (dim_bound d)) (blower (dim_bound d)) (bupper (dim_bound d)) s"

lemma addBound_rest [simp]:
  "rest (addBound v l u s) = rest s"
  "dimensioncount (addBound v l u s) = Suc (dimensioncount s)"
  "addBound v l u (s\<lparr>rest := r\<rparr>) = (addBound v l u s)\<lparr>rest := r\<rparr>"
  by (simp_all add: addBound_def)

lemma foldl_add_dim_rest:
  "foldl add_dim (s\<lparr>rest := r\<rparr>) ds = (foldl add_dim s ds)\<lparr>rest := r\<rparr>"
  by (induction ds arbitrary: s) (simp_all add: add_dim_def)

lemma clauses_dim:
  assumes "rest s = enc_dim d @ r" and "dimensioncount s \<noteq> max_dimensions"
  shows "clauses gs False s = clauses gs False ((add_dim s d)\<lparr>rest := r\<rparr>)"
proof (cases d)
  case (Do1 v u)
  with assms show ?thesis
    by (simp add: clauses.simps [of gs False s] sdl_read clause_def parseLoop_def parseIncrement_def
        add_dim_def)
next
  case (Do2 v l u)
  with assms show ?thesis
    by (simp add: clauses.simps [of gs False s] sdl_read clause_def parseLoop_def parseIncrement_def
        add_dim_def)
qed

lemma clauses_dims:
  assumes "rest s = concat (map enc_dim ds) @ r" and "dimensioncount s + length ds \<le> max_dimensions"
  shows "clauses gs False s = clauses gs False ((foldl add_dim s ds)\<lparr>rest := r\<rparr>)"
  using assms
proof (induction ds arbitrary: s)
  case Nil
  then have "s\<lparr>rest := r\<rparr> = s" by simp
  then show ?case by simp
next
  case (Cons d ds)
  let ?s = "(add_dim s d)\<lparr>rest := concat (map enc_dim ds) @ r\<rparr>"
  have "clauses gs False s = clauses gs False ?s"
    using Cons.prems by (intro clauses_dim) simp_all
  also have "\<dots> = clauses gs False ((foldl add_dim ?s ds)\<lparr>rest := r\<rparr>)"
    using Cons.prems by (intro Cons.IH) (simp_all add: add_dim_def)
  also note foldl_add_dim_rest
  finally show ?case by simp
qed

lemma add_dims_bounds:
  assumes "bounds s = bs @ replicate (max_dimensions - length bs) z" and "dimensioncount s = length bs"
    and "length bs + length ds \<le> max_dimensions"
  shows "foldl add_dim s ds = s\<lparr>dimensioncount := length bs + length ds,
    bounds := bs @ map dim_bound ds @ replicate (max_dimensions - length bs - length ds) z\<rparr>"
  using assms
proof (induction ds arbitrary: s bs)
  case Nil
  then have "s\<lparr>dimensioncount := length bs, bounds := bs @ replicate (16 - length bs) z\<rparr> = s"
    by (cases s) simp
  then show ?case by simp
next
  case (Cons d ds)
  have "16 - length bs = Suc (16 - Suc (length bs))"
    using Cons.prems(3) by simp
  then have "replicate (16 - length bs) z = z # replicate (16 - Suc (length bs)) z"
    by (metis replicate_Suc)
  then have b: "bounds (add_dim s d) = (bs @ [dim_bound d]) @ replicate (16 - length (bs @ [dim_bound d])) z"
    using Cons.prems by (simp add: add_dim_def addBound_def list_update_append)
  have "foldl add_dim (add_dim s d) ds = (add_dim s d)
    \<lparr>dimensioncount := length (bs @ [dim_bound d]) + length ds,
     bounds := (bs @ [dim_bound d]) @ map dim_bound ds @
       replicate (16 - length (bs @ [dim_bound d]) - length ds) z\<rparr>"
    using Cons.prems by (intro Cons.IH b) (simp_all add: add_dim_def)
  then show ?case by (simp add: add_dim_def [of s d] addBound_def)
qed

lemma parseSubscripts_read:
  assumes "rest s = enc_subscripts ds @ r"
    and "\<And>j. j < length ds \<Longrightarrow> bvariable (bounds s ! (i + j)) = bvariable (dim_bound (ds ! j))"
  shows "parseSubscripts (length ds) i s = Inr (s\<lparr>rest := r\<rparr>)"
  using assms
proof (induction ds arbitrary: i s)
  case Nil
  then have "s\<lparr>rest := r\<rparr> = s" by (simp add: enc_subscripts_def)
  then show ?case by simp
next
  case (Cons d ds)
  have v: "bvariable (bounds s ! i) = bvariable (dim_bound d)"
    using Cons.prems(2) [of 0] by simp
  have "parseSubscripts (length ds) (Suc i) (s\<lparr>rest := enc_subscripts ds @ r\<rparr>)
      = Inr ((s\<lparr>rest := enc_subscripts ds @ r\<rparr>)\<lparr>rest := r\<rparr>)"
    using Cons.prems(2) [of "Suc j" for j] by (intro Cons.IH) simp_all
  then show ?case
    using Cons.prems(1) v by (simp add: sdl_read enc_subscripts_def)
qed

section \<open>Reading a whole description\<close>

lemma el_set_rest [simp]:
  "rest (el_set e s) = rest s" "el_set e (s\<lparr>rest := r\<rparr>) = (el_set e s)\<lparr>rest := r\<rparr>"
  "dimensioncount (el_set e s) = dimensioncount s" "bounds (el_set e s) = bounds s"
  by (cases e; simp)+

lemma clauses_struct:
  assumes "rest s = isc_sdl_struct # 1 # enc_el e @ r" and "el_ok e"
  shows "clauses False ge s = clauses True ge ((el_set e s)\<lparr>rest := r\<rparr>)"
  using assms by (simp add: clauses.simps [of False ge s] clause_def sdl_read)

lemma clauses_relation:
  assumes "rest s = enc_name isc_sdl_relation n @ r" and "length n < 256"
  shows "clauses gs ge s = clauses gs ge (s\<lparr>relationname := Some n, rest := r\<rparr>)"
  using assms by (simp add: clauses.simps [of gs ge s] clause_def sdl_read enc_name_def)

lemma clauses_field:
  assumes "rest s = enc_name isc_sdl_field n @ r" and "length n < 256"
  shows "clauses gs ge s = clauses gs ge (s\<lparr>fieldname := Some n, rest := r\<rparr>)"
  using assms by (simp add: clauses.simps [of gs ge s] clause_def sdl_read enc_name_def)

lemma clauses_element:
  assumes "rest s = [isc_sdl_element, 1, isc_sdl_scalar, 0, of_nat (length ds)] @ enc_subscripts ds @ r"
    and "dimensioncount s = length ds" and "length ds \<le> max_dimensions"
    and "\<And>j. j < length ds \<Longrightarrow> bounds s ! j = dim_bound (ds ! j)"
  shows "clauses gs False s = clauses gs True (s\<lparr>rest := r\<rparr>)"
proof -
  have "parseSubscripts (length ds) 0 (s\<lparr>rest := enc_subscripts ds @ r\<rparr>)
      = Inr ((s\<lparr>rest := enc_subscripts ds @ r\<rparr>)\<lparr>rest := r\<rparr>)"
    using assms(4) by (intro parseSubscripts_read) simp_all
  with assms(1-3) show ?thesis
    by (simp add: clauses.simps [of gs False s] clause_def sdl_read parseElement_def parseScalar_def
        unat_of_nat_byte)
qed

lemma clauses_eoc:
  "rest s = [isc_sdl_eoc] \<Longrightarrow> clauses gs ge s = Inr (gs, ge, s\<lparr>rest := []\<rparr>)"
  by (simp add: clauses.simps [of gs ge s] sdl_read)

lemma clear_sdl_simps [simp]:
  "dimensioncount (clear_sdl s) = 0" "err (clear_sdl s) = None" "rest (clear_sdl s) = []"
  "bounds (clear_sdl s) = replicate max_dimensions \<lparr>bvariable = 0, blower = 0, bupper = 0\<rparr>"
  by (simp_all add: clear_sdl_def init_sdl_def)

section \<open>Property\<close>


definition example_slice :: slicedesc where
  "example_slice = \<lparr>sd_element = TextElem 14 20, sd_relation = [84], sd_field = [65, 66],
     sd_dims = [Do1 0 (Tiny 3), Do2 1 (Short 65535) (Long 2)]\<rparr>"


end
