(* ===== verification/SDL_Slices.thy ===== *)
theory SDL_Slices
  imports Firebird_SDL
begin

text \<open>
  Facts about every buffer \<open>parse\<close> accepts (bounds of the state, determinism under extension
  of the buffer), the accessors of the object, and its row-major index arithmetic
  (\<open>getElementCount\<close>, \<open>getSubscripts\<close>, \<open>getArrayIndex\<close>) with the proof that the
  last two are inverse to each other.
\<close>

section \<open>The state an accepted buffer leaves\<close>

definition sdl_wf :: "sdl \<Rightarrow> bool" where
  "sdl_wf s \<longleftrightarrow> length (bounds s) = max_dimensions \<and> dimensioncount s \<le> max_dimensions \<and> err s = None"

named_theorems sdl_keeps \<open>methods keep the state well formed\<close>

lemma sdl_wf_rest [simp]: "sdl_wf (s\<lparr>rest := r\<rparr>) = sdl_wf s"
  by (simp add: sdl_wf_def)

lemma getByte_wf [sdl_keeps]: "getByte s = Some (b, s') \<Longrightarrow> sdl_wf s \<Longrightarrow> sdl_wf s'"
  by (auto simp: getByte_def split: list.splits)

lemma getWord_wf [sdl_keeps]: "getWord s = Some (b, s') \<Longrightarrow> sdl_wf s \<Longrightarrow> sdl_wf s'"
  by (auto simp: getWord_def split: if_splits)

lemma getLong_wf [sdl_keeps]: "getLong s = Some (b, s') \<Longrightarrow> sdl_wf s \<Longrightarrow> sdl_wf s'"
  by (auto simp: getLong_def split: if_splits)

lemma sdl_wf_upd [simp]:
  "sdl_wf (s\<lparr>elementtype := t\<rparr>) = sdl_wf s" "sdl_wf (s\<lparr>elementlength := n\<rparr>) = sdl_wf s"
  "sdl_wf (s\<lparr>elementscale := sc\<rparr>) = sdl_wf s" "sdl_wf (s\<lparr>schemaname := m\<rparr>) = sdl_wf s"
  "sdl_wf (s\<lparr>relationname := m\<rparr>) = sdl_wf s" "sdl_wf (s\<lparr>fieldname := m\<rparr>) = sdl_wf s"
  "sdl_wf (s\<lparr>relationid := i, relationidset := b\<rparr>) = sdl_wf s"
  "sdl_wf (s\<lparr>fieldid := i, fieldidset := b\<rparr>) = sdl_wf s"
  by (simp_all add: sdl_wf_def)

lemma parseElementDescriptor_wf [sdl_keeps]:
  "parseElementDescriptor s = Inr s' \<Longrightarrow> sdl_wf s \<Longrightarrow> sdl_wf s'"
  by (auto simp: parseElementDescriptor_def parseScale_def parseTextLength_def Let_def
      split: option.splits if_splits dest!: sdl_keeps)

lemma parseName_wf [sdl_keeps]:
  "parseName f s = Inr s' \<Longrightarrow> sdl_wf s \<Longrightarrow> (\<And>n t. sdl_wf (f n t) = sdl_wf t) \<Longrightarrow> sdl_wf s'"
  by (auto simp: parseName_def split: option.splits if_splits dest!: sdl_keeps)

lemma parseId_wf [sdl_keeps]:
  "parseId f s = Inr s' \<Longrightarrow> sdl_wf s \<Longrightarrow> (\<And>n t. sdl_wf (f n t) = sdl_wf t) \<Longrightarrow> sdl_wf s'"
  by (auto simp: parseId_def split: option.splits if_splits dest!: sdl_keeps)

lemma parseLiteral_wf [sdl_keeps]: "parseLiteral s = Inr (v, s') \<Longrightarrow> sdl_wf s \<Longrightarrow> sdl_wf s'"
  by (auto simp: parseLiteral_def split: option.splits if_splits dest!: sdl_keeps)

text \<open>The pure readers change nothing but the position.\<close>

definition moved :: "sdl \<Rightarrow> sdl \<Rightarrow> bool" where
  "moved s s' \<longleftrightarrow> s'\<lparr>rest := rest s\<rparr> = s"

named_theorems sdl_moves \<open>readers change only the position\<close>

lemma moved_refl [simp]: "moved s s"
  by (simp add: moved_def)

lemma moved_trans: "moved s t \<Longrightarrow> moved t u \<Longrightarrow> moved s u"
  by (cases s; cases t; cases u) (simp add: moved_def)

lemma moved_keeps:
  "moved s s' \<Longrightarrow> dimensioncount s' = dimensioncount s \<and> bounds s' = bounds s \<and> err s' = err s"
  by (cases s; cases s') (simp add: moved_def)

lemma getByte_moves [sdl_moves]: "getByte s = Some (b, s') \<Longrightarrow> moved s s'"
  by (auto simp: getByte_def moved_def split: list.splits)

lemma getWord_moves [sdl_moves]: "getWord s = Some (w, s') \<Longrightarrow> moved s s'"
  by (auto simp: getWord_def moved_def split: if_splits)

lemma getLong_moves [sdl_moves]: "getLong s = Some (l, s') \<Longrightarrow> moved s s'"
  by (auto simp: getLong_def moved_def split: if_splits)

lemma parseLiteral_moves [sdl_moves]: "parseLiteral s = Inr (v, s') \<Longrightarrow> moved s s'"
  by (auto simp: parseLiteral_def split: option.splits if_splits
      dest!: sdl_moves intro: moved_trans)

lemma parseIncrement_moves [sdl_moves]: "parseIncrement op s = Inr s' \<Longrightarrow> moved s s'"
  by (auto simp: parseIncrement_def split: sum.splits if_splits dest!: sdl_moves)

lemma parseLoop_addBound:
  assumes "parseLoop op s = Inr s'"
  shows "dimensioncount s \<noteq> max_dimensions \<and> (\<exists>v l u t. s' = addBound v l u t \<and> moved s t)"
proof -
  from assms obtain v s1 l s2 u s3 s4 where
    steps: "getByte s = Some (v, s1)" "(if op \<noteq> isc_sdl_do1 then parseLiteral s1 else Inr (1, s1)) = Inr (l, s2)"
      "parseLiteral s2 = Inr (u, s3)" "parseIncrement op s3 = Inr s4"
    and s': "s' = addBound v l u s4" "dimensioncount s \<noteq> max_dimensions"
    unfolding parseLoop_def by (force split: option.splits sum.splits if_split_asm prod.splits)
  have "moved s1 s2"
    using steps(2) by (auto split: if_splits dest: sdl_moves)
  with steps have "moved s s4"
    by (blast intro: moved_trans dest: sdl_moves)
  with s' show ?thesis by blast
qed

lemma parseLoop_wf [sdl_keeps]: "parseLoop op s = Inr s' \<Longrightarrow> sdl_wf s \<Longrightarrow> sdl_wf s'"
  by (auto dest!: parseLoop_addBound moved_keeps simp: sdl_wf_def addBound_def)

lemma parseSubscripts_wf [sdl_keeps]:
  "parseSubscripts n i s = Inr s' \<Longrightarrow> sdl_wf s \<Longrightarrow> sdl_wf s'"
proof (induction n i s rule: parseSubscripts.induct)
  case (1 i s)
  then show ?case by simp
next
  case (2 n i s)
  then show ?case by (fastforce split: option.splits if_splits dest: getByte_wf)
qed

lemma parseElement_wf [sdl_keeps]: "parseElement s = Inr s' \<Longrightarrow> sdl_wf s \<Longrightarrow> sdl_wf s'"
  by (auto simp: parseElement_def parseScalar_def split: option.splits if_splits
      dest!: sdl_keeps)

lemma clause_wf [sdl_keeps]: "clause op gs ge s = Inr (gs', ge', s') \<Longrightarrow> sdl_wf s \<Longrightarrow> sdl_wf s'"
  by (auto simp: clause_def Let_def split: if_splits sum.splits
      dest: sdl_keeps intro: parseName_wf parseId_wf)

lemma clauses_wf [sdl_keeps]:
  "clauses gs ge s = Inr (gs', ge', s') \<Longrightarrow> sdl_wf s \<Longrightarrow> sdl_wf s'"
proof (induction gs ge s rule: clauses.induct)
  case (1 gs ge s)
  show ?case
  proof (cases "getByte s")
    case None
    with "1.prems" show ?thesis by (simp add: clauses.simps [of gs ge s])
  next
    case (Some p)
    then obtain op s1 where b: "getByte s = Some (op, s1)" by (cases p) auto
    show ?thesis
    proof (cases "op = isc_sdl_eoc")
      case True
      with b "1.prems" show ?thesis
        by (auto simp: clauses.simps [of gs ge s] dest: getByte_wf)
    next
      case False
      with b "1.prems"(1) obtain gs1 ge1 s2 where c: "clause op gs ge s1 = Inr (gs1, ge1, s2)"
        and cs: "clauses gs1 ge1 s2 = Inr (gs', ge', s')"
        by (auto simp: clauses.simps [of gs ge s] split: sum.splits)
      show ?thesis
        using "1.IH" [OF b refl False c refl refl cs] clause_wf [OF c getByte_wf [OF b "1.prems"(2)]] .
    qed
  qed
qed

lemma parse_wf:
  assumes "parse s0 buf = Inr s"
  shows "sdl_wf s \<and> 1 \<le> dimensioncount s \<and> rest s = []"
proof -
  have init: "sdl_wf (clear_sdl s0)"
    by (simp add: sdl_wf_def clear_sdl_def init_sdl_def)
  with assms show ?thesis
    by (auto simp: parse_def Let_def split: option.splits if_splits sum.splits
        dest!: clauses_wf getByte_wf)
qed

section \<open>More bytes after an accepted prefix\<close>

text \<open>
  \<open>ext x s\<close> is the object with \<open>x\<close> appended to its buffer. Whatever succeeds on the
  shorter buffer does the same on the longer one and leaves the extra bytes; so no buffer that
  \<open>parse\<close> accepts is a proper prefix of another one it accepts.
\<close>

definition ext :: "bytes \<Rightarrow> sdl \<Rightarrow> sdl" where
  "ext x s = s\<lparr>rest := rest s @ x\<rparr>"

lemma ext_simps [simp]:
  "rest (ext x s) = rest s @ x" "bounds (ext x s) = bounds s"
  "dimensioncount (ext x s) = dimensioncount s"
  "(ext x s)\<lparr>elementtype := t\<rparr> = ext x (s\<lparr>elementtype := t\<rparr>)"
  "(ext x s)\<lparr>elementlength := n\<rparr> = ext x (s\<lparr>elementlength := n\<rparr>)"
  "(ext x s)\<lparr>elementscale := sc\<rparr> = ext x (s\<lparr>elementscale := sc\<rparr>)"
  "(ext x s)\<lparr>schemaname := m\<rparr> = ext x (s\<lparr>schemaname := m\<rparr>)"
  "(ext x s)\<lparr>relationname := m\<rparr> = ext x (s\<lparr>relationname := m\<rparr>)"
  "(ext x s)\<lparr>fieldname := m\<rparr> = ext x (s\<lparr>fieldname := m\<rparr>)"
  "(ext x s)\<lparr>relationid := i, relationidset := b\<rparr> = ext x (s\<lparr>relationid := i, relationidset := b\<rparr>)"
  "(ext x s)\<lparr>fieldid := i, fieldidset := b\<rparr> = ext x (s\<lparr>fieldid := i, fieldidset := b\<rparr>)"
  "addBound v l u (ext x s) = ext x (addBound v l u s)"
  by (simp_all add: ext_def addBound_def)

named_theorems sdl_ext \<open>success on a buffer is success on a longer one\<close>

lemma getByte_ext [sdl_ext]: "getByte s = Some (b, s') \<Longrightarrow> getByte (ext x s) = Some (b, ext x s')"
  by (auto simp: getByte_def ext_def split: list.splits)

lemma getWord_ext [sdl_ext]: "getWord s = Some (w, s') \<Longrightarrow> getWord (ext x s) = Some (w, ext x s')"
  by (auto simp: getWord_def ext_def nth_append split: if_splits)

lemma getLong_ext [sdl_ext]: "getLong s = Some (w, s') \<Longrightarrow> getLong (ext x s) = Some (w, ext x s')"
  by (auto simp: getLong_def ext_def nth_append split: if_splits)

lemma parseElementDescriptor_ext [sdl_ext]:
  "parseElementDescriptor s = Inr s' \<Longrightarrow> parseElementDescriptor (ext x s) = Inr (ext x s')"
  by (auto simp: parseElementDescriptor_def parseScale_def parseTextLength_def Let_def
      sdl_ext split: option.split_asm if_split_asm)

lemma parseName_ext [sdl_ext]:
  assumes "parseName f s = Inr s'" and "\<And>n t r. f n (t\<lparr>rest := r\<rparr>) = (f n t)\<lparr>rest := r\<rparr>"
  shows "parseName f (ext x s) = Inr (ext x s')"
proof -
  from assms(1) obtain len s1 where g: "getByte s = Some (len, s1)"
    and n: "unat len \<le> length (rest s1)"
    and s': "s' = (f (Some (take (unat len) (rest s1))) s1)\<lparr>rest := drop (unat len) (rest s1)\<rparr>"
    by (auto simp: parseName_def split: option.splits if_splits)
  have "f m (ext x s1) = (f m s1)\<lparr>rest := rest s1 @ x\<rparr>" for m
    by (simp add: ext_def assms(2))
  with n s' getByte_ext [OF g, of x] show ?thesis
    by (simp add: parseName_def ext_def)
qed

lemma parseId_ext [sdl_ext]:
  assumes "parseId f s = Inr s'" and "\<And>n t. f n (ext x t) = ext x (f n t)"
  shows "parseId f (ext x s) = Inr (ext x s')"
  using assms by (auto simp: parseId_def sdl_ext split: option.split_asm)

lemma parseLiteral_ext [sdl_ext]:
  "parseLiteral s = Inr (v, s') \<Longrightarrow> parseLiteral (ext x s) = Inr (v, ext x s')"
  by (auto simp: parseLiteral_def sdl_ext split: option.split_asm if_split_asm)

lemma parseIncrement_ext [sdl_ext]:
  "parseIncrement op s = Inr s' \<Longrightarrow> parseIncrement op (ext x s) = Inr (ext x s')"
  by (auto simp: parseIncrement_def sdl_ext split: sum.split_asm if_split_asm)

lemma parseLoop_ext [sdl_ext]:
  "parseLoop op s = Inr s' \<Longrightarrow> parseLoop op (ext x s) = Inr (ext x s')"
  by (auto simp: parseLoop_def sdl_ext split: option.split_asm sum.split_asm if_split_asm)

lemma parseSubscripts_ext [sdl_ext]:
  "parseSubscripts n i s = Inr s' \<Longrightarrow> parseSubscripts n i (ext x s) = Inr (ext x s')"
proof (induction n i s rule: parseSubscripts.induct)
  case (1 i s)
  then show ?case by simp
next
  case (2 n i s)
  then show ?case
    by (auto simp: sdl_ext split: option.split_asm if_split_asm)
qed

lemma parseElement_ext [sdl_ext]:
  "parseElement s = Inr s' \<Longrightarrow> parseElement (ext x s) = Inr (ext x s')"
  by (auto simp: parseElement_def parseScalar_def sdl_ext split: option.split_asm if_split_asm)

lemma clause_ext [sdl_ext]:
  "clause op gs ge s = Inr (gs', ge', s') \<Longrightarrow> clause op gs ge (ext x s) = Inr (gs', ge', ext x s')"
  by (auto simp: clause_def Let_def sdl_ext split: if_split_asm sum.split_asm)

lemma clauses_ext [sdl_ext]:
  "clauses gs ge s = Inr (gs', ge', s') \<Longrightarrow> clauses gs ge (ext x s) = Inr (gs', ge', ext x s')"
proof (induction gs ge s rule: clauses.induct)
  case (1 gs ge s)
  from "1.prems" obtain op s1 where b: "getByte s = Some (op, s1)"
    by (cases "getByte s") (auto simp: clauses.simps [of gs ge s])
  show ?case
  proof (cases "op = isc_sdl_eoc")
    case True
    with b "1.prems" have "gs = gs'" "ge = ge'" "s1 = s'"
      by (simp_all add: clauses.simps [of gs ge s])
    with True getByte_ext [OF b, of x] show ?thesis
      by (simp add: clauses.simps [of _ _ "ext x s"])
  next
    case False
    with b "1.prems" obtain gs1 ge1 s2 where c: "clause op gs ge s1 = Inr (gs1, ge1, s2)"
      and cs: "clauses gs1 ge1 s2 = Inr (gs', ge', s')"
      by (auto simp: clauses.simps [of gs ge s] split: sum.splits)
    from "1.IH" [OF b refl False c refl refl cs] False getByte_ext [OF b, of x] clause_ext [OF c, of x]
    show ?thesis
      by (simp add: clauses.simps [of gs ge "ext x s"])
  qed
qed

lemma parse_extended:
  assumes "parse s0 (Some buf) = Inr s" and "x \<noteq> []"
  shows "\<exists>s'. parse s0 (Some (buf @ x)) = Inl s' \<and> err s' = Some ''trailing bytes after SDL''"
proof -
  let ?s = "(clear_sdl s0)\<lparr>rest := buf\<rparr>"
  from assms(1) have nonempty: "buf \<noteq> []"
    by (auto simp: parse_def)
  from assms(1) obtain s1 gs ge s2 where g: "getByte ?s = Some (isc_sdl_version1, s1)"
    and c: "clauses False False s1 = Inr (gs, ge, s2)" and r: "rest s2 = []"
    by (auto simp: parse_def Let_def split: option.splits if_splits sum.splits)
  have e: "(clear_sdl s0)\<lparr>rest := buf @ x\<rparr> = ext x ?s"
    by (simp add: ext_def)
  from nonempty r assms(2) getByte_ext [OF g, of x] clauses_ext [OF c, of x] show ?thesis
    by (simp add: parse_def Let_def e setError_def)
qed

section \<open>Accessors\<close>

definition getBound :: "sdl \<Rightarrow> u16 \<Rightarrow> sdlbound option" where
  "getBound s dim = (if dimensioncount s \<le> unat dim then None else Some (bounds s ! unat dim))"

definition getLowerBound :: "sdl \<Rightarrow> u16 \<Rightarrow> i32" where
  "getLowerBound s dim = (if dimensioncount s \<le> unat dim then 0 else blower (bounds s ! unat dim))"

definition getUpperBound :: "sdl \<Rightarrow> u16 \<Rightarrow> i32" where
  "getUpperBound s dim = (if dimensioncount s \<le> unat dim then 0 else bupper (bounds s ! unat dim))"

text \<open>
  The width of one dimension as the code computes it: a 32-bit subtraction, converted to
  \<open>uint64_t\<close> with its sign, plus one. The subtraction wraps where C++ leaves it undefined.
\<close>

definition dimcount :: "i32 \<Rightarrow> i32 \<Rightarrow> u64" where
  "dimcount lower upper = scast (upper - lower) + 1"

fun elementCountLoop :: "sdlbound list \<Rightarrow> u64 \<Rightarrow> u64" where
  "elementCountLoop [] count = count"
| "elementCountLoop (b # bs) count =
     (if bupper b <s blower b then 0
      else let n = dimcount (blower b) (bupper b) in
        if n \<noteq> 0 \<and> (-1) div n < count then 0 else elementCountLoop bs (count * n))"

definition getElementCount :: "sdl \<Rightarrow> u64" where
  "getElementCount s =
     (if dimensioncount s = 0 then 0
      else elementCountLoop (take (dimensioncount s) (bounds s)) 1)"

text \<open>The loop of \<open>getSubscripts\<close> runs the dimensions from the last to the first.\<close>

fun subscriptsLoop :: "sdl \<Rightarrow> nat \<Rightarrow> u64 \<Rightarrow> i32 list \<Rightarrow> i32 list" where
  "subscriptsLoop s 0 remainder subscripts = subscripts"
| "subscriptsLoop s (Suc i) remainder subscripts =
     (let b = bounds s ! i; n = dimcount (blower b) (bupper b) in
      subscriptsLoop s i (remainder div n)
        (subscripts[i := blower b + ucast (remainder mod n)]))"

definition getSubscripts :: "sdl \<Rightarrow> u64 \<Rightarrow> i32 list option \<Rightarrow> i32 list option" where
  "getSubscripts s index subscripts =
     (case subscripts of
        None \<Rightarrow> None
      | Some buf \<Rightarrow>
          if getElementCount s \<le> index then None
          else Some (subscriptsLoop s (dimensioncount s) index buf))"

fun arrayIndexLoop :: "nat \<Rightarrow> nat \<Rightarrow> i32 list \<Rightarrow> i32 list \<Rightarrow> i32 list \<Rightarrow> u64 \<Rightarrow> u64 option" where
  "arrayIndexLoop 0 i subscripts arraylower arrayupper result = Some result"
| "arrayIndexLoop (Suc n) i subscripts arraylower arrayupper result =
     (if arrayupper ! i <s arraylower ! i \<or> subscripts ! i <s arraylower ! i \<or>
         arrayupper ! i <s subscripts ! i then None
      else arrayIndexLoop n (Suc i) subscripts arraylower arrayupper
             (result * dimcount (arraylower ! i) (arrayupper ! i) +
              scast (subscripts ! i - arraylower ! i)))"

text \<open>The pointers may be null (\<open>None\<close>); \<open>index\<close> is the result.\<close>

definition getArrayIndex ::
  "sdl \<Rightarrow> i32 list option \<Rightarrow> i32 list option \<Rightarrow> i32 list option \<Rightarrow> u64 option" where
  "getArrayIndex s subscripts arraylower arrayupper =
     (case (subscripts, arraylower, arrayupper) of
        (Some sub, Some lo, Some up) \<Rightarrow>
          if dimensioncount s = 0 then None
          else arrayIndexLoop (dimensioncount s) 0 sub lo up 0
      | _ \<Rightarrow> None)"

section \<open>Row-major order\<close>

text \<open>
  The specification the index arithmetic is measured against: an index is a number whose digits
  are the (zero-based) subscripts, in the mixed radix of the dimension widths, the last dimension
  being the least significant.
\<close>

fun horner :: "nat \<Rightarrow> (nat \<times> nat) list \<Rightarrow> nat" where
  "horner a [] = a"
| "horner a ((w, d) # xs) = horner (a * w + d) xs"

definition rank :: "nat list \<Rightarrow> nat list \<Rightarrow> nat" where
  "rank ws ds = horner 0 (zip ws ds)"

fun unrank_rev :: "nat list \<Rightarrow> nat \<Rightarrow> nat list" where
  "unrank_rev [] r = []"
| "unrank_rev (w # ws) r = (r mod w) # unrank_rev ws (r div w)"

definition unrank :: "nat list \<Rightarrow> nat \<Rightarrow> nat list" where
  "unrank ws r = rev (unrank_rev (rev ws) r)"

lemma horner_append: "horner a (xs @ [(w, d)]) = horner a xs * w + d"
  by (induction a xs rule: horner.induct) simp_all

lemma unrank_snoc [simp]: "unrank (ws @ [w]) r = unrank ws (r div w) @ [r mod w]"
  by (simp add: unrank_def)

lemma unrank_Nil [simp]: "unrank [] r = []"
  by (simp add: unrank_def)

lemma length_unrank [simp]: "length (unrank ws r) = length ws"
  by (induction ws arbitrary: r rule: rev_induct) simp_all

lemma rank_snoc: "length ws = length ds \<Longrightarrow> rank (ws @ [w]) (ds @ [d]) = rank ws ds * w + d"
  by (simp add: rank_def horner_append)

lemma rank_unrank: "r < prod_list ws \<Longrightarrow> rank ws (unrank ws r) = r"
proof (induction ws arbitrary: r rule: rev_induct)
  case Nil
  then show ?case by (simp add: rank_def)
next
  case (snoc w ws)
  then have "r div w < prod_list ws"
    by (simp add: less_mult_imp_div_less)
  with snoc show ?case by (simp add: rank_snoc)
qed

lemma unrank_less: "\<forall>w\<in>set ws. 0 < w \<Longrightarrow> list_all2 (\<lambda>d w. d < w) (unrank ws r) ws"
  by (induction ws arbitrary: r rule: rev_induct) (simp_all add: list_all2_appendI)

lemma rank_less:
  "list_all2 (\<lambda>d w. d < w) ds ws \<Longrightarrow> rank ws ds < prod_list ws"
proof (induction ws arbitrary: ds rule: rev_induct)
  case Nil
  then show ?case by (simp add: rank_def)
next
  case (snoc w ws)
  then obtain ds' d where ds: "ds = ds' @ [d]" "list_all2 (\<lambda>d w. d < w) ds' ws" "d < w"
    by (auto simp: list_all2_append2 list_all2_Cons2)
  then have "rank ws ds' < prod_list ws" by (intro snoc.IH)
  then have "rank ws ds' * w + d < prod_list ws * w"
    using ds(3) by (metis add.commute less_eq_Suc_le mult.commute mult_Suc mult_le_mono1
        add_less_mono1 order_less_le_trans)
  with ds list_all2_lengthD [OF ds(2)] show ?case by (simp add: rank_snoc)
qed

lemma unrank_rank:
  "list_all2 (\<lambda>d w. d < w) ds ws \<Longrightarrow> unrank ws (rank ws ds) = ds"
proof (induction ws arbitrary: ds rule: rev_induct)
  case Nil
  then show ?case by simp
next
  case (snoc w ws)
  then obtain ds' d where ds: "ds = ds' @ [d]" "list_all2 (\<lambda>d w. d < w) ds' ws" "d < w"
    by (auto simp: list_all2_append2 list_all2_Cons2)
  with snoc.IH list_all2_lengthD [OF ds(2)] show ?case
    by (simp add: rank_snoc)
qed

section \<open>The code computes row-major order\<close>

text \<open>
  A dimension is \<open>plain\<close> when its bounds are in order and their difference fits an
  \<open>int32_t\<close>, so that the subtraction in the code does not overflow.
\<close>

definition plain :: "i32 \<Rightarrow> i32 \<Rightarrow> bool" where
  "plain lower upper \<longleftrightarrow> sint lower \<le> sint upper \<and> sint upper - sint lower < 2 ^ 31"

definition width :: "i32 \<Rightarrow> i32 \<Rightarrow> nat" where
  "width lower upper = nat (sint upper - sint lower + 1)"

lemma sint_diff:
  "sint (l :: i32) \<le> sint u \<Longrightarrow> sint u - sint l < 2 ^ 31 \<Longrightarrow> sint (u - l) = sint u - sint l"
  by (simp add: sint_word_diff signed_take_bit_int_eq_self)

lemma unat_scast_nonneg: "0 \<le> sint (w :: i32) \<Longrightarrow> unat (scast w :: u64) = nat (sint w)"
proof -
  assume "0 \<le> sint w"
  moreover have "sint w < 2 ^ 31" using sint_lt [of w] by simp
  ultimately have "uint (word_of_int (sint w) :: u64) = sint w"
    by (simp only: uint_word_of_int_eq) (simp add: take_bit_int_eq_self)
  moreover have "(scast w :: u64) = word_of_int (sint w)" by (rule of_int_sint [symmetric])
  ultimately show ?thesis by (simp only: unat_eq_nat_uint)
qed

lemma unat_dimcount:
  assumes "plain l u"
  shows "unat (dimcount l u) = width l u"
proof -
  have d: "unat (scast (u - l) :: u64) = nat (sint u - sint l)"
    using assms by (simp add: plain_def unat_scast_nonneg sint_diff)
  have "nat (sint u - sint l) + 1 < 2 ^ 64"
    using assms by (simp add: plain_def nat_less_iff)
  then have "unat (scast (u - l) + 1 :: u64) = nat (sint u - sint l) + 1"
    using d by (simp add: unat_word_ariths)
  then show ?thesis
    using assms by (simp add: dimcount_def width_def plain_def nat_add_distrib)
qed

lemma width_pos: "plain l u \<Longrightarrow> 0 < width l u"
  by (simp add: plain_def width_def)

lemma prod_widths_pos:
  "\<forall>b\<in>set bs. plain (blower b) (bupper b) \<Longrightarrow>
   0 < prod_list (map (\<lambda>b. width (blower b) (bupper b)) bs)"
  by (induction bs) (auto simp: width_pos)

lemma elementCountLoop_prod:
  assumes "\<forall>b\<in>set bs. plain (blower b) (bupper b)" and "0 < unat count"
  shows "unat (elementCountLoop bs count)
    = (let n = unat count * prod_list (map (\<lambda>b. width (blower b) (bupper b)) bs)
       in if n < 2 ^ 64 then n else 0)"
  using assms
proof (induction bs arbitrary: count)
  case Nil
  then show ?case using unat_less_pow [of count] by (simp add: Let_def)
next
  case (Cons b bs)
  let ?w = "width (blower b) (bupper b)" and ?n = "dimcount (blower b) (bupper b)"
  let ?p = "prod_list (map (\<lambda>b. width (blower b) (bupper b)) bs)"
  have p: "plain (blower b) (bupper b)" using Cons.prems by simp
  note w = unat_dimcount [OF p] width_pos [OF p]
  have nz: "?n \<noteq> 0" using w by auto
  have p1: "0 < ?p" using Cons.prems(1) by (simp add: prod_widths_pos)
  have ord: "\<not> bupper b <s blower b" using p by (simp add: plain_def word_sless_alt)
  have guard: "(-1) div ?n < count \<longleftrightarrow> 2 ^ 64 \<le> unat count * ?w"
  proof -
    have "(-1) div ?n < count \<longleftrightarrow> (2 ^ 64 - 1) div ?w < unat count"
      by (simp add: word_less_nat_alt unat_div w unsigned_minus_1_eq_mask mask_eq_exp_minus_1)
    also have "\<dots> \<longleftrightarrow> 2 ^ 64 - 1 < unat count * ?w"
      using w(2) by (simp add: div_less_iff_less_mult)
    also have "\<dots> \<longleftrightarrow> 2 ^ 64 \<le> unat count * ?w"
      using less_eq_Suc_le [of "2 ^ 64 - 1" "unat count * ?w"] by simp
    finally show ?thesis .
  qed
  show ?case
  proof (cases "2 ^ 64 \<le> unat count * ?w")
    case True
    then have "2 ^ 64 \<le> unat count * (?w * ?p)"
      using mult_le_mono [OF True, of 1 ?p] p1 by (simp add: mult.assoc)
    with True nz ord guard show ?thesis by (simp add: Let_def)
  next
    case False
    then have u: "unat (count * ?n) = unat count * ?w"
      using w by (simp add: unat_word_ariths)
    then have "0 < unat (count * ?n)" using w Cons.prems(2) by simp
    then have "unat (elementCountLoop bs (count * ?n)) = (let n = unat (count * ?n) * ?p
       in if n < 2 ^ 64 then n else 0)"
      using Cons.prems(1) by (intro Cons.IH) simp_all
    with False nz ord guard show ?thesis by (simp add: Let_def u mult.assoc)
  qed
qed

lemma subscriptsLoop_length [simp]: "length (subscriptsLoop s n r subs) = length subs"
  by (induction n arbitrary: r subs) (simp_all add: Let_def)

lemma subscriptsLoop_unrank:
  assumes "\<forall>b\<in>set (take n (bounds s)). plain (blower b) (bupper b)"
    and "n \<le> length (bounds s)" and "n \<le> length subs"
  shows "subscriptsLoop s n r subs =
     map2 (\<lambda>b d. blower b + of_nat d) (take n (bounds s))
       (unrank (map (\<lambda>b. width (blower b) (bupper b)) (take n (bounds s))) (unat r)) @ drop n subs"
  using assms
proof (induction n arbitrary: r subs)
  case 0
  then show ?case by simp
next
  case (Suc n)
  let ?b = "bounds s ! n"
  let ?m = "dimcount (blower ?b) (bupper ?b)" and ?w = "width (blower ?b) (bupper ?b)"
  have t: "take (Suc n) (bounds s) = take n (bounds s) @ [?b]"
    using Suc.prems(2) by (simp add: take_Suc_conv_app_nth)
  then have p: "plain (blower ?b) (bupper ?b)" using Suc.prems(1) by simp
  have m: "unat (r mod ?m) = unat r mod ?w" "unat (r div ?m) = unat r div ?w"
    by (simp_all add: unat_mod unat_div unat_dimcount [OF p])
  have c: "(ucast (r mod ?m) :: i32) = of_nat (unat r mod ?w)"
    by (simp add: m(1) [symmetric])
  have "subscriptsLoop s n (r div ?m) (subs[n := blower ?b + ucast (r mod ?m)])
    = map2 (\<lambda>b d. blower b + of_nat d) (take n (bounds s))
        (unrank (map (\<lambda>b. width (blower b) (bupper b)) (take n (bounds s))) (unat (r div ?m)))
      @ drop n (subs[n := blower ?b + ucast (r mod ?m)])"
    using Suc.prems t by (intro Suc.IH) auto
  moreover have "drop n (subs[n := blower ?b + ucast (r mod ?m)])
      = (blower ?b + of_nat (unat r mod ?w)) # drop (Suc n) subs"
    using Suc.prems(3) by (simp add: c Cons_nth_drop_Suc [symmetric])
  ultimately show ?case
    using Suc.prems(2) by (simp add: Let_def t m(2))
qed

text \<open>The zero-based digit of a subscript.\<close>

definition digit :: "i32 \<Rightarrow> i32 \<Rightarrow> nat" where
  "digit lower sub = nat (sint sub - sint lower)"

lemma sint_add_digit:
  assumes "plain l u" and "d < width l u"
  shows "sint (l + of_nat d) = sint l + int d"
proof -
  have d: "int d \<le> sint u - sint l" using assms by (auto simp: plain_def width_def)
  have "sint (of_nat d :: i32) = int d"
  proof -
    have "int d < 2 ^ 31" using d assms(1) by (simp add: plain_def)
    then show ?thesis by (simp add: signed_of_nat signed_take_bit_int_eq_self)
  qed
  moreover have "sint l + int d < 2 ^ 31" "- (2 ^ 31) \<le> sint l + int d"
    using d sint_lt [of u] sint_ge [of l] by simp_all
  ultimately show ?thesis
    by (simp add: sint_word_add signed_take_bit_int_eq_self)
qed

lemma horner_ge: "\<forall>(w, d) \<in> set xs. 0 < w \<Longrightarrow> a \<le> horner a xs"
proof (induction a xs rule: horner.induct)
  case (1 a)
  then show ?case by simp
next
  case (2 a w d xs)
  then have "a \<le> a * w + d" by (simp add: trans_le_add1)
  with 2 show ?case by simp
qed

lemma arrayIndexLoop_horner:
  assumes "\<forall>j\<in>{i..<i+n}. plain (lo ! j) (up ! j) \<and> sint (lo ! j) \<le> sint (sub ! j) \<and> sint (sub ! j) \<le> sint (up ! j)"
    and "horner (unat res) (map (\<lambda>j. (width (lo ! j) (up ! j), digit (lo ! j) (sub ! j))) [i..<i+n]) < 2 ^ 64"
  shows "arrayIndexLoop n i sub lo up res =
    Some (of_nat (horner (unat res) (map (\<lambda>j. (width (lo ! j) (up ! j), digit (lo ! j) (sub ! j))) [i..<i+n])))"
  using assms
proof (induction n arbitrary: i res)
  case 0
  then show ?case by simp
next
  case (Suc n)
  let ?xs = "map (\<lambda>j. (width (lo ! j) (up ! j), digit (lo ! j) (sub ! j))) [Suc i..<Suc i + n]"
  let ?w = "width (lo ! i) (up ! i)" and ?d = "digit (lo ! i) (sub ! i)"
  let ?res = "res * dimcount (lo ! i) (up ! i) + scast (sub ! i - lo ! i)"
  have p: "plain (lo ! i) (up ! i)" "sint (lo ! i) \<le> sint (sub ! i)" "sint (sub ! i) \<le> sint (up ! i)"
    using Suc.prems(1) by simp_all
  have upt: "[i..<i + Suc n] = i # [Suc i..<Suc i + n]"
    by (simp add: upt_conv_Cons)
  have pos: "\<forall>(w, d)\<in>set ?xs. 0 < w" using Suc.prems(1) by (auto intro: width_pos)
  have "unat res * ?w + ?d \<le> horner (unat res * ?w + ?d) ?xs" by (rule horner_ge [OF pos])
  also have "\<dots> < 2 ^ 64" using Suc.prems(2) [unfolded upt] by simp
  finally have fits: "unat res * ?w + ?d < 2 ^ 64" .
  have "sint (sub ! i) - sint (lo ! i) < 2 ^ 31" using p by (simp add: plain_def)
  then have d: "unat (scast (sub ! i - lo ! i) :: u64) = ?d"
    using p by (simp add: unat_scast_nonneg sint_diff digit_def)
  have u: "unat ?res = unat res * ?w + ?d"
    using fits by (simp add: unat_word_ariths unat_dimcount [OF p(1)] d)
  have "arrayIndexLoop n (Suc i) sub lo up ?res = Some (of_nat (horner (unat ?res) ?xs))"
    using Suc.prems(1) Suc.prems(2) [unfolded upt] by (intro Suc.IH) (simp_all add: u)
  then show ?case
    unfolding upt using p by (simp add: word_sless_alt u)
qed

abbreviation dims :: "sdl \<Rightarrow> sdlbound list" where
  "dims s \<equiv> take (dimensioncount s) (bounds s)"

definition plain_slice :: "sdl \<Rightarrow> bool" where
  "plain_slice s \<longleftrightarrow> (\<forall>b\<in>set (dims s). plain (blower b) (bupper b))"

definition widths :: "sdl \<Rightarrow> nat list" where
  "widths s = map (\<lambda>b. width (blower b) (bupper b)) (dims s)"

lemma length_widths [simp]: "sdl_wf s \<Longrightarrow> length (widths s) = dimensioncount s"
  by (simp add: widths_def sdl_wf_def)

lemma getElementCount_prod:
  assumes "plain_slice s" and "dimensioncount s \<noteq> 0"
  shows "unat (getElementCount s) = (if prod_list (widths s) < 2 ^ 64 then prod_list (widths s) else 0)"
  using assms elementCountLoop_prod [of "dims s" 1]
  by (simp add: getElementCount_def plain_slice_def widths_def)

lemma getSubscripts_unrank:
  assumes "plain_slice s" and "sdl_wf s" and "index < getElementCount s"
    and "length buf = dimensioncount s"
  shows "getSubscripts s index (Some buf) =
    Some (map2 (\<lambda>b d. blower b + of_nat d) (dims s) (unrank (widths s) (unat index)))"
  using assms subscriptsLoop_unrank [of "dimensioncount s" s buf index]
  by (simp add: getSubscripts_def plain_slice_def widths_def sdl_wf_def)

lemma getArrayIndex_rank:
  assumes "plain_slice s" and "sdl_wf s" and "dimensioncount s \<noteq> 0"
    and "length sub = dimensioncount s"
    and "\<forall>j<dimensioncount s. sint (blower (bounds s ! j)) \<le> sint (sub ! j) \<and>
           sint (sub ! j) \<le> sint (bupper (bounds s ! j))"
    and "prod_list (widths s) \<le> 2 ^ 64"
  defines "ds \<equiv> map2 (\<lambda>b x. digit (blower b) x) (dims s) sub"
  shows "getArrayIndex s (Some sub) (Some (map blower (dims s))) (Some (map bupper (dims s)))
      = Some (of_nat (rank (widths s) ds))"
    and "list_all2 (\<lambda>d w. d < w) ds (widths s)"
proof -
  let ?n = "dimensioncount s" and ?lo = "map blower (dims s)" and ?up = "map bupper (dims s)"
  have n: "?n \<le> length (bounds s)" using assms(2) by (simp add: sdl_wf_def)
  have pl: "plain (blower (bounds s ! j)) (bupper (bounds s ! j))" if "j < ?n" for j
    using assms(1) that n by (force simp: plain_slice_def in_set_conv_nth)
  show *: "list_all2 (\<lambda>d w. d < w) ds (widths s)"
  proof (rule list_all2_all_nthI)
    show "length ds = length (widths s)" using assms(2,4) n by (simp add: ds_def)
  next
    fix j
    assume "j < length ds"
    then have j: "j < ?n" using assms(4) n by (simp add: ds_def)
    then show "ds ! j < widths s ! j"
      using assms(4,5) n pl [OF j] by (simp add: ds_def widths_def digit_def width_def plain_def)
  qed
  have z: "map (\<lambda>j. (width (?lo ! j) (?up ! j), digit (?lo ! j) (sub ! j))) [0..<0 + ?n] = zip (widths s) ds"
    using n assms(4) by (intro nth_equalityI) (simp_all add: ds_def widths_def)
  have "arrayIndexLoop ?n 0 sub ?lo ?up 0 = Some (of_nat (horner (unat (0 :: u64))
      (map (\<lambda>j. (width (?lo ! j) (?up ! j), digit (?lo ! j) (sub ! j))) [0..<0 + ?n])))"
  proof (rule arrayIndexLoop_horner)
    show "\<forall>j\<in>{0..<0 + ?n}. plain (?lo ! j) (?up ! j) \<and> sint (?lo ! j) \<le> sint (sub ! j) \<and>
        sint (sub ! j) \<le> sint (?up ! j)"
      using assms(5) n pl by simp
    have "horner (unat (0 :: u64)) (zip (widths s) ds) < prod_list (widths s)"
      using rank_less [OF *] by (simp add: rank_def)
    then show "horner (unat (0 :: u64)) (map (\<lambda>j. (width (?lo ! j) (?up ! j),
        digit (?lo ! j) (sub ! j))) [0..<0 + ?n]) < 2 ^ 64"
      unfolding z using assms(6) by (rule less_le_trans)
  qed
  then have "arrayIndexLoop ?n 0 sub ?lo ?up 0 = Some (of_nat (rank (widths s) ds))"
    unfolding z by (simp add: rank_def)
  then show "getArrayIndex s (Some sub) (Some ?lo) (Some ?up) = Some (of_nat (rank (widths s) ds))"
    using assms(3) by (simp add: getArrayIndex_def)
qed

section \<open>A refused buffer always comes with a reason\<close>

definition failed :: "sdl \<Rightarrow> bool" where
  "failed s \<longleftrightarrow> err s \<noteq> None"

lemma setError_InlD: "setError e s = Inl s' \<Longrightarrow> failed s'"
  by (auto simp: setError_def failed_def)

named_theorems sdl_reason \<open>failure sets the error\<close>

lemma parseElementDescriptor_reason [sdl_reason]: "parseElementDescriptor s = Inl s' \<Longrightarrow> failed s'"
  by (auto simp: parseElementDescriptor_def parseScale_def parseTextLength_def Let_def
      split: option.splits if_splits dest!: setError_InlD dest: sdl_reason)

lemma parseName_reason [sdl_reason]: "parseName f s = Inl s' \<Longrightarrow> failed s'"
  by (auto simp: parseName_def split: option.splits if_splits dest!: setError_InlD dest: sdl_reason)

lemma parseId_reason [sdl_reason]: "parseId f s = Inl s' \<Longrightarrow> failed s'"
  by (auto simp: parseId_def split: option.splits dest!: setError_InlD)

lemma parseLiteral_reason [sdl_reason]: "parseLiteral s = Inl s' \<Longrightarrow> failed s'"
  by (auto simp: parseLiteral_def split: option.splits if_splits dest!: setError_InlD dest: sdl_reason)

lemma parseLoop_reason [sdl_reason]: "parseLoop op s = Inl s' \<Longrightarrow> failed s'"
  by (auto simp: parseLoop_def parseIncrement_def
      split: option.splits sum.splits if_splits dest!: setError_InlD parseLiteral_reason)

lemma parseSubscripts_reason [sdl_reason]: "parseSubscripts n i s = Inl s' \<Longrightarrow> failed s'"
proof (induction n i s rule: parseSubscripts.induct)
  case (1 i s)
  then show ?case by simp
next
  case (2 n i s)
  then show ?case by (auto split: option.splits if_splits dest!: setError_InlD)
qed

lemma parseElement_reason [sdl_reason]: "parseElement s = Inl s' \<Longrightarrow> failed s'"
  by (auto simp: parseElement_def parseScalar_def split: option.splits if_splits
      dest!: setError_InlD parseSubscripts_reason)

lemma clause_reason [sdl_reason]: "clause op gs ge s = Inl s' \<Longrightarrow> failed s'"
  by (auto simp: clause_def Let_def split: if_splits sum.splits dest!: setError_InlD dest: sdl_reason)

lemma clauses_reason [sdl_reason]: "clauses gs ge s = Inl s' \<Longrightarrow> failed s'"
proof (induction gs ge s rule: clauses.induct)
  case (1 gs ge s)
  show ?case
  proof (cases "getByte s")
    case None
    with "1.prems" show ?thesis by (auto simp: clauses.simps [of gs ge s] dest!: setError_InlD)
  next
    case (Some p)
    then obtain op s1 where b: "getByte s = Some (op, s1)" by (cases p) auto
    with "1.prems" have no: "op \<noteq> isc_sdl_eoc" by (auto simp: clauses.simps [of gs ge s])
    show ?thesis
    proof (cases "clause op gs ge s1")
      case (Inl t)
      with b no "1.prems" clause_reason [OF Inl] show ?thesis
        by (simp add: clauses.simps [of gs ge s])
    next
      case (Inr q)
      then obtain gs1 ge1 s2 where c: "clause op gs ge s1 = Inr (gs1, ge1, s2)" by (cases q) auto
      with b no "1.prems" have "clauses gs1 ge1 s2 = Inl s'"
        by (simp add: clauses.simps [of gs ge s])
      then show ?thesis by (rule "1.IH" [OF b refl no c refl refl])
    qed
  qed
qed

lemma parse_reason: "parse s0 buf = Inl s \<Longrightarrow> failed s"
  by (auto simp: parse_def Let_def split: option.splits if_splits sum.splits
      dest!: setError_InlD clauses_reason)

section \<open>Properties\<close>


text \<open>
  Accepted buffers are prefix-free: a buffer that \<open>parse\<close> accepts is refused, as having
  trailing bytes, as soon as anything follows it; equivalently no truncation of an accepted buffer
  is accepted.
\<close>

theorem parse_prefix_free:
  assumes "parse s0 (Some buf) = Inr s" and "x \<noteq> []"
  shows "\<exists>s'. parse s0 (Some (buf @ x)) = Inl s' \<and> err s' = Some ''trailing bytes after SDL''"
  using assms by (rule parse_extended)



section \<open>Witnesses and the overflow\<close>

definition small_sdl :: bytes where
  "small_sdl = [1, 6, 1, 7, 0, 35, 0, 9, 3, 36, 1, 8, 0, 1, 7, 0, 255]"

lemma parse_small_sdl: "\<exists>s. parse new_sdl (Some small_sdl) = Inr s"
proof -
  have "(case parse new_sdl (Some small_sdl) of Inl s \<Rightarrow> False | Inr s \<Rightarrow> True)"
    by code_simp
  then show ?thesis by (auto split: sum.splits)
qed

theorem parse_prefix_free_witness:
  "\<exists>s s'. parse new_sdl (Some small_sdl) = Inr s \<and> parse new_sdl (Some (small_sdl @ [0])) = Inl s' \<and>
     err s' = Some ''trailing bytes after SDL''"
proof -
  obtain s where s: "parse new_sdl (Some small_sdl) = Inr s" using parse_small_sdl by blast
  from parse_prefix_free [OF this, of "[0]"] s show ?thesis by auto
qed

text \<open>Two dimensions, from -1 to 1 and from 5 to 6.\<close>

definition example_sdl :: sdl where
  "example_sdl = new_sdl\<lparr>dimensioncount := 2,
     bounds := [\<lparr>bvariable = 0, blower = 4294967295, bupper = 1\<rparr>,
       \<lparr>bvariable = 1, blower = 5, bupper = 6\<rparr>] @
       replicate 14 \<lparr>bvariable = 0, blower = 0, bupper = 0\<rparr>\<rparr>"

lemma example_sdl_plain: "plain_slice example_sdl" "sdl_wf example_sdl"
  "dimensioncount example_sdl = 2" "getElementCount example_sdl = 6"
  by (simp_all add: plain_slice_def example_sdl_def plain_def sdl_wf_def new_sdl_def init_sdl_def
      getElementCount_def dimcount_def word_sless_alt)



text \<open>
  A slice whose bounds differ by \<open>2 ^ 31\<close> or more is accepted by \<open>parse\<close>, and its width
  wraps: the dimension from -1 to 2147483647 has 2147483649 elements, and the code counts
  18446744071562067969; the dimension over all 32-bit subscripts counts as empty.
\<close>

definition wide_sdl :: bytes where
  "wide_sdl = [1, 6, 1, 7, 0, 34, 0, 9, 255, 11, 255, 255, 255, 127, 36, 1, 8, 0, 1, 7, 0, 255]"

theorem getElementCount_wraps:
  "(case parse new_sdl (Some wide_sdl) of
      Inl s \<Rightarrow> False
    | Inr s \<Rightarrow> getElementCount s = 18446744071562067969 \<and>
        sint (getUpperBound s 0) - sint (getLowerBound s 0) + 1 = 2147483649)"
  by code_simp

theorem getElementCount_whole_range:
  "dimcount 0x80000000 0x7FFFFFFF = 0"
  by (simp add: dimcount_def)

end
