(* ===== verification/Platform.thy ===== *)
theory Platform
  imports Prelude
begin

text \<open>
  The host: how a C++ integer lies in memory, and the byte-order conversions of Rudiments'
  \<open>filedescriptor\<close> class, which the sources only call
  (\<open>convertHostToNet\<close>, \<open>convertNetToHost\<close>, \<open>convertHostToLittleEndian\<close>,
  \<open>convertLittleEndianToHost\<close>, each overloaded for 16, 32 and 64 bits). The conversions are the
  fields of a record that every definition using them takes as an argument; \<open>platform_ok\<close>
  states their documented behaviour, and two concrete platforms satisfy it.
\<close>

record platform =
  big_host :: bool
  h2n16 :: "u16 \<Rightarrow> u16"
  n2h16 :: "u16 \<Rightarrow> u16"
  h2n32 :: "u32 \<Rightarrow> u32"
  n2h32 :: "u32 \<Rightarrow> u32"
  h2n64 :: "u64 \<Rightarrow> u64"
  n2h64 :: "u64 \<Rightarrow> u64"
  h2le16 :: "u16 \<Rightarrow> u16"
  le2h16 :: "u16 \<Rightarrow> u16"
  h2le32 :: "u32 \<Rightarrow> u32"
  le2h32 :: "u32 \<Rightarrow> u32"
  h2le64 :: "u64 \<Rightarrow> u64"
  le2h64 :: "u64 \<Rightarrow> u64"

text \<open>The memory image of an \<open>n\<close>-byte integer, and the integer of a memory image.\<close>

definition mem :: "platform \<Rightarrow> nat \<Rightarrow> 'a::len word \<Rightarrow> bytes" where
  "mem P n w = (if big_host P then be_bytes n w else le_bytes n w)"

definition ld :: "platform \<Rightarrow> bytes \<Rightarrow> 'a::len word" where
  "ld P bs = (if big_host P then of_be bs else of_le bs)"

text \<open>
  What the callers rely on: a value converted to network (little-endian) order lies in memory in
  network (little-endian) order, and converting back returns the value.
\<close>

definition net_ok :: "platform \<Rightarrow> bool" where
  "net_ok P \<longleftrightarrow>
     (\<forall>x. mem P 2 (h2n16 P x) = be_bytes 2 x \<and> n2h16 P (h2n16 P x) = x) \<and>
     (\<forall>x. mem P 4 (h2n32 P x) = be_bytes 4 x \<and> n2h32 P (h2n32 P x) = x) \<and>
     (\<forall>x. mem P 8 (h2n64 P x) = be_bytes 8 x \<and> n2h64 P (h2n64 P x) = x)"

definition little_ok :: "platform \<Rightarrow> bool" where
  "little_ok P \<longleftrightarrow>
     (\<forall>x. mem P 2 (h2le16 P x) = le_bytes 2 x \<and> le2h16 P (h2le16 P x) = x) \<and>
     (\<forall>x. mem P 4 (h2le32 P x) = le_bytes 4 x \<and> le2h32 P (h2le32 P x) = x) \<and>
     (\<forall>x. mem P 8 (h2le64 P x) = le_bytes 8 x \<and> le2h64 P (h2le64 P x) = x)"

definition platform_ok :: "platform \<Rightarrow> bool" where
  "platform_ok P \<longleftrightarrow> net_ok P \<and> little_ok P"

definition swap :: "nat \<Rightarrow> 'a::len word \<Rightarrow> 'a word" where
  "swap n w = of_be (le_bytes n w)"

definition little_host :: platform where
  "little_host = \<lparr>big_host = False,
     h2n16 = swap 2, n2h16 = swap 2, h2n32 = swap 4, n2h32 = swap 4, h2n64 = swap 8, n2h64 = swap 8,
     h2le16 = id, le2h16 = id, h2le32 = id, le2h32 = id, h2le64 = id, le2h64 = id\<rparr>"

definition big_endian_host :: platform where
  "big_endian_host = \<lparr>big_host = True,
     h2n16 = id, n2h16 = id, h2n32 = id, n2h32 = id, h2n64 = id, n2h64 = id,
     h2le16 = swap 2, le2h16 = swap 2, h2le32 = swap 4, le2h32 = swap 4,
     h2le64 = swap 8, le2h64 = swap 8\<rparr>"

lemma length_mem [simp]: "length (mem P n w) = n"
  by (simp add: mem_def)

lemma ld_mem [codec_simps]:
  "LENGTH('a) \<le> 8 * n \<Longrightarrow> ld P (mem P n (w :: 'a::len word)) = w"
  by (simp add: ld_def mem_def codec_simps)

lemma mem_ld [codec_simps]:
  "length bs = n \<Longrightarrow> 8 * n \<le> LENGTH('a) \<Longrightarrow> mem P n (ld P bs :: 'a::len word) = bs"
  by (simp add: ld_def mem_def codec_simps)

lemma le_bytes_swap:
  "LENGTH('a) = 8 * n \<Longrightarrow> le_bytes n (swap n (w :: 'a::len word)) = be_bytes n w"
  by (simp add: swap_def of_be_def be_bytes_def codec_simps)

lemma be_bytes_swap:
  "LENGTH('a) = 8 * n \<Longrightarrow> be_bytes n (swap n (w :: 'a::len word)) = le_bytes n w"
  by (simp add: swap_def codec_simps)

lemma swap_swap:
  "LENGTH('a) = 8 * n \<Longrightarrow> swap n (swap n (w :: 'a::len word)) = w"
  by (simp add: swap_def [of n "swap n w"] le_bytes_swap codec_simps)

lemma platform_ok_little_host: "platform_ok little_host"
  by (simp add: platform_ok_def net_ok_def little_ok_def little_host_def mem_def
      le_bytes_swap swap_swap)

lemma platform_ok_big_endian_host: "platform_ok big_endian_host"
  by (simp add: platform_ok_def net_ok_def little_ok_def big_endian_host_def mem_def
      be_bytes_swap swap_swap)

text \<open>What a reader gets out of bytes in network or in little-endian order.\<close>

lemma platform_net:
  assumes "net_ok P"
  shows "mem P 2 (h2n16 P x) = be_bytes 2 x" and "mem P 4 (h2n32 P y) = be_bytes 4 y"
    and "mem P 8 (h2n64 P z) = be_bytes 8 z"
    and "n2h16 P (ld P (be_bytes 2 x)) = x" and "n2h32 P (ld P (be_bytes 4 y)) = y"
    and "n2h64 P (ld P (be_bytes 8 z)) = z"
proof -
  from assms show m: "mem P 2 (h2n16 P x) = be_bytes 2 x" "mem P 4 (h2n32 P y) = be_bytes 4 y"
    "mem P 8 (h2n64 P z) = be_bytes 8 z"
    by (simp_all add: net_ok_def)
  have "ld P (be_bytes 2 x) = h2n16 P x" "ld P (be_bytes 4 y) = h2n32 P y" "ld P (be_bytes 8 z) = h2n64 P z"
    unfolding m [symmetric] by (simp_all add: ld_mem)
  then show "n2h16 P (ld P (be_bytes 2 x)) = x" "n2h32 P (ld P (be_bytes 4 y)) = y"
    "n2h64 P (ld P (be_bytes 8 z)) = z"
    using assms by (simp_all add: net_ok_def)
qed

lemma platform_little:
  assumes "little_ok P"
  shows "mem P 2 (h2le16 P x) = le_bytes 2 x" and "mem P 4 (h2le32 P y) = le_bytes 4 y"
    and "mem P 8 (h2le64 P z) = le_bytes 8 z"
    and "le2h16 P (ld P (le_bytes 2 x)) = x" and "le2h32 P (ld P (le_bytes 4 y)) = y"
    and "le2h64 P (ld P (le_bytes 8 z)) = z"
proof -
  from assms show m: "mem P 2 (h2le16 P x) = le_bytes 2 x" "mem P 4 (h2le32 P y) = le_bytes 4 y"
    "mem P 8 (h2le64 P z) = le_bytes 8 z"
    by (simp_all add: little_ok_def)
  have "ld P (le_bytes 2 x) = h2le16 P x" "ld P (le_bytes 4 y) = h2le32 P y" "ld P (le_bytes 8 z) = h2le64 P z"
    unfolding m [symmetric] by (simp_all add: ld_mem)
  then show "le2h16 P (ld P (le_bytes 2 x)) = x" "le2h32 P (ld P (le_bytes 4 y)) = y"
    "le2h64 P (ld P (le_bytes 8 z)) = z"
    using assms by (simp_all add: little_ok_def)
qed

lemma platform_okD: "platform_ok P \<Longrightarrow> net_ok P" "platform_ok P \<Longrightarrow> little_ok P"
  by (simp_all add: platform_ok_def)

end
