(* ===== verification/Wire_Ints.thy ===== *)
theory Wire_Ints
  imports Platform
begin

text \<open>
  The integer readers and writers of \<open>sqlrprotocol\<close> (\<open>src/server/sqlrprotocol.cpp\<close>),
  which the wire protocols share: fixed-width integers in either byte order, the MySQL
  length-encoded integer, the BER length and the Teradata length-preceded integer. A read
  pointer \<open>rp\<close> is the suffix of the buffer it points to; a reader without an \<open>end\<close> argument
  returns \<open>None\<close> (or \<open>Overrun\<close>) where the code would read past the buffer. A
  \<open>bytebuffer\<close> is the list of its bytes, and \<open>append\<close> of an integer appends its memory
  image. The flag \<open>be\<close> is \<open>getProtocolIsBigEndian()\<close>.
\<close>

section \<open>Byte order\<close>

definition beToHost16 :: "platform \<Rightarrow> u16 \<Rightarrow> u16" where "beToHost16 P v = n2h16 P v"
definition beToHost32 :: "platform \<Rightarrow> u32 \<Rightarrow> u32" where "beToHost32 P v = n2h32 P v"
definition beToHost64 :: "platform \<Rightarrow> u64 \<Rightarrow> u64" where "beToHost64 P v = n2h64 P v"
definition leToHost16 :: "platform \<Rightarrow> u16 \<Rightarrow> u16" where "leToHost16 P v = le2h16 P v"
definition leToHost32 :: "platform \<Rightarrow> u32 \<Rightarrow> u32" where "leToHost32 P v = le2h32 P v"
definition leToHost64 :: "platform \<Rightarrow> u64 \<Rightarrow> u64" where "leToHost64 P v = le2h64 P v"
definition hostToBE16 :: "platform \<Rightarrow> u16 \<Rightarrow> u16" where "hostToBE16 P v = h2n16 P v"
definition hostToBE32 :: "platform \<Rightarrow> u32 \<Rightarrow> u32" where "hostToBE32 P v = h2n32 P v"
definition hostToBE64 :: "platform \<Rightarrow> u64 \<Rightarrow> u64" where "hostToBE64 P v = h2n64 P v"
definition hostToLE16 :: "platform \<Rightarrow> u16 \<Rightarrow> u16" where "hostToLE16 P v = h2le16 P v"
definition hostToLE32 :: "platform \<Rightarrow> u32 \<Rightarrow> u32" where "hostToLE32 P v = h2le32 P v"
definition hostToLE64 :: "platform \<Rightarrow> u64 \<Rightarrow> u64" where "hostToLE64 P v = h2le64 P v"

definition toHost16 :: "platform \<Rightarrow> bool \<Rightarrow> u16 \<Rightarrow> u16" where
  "toHost16 P be v = (if be then beToHost16 P v else leToHost16 P v)"

definition toHost32 :: "platform \<Rightarrow> bool \<Rightarrow> u32 \<Rightarrow> u32" where
  "toHost32 P be v = (if be then beToHost32 P v else leToHost32 P v)"

definition toHost64 :: "platform \<Rightarrow> bool \<Rightarrow> u64 \<Rightarrow> u64" where
  "toHost64 P be v = (if be then beToHost64 P v else leToHost64 P v)"

definition hostTo16 :: "platform \<Rightarrow> bool \<Rightarrow> u16 \<Rightarrow> u16" where
  "hostTo16 P be v = (if be then hostToBE16 P v else hostToLE16 P v)"

definition hostTo32 :: "platform \<Rightarrow> bool \<Rightarrow> u32 \<Rightarrow> u32" where
  "hostTo32 P be v = (if be then hostToBE32 P v else hostToLE32 P v)"

definition hostTo64 :: "platform \<Rightarrow> bool \<Rightarrow> u64 \<Rightarrow> u64" where
  "hostTo64 P be v = (if be then hostToBE64 P v else hostToLE64 P v)"

lemmas order_defs = beToHost16_def beToHost32_def beToHost64_def leToHost16_def leToHost32_def
  leToHost64_def hostToBE16_def hostToBE32_def hostToBE64_def hostToLE16_def hostToLE32_def
  hostToLE64_def toHost16_def toHost32_def toHost64_def hostTo16_def hostTo32_def hostTo64_def

section \<open>Fixed-width readers\<close>

definition read_byte :: "bytes \<Rightarrow> (byte \<times> bytes) option" where
  "read_byte rp = (case rp of [] \<Rightarrow> None | b # bs \<Rightarrow> Some (b, bs))"

text \<open>The checked readers reset \<open>rpout\<close> to \<open>rp\<close> when the value is not the expected one.\<close>

definition expecting :: "('a \<times> bytes) option \<Rightarrow> bytes \<Rightarrow> 'a \<Rightarrow> (bool \<times> 'a \<times> bytes) option" where
  "expecting r rp expected =
     (case r of
        None \<Rightarrow> None
      | Some (v, rpout) \<Rightarrow> Some (if v \<noteq> expected then (False, v, rp) else (True, v, rpout)))"

definition read_byte_expected :: "bytes \<Rightarrow> byte \<Rightarrow> (bool \<times> byte \<times> bytes) option" where
  "read_byte_expected rp expected = expecting (read_byte rp) rp expected"

definition read_bytes :: "bytes \<Rightarrow> nat \<Rightarrow> (bytes \<times> bytes) option" where
  "read_bytes rp n = (if length rp < n then None else Some (take n rp, drop n rp))"

text \<open>\<open>bytestring::copy\<close> of \<open>n\<close> bytes into an integer, then a conversion.\<close>

definition read_int :: "platform \<Rightarrow> nat \<Rightarrow> ('a::len word \<Rightarrow> 'a word) \<Rightarrow> bytes \<Rightarrow> ('a word \<times> bytes) option" where
  "read_int P n conv rp = (if length rp < n then None else Some (conv (ld P (take n rp)), drop n rp))"

definition read16 :: "platform \<Rightarrow> bool \<Rightarrow> bytes \<Rightarrow> (u16 \<times> bytes) option" where
  "read16 P be rp = read_int P 2 (toHost16 P be) rp"

definition readLE16 :: "platform \<Rightarrow> bytes \<Rightarrow> (u16 \<times> bytes) option" where
  "readLE16 P rp = read_int P 2 (leToHost16 P) rp"

definition readBE16 :: "platform \<Rightarrow> bytes \<Rightarrow> (u16 \<times> bytes) option" where
  "readBE16 P rp = read_int P 2 (beToHost16 P) rp"

definition read32 :: "platform \<Rightarrow> bool \<Rightarrow> bytes \<Rightarrow> (u32 \<times> bytes) option" where
  "read32 P be rp = read_int P 4 (toHost32 P be) rp"

definition readLE32 :: "platform \<Rightarrow> bytes \<Rightarrow> (u32 \<times> bytes) option" where
  "readLE32 P rp = read_int P 4 (leToHost32 P) rp"

definition readBE32 :: "platform \<Rightarrow> bytes \<Rightarrow> (u32 \<times> bytes) option" where
  "readBE32 P rp = read_int P 4 (beToHost32 P) rp"

definition read64 :: "platform \<Rightarrow> bool \<Rightarrow> bytes \<Rightarrow> (u64 \<times> bytes) option" where
  "read64 P be rp = read_int P 8 (toHost64 P be) rp"

definition readLE64 :: "platform \<Rightarrow> bytes \<Rightarrow> (u64 \<times> bytes) option" where
  "readLE64 P rp = read_int P 8 (leToHost64 P) rp"

definition readBE64 :: "platform \<Rightarrow> bytes \<Rightarrow> (u64 \<times> bytes) option" where
  "readBE64 P rp = read_int P 8 (beToHost64 P) rp"

definition readLE16_expected :: "platform \<Rightarrow> bytes \<Rightarrow> u16 \<Rightarrow> (bool \<times> u16 \<times> bytes) option" where
  "readLE16_expected P rp expected = expecting (readLE16 P rp) rp expected"

definition readBE16_expected :: "platform \<Rightarrow> bytes \<Rightarrow> u16 \<Rightarrow> (bool \<times> u16 \<times> bytes) option" where
  "readBE16_expected P rp expected = expecting (readBE16 P rp) rp expected"

definition readLE32_expected :: "platform \<Rightarrow> bytes \<Rightarrow> u32 \<Rightarrow> (bool \<times> u32 \<times> bytes) option" where
  "readLE32_expected P rp expected = expecting (readLE32 P rp) rp expected"

definition readBE32_expected :: "platform \<Rightarrow> bytes \<Rightarrow> u32 \<Rightarrow> (bool \<times> u32 \<times> bytes) option" where
  "readBE32_expected P rp expected = expecting (readBE32 P rp) rp expected"

definition readLE64_expected :: "platform \<Rightarrow> bytes \<Rightarrow> u64 \<Rightarrow> (bool \<times> u64 \<times> bytes) option" where
  "readLE64_expected P rp expected = expecting (readLE64 P rp) rp expected"

definition readBE64_expected :: "platform \<Rightarrow> bytes \<Rightarrow> u64 \<Rightarrow> (bool \<times> u64 \<times> bytes) option" where
  "readBE64_expected P rp expected = expecting (readBE64 P rp) rp expected"

section \<open>Fixed-width writers\<close>

definition write_byte :: "bytes \<Rightarrow> byte \<Rightarrow> bytes" where
  "write_byte buffer value = buffer @ [value]"

definition write_bytes :: "bytes \<Rightarrow> bytes \<Rightarrow> bytes" where
  "write_bytes buffer value = buffer @ value"

definition write16 :: "platform \<Rightarrow> bool \<Rightarrow> bytes \<Rightarrow> u16 \<Rightarrow> bytes" where
  "write16 P be buffer value = buffer @ mem P 2 (hostTo16 P be value)"

definition writeLE16 :: "platform \<Rightarrow> bytes \<Rightarrow> u16 \<Rightarrow> bytes" where
  "writeLE16 P buffer value = buffer @ mem P 2 (hostToLE16 P value)"

definition writeBE16 :: "platform \<Rightarrow> bytes \<Rightarrow> u16 \<Rightarrow> bytes" where
  "writeBE16 P buffer value = buffer @ mem P 2 (hostToBE16 P value)"

definition write32 :: "platform \<Rightarrow> bool \<Rightarrow> bytes \<Rightarrow> u32 \<Rightarrow> bytes" where
  "write32 P be buffer value = buffer @ mem P 4 (hostTo32 P be value)"

definition writeLE32 :: "platform \<Rightarrow> bytes \<Rightarrow> u32 \<Rightarrow> bytes" where
  "writeLE32 P buffer value = buffer @ mem P 4 (hostToLE32 P value)"

definition writeBE32 :: "platform \<Rightarrow> bytes \<Rightarrow> u32 \<Rightarrow> bytes" where
  "writeBE32 P buffer value = buffer @ mem P 4 (hostToBE32 P value)"

definition write64 :: "platform \<Rightarrow> bool \<Rightarrow> bytes \<Rightarrow> u64 \<Rightarrow> bytes" where
  "write64 P be buffer value = buffer @ mem P 8 (hostTo64 P be value)"

definition writeLE64 :: "platform \<Rightarrow> bytes \<Rightarrow> u64 \<Rightarrow> bytes" where
  "writeLE64 P buffer value = buffer @ mem P 8 (hostToLE64 P value)"

definition writeBE64 :: "platform \<Rightarrow> bytes \<Rightarrow> u64 \<Rightarrow> bytes" where
  "writeBE64 P buffer value = buffer @ mem P 8 (hostToBE64 P value)"

section \<open>Length-encoded integers\<close>

text \<open>
  \<open>readLenEncInt\<close>: the result is the return value, \<open>*value\<close>, \<open>*rpout\<close> and
  \<open>*isnull\<close>; \<open>wantnull\<close> says whether the caller passed an \<open>isnull\<close>. The buffer
  ends at \<open>end\<close>.
\<close>

definition readLenEncInt :: "platform \<Rightarrow> bool \<Rightarrow> bytes \<Rightarrow> bool \<times> u64 \<times> bytes \<times> bool" where
  "readLenEncInt P wantnull rp =
     (case rp of
        [] \<Rightarrow> (False, 0, rp, False)
      | m # rest \<Rightarrow>
          if m = 0xfe then
            (if length rp < 9 then (False, 0, rp, False)
             else (True, leToHost64 P (ld P (take 8 rest)), drop 8 rest, False))
          else if m = 0xfd then
            (if length rp < 4 then (False, 0, rp, False)
             else (True,
                   ucast ((ucast (rest ! 0) OR push_bit 8 (ucast (rest ! 1)) OR
                           push_bit 16 (ucast (rest ! 2))) :: u32),
                   drop 3 rest, False))
          else if m = 0xfc then
            (if length rp < 3 then (False, 0, rp, False)
             else (True, ucast (leToHost16 P (ld P (take 2 rest))), drop 2 rest, False))
          else if m = 0xfb \<and> wantnull then (True, 0, rest, True)
          else (True, ucast m, rest, False))"

definition writeTriplet :: "platform \<Rightarrow> bytes \<Rightarrow> u32 \<Rightarrow> bytes" where
  "writeTriplet P buffer value =
     (let valuebytes = mem P 4 (hostToBE32 P value)
      in buffer @ [valuebytes ! 3] @ [valuebytes ! 2] @ [valuebytes ! 1])"

definition writeLenEncInt :: "platform \<Rightarrow> bytes \<Rightarrow> u64 \<Rightarrow> bytes" where
  "writeLenEncInt P buffer value =
     (if 16777216 \<le> value then (buffer @ [0xfe]) @ mem P 8 (hostToLE64 P value)
      else if 65536 \<le> value then writeTriplet P (buffer @ [0xfd]) (ucast value)
      else if 251 \<le> value then (buffer @ [0xfc]) @ mem P 2 (hostToLE16 P (ucast value))
      else buffer @ [ucast value])"

definition writeLenEncStr :: "platform \<Rightarrow> bytes \<Rightarrow> bytes \<Rightarrow> bytes" where
  "writeLenEncStr P buffer str = writeLenEncInt P buffer (of_nat (length str)) @ str"

section \<open>BER lengths\<close>

datatype 'a rdres = Got 'a bytes | Refused | Overrun

fun shift_in :: "nat \<Rightarrow> u64 \<Rightarrow> bytes \<Rightarrow> u64 rdres" where
  "shift_in 0 value ptr = Got value ptr"
| "shift_in (Suc n) value [] = Overrun"
| "shift_in (Suc n) value (b # ptr) = shift_in n (push_bit 8 value OR ucast b) ptr"

definition readBerEncInt :: "bytes \<Rightarrow> u64 rdres" where
  "readBerEncInt rp =
     (case rp of
        [] \<Rightarrow> Overrun
      | b # rest \<Rightarrow>
          if b < 128 then Got (ucast b) rest
          else (let n = b AND 0x7f in if 8 < n then Refused else shift_in (unat n) 0 rest))"

definition writeBerEncInt :: "platform \<Rightarrow> bytes \<Rightarrow> u64 \<Rightarrow> bytes" where
  "writeBerEncInt P buffer value =
     (if value < 128 then buffer @ [ucast value]
      else if value \<le> 0x000000FF then buffer @ [0x81] @ [ucast value]
      else if value \<le> 0x0000FFFF then buffer @ [0x82] @ mem P 2 (hostToBE16 P (ucast value))
      else if value \<le> 0x00FFFFFF then
        writeTriplet P (buffer @ [0x83]) (hostToBE32 P (ucast value))
      else if value \<le> 0xFFFFFFFF then buffer @ [0x84] @ mem P 4 (hostToBE32 P (ucast value))
      else buffer)"

section \<open>Length-preceded integers\<close>

text \<open>The second equation is not reached: \<open>readLenPreInt\<close> checks the length first.\<close>

fun shift_in32 :: "nat \<Rightarrow> u32 \<Rightarrow> bytes \<Rightarrow> u32 \<times> bytes" where
  "shift_in32 0 value rp = (value, rp)"
| "shift_in32 (Suc n) value [] = (value, [])"
| "shift_in32 (Suc n) value (b # rp) = shift_in32 n (push_bit 8 value OR ucast b) rp"

text \<open>The result is the return value, \<open>*value\<close> and \<open>*rpout\<close>.\<close>

definition readLenPreInt :: "bytes \<Rightarrow> bool \<times> u32 \<times> bytes" where
  "readLenPreInt rp =
     (case rp of
        [] \<Rightarrow> (False, 0, rp)
      | count # rest \<Rightarrow>
          if 4 < count \<or> length rest < unat count then (False, 0, rp)
          else (case shift_in32 (unat count) 0 rest of (value, rpout) \<Rightarrow> (True, value, rpout)))"

definition writeLenPreInt :: "platform \<Rightarrow> bytes \<Rightarrow> u32 \<Rightarrow> bytes" where
  "writeLenPreInt P buffer value =
     (if value = 0 then buffer @ [0]
      else if value \<le> 0xff then buffer @ [1] @ [ucast value]
      else if value \<le> 0xffff then buffer @ [2] @ mem P 2 (hostToBE16 P (ucast value))
      else buffer @ [4] @ mem P 4 (hostToBE32 P value))"

definition writeLenPreInt_signed :: "platform \<Rightarrow> bytes \<Rightarrow> i32 \<Rightarrow> bytes" where
  "writeLenPreInt_signed P buffer value = writeLenPreInt P buffer value"

section \<open>Round trips\<close>

text \<open>
  The platform contract as a locale: inside it every writer/reader pair is an instance of
  \<open>prefix_codec\<close>. The two byte orders of a host give the two interpretations.
\<close>

locale wire_platform =
  fixes P :: platform
  assumes platform: "platform_ok P"
begin

lemmas net = platform_net [OF platform_okD(1) [OF platform]]
lemmas little = platform_little [OF platform_okD(2) [OF platform]]

lemma ld_net:
  "n2h16 P (ld P (take 2 (be_bytes 2 x @ r))) = x"
  "n2h32 P (ld P (take 4 (be_bytes 4 y @ r))) = y"
  "n2h64 P (ld P (take 8 (be_bytes 8 z @ r))) = z"
  by (simp_all add: net)

lemma ld_little:
  "le2h16 P (ld P (take 2 (le_bytes 2 x @ r))) = x"
  "le2h32 P (ld P (take 4 (le_bytes 4 y @ r))) = y"
  "le2h64 P (ld P (take 8 (le_bytes 8 z @ r))) = z"
  by (simp_all add: little)

lemma fixed_width:
  "read16 P be (write16 P be [] x @ r) = Some (x, r)"
  "readLE16 P (writeLE16 P [] x @ r) = Some (x, r)"
  "readBE16 P (writeBE16 P [] x @ r) = Some (x, r)"
  "read32 P be (write32 P be [] y @ r) = Some (y, r)"
  "readLE32 P (writeLE32 P [] y @ r) = Some (y, r)"
  "readBE32 P (writeBE32 P [] y @ r) = Some (y, r)"
  "read64 P be (write64 P be [] z @ r) = Some (z, r)"
  "readLE64 P (writeLE64 P [] z @ r) = Some (z, r)"
  "readBE64 P (writeBE64 P [] z @ r) = Some (z, r)"
  by (simp_all add: read16_def write16_def readLE16_def writeLE16_def readBE16_def writeBE16_def
      read32_def write32_def readLE32_def writeLE32_def readBE32_def writeBE32_def
      read64_def write64_def readLE64_def writeLE64_def readBE64_def writeBE64_def
      read_int_def order_defs net little)

lemma triplet: "writeTriplet P buffer v = buffer @ take 3 (le_bytes 4 v)"
proof -
  have r: "rev (le_bytes 4 v) = [ucast (drop_bit 24 v), ucast (drop_bit 16 v), ucast (drop_bit 8 v), ucast v]"
    by (simp add: numeral_eq_Suc drop_bit_drop_bit)
  then have "le_bytes 4 v = [ucast v, ucast (drop_bit 8 v), ucast (drop_bit 16 v), ucast (drop_bit 24 v)]"
    by (simp add: rev_swap)
  with r show ?thesis
    by (simp add: writeTriplet_def order_defs net be_bytes_def)
qed

end

sublocale wire_platform \<subseteq> le16: fixed_codec "writeLE16 P []" "readLE16 P" "\<lambda>_. True" 2
  by unfold_locales (simp_all only: fixed_width, simp_all add: writeLE16_def readLE16_def read_int_def)

sublocale wire_platform \<subseteq> be16: fixed_codec "writeBE16 P []" "readBE16 P" "\<lambda>_. True" 2
  by unfold_locales (simp_all only: fixed_width, simp_all add: writeBE16_def readBE16_def read_int_def)

sublocale wire_platform \<subseteq> le32: fixed_codec "writeLE32 P []" "readLE32 P" "\<lambda>_. True" 4
  by unfold_locales (simp_all only: fixed_width, simp_all add: writeLE32_def readLE32_def read_int_def)

sublocale wire_platform \<subseteq> be32: fixed_codec "writeBE32 P []" "readBE32 P" "\<lambda>_. True" 4
  by unfold_locales (simp_all only: fixed_width, simp_all add: writeBE32_def readBE32_def read_int_def)

sublocale wire_platform \<subseteq> le64: fixed_codec "writeLE64 P []" "readLE64 P" "\<lambda>_. True" 8
  by unfold_locales (simp_all only: fixed_width, simp_all add: writeLE64_def readLE64_def read_int_def)

sublocale wire_platform \<subseteq> be64: fixed_codec "writeBE64 P []" "readBE64 P" "\<lambda>_. True" 8
  by unfold_locales (simp_all only: fixed_width, simp_all add: writeBE64_def readBE64_def read_int_def)

interpretation little: wire_platform little_host
  by unfold_locales (rule platform_ok_little_host)

interpretation big: wire_platform big_endian_host
  by unfold_locales (rule platform_ok_big_endian_host)

end
