(* ===== verification/Wire_Codecs.thy ===== *)
theory Wire_Codecs
  imports Wire_Ints
begin

text \<open>
  Round trips of the variable-length integers of \<open>Wire_Ints\<close>, and the properties of the wire
  integers as a whole: writer and reader may run on different hosts, each of which only has to
  satisfy \<open>platform_ok\<close>. Every writer/reader pair is an interpretation of
  \<open>prefix_codec\<close>, so that sequences of integers read back too.
\<close>

section \<open>Two hosts\<close>

text \<open>The fields of a message, in the protocol's byte order, whatever the byte order of the host.\<close>

lemma write_image:
  assumes "platform_ok P"
  shows "write16 P be buffer x = buffer @ (if be then be_bytes 2 x else le_bytes 2 x)"
    and "write32 P be buffer y = buffer @ (if be then be_bytes 4 y else le_bytes 4 y)"
    and "write64 P be buffer z = buffer @ (if be then be_bytes 8 z else le_bytes 8 z)"
  using platform_net [OF platform_okD(1) [OF assms]] platform_little [OF platform_okD(2) [OF assms]]
  by (simp_all add: write16_def write32_def write64_def order_defs)

lemma writeLE_image:
  assumes "platform_ok P"
  shows "writeLE16 P buffer x = buffer @ le_bytes 2 x"
    and "writeLE32 P buffer y = buffer @ le_bytes 4 y"
    and "writeLE64 P buffer z = buffer @ le_bytes 8 z"
    and "mem P 2 (hostToLE16 P x) = le_bytes 2 x"
    and "mem P 8 (hostToLE64 P z) = le_bytes 8 z"
  using platform_little [OF platform_okD(2) [OF assms]]
  by (simp_all add: writeLE16_def writeLE32_def writeLE64_def order_defs)

lemma writeBE_image:
  assumes "platform_ok P"
  shows "writeBE16 P buffer x = buffer @ be_bytes 2 x"
    and "writeBE32 P buffer y = buffer @ be_bytes 4 y"
    and "writeBE64 P buffer z = buffer @ be_bytes 8 z"
    and "mem P 2 (hostToBE16 P x) = be_bytes 2 x"
    and "mem P 4 (hostToBE32 P y) = be_bytes 4 y"
  using platform_net [OF platform_okD(1) [OF assms]]
  by (simp_all add: writeBE16_def writeBE32_def writeBE64_def order_defs)

lemma read_image:
  assumes "platform_ok Q"
  shows "read16 Q be ((if be then be_bytes 2 x else le_bytes 2 x) @ r) = Some (x, r)"
    and "read32 Q be ((if be then be_bytes 4 y else le_bytes 4 y) @ r) = Some (y, r)"
    and "read64 Q be ((if be then be_bytes 8 z else le_bytes 8 z) @ r) = Some (z, r)"
  using platform_net [OF platform_okD(1) [OF assms]] platform_little [OF platform_okD(2) [OF assms]]
  by (simp_all add: read16_def read32_def read64_def read_int_def order_defs)

section \<open>Length-encoded integers\<close>

text \<open>
  The bytes that the length-encoded writer appends, on every host that satisfies the contract.
\<close>

definition lenenc :: "u64 \<Rightarrow> bytes" where
  "lenenc v =
     (if 16777216 \<le> v then 0xfe # le_bytes 8 v
      else if 65536 \<le> v then 0xfd # le_bytes 3 v
      else if 251 \<le> v then 0xfc # le_bytes 2 v
      else [ucast v])"

lemma take_bit_small: "(v :: 'a::len word) < 2 ^ n \<Longrightarrow> take_bit n v = v"
  by (simp add: less_mask_eq take_bit_eq_mask)

lemma le_bytes_ucast: "n \<le> 4 \<Longrightarrow> le_bytes n (ucast (v :: u64) :: u32) = le_bytes n v"
proof -
  have "m + n \<le> 4 \<Longrightarrow>
      le_bytes n (drop_bit (8 * m) (ucast v :: u32)) = le_bytes n (drop_bit (8 * m) v)" for m
  proof (induction n arbitrary: m)
    case 0
    then show ?case by simp
  next
    case (Suc n)
    have "(ucast (drop_bit (8 * m) (ucast v :: u32)) :: byte) = ucast (drop_bit (8 * m) v)"
      by (rule bit_word_eqI) (use Suc.prems in \<open>auto simp: bit_simps\<close>)
    with Suc.IH [of "Suc m"] Suc.prems show ?case
      by (simp add: drop_bit_drop_bit add.commute)
  qed
  from this [of 0] show "n \<le> 4 \<Longrightarrow> ?thesis" by simp
qed

lemma le_bytes_2_ucast: "le_bytes 2 (ucast (v :: u64) :: u16) = le_bytes 2 v"
proof -
  have "(ucast (ucast v :: u16) :: byte) = ucast v"
    "(ucast (drop_bit 8 (ucast v :: u16)) :: byte) = ucast (drop_bit 8 v)"
    by (rule bit_word_eqI, auto simp: bit_simps)+
  then show ?thesis by (simp add: numeral_2_eq_2)
qed

lemma take_le_bytes: "k \<le> n \<Longrightarrow> take k (le_bytes n w) = le_bytes k w"
proof (induction n arbitrary: k w)
  case (Suc n)
  then show ?case by (cases k) auto
qed simp


lemma writeLenEncInt_lenenc:
  assumes "platform_ok P"
  shows "writeLenEncInt P buffer v = buffer @ lenenc v"
  by (simp add: writeLenEncInt_def lenenc_def writeLE_image [OF assms] le_bytes_2_ucast
      wire_platform.triplet [OF wire_platform.intro [OF assms]] take_le_bytes le_bytes_ucast)

lemma ucast_triplet:
  "ucast (ucast a OR push_bit 8 (ucast b) OR push_bit 16 (ucast (c :: byte)) :: u32)
     = (of_le [a, b, c] :: u64)"
  by (rule bit_word_eqI) (auto simp: bit_simps dest: bit_imp_le_length)

lemma lenenc_cases:
  obtains (eight) "16777216 \<le> v" "lenenc v = 0xfe # le_bytes 8 v"
  | (three) "65536 \<le> v" "v < 2 ^ 24" "lenenc v = 0xfd # le_bytes 3 v"
  | (two) "251 \<le> v" "v < 2 ^ 16" "lenenc v = 0xfc # le_bytes 2 v"
  | (one) "v < 251" "lenenc v = [ucast v]"
  by (cases "16777216 \<le> v"; cases "65536 \<le> v"; cases "251 \<le> v")
    (simp_all add: lenenc_def not_le)

lemma small_byte:
  assumes "(v :: u64) < 251"
  shows "unat (ucast v :: byte) = unat v" and "(ucast v :: byte) < 251"
    and "ucast (ucast v :: byte) = v"
proof -
  have "unat v < 251" using assms by (simp add: word_less_nat_alt)
  then show u: "unat (ucast v :: byte) = unat v" 
    by (simp add: unsigned_ucast_eq take_bit_nat_eq_self_iff)
  show "(ucast v :: byte) < 251" using assms u by (simp add: word_less_nat_alt)
  have "v < 2 ^ 8" using assms by (simp add: word_less_nat_alt)
  moreover have "ucast (ucast v :: byte) = take_bit 8 v"
    by (rule bit_word_eqI) (auto simp: bit_simps)
  ultimately show "ucast (ucast v :: byte) = v" by (simp add: take_bit_small)
qed

lemma readLenEncInt_lenenc:
  assumes "platform_ok Q"
  shows "readLenEncInt Q wantnull (lenenc v @ r) = (True, v, r, False)"
proof (cases v rule: lenenc_cases)
  case eight
  then show ?thesis
    using platform_little(6) [OF platform_okD(2) [OF assms]]
    by (simp add: readLenEncInt_def order_defs)
next
  case three
  have "le_bytes 3 v = [ucast v, ucast (drop_bit 8 v), ucast (drop_bit 16 v)]" (is "_ = ?l")
    by (simp add: numeral_3_eq_3 drop_bit_drop_bit)
  moreover have "of_le ?l = v"
    using three(2) of_le_le_bytes [of 3 v] calculation by (simp add: take_bit_small)
  ultimately have "ucast (ucast (ucast v :: byte) OR push_bit 8 (ucast (ucast (drop_bit 8 v) :: byte))
      OR push_bit 16 (ucast (ucast (drop_bit 16 v) :: byte)) :: u32) = v"
    by (simp only: ucast_triplet)
  with \<open>le_bytes 3 v = ?l\<close> show ?thesis
    using three(3) by (simp add: readLenEncInt_def)
next
  case two
  have "leToHost16 Q (ld Q (le_bytes 2 v)) = ucast v"
    using platform_little(4) [OF platform_okD(2) [OF assms], of "ucast v"]
    by (simp add: order_defs le_bytes_2_ucast)
  moreover have "ucast (ucast v :: u16) = v"
    using take_bit_small [OF two(2)] by (simp add: unsigned_ucast_eq flip: take_bit_eq_mask)
  ultimately show ?thesis
    using two by (simp add: readLenEncInt_def)
next
  case one
  then have "(ucast v :: byte) < 251" "ucast (ucast v :: byte) = v"
    using small_byte [OF one(1)] by simp_all
  then show ?thesis
    using one by (auto simp: readLenEncInt_def)
qed

lemma readLenEncInt_short:
  assumes "k < length (lenenc v)"
  shows "readLenEncInt Q wantnull (take k (lenenc v)) = (False, 0, take k (lenenc v), False)"
proof (cases k)
  case 0
  then show ?thesis by (simp add: readLenEncInt_def)
next
  case (Suc n)
  with assms show ?thesis
    by (cases v rule: lenenc_cases) (simp_all add: readLenEncInt_def)
qed


section \<open>Length-preceded integers\<close>

definition lenpre :: "u32 \<Rightarrow> bytes" where
  "lenpre v =
     (if v = 0 then [0]
      else if v \<le> 0xff then [1, ucast v]
      else if v \<le> 0xffff then 2 # be_bytes 2 v
      else 4 # be_bytes 4 v)"

lemma be_bytes_2_ucast: "be_bytes 2 (ucast (v :: u32) :: u16) = be_bytes 2 v"
proof -
  have "(ucast (ucast v :: u16) :: byte) = ucast v"
    "(ucast (drop_bit 8 (ucast v :: u16)) :: byte) = ucast (drop_bit 8 v)"
    by (rule bit_word_eqI, auto simp: bit_simps)+
  then show ?thesis by (simp add: numeral_2_eq_2 be_bytes_def)
qed

lemma writeLenPreInt_lenpre:
  assumes "platform_ok P"
  shows "writeLenPreInt P buffer v = buffer @ lenpre v"
  by (simp add: writeLenPreInt_def lenpre_def writeBE_image [OF assms] be_bytes_2_ucast)

lemma of_be_Cons: "of_be (b # bs) = (push_bit (8 * length bs) (ucast b) OR of_be bs :: 'a::len word)"
proof -
  have "of_le (xs @ [b]) = (of_le xs OR push_bit (8 * length xs) (ucast b) :: 'a word)" for xs
    by (induction xs) (simp_all add: push_bit_or or.assoc add.commute)
  from this [of "rev bs"] show ?thesis
    by (simp add: of_be_def or.commute)
qed

lemma of_be_be_bytes: "of_be (be_bytes n (w :: 'a::len word)) = take_bit (8 * n) w"
  by (simp add: of_be_def be_bytes_def of_le_le_bytes)

lemma shift_in32_append:
  "shift_in32 (length bs) w (bs @ r) = (push_bit (8 * length bs) w OR of_be bs, r)"
proof (induction bs arbitrary: w)
  case Nil
  then show ?case by (simp add: of_be_def)
next
  case (Cons b bs)
  then show ?case by (simp add: of_be_Cons push_bit_or or.assoc add.commute)
qed

lemma shift_in32_be: "shift_in32 n 0 (be_bytes n v @ r) = (take_bit (8 * n) v, r)"
  using shift_in32_append [of "be_bytes n v" 0 r] by (simp add: of_be_be_bytes)

lemma lenpre_cases:
  obtains (zero) "v = 0" "lenpre v = [0]"
  | (one) "v < 2 ^ 8" "lenpre v = 1 # be_bytes 1 v"
  | (two) "v < 2 ^ 16" "lenpre v = 2 # be_bytes 2 v"
  | (four) "lenpre v = 4 # be_bytes 4 v"
proof -
  have b: "v \<le> 0xff \<longleftrightarrow> v < 2 ^ 8" "v \<le> 0xffff \<longleftrightarrow> v < 2 ^ 16"
    by (simp_all add: word_le_nat_alt word_less_nat_alt less_eq_Suc_le)
  show ?thesis
    by (cases "v = 0"; cases "v \<le> 0xff"; cases "v \<le> 0xffff")
      (use that b in \<open>simp_all add: lenpre_def be_bytes_def numeral_nat\<close>)
qed

lemma readLenPreInt_lenpre: "readLenPreInt (lenpre v @ r) = (True, v, r)"
proof (cases v rule: lenpre_cases)
  case zero
  then show ?thesis by (simp add: readLenPreInt_def)
next
  case one
  then show ?thesis
    using shift_in32_be [of 1 v r] take_bit_small [of v 8]
    by (simp add: readLenPreInt_def be_bytes_def)
next
  case two
  then show ?thesis
    using shift_in32_be [of 2 v r] take_bit_small [of v 16] by (simp add: readLenPreInt_def)
next
  case four
  have "take_bit 32 v = v" by (rule take_bit_word_eq_self) simp
  with four show ?thesis
    using shift_in32_be [of 4 v r] by (simp add: readLenPreInt_def)
qed

lemma readLenPreInt_short:
  assumes "k < length (lenpre v)"
  shows "readLenPreInt (take k (lenpre v)) = (False, 0, take k (lenpre v))"
proof (cases k)
  case 0
  then show ?thesis by (simp add: readLenPreInt_def)
next
  case (Suc n)
  with assms show ?thesis
    by (cases v rule: lenpre_cases) (simp_all add: readLenPreInt_def)
qed

section \<open>BER lengths\<close>

lemma shift_in_append:
  "shift_in (length bs) w (bs @ r) = Got (push_bit (8 * length bs) w OR of_be bs) r"
proof (induction bs arbitrary: w)
  case Nil
  then show ?case by (simp add: of_be_def)
next
  case (Cons b bs)
  then show ?case by (simp add: of_be_Cons push_bit_or or.assoc add.commute)
qed

lemma readBer_long:
  assumes "0 < length bs" and "length bs \<le> 8"
  shows "readBerEncInt ((0x80 OR of_nat (length bs)) # bs @ r) = Got (of_be bs) r"
proof -
  have "n = 1 \<or> n = 2 \<or> n = 3 \<or> n = 4 \<or> n = 5 \<or> n = 6 \<or> n = 7 \<or> n = 8"
    if "0 < n" "n \<le> 8" for n :: nat
    using that by presburger
  note this [OF assms]
  then have "readBerEncInt ((0x80 OR of_nat (length bs)) # bs @ r)
      = shift_in (length bs) 0 (bs @ r)"
    by (auto simp: readBerEncInt_def)
  then show ?thesis by (simp add: shift_in_append)
qed

lemma be_bytes_ucast64: "n \<le> 4 \<Longrightarrow> be_bytes n (ucast (v :: u64) :: u32) = be_bytes n v"
  by (simp add: be_bytes_def le_bytes_ucast)

lemma be_bytes_2_ucast64: "be_bytes 2 (ucast (v :: u64) :: u16) = be_bytes 2 v"
  by (simp add: be_bytes_def le_bytes_2_ucast)

text \<open>
  The forms of a BER length. The three-byte form hands \<open>writeTriplet\<close> a value that is already in
  network order.
\<close>

lemma ber_bounds:
  "(v :: u64) \<le> 0x000000FF \<longleftrightarrow> v < 2 ^ 8" "v \<le> 0x0000FFFF \<longleftrightarrow> v < 2 ^ 16"
  "v \<le> 0x00FFFFFF \<longleftrightarrow> v < 2 ^ 24" "v \<le> 0xFFFFFFFF \<longleftrightarrow> v < 2 ^ 32"
  by (simp_all add: word_le_nat_alt word_less_nat_alt less_eq_Suc_le)

lemma writeBer_image:
  assumes "platform_ok P"
  shows "writeBerEncInt P buffer v = buffer @
     (if v < 128 then [ucast v]
      else if v < 2 ^ 8 then 0x81 # be_bytes 1 v
      else if v < 2 ^ 16 then 0x82 # be_bytes 2 v
      else if v < 2 ^ 24 then 0x83 # le_bytes 3 (hostToBE32 P (ucast v))
      else if v < 2 ^ 32 then 0x84 # be_bytes 4 v
      else [])"
proof -
  have one: "be_bytes 1 v = [ucast v]" by (simp add: be_bytes_def)
  show ?thesis
    unfolding writeBerEncInt_def ber_bounds one
    by (simp add: writeBE_image [OF assms] be_bytes_2_ucast64 be_bytes_ucast64 take_le_bytes
        wire_platform.triplet [OF wire_platform.intro [OF assms]])
qed

lemma readBer_be:
  assumes "n \<in> {1, 2, 4}" and "v < 2 ^ (8 * n)"
  shows "readBerEncInt ((0x80 OR of_nat n) # be_bytes n v @ r) = Got v r"
  using readBer_long [of "be_bytes n v" r] assms by (auto simp: of_be_be_bytes take_bit_small)

lemma readBer_writeBer:
  assumes "platform_ok P" and "v < 2 ^ 16 \<or> (2 ^ 24 \<le> v \<and> v < 2 ^ 32)"
  shows "readBerEncInt (writeBerEncInt P [] v @ r) = Got v r"
proof -
  have up: "2 ^ 24 \<le> v \<Longrightarrow> \<not> v < 128 \<and> \<not> v < 2 ^ 8 \<and> \<not> v < 2 ^ 16 \<and> \<not> v < 2 ^ 24"
    by (simp add: word_le_nat_alt word_less_nat_alt)
  consider (a) "v < 128" | (b) "\<not> v < 128" "v < 2 ^ 8" | (c) "\<not> v < 128" "\<not> v < 2 ^ 8" "v < 2 ^ 16"
    | (d) "2 ^ 24 \<le> v" "v < 2 ^ 32"
    using assms(2) by blast
  then show ?thesis
  proof cases
    case a
    have "v < 2 ^ 8" using a by (simp add: word_less_nat_alt)
    moreover have "ucast (ucast v :: byte) = take_bit 8 v"
      by (rule bit_word_eqI) (auto simp: bit_simps)
    ultimately have v: "ucast (ucast v :: byte) = v" by (simp add: take_bit_small)
    have "(ucast v :: byte) < 128"
      using a \<open>v < 2 ^ 8\<close> by (simp add: word_less_nat_alt unsigned_ucast_eq take_bit_nat_eq_self)
    with a v show ?thesis by (simp add: writeBer_image [OF assms(1)] readBerEncInt_def)
  next
    case b
    then show ?thesis
      using readBer_be [of 1 v r] by (simp add: writeBer_image [OF assms(1)])
  next
    case c
    then show ?thesis
      using readBer_be [of 2 v r] by (simp add: writeBer_image [OF assms(1)])
  next
    case d
    then show ?thesis
      using readBer_be [of 4 v r] up by (simp add: writeBer_image [OF assms(1)])
  qed
qed

lemma le_bytes_3_swap:
  "le_bytes 3 (swap 4 (ucast (v :: u64) :: u32)) = be_bytes 3 (drop_bit 8 v)"
proof -
  have "le_bytes 3 (swap 4 (ucast v :: u32)) = take 3 (be_bytes 4 v)"
    using le_bytes_swap [where n = 4 and w = "ucast v :: u32"] be_bytes_ucast64 [of 4 v]
    by (simp flip: take_le_bytes [of 3 4])
  also have "\<dots> = be_bytes 3 (drop_bit 8 v)"
    by (simp add: be_bytes_def numeral_eq_Suc)
  finally show ?thesis .
qed

lemma little_host_fields: "h2n32 little_host = swap 4"
  by (simp add: little_host_def)

lemma readBer_three:
  assumes "\<not> v < 2 ^ 16" and "v < 2 ^ 24"
  shows "readBerEncInt (writeBerEncInt little_host [] v @ r) = Got (v div 256) r"
proof -
  have d: "drop_bit 8 v = v div 256"
    by (simp add: drop_bit_eq_div)
  have "unat (v div 256) = unat v div 256" by (simp add: unat_div)
  also have "\<dots> < 2 ^ 24" using assms(2) by (simp add: word_less_nat_alt)
  finally have "v div 256 < 2 ^ 24" by (simp add: word_less_nat_alt)
  then have "of_be (be_bytes 3 (drop_bit 8 v)) = v div 256"
    using of_be_be_bytes [of 3 "drop_bit 8 v"] d by (simp add: take_bit_small)
  then have "readBerEncInt (0x83 # be_bytes 3 (drop_bit 8 v) @ r) = Got (v div 256) r"
    using readBer_long [of "be_bytes 3 (drop_bit 8 v)" r] by simp
  moreover have "\<not> v < 128" "\<not> v < 2 ^ 8"
    using assms(1) by (simp_all add: word_less_nat_alt)
  ultimately show ?thesis
    using assms
    by (simp add: writeBer_image [OF platform_ok_little_host] order_defs le_bytes_3_swap
        little_host_fields)
qed

section \<open>The codecs as interpretations\<close>

text \<open>
  The length-encoded and length-preceded readers as functions that fail or consume, on any host.
\<close>

definition lenEnc_dec :: "platform \<Rightarrow> bytes \<Rightarrow> (u64 \<times> bytes) option" where
  "lenEnc_dec Q rp = (case readLenEncInt Q False rp of (ok, v, rpout, _) \<Rightarrow> if ok then Some (v, rpout) else None)"

definition lenPre_dec :: "bytes \<Rightarrow> (u32 \<times> bytes) option" where
  "lenPre_dec rp = (case readLenPreInt rp of (ok, v, rpout) \<Rightarrow> if ok then Some (v, rpout) else None)"

definition ber_dec :: "bytes \<Rightarrow> (u64 \<times> bytes) option" where
  "ber_dec rp = (case readBerEncInt rp of Got v rpout \<Rightarrow> Some (v, rpout) | _ \<Rightarrow> None)"

sublocale wire_platform \<subseteq> lenEnc: prefix_codec "writeLenEncInt P []" "lenEnc_dec P" "\<lambda>_. True"
  by unfold_locales
    (simp add: lenEnc_dec_def writeLenEncInt_lenenc [OF platform] readLenEncInt_lenenc [OF platform])

sublocale wire_platform \<subseteq> lenPre: prefix_codec "writeLenPreInt P []" lenPre_dec "\<lambda>_. True"
  by unfold_locales (simp add: lenPre_dec_def writeLenPreInt_lenpre [OF platform] readLenPreInt_lenpre)

sublocale wire_platform \<subseteq> ber: prefix_codec "writeBerEncInt P []" ber_dec
    "\<lambda>v. v < 2 ^ 16 \<or> (2 ^ 24 \<le> v \<and> v < 2 ^ 32)"
  by unfold_locales (simp only: ber_dec_def readBer_writeBer [OF platform], simp)

context wire_platform
begin

lemmas ber_many = ber.read_many_enc

end

section \<open>Properties\<close>

text \<open>
  C37: between any two hosts, whatever their byte orders, the fixed-width fields written in the
  protocol's byte order lie in the buffer in that byte order and are read back by the other
  host as they were, with exactly what follows them left to read.
\<close>

theorem fixed_width_interop:
  assumes "platform_ok P" and "platform_ok Q"
  shows "\<exists>b16 b32 b64.
     write64 P be (write32 P be (write16 P be buffer x) y) z = buffer @ b16 @ b32 @ b64 \<and>
     b16 = (if be then be_bytes 2 x else le_bytes 2 x) \<and>
     read16 Q be (b16 @ b32 @ b64 @ r) = Some (x, b32 @ b64 @ r) \<and>
     read32 Q be (b32 @ b64 @ r) = Some (y, b64 @ r) \<and>
     read64 Q be (b64 @ r) = Some (z, r)"
proof (intro exI conjI)
  show "write64 P be (write32 P be (write16 P be buffer x) y) z =
      buffer @ (if be then be_bytes 2 x else le_bytes 2 x) @
        (if be then be_bytes 4 y else le_bytes 4 y) @ (if be then be_bytes 8 z else le_bytes 8 z)"
    by (simp only: write_image [OF assms(1)] append_assoc)
qed (rule refl read_image [OF assms(2)])+

theorem fixed_width_interop_witness:
  "\<exists>bs. write64 little_host True (write32 little_host True (write16 little_host True [] 258) 7) 9 = [1, 2] @ bs \<and>
     read16 big_endian_host True ([1, 2] @ bs) = Some (258, bs)"
proof -
  have "(if True then be_bytes 2 (258 :: u16) else le_bytes 2 258) = [1, 2]"
    by code_simp
  then show ?thesis
    using fixed_width_interop [OF platform_ok_little_host platform_ok_big_endian_host,
        where be = True and buffer = "[]" and x = 258 and y = 7 and z = 9 and r = "[]"]
    unfolding append_Nil append_Nil2 by metis
qed

text \<open>
  The MySQL length-encoded integer. Every 64-bit value, written by one host in one of its
  four forms, is read back by any other host with exactly the bytes that follow, is never taken for
  the null marker, and takes one, three, four or nine bytes; a buffer that ends inside the
  integer is refused and the read pointer stays where it was.
\<close>

theorem lenEncInt_roundtrip:
  assumes "platform_ok P" and "platform_ok Q"
  shows "\<exists>bs. writeLenEncInt P buffer v = buffer @ bs \<and>
     (\<forall>r. readLenEncInt Q wantnull (bs @ r) = (True, v, r, False)) \<and>
     (\<forall>k. k \<ge> length bs \<or> readLenEncInt Q wantnull (take k bs) = (False, 0, take k bs, False)) \<and>
     length bs = (if v < 251 then 1 else if v < 65536 then 3 else if v < 16777216 then 4 else 9)"
proof (intro exI conjI allI)
  show "writeLenEncInt P buffer v = buffer @ lenenc v"
    by (rule writeLenEncInt_lenenc [OF assms(1)])
  show "readLenEncInt Q wantnull (lenenc v @ r) = (True, v, r, False)" for r
    by (rule readLenEncInt_lenenc [OF assms(2)])
  show "k \<ge> length (lenenc v) \<or>
      readLenEncInt Q wantnull (take k (lenenc v)) = (False, 0, take k (lenenc v), False)" for k
    using readLenEncInt_short [of k v Q wantnull] by (cases "k < length (lenenc v)") simp_all
  have up: "16777216 \<le> v \<Longrightarrow> 65536 \<le> v \<and> 251 \<le> v" "65536 \<le> v \<Longrightarrow> 251 \<le> v"
    by (simp_all add: word_le_nat_alt)
  then show "length (lenenc v) =
      (if v < 251 then 1 else if v < 65536 then 3 else if v < 16777216 then 4 else 9)"
    by (auto simp: lenenc_def not_less)
qed

theorem lenEncInt_roundtrip_witness:
  "\<exists>bs. writeLenEncInt big_endian_host [] 300 = bs \<and>
     readLenEncInt little_host True (bs @ [5]) = (True, 300, [5], False) \<and> length bs = 3"
  using lenEncInt_roundtrip [OF platform_ok_big_endian_host platform_ok_little_host,
      where buffer = "[]" and v = 300 and wantnull = True]
  by auto

text \<open>
  The BER length. A value below \<open>2 ^ 16\<close>, or of exactly four bytes, is read back with
  what follows it, and a sequence of such lengths is read back in order.
\<close>

theorem berEncInt_roundtrip:
  assumes "platform_ok P"
    and "list_all (\<lambda>v. v < 2 ^ 16 \<or> (2 ^ 24 \<le> v \<and> v < 2 ^ 32)) vs"
  shows "read_many ber_dec (length vs) (concat (map (writeBerEncInt P []) vs) @ r) = Some (vs, r)"
  by (rule wire_platform.ber_many [OF wire_platform.intro [OF assms(1)] assms(2)])

theorem berEncInt_roundtrip_witness:
  "read_many ber_dec (length [5 :: u64, 200, 40000, 20000000])
     (concat (map (writeBerEncInt little_host []) [5, 200, 40000, 20000000]) @ [1])
     = Some ([5, 200, 40000, 20000000], [1])"
  by (rule berEncInt_roundtrip [OF platform_ok_little_host]) code_simp

text \<open>
  The three-byte BER form is written wrong: on a little-endian host a length from \<open>2 ^ 16\<close> to
  \<open>2 ^ 24 - 1\<close> is read back divided by 256, and from \<open>2 ^ 32\<close> on nothing is written.
\<close>

theorem berEncInt_three_bytes_wrong:
  "readBerEncInt (writeBerEncInt little_host [] 0x012345 @ r) = Got 0x0123 r"
  using readBer_three [of "0x012345" r] by simp

theorem berEncInt_large_writes_nothing: "writeBerEncInt little_host buffer (2 ^ 32) = buffer"
  by (simp add: writeBerEncInt_def)

text \<open>
  The length-preceded integer. Every 32-bit value, signed or unsigned, is read back by any
  host with exactly what follows it; a buffer that ends inside it is refused and the read
  pointer stays where it was; and a count byte above four is refused.
\<close>

theorem lenPreInt_roundtrip:
  assumes "platform_ok P"
  shows "\<exists>bs. writeLenPreInt P buffer v = buffer @ bs \<and> writeLenPreInt_signed P buffer v = buffer @ bs \<and>
     (\<forall>r. readLenPreInt (bs @ r) = (True, v, r)) \<and>
     (\<forall>k. k \<ge> length bs \<or> readLenPreInt (take k bs) = (False, 0, take k bs)) \<and>
     (\<forall>c r. c \<le> 4 \<or> readLenPreInt (c # r) = (False, 0, c # r))"
proof (intro exI conjI allI)
  show "writeLenPreInt P buffer v = buffer @ lenpre v"
    "writeLenPreInt_signed P buffer v = buffer @ lenpre v"
    by (simp_all add: writeLenPreInt_lenpre [OF assms] writeLenPreInt_signed_def)
  show "readLenPreInt (lenpre v @ r) = (True, v, r)" for r
    by (rule readLenPreInt_lenpre)
  show "k \<ge> length (lenpre v) \<or> readLenPreInt (take k (lenpre v)) = (False, 0, take k (lenpre v))" for k
    using readLenPreInt_short [of k v] by (cases "k < length (lenpre v)") simp_all
  show "c \<le> 4 \<or> readLenPreInt (c # r) = (False, 0, c # r)" for c r
    by (auto simp: readLenPreInt_def)
qed

theorem lenPreInt_roundtrip_witness:
  "\<exists>bs. writeLenPreInt_signed little_host [] (- 2) = bs \<and> readLenPreInt (bs @ [7]) = (True, - 2, [7])"
  using lenPreInt_roundtrip [OF platform_ok_little_host, where buffer = "[]" and v = "- 2"] by auto

end
