(* ===== verification/Scaler.thy ===== *)
theory Scaler
  imports Prelude
begin

text \<open>
  The connection scaler (\<open>src/server/sqlr-scaler.cpp\<close>): it watches the shared counters of
  clients and connections, starts connection processes when the pool is below its minimum or the
  queue is too long, and reaps the ones that end.

  The operating system and Rudiments are the fields of \<open>sysops\<close>, each a function on an
  environment \<open>'e\<close>: waiting for the listener, reading the shutdown flag, reporting a child that
  ended, spawning, signalling, waiting for a connection to come up. The count of connections in
  shared memory is part of the scaler's state; the mutex around it is left out, so a step here is
  a critical section of the code. Messages, the backtrace and the command line of the child are
  left out.
\<close>

section \<open>State\<close>

type_synonym pid = int

datatype semresult = Signalled | Timed_Out | Sem_Error

datatype termsignal = Sig_Term | Sig_Kill

record 'e sysops =
  waitForListener :: "'e \<Rightarrow> semresult \<times> 'e" \<comment> \<open>the wait on semaphore 6, or the snooze\<close>
  shutDownFlag :: "'e \<Rightarrow> bool \<times> 'e"
  childStateChange :: "pid \<Rightarrow> 'e \<Rightarrow> pid option \<times> 'e" \<comment> \<open>\<open>None\<close> for a result below 1\<close>
  spawn :: "string \<Rightarrow> 'e \<Rightarrow> pid \<times> 'e"
  sendSignal :: "pid \<Rightarrow> termsignal \<Rightarrow> 'e \<Rightarrow> 'e" \<comment> \<open>with the snooze that follows\<close>
  clearStartSignal :: "'e \<Rightarrow> 'e" \<comment> \<open>\<open>semset->setValue(8,0)\<close>\<close>
  waitForStart :: "'e \<Rightarrow> bool \<times> 'e" \<comment> \<open>the timed wait on semaphore 8\<close>
  databaseUp :: "string \<Rightarrow> 'e \<Rightarrow> bool \<times> 'e"
  snoozeSecond :: "'e \<Rightarrow> 'e"
  connectedClients :: "'e \<Rightarrow> u32 \<times> 'e"
  prngGenerate :: "u32 \<Rightarrow> u32"
  prngScale :: "u32 \<Rightarrow> int \<Rightarrow> int \<Rightarrow> int"

record scaler_cfg =
  minconnections :: u32
  maxconnections :: u32
  maxqueuelength :: u32
  growby :: u32
  metrictotal :: int
  connectstrings :: "(string \<times> int) list" \<comment> \<open>connection id and metric\<close>

record 'e scaler =
  totalconnections :: u32
  connectionid :: string
  currentseed :: u32
  env :: 'e

abbreviation start_attempts :: nat where
  "start_attempts \<equiv> 5" \<comment> \<open>\<open>DEFAULT_CONNECTION_START_ATTEMPTS\<close>\<close>

text \<open>An operation that only changes the environment, and one that returns a value too.\<close>

definition change :: "('e \<Rightarrow> 'e) \<Rightarrow> 'e scaler \<Rightarrow> 'e scaler" where
  "change f s = s\<lparr>env := f (env s)\<rparr>"

definition ask :: "('e \<Rightarrow> 'a \<times> 'e) \<Rightarrow> 'e scaler \<Rightarrow> 'a \<times> 'e scaler" where
  "ask f s = (fst (f (env s)), s\<lparr>env := snd (f (env s))\<rparr>)"

section \<open>Counting and reaping\<close>

definition getConnectionCount :: "'e scaler \<Rightarrow> u32" where
  "getConnectionCount s = totalconnections s"

definition incrementConnectionCount :: "'e scaler \<Rightarrow> 'e scaler" where
  "incrementConnectionCount s = s\<lparr>totalconnections := totalconnections s + 1\<rparr>"

definition decrementConnectionCount :: "'e scaler \<Rightarrow> 'e scaler" where
  "decrementConnectionCount s =
     (if totalconnections s \<noteq> 0 then s\<lparr>totalconnections := totalconnections s - 1\<rparr> else s)"

text \<open>The loop ends when there is no more child to report; \<open>None\<close> where it does not end.\<close>

partial_function (option) reapLoop ::
  "'e sysops \<Rightarrow> pid \<Rightarrow> bool \<Rightarrow> 'e scaler \<Rightarrow> (bool \<times> 'e scaler) option" where
  "reapLoop S connpid reaped s =
     (case ask (childStateChange S connpid) s of
        (None, s) \<Rightarrow> Some (reaped, s)
      | (Some _, s) \<Rightarrow> reapLoop S connpid True (decrementConnectionCount s))"

definition reapChildren :: "'e sysops \<Rightarrow> pid \<Rightarrow> 'e scaler \<Rightarrow> (bool \<times> 'e scaler) option" where
  "reapChildren S connpid s = reapLoop S connpid False s"

text \<open>\<open>killConnection\<close>: three tries, the first without a signal.\<close>

fun killTries :: "'e sysops \<Rightarrow> pid \<Rightarrow> termsignal option list \<Rightarrow> 'e scaler \<Rightarrow> 'e scaler option" where
  "killTries S connpid [] s = Some s"
| "killTries S connpid (sig # sigs) s =
     (let s = (case sig of None \<Rightarrow> s | Some g \<Rightarrow> change (sendSignal S connpid g) s)
      in case reapChildren S connpid s of
           None \<Rightarrow> None
         | Some (dead, s) \<Rightarrow> if dead then Some s else killTries S connpid sigs s)"

definition killConnection :: "'e sysops \<Rightarrow> pid \<Rightarrow> 'e scaler \<Rightarrow> 'e scaler option" where
  "killConnection S connpid s = killTries S connpid [None, Some Sig_Term, Some Sig_Kill] s"

section \<open>Starting connections\<close>

fun pickConnectionId :: "(string \<times> int) list \<Rightarrow> int \<Rightarrow> string \<Rightarrow> string" where
  "pickConnectionId [] scalednum connid = connid"
| "pickConnectionId ((cid, metric) # nodes) scalednum connid =
     (let scalednum = scalednum - metric
      in if scalednum \<le> 0 then cid else pickConnectionId nodes scalednum connid)"

definition getRandomConnectionId :: "'e sysops \<Rightarrow> scaler_cfg \<Rightarrow> 'e scaler \<Rightarrow> 'e scaler" where
  "getRandomConnectionId S cfg s =
     (let seed = prngGenerate S (currentseed s)
      in s\<lparr>currentseed := seed,
           connectionid := pickConnectionId (connectstrings cfg)
             (prngScale S seed 0 (metrictotal cfg)) (connectionid s)\<rparr>)"

definition availableDatabase :: "'e sysops \<Rightarrow> 'e scaler \<Rightarrow> bool \<times> 'e scaler" where
  "availableDatabase S s = ask (databaseUp S (connectionid s)) s"

definition openOneConnection :: "'e sysops \<Rightarrow> 'e scaler \<Rightarrow> pid \<times> 'e scaler" where
  "openOneConnection S s =
     (case ask (spawn S (connectionid s)) s of (pid, s) \<Rightarrow> (if 0 < pid then pid else 0, s))"

definition connectionStarted :: "'e sysops \<Rightarrow> 'e scaler \<Rightarrow> bool \<times> 'e scaler" where
  "connectionStarted S s = ask (waitForStart S) s"

text \<open>
  The loop that starts one connection: it ends with a connection started, with the attempts used
  up, or on a shutdown request.
\<close>

datatype startresult = Started | Gave_Up | Shut_Down

partial_function (option) startOne ::
  "'e sysops \<Rightarrow> scaler_cfg \<Rightarrow> u32 \<Rightarrow> nat \<Rightarrow> 'e scaler \<Rightarrow> (startresult \<times> 'e scaler) option" where
  "startOne S cfg currentconnections attempts s =
     (case ask (shutDownFlag S) s of (down, s) \<Rightarrow>
        if down then Some (Shut_Down, s)
        else
          (case (if currentconnections \<noteq> 0 then availableDatabase S (getRandomConnectionId S cfg s)
                 else (True, getRandomConnectionId S cfg s)) of (available, s) \<Rightarrow>
             if \<not> available then
               (if attempts + 1 = start_attempts then Some (Gave_Up, change (snoozeSecond S) s)
                else startOne S cfg currentconnections (attempts + 1) (change (snoozeSecond S) s))
             else
               (case openOneConnection S (change (clearStartSignal S) s) of (connpid, s) \<Rightarrow>
                  if connpid = 0 then
                    (if attempts = start_attempts then Some (Gave_Up, s)
                     else startOne S cfg currentconnections attempts s)
                  else
                    (case connectionStarted S (incrementConnectionCount s) of (started, s) \<Rightarrow>
                       if started then Some (if attempts = start_attempts then Gave_Up else Started, s)
                       else
                         Option.bind (killConnection S connpid s)
                           (\<lambda>s. if attempts + 1 = start_attempts then Some (Gave_Up, s)
                                 else startOne S cfg currentconnections (attempts + 1) s)))))"

text \<open>The \<open>for\<close> loop over the connections to open; the result is false on a shutdown request.\<close>

primrec openLoop ::
  "'e sysops \<Rightarrow> scaler_cfg \<Rightarrow> u32 \<Rightarrow> nat \<Rightarrow> 'e scaler \<Rightarrow> (bool \<times> 'e scaler) option" where
  "openLoop S cfg currentconnections 0 s = Some (True, s)"
| "openLoop S cfg currentconnections (Suc n) s =
     (case startOne S cfg currentconnections 0 s of
        None \<Rightarrow> None
      | Some (Started, s) \<Rightarrow> openLoop S cfg currentconnections n s
      | Some (Gave_Up, s) \<Rightarrow> Some (True, s)
      | Some (Shut_Down, s) \<Rightarrow> Some (False, s))"

text \<open>How many connections to open: \<open>None\<close> where the code returns without opening any.\<close>

definition howMany :: "scaler_cfg \<Rightarrow> u32 \<Rightarrow> u32 \<Rightarrow> u32 option" where
  "howMany cfg connectedclients currentconnections =
     (let belowmin = currentconnections < minconnections cfg
      in if \<not> belowmin \<and>
            (connectedclients < currentconnections \<or>
             connectedclients - currentconnections \<le> maxqueuelength cfg) then None
         else if maxconnections cfg < currentconnections + growby cfg then
           (if \<not> belowmin then None else Some (maxconnections cfg - currentconnections))
         else Some (growby cfg))"

definition openMoreConnections :: "'e sysops \<Rightarrow> scaler_cfg \<Rightarrow> 'e scaler \<Rightarrow> (bool \<times> 'e scaler) option" where
  "openMoreConnections S cfg s =
     (case ask (waitForListener S) s of
        (Sem_Error, s) \<Rightarrow> Some (False, s)
      | (_, s) \<Rightarrow>
          (case ask (shutDownFlag S) s of
             (True, s) \<Rightarrow> Some (False, s)
           | (False, s) \<Rightarrow>
               (case reapChildren S (- 1) s of
                  None \<Rightarrow> None
                | Some (_, s) \<Rightarrow>
                    (case ask (connectedClients S) s of
                       (connectedclients, s) \<Rightarrow>
                         (case howMany cfg connectedclients (getConnectionCount s) of
                            None \<Rightarrow> Some (True, s)
                          | Some opencount \<Rightarrow>
                              openLoop S cfg (getConnectionCount s) (unat opencount) s)))))"

partial_function (option) loop :: "'e sysops \<Rightarrow> scaler_cfg \<Rightarrow> 'e scaler \<Rightarrow> 'e scaler option" where
  "loop S cfg s =
     Option.bind (openMoreConnections S cfg s)
       (\<lambda>(more, s). if more then loop S cfg s else Some s)"

end
