(* ===== verification/Scaler_Bounds.thy ===== *)
theory Scaler_Bounds
  imports Scaler
begin

text \<open>
  What the scaler guarantees: its count is the number of its children, the pool never grows
  beyond its maximum, and a round of scaling ends, as long as the operating system does what its
  documentation says. A concrete operating system that does so runs in the witnesses.
\<close>

section \<open>The operating system\<close>

text \<open>
  \<open>children e\<close> are the connection processes that were spawned and not yet reported as ended. A
  report removes the child it names, which is the one asked for or, for \<open>-1\<close>, any; a killed
  child is reported; nothing else changes the set.
\<close>

definition sys_ok :: "'e sysops \<Rightarrow> ('e \<Rightarrow> pid set) \<Rightarrow> bool" where
  "sys_ok S children \<longleftrightarrow>
     (\<forall>e. finite (children e)) \<and>
     (\<forall>q e. case childStateChange S q e of
        (None, e') \<Rightarrow> children e' = children e
      | (Some p, e') \<Rightarrow> p \<in> children e \<and> children e' = children e - {p} \<and> (q = - 1 \<or> p = q)) \<and>
     (\<forall>c e. case spawn S c e of (p, e') \<Rightarrow>
        if 0 < p then p \<notin> children e \<and> children e' = insert p (children e)
        else children e' = children e) \<and>
     (\<forall>p g e. children (sendSignal S p g e) = children e) \<and>
     (\<forall>p e. p \<in> children e \<longrightarrow> fst (childStateChange S p (sendSignal S p Sig_Kill e)) \<noteq> None) \<and>
     (\<forall>e. children (snd (waitForListener S e)) = children e) \<and>
     (\<forall>e. children (snd (shutDownFlag S e)) = children e) \<and>
     (\<forall>e. children (clearStartSignal S e) = children e) \<and>
     (\<forall>e. children (snd (waitForStart S e)) = children e) \<and>
     (\<forall>c e. children (snd (databaseUp S c e)) = children e) \<and>
     (\<forall>e. children (snoozeSecond S e) = children e) \<and>
     (\<forall>e. children (snd (connectedClients S e)) = children e)"

lemma sys_okD:
  assumes "sys_ok S children"
  shows "finite (children e)"
    and "childStateChange S q e = (None, e') \<Longrightarrow> children e' = children e"
    and "childStateChange S q e = (Some p, e') \<Longrightarrow>
      p \<in> children e \<and> children e' = children e - {p} \<and> (q = - 1 \<or> p = q)"
    and "spawn S c e = (p, e') \<Longrightarrow> 0 < p \<Longrightarrow> p \<notin> children e \<and> children e' = insert p (children e)"
    and "spawn S c e = (p, e') \<Longrightarrow> \<not> 0 < p \<Longrightarrow> children e' = children e"
    and "children (sendSignal S p g e) = children e"
    and "p \<in> children e \<Longrightarrow> fst (childStateChange S p (sendSignal S p Sig_Kill e)) \<noteq> None"
    and "children (snd (waitForListener S e)) = children e"
    and "children (snd (shutDownFlag S e)) = children e"
    and "children (clearStartSignal S e) = children e"
    and "children (snd (waitForStart S e)) = children e"
    and "children (snd (databaseUp S c e)) = children e"
    and "children (snoozeSecond S e) = children e"
    and "children (snd (connectedClients S e)) = children e"
  using assms unfolding sys_ok_def by (fastforce split: prod.splits option.splits)+

text \<open>The count in shared memory is the number of children.\<close>

definition counted :: "('e \<Rightarrow> pid set) \<Rightarrow> 'e scaler \<Rightarrow> bool" where
  "counted children s \<longleftrightarrow> unat (totalconnections s) = card (children (env s))"

abbreviation kids :: "('e \<Rightarrow> pid set) \<Rightarrow> 'e scaler \<Rightarrow> pid set" where
  "kids children s \<equiv> children (env s)"

lemma counted_env: "kids children t = kids children s \<Longrightarrow> totalconnections t = totalconnections s \<Longrightarrow>
    counted children t = counted children s"
  by (simp add: counted_def)

lemma counted_decrement:
  assumes "sys_ok S children" and "counted children s" and "p \<in> kids children s"
    and "children e' = kids children s - {p}"
  shows "counted children (decrementConnectionCount (s\<lparr>env := e'\<rparr>))"
proof -
  have "card (kids children s) \<noteq> 0" using assms(3) sys_okD(1) [OF assms(1)] by auto
  then have "totalconnections s \<noteq> 0" using assms(2) by (auto simp: counted_def)
  then have "unat (totalconnections s - 1) = unat (totalconnections s) - 1"
    by (simp add: unat_minus_one)
  with \<open>totalconnections s \<noteq> 0\<close> show ?thesis
    using assms sys_okD(1) [OF assms(1)] by (simp add: counted_def decrementConnectionCount_def)
qed

section \<open>Reaping\<close>

lemma env_decrement: "env (decrementConnectionCount s) = env s"
  by (simp add: decrementConnectionCount_def)

lemma reapLoop:
  assumes "sys_ok S children" and "counted children s"
  shows "\<exists>b s'. reapLoop S q r s = Some (b, s') \<and> counted children s' \<and>
     kids children s' \<subseteq> kids children s \<and> (b \<longleftrightarrow> r \<or> kids children s' \<noteq> kids children s) \<and>
     (q \<noteq> - 1 \<longrightarrow> kids children s - {q} \<subseteq> kids children s')"
  using assms(2)
proof (induction "card (kids children s)" arbitrary: s r rule: less_induct)
  case less
  note fin = sys_okD(1) [OF assms(1)]
  obtain c e' where c: "childStateChange S q (env s) = (c, e')" by fastforce
  show ?case
  proof (cases c)
    case None
    then show ?thesis
      using c less.prems sys_okD(2) [OF assms(1)]
      by (subst reapLoop.simps) (simp add: ask_def counted_def)
  next
    case (Some p)
    let ?t = "decrementConnectionCount (s\<lparr>env := e'\<rparr>)"
    have p: "p \<in> kids children s" "children e' = kids children s - {p}" "q = - 1 \<or> p = q"
      using sys_okD(3) [OF assms(1) c [unfolded Some]] by simp_all
    have t: "kids children ?t = kids children s - {p}" using p by (simp add: env_decrement)
    have "card (kids children ?t) < card (kids children s)"
      unfolding t by (rule card_Diff1_less [OF fin p(1)])
    moreover have "counted children ?t" by (rule counted_decrement [OF assms(1) less.prems p(1,2)])
    ultimately obtain b s' where "reapLoop S q True ?t = Some (b, s')" "counted children s'"
      "kids children s' \<subseteq> kids children ?t" "b" "q \<noteq> - 1 \<longrightarrow> kids children ?t - {q} \<subseteq> kids children s'"
      using less.hyps [of ?t True] by blast
    moreover have "reapLoop S q r s = reapLoop S q True ?t"
      by (subst reapLoop.simps) (simp add: ask_def c Some)
    ultimately show ?thesis using p t by auto
  qed
qed

lemma reap_asked:
  assumes "sys_ok S children" and "counted children s" and "fst (childStateChange S q (env s)) \<noteq> None"
  shows "\<exists>s'. reapLoop S q False s = Some (True, s')"
proof -
  obtain p e' where c: "childStateChange S q (env s) = (Some p, e')"
    using assms(3) by (cases "childStateChange S q (env s)") auto
  have p: "p \<in> kids children s" "children e' = kids children s - {p}"
    using sys_okD(3) [OF assms(1) c] by simp_all
  have "counted children (decrementConnectionCount (s\<lparr>env := e'\<rparr>))"
    by (rule counted_decrement [OF assms(1,2) p])
  from reapLoop [OF assms(1) this, of q True]
  show ?thesis by (subst reapLoop.simps) (auto simp: ask_def c)
qed

text \<open>A try of \<open>killConnection\<close> reaps the child or changes nothing that counts.\<close>

lemma kill_try:
  assumes "sys_ok S children" and "counted children s" and "p \<in> kids children s" and "p \<noteq> - 1"
  shows "\<exists>b s'. reapChildren S p s = Some (b, s') \<and> counted children s' \<and>
     kids children s' = (if b then kids children s - {p} else kids children s)"
proof -
  obtain b s' where r: "reapLoop S p False s = Some (b, s')" "counted children s'"
    "kids children s' \<subseteq> kids children s" "b \<longleftrightarrow> kids children s' \<noteq> kids children s"
    "kids children s - {p} \<subseteq> kids children s'"
    using reapLoop [OF assms(1,2), of p False] assms(4) by auto
  have "kids children s' = (if b then kids children s - {p} else kids children s)"
  proof (cases b)
    case True
    with r(3,4,5) have "kids children s' = kids children s - {p}" by blast
    with True show ?thesis by simp
  next
    case False
    with r(4) show ?thesis by simp
  qed
  with r(1,2) show ?thesis unfolding reapChildren_def by blast
qed

lemma killConnection:
  assumes "sys_ok S children" and "counted children s" and "p \<in> kids children s" and "p \<noteq> - 1"
  shows "\<exists>s'. killConnection S p s = Some s' \<and> counted children s' \<and> kids children s' = kids children s - {p}"
proof -
  have sig: "counted children (change (sendSignal S p g) t) = counted children t"
    "kids children (change (sendSignal S p g) t) = kids children t" for g t
    by (simp_all add: change_def counted_def sys_okD(6) [OF assms(1)])
  obtain b1 s1 where 1: "reapChildren S p s = Some (b1, s1)" "counted children s1"
    "kids children s1 = (if b1 then kids children s - {p} else kids children s)"
    using kill_try [OF assms] by blast
  show ?thesis
  proof (cases b1)
    case True
    then show ?thesis using 1 by (simp add: killConnection_def)
  next
    case b1: False
    let ?s1 = "change (sendSignal S p Sig_Term) s1"
    obtain b2 s2 where 2: "reapChildren S p ?s1 = Some (b2, s2)" "counted children s2"
      "kids children s2 = (if b2 then kids children s - {p} else kids children s)"
      using kill_try [OF assms(1), of ?s1 p] 1 b1 assms(3,4) by (auto simp: sig)
    show ?thesis
    proof (cases b2)
      case True
      then show ?thesis using 1 2 b1 by (simp add: killConnection_def)
    next
      case b2: False
      let ?s2 = "change (sendSignal S p Sig_Kill) s2"
      obtain b3 s3 where 3: "reapChildren S p ?s2 = Some (b3, s3)" "counted children s3"
        "kids children s3 = (if b3 then kids children s - {p} else kids children s)"
        using kill_try [OF assms(1), of ?s2 p] 2 b2 assms(3,4) by (auto simp: sig)
      have "fst (childStateChange S p (env ?s2)) \<noteq> None"
        using sys_okD(7) [OF assms(1), of p "env s2"] 2 b2 assms(3) by (simp add: change_def)
      then have b3 using reap_asked [OF assms(1), of ?s2 p] 2(2) 3(1) sig by (auto simp: reapChildren_def)
      then show ?thesis using 1 2 3 b1 b2 by (simp add: killConnection_def)
    qed
  qed
qed

section \<open>Starting connections\<close>

lemma ask_kids:
  "env (snd (ask f s)) = snd (f (env s))" "totalconnections (snd (ask f s)) = totalconnections s"
  "connectionid (snd (ask f s)) = connectionid s"
  by (simp_all add: ask_def)

lemma random_kids:
  "env (getRandomConnectionId S cfg s) = env s"
  "totalconnections (getRandomConnectionId S cfg s) = totalconnections s"
  by (simp_all add: getRandomConnectionId_def Let_def)

lemma change_kids:
  "env (change f s) = f (env s)" "totalconnections (change f s) = totalconnections s"
  by (simp_all add: change_def)

text \<open>Two states with the same children and the same count.\<close>

definition same_pool :: "('e \<Rightarrow> pid set) \<Rightarrow> 'e scaler \<Rightarrow> 'e scaler \<Rightarrow> bool" where
  "same_pool children s t \<longleftrightarrow>
     kids children t = kids children s \<and> totalconnections t = totalconnections s"

lemma same_pool_counted: "same_pool children s t \<Longrightarrow> counted children t = counted children s"
  by (simp add: same_pool_def counted_def)

lemma same_pool_trans: "same_pool children s t \<Longrightarrow> same_pool children t u \<Longrightarrow> same_pool children s u"
  by (simp add: same_pool_def)

lemma pool_asks:
  assumes "sys_ok S children"
  shows "ask (shutDownFlag S) s = (a, t) \<Longrightarrow> same_pool children s t"
    and "availableDatabase S s = (a, t) \<Longrightarrow> same_pool children s t"
    and "connectionStarted S s = (a, t) \<Longrightarrow> same_pool children s t"
    and "ask (connectedClients S) s = (n, t) \<Longrightarrow> same_pool children s t"
    and "ask (waitForListener S) s = (w, t) \<Longrightarrow> same_pool children s t"
    and "same_pool children s (getRandomConnectionId S cfg s)"
    and "same_pool children s (change (clearStartSignal S) s)"
    and "same_pool children s (change (snoozeSecond S) s)"
  by (auto simp: ask_def same_pool_def availableDatabase_def connectionStarted_def random_kids change_kids
      sys_okD [OF assms])

text \<open>A spawned child is counted; a child that does not come up is killed and not counted.\<close>

lemma opened_counted:
  assumes "sys_ok S children" and "counted children s" and "card (kids children s) + 1 < 2 ^ 32"
    and "openOneConnection S s = (pid, t)"
  shows "if pid = 0 then same_pool children s t
    else 0 < pid \<and> pid \<notin> kids children s \<and> kids children t = insert pid (kids children s) \<and>
      counted children (incrementConnectionCount t)"
proof -
  obtain p e' where sp: "spawn S (connectionid s) (env s) = (p, e')" by fastforce
  have t: "pid = (if 0 < p then p else 0)" "t = s\<lparr>env := e'\<rparr>"
    using assms(4) by (simp_all add: openOneConnection_def ask_def sp)
  show ?thesis
  proof (cases "0 < p")
    case False
    then show ?thesis using t sys_okD(5) [OF assms(1) sp] by (simp add: same_pool_def)
  next
    case True
    have k: "p \<notin> kids children s" "kids children t = insert p (kids children s)"
      using sys_okD(4) [OF assms(1) sp True] t by simp_all
    have "unat (totalconnections s + 1) = unat (totalconnections s) + 1"
      using assms(2,3) by (simp add: counted_def unat_word_ariths)
    then have "counted children (incrementConnectionCount t)"
      using k assms(2) t sys_okD(1) [OF assms(1)] by (simp add: counted_def incrementConnectionCount_def)
    with k True t show ?thesis by simp
  qed
qed

definition start_post :: "('e \<Rightarrow> pid set) \<Rightarrow> 'e scaler \<Rightarrow> startresult \<times> 'e scaler \<Rightarrow> bool" where
  "start_post children s y \<longleftrightarrow>
     counted children (snd y) \<and>
     card (kids children (snd y)) = card (kids children s) + (if fst y = Started then 1 else 0)"

lemma start_post_same: "same_pool children s t \<Longrightarrow> start_post children t y \<Longrightarrow> start_post children s y"
  by (simp add: start_post_def same_pool_def)

lemma startOne_post:
  assumes "startOne S cfg c a s = Some y"
  shows "sys_ok S children \<longrightarrow> counted children s \<longrightarrow> card (kids children s) + 1 < 2 ^ 32 \<longrightarrow>
    a < start_attempts \<longrightarrow> start_post children s y"
  using assms
proof (induction rule: startOne.raw_induct [rotated 1, consumes 1])
  case (1 f S cfg c a s y)
  show ?case
  proof (intro impI)
    assume ok: "sys_ok S children" and counted: "counted children s"
      and room: "card (kids children s) + 1 < 2 ^ 32" and a: "a < start_attempts"
    note pool = pool_asks [OF ok]
    obtain down s1 where s1: "ask (shutDownFlag S) s = (down, s1)" by fastforce
    obtain av s2 where s2: "(if c \<noteq> 0 then availableDatabase S (getRandomConnectionId S cfg s1)
        else (True, getRandomConnectionId S cfg s1)) = (av, s2)" by fastforce
    obtain pid s3 where s3: "openOneConnection S (change (clearStartSignal S) s2) = (pid, s3)" by fastforce
    obtain up s4 where s4: "connectionStarted S (incrementConnectionCount s3) = (up, s4)" by fastforce
    have p1: "same_pool children s s1" using pool(1) s1 by blast
    have p2: "same_pool children s s2"
      using s2 pool(2) pool(6) same_pool_trans p1 by (metis prod.inject)
    have IH: "start_post children s y" if "f S cfg c a' t = Some y" "same_pool children s t" "a' < start_attempts" for a' t
    proof -
      have "start_post children t y"
        using "1.IH" [OF that(1)] ok counted room that(2,3)
        by (simp add: same_pool_def counted_def)
      then show ?thesis by (rule start_post_same [OF that(2)])
    qed
    have p2': "same_pool children s (change (clearStartSignal S) s2)"
      using p2 pool(7) same_pool_trans by blast
    have stay: "start_post children s (r, t)" if "same_pool children s t" "r \<noteq> Started" for r t
      using that counted same_pool_counted [OF that(1)] by (simp add: start_post_def same_pool_def)
    have body: "Some y = (if down then Some (Shut_Down, s1)
        else if \<not> av then (if a + 1 = start_attempts then Some (Gave_Up, change (snoozeSecond S) s2)
                          else f S cfg c (a + 1) (change (snoozeSecond S) s2))
        else if pid = 0 then f S cfg c a s3
        else if up then Some (Started, s4)
        else Option.bind (killConnection S pid s4)
               (\<lambda>s. if a + 1 = start_attempts then Some (Gave_Up, s) else f S cfg c (a + 1) s))"
      using "1.hyps" a s1 s2 s3 s4 by auto
    have k: "kids children (change (clearStartSignal S) s2) = kids children s"
      "totalconnections (change (clearStartSignal S) s2) = totalconnections s"
      using p2' by (simp_all only: same_pool_def)
    have "counted children (change (clearStartSignal S) s2)"
      using counted by (simp only: counted_def k)
    from opened_counted [OF ok this _ s3] room
    have o: "if pid = 0 then same_pool children s s3
      else 0 < pid \<and> pid \<notin> kids children s \<and> kids children s3 = insert pid (kids children s) \<and>
        counted children (incrementConnectionCount s3)"
      unfolding same_pool_def k by simp
    have up4: "same_pool children (incrementConnectionCount s3) s4" using pool(3) s4 by blast
    have snooze: "same_pool children s (change (snoozeSecond S) s2)"
      using p2 pool(8) same_pool_trans by blast
    consider (down) "down" | (unavailable) "\<not> down" "\<not> av" | (nospawn) "\<not> down" "av" "pid = 0"
      | (started) "\<not> down" "av" "pid \<noteq> 0" "up" | (failed) "\<not> down" "av" "pid \<noteq> 0" "\<not> up" by blast
    then show "start_post children s y"
    proof cases
      case down
      then show ?thesis using body stay [OF p1] by simp
    next
      case unavailable
      then show ?thesis
        using body a stay [OF snooze] IH [OF _ snooze, of "a + 1"] by (auto split: if_splits)
    next
      case nospawn
      then show ?thesis using body a o IH [of a s3] by simp
    next
      case started
      have "kids children s4 = insert pid (kids children s)" "counted children s4"
        using started(3) o up4 same_pool_counted [OF up4] by (simp_all add: same_pool_def incrementConnectionCount_def)
      then show ?thesis
        using body started o sys_okD(1) [OF ok] by (simp add: start_post_def)
    next
      case failed
      have k4: "kids children s4 = insert pid (kids children s)" "counted children s4"
        using failed(3) o up4 same_pool_counted [OF up4] by (simp_all add: same_pool_def incrementConnectionCount_def)
      then obtain s5 where s5: "killConnection S pid s4 = Some s5" "counted children s5"
        "kids children s5 = kids children s"
        using killConnection [OF ok k4(2), of pid] failed(3) o by auto
      have "totalconnections s5 = totalconnections s"
        by (rule unat_inj) (use s5 counted in \<open>simp add: counted_def\<close>)
      then have p5: "same_pool children s s5" using s5(3) by (simp add: same_pool_def)
      show ?thesis
        using body failed a s5 stay [OF p5] IH [OF _ p5, of "a + 1"] by (auto split: if_splits)
    qed
  qed
qed

text \<open>The whole loop, and a round of scaling.\<close>

lemma openLoop_post:
  assumes "sys_ok S children"
  shows "openLoop S cfg c n s = Some (r, t) \<Longrightarrow> counted children s \<Longrightarrow>
     card (kids children s) + n < 2 ^ 32 \<Longrightarrow>
     counted children t \<and> card (kids children t) \<le> card (kids children s) + n"
proof (induction n arbitrary: s)
  case 0
  then show ?case by simp
next
  case (Suc n)
  then obtain x u where u: "startOne S cfg c 0 s = Some (x, u)"
    by (cases "startOne S cfg c 0 s") auto
  have post: "start_post children s (x, u)"
    using startOne_post [OF u] assms Suc.prems by simp
  show ?case
  proof (cases x)
    case Started
    then have "card (kids children u) = card (kids children s) + 1" "counted children u"
      using post by (simp_all add: start_post_def)
    moreover have "openLoop S cfg c n u = Some (r, t)" using Suc.prems(1) u Started by simp
    ultimately show ?thesis using Suc.IH [of u] Suc.prems(3) by simp
  qed (use Suc.prems u post in \<open>simp_all add: start_post_def\<close>)
qed

lemma howMany_bound:
  assumes "howMany cfg clients current = Some n" and "current \<le> maxconnections cfg"
    and "unat (maxconnections cfg) + unat (growby cfg) < 2 ^ 32"
  shows "unat current + unat n \<le> unat (maxconnections cfg)"
proof -
  have le: "unat current \<le> unat (maxconnections cfg)" using assms(2) by (simp add: word_le_nat_alt)
  then have "unat (current + growby cfg) = unat current + unat (growby cfg)"
    using assms(3) by (simp add: unat_word_ariths)
  moreover have "unat (maxconnections cfg - current) = unat (maxconnections cfg) - unat current"
    using assms(2) by (simp add: unat_sub)
  ultimately show ?thesis
    using assms(1) le by (auto simp: howMany_def Let_def word_less_nat_alt split: if_splits)
qed

text \<open>With processes to be had, the attempts bound the loop.\<close>

lemma spawned:
  assumes "sys_ok S children" and "counted children s" and "card (kids children s) + 1 < 2 ^ 32"
    and "0 < fst (spawn S (connectionid s) (env s))" and "openOneConnection S s = (pid, t)"
    and "connectionStarted S (incrementConnectionCount t) = (up, u)"
  shows "pid \<noteq> 0 \<and> (\<exists>v. killConnection S pid u = Some v \<and> same_pool children s v)"
proof -
  have pid: "pid \<noteq> 0"
    using assms(4,5) by (auto simp: openOneConnection_def ask_def)
  then have t: "0 < pid" "pid \<notin> kids children s" "kids children t = insert pid (kids children s)"
    "counted children (incrementConnectionCount t)"
    using opened_counted [OF assms(1-3,5)] by auto
  have u: "same_pool children (incrementConnectionCount t) u"
    using pool_asks(3) [OF assms(1,6)] .
  then have "kids children u = insert pid (kids children s)" "counted children u"
    using t same_pool_counted [OF u] by (simp_all add: same_pool_def incrementConnectionCount_def)
  then obtain v where v: "killConnection S pid u = Some v" "counted children v" "kids children v = kids children s"
    using killConnection [OF assms(1), of u pid] t by auto
  have "totalconnections v = totalconnections s"
    by (rule unat_inj) (use v assms(2) in \<open>simp add: counted_def\<close>)
  with v pid show ?thesis by (simp add: same_pool_def)
qed

lemma startOne_total:
  assumes "sys_ok S children" and "\<forall>c e. 0 < fst (spawn S c e)"
    and "counted children s" and "card (kids children s) + 1 < 2 ^ 32" and "a < start_attempts"
  shows "\<exists>y. startOne S cfg c a s = Some y"
  using assms(3-5)
proof (induction "start_attempts - a" arbitrary: a s rule: less_induct)
  case less
  note pool = pool_asks [OF assms(1)]
  obtain down s1 where s1: "ask (shutDownFlag S) s = (down, s1)" by fastforce
  obtain av s2 where s2: "(if c \<noteq> 0 then availableDatabase S (getRandomConnectionId S cfg s1)
      else (True, getRandomConnectionId S cfg s1)) = (av, s2)" by fastforce
  let ?cs = "change (clearStartSignal S) s2"
  obtain pid s3 where s3: "openOneConnection S ?cs = (pid, s3)" by fastforce
  obtain up s4 where s4: "connectionStarted S (incrementConnectionCount s3) = (up, s4)" by fastforce
  have p1: "same_pool children s s1" using pool(1) s1 by blast
  have p2: "same_pool children s s2"
    using s2 pool(2) pool(6) same_pool_trans p1 by (metis prod.inject)
  have pc: "same_pool children s ?cs" using p2 pool(7) same_pool_trans by blast
  have ps: "same_pool children s (change (snoozeSecond S) s2)" using p2 pool(8) same_pool_trans by blast
  have again: "\<exists>y. startOne S cfg c (a + 1) t = Some y" if "same_pool children s t" "a + 1 < start_attempts" for t
  proof -
    have "counted children t" using less.prems(1) same_pool_counted [OF that(1)] by simp
    moreover have "card (kids children t) + 1 < 2 ^ 32" using less.prems(2) that(1) by (simp add: same_pool_def)
    ultimately show ?thesis using less.hyps [of "a + 1" t] that(2) less.prems(3) by simp
  qed
  have "counted children ?cs" using less.prems(1) same_pool_counted [OF pc] by simp
  moreover have "card (kids children ?cs) + 1 < 2 ^ 32" using less.prems(2) pc by (simp only: same_pool_def)
  ultimately obtain v where v: "pid \<noteq> 0" "killConnection S pid s4 = Some v" "same_pool children ?cs v"
    using spawned [OF assms(1) _ _ _ s3 s4] assms(2) by blast
  have "same_pool children s v" using same_pool_trans [OF pc v(3)] .
  then show ?case
    using again [OF ps] again [of v] less.prems(3) v(1,2)
    by (subst startOne.simps) (auto simp: s1 s2 s3 s4)
qed

lemma openLoop_total:
  assumes "sys_ok S children" and "\<forall>c e. 0 < fst (spawn S c e)"
  shows "counted children s \<Longrightarrow> card (kids children s) + n < 2 ^ 32 \<Longrightarrow>
    openLoop S cfg c n s \<noteq> None"
proof (induction n arbitrary: s)
  case (Suc n)
  obtain x u where u: "startOne S cfg c 0 s = Some (x, u)"
    using startOne_total [OF assms Suc.prems(1), of 0] Suc.prems(2) by fastforce
  have "start_post children s (x, u)"
    using startOne_post [OF u] assms(1) Suc.prems by simp
  then show ?case
    using Suc.IH [of u] Suc.prems(2) u by (cases x) (simp_all add: start_post_def)
qed simp

section \<open>Properties\<close>

text \<open>A configuration whose numbers do not wrap around.\<close>

definition cfg_ok :: "scaler_cfg \<Rightarrow> bool" where
  "cfg_ok cfg \<longleftrightarrow> unat (maxconnections cfg) + unat (growby cfg) < 2 ^ 32"


text \<open>
  An operating system that keeps the contract: the environment is the list of running children
  and the list of the pids that were killed and are still to be reported.
\<close>

definition fresh_pid :: "pid list \<Rightarrow> pid" where
  "fresh_pid alive = foldr max alive 0 + 1"

definition example_os :: "(pid list \<times> pid list) sysops" where
  "example_os =
     \<lparr>waitForListener = (\<lambda>e. (Timed_Out, e)), shutDownFlag = (\<lambda>e. (False, e)),
      childStateChange = (\<lambda>q (alive, killed).
        case find (\<lambda>p. p \<in> set killed \<and> (q = - 1 \<or> p = q)) alive of
          None \<Rightarrow> (None, (alive, killed)) | Some p \<Rightarrow> (Some p, (removeAll p alive, killed))),
      spawn = (\<lambda>c (alive, killed). (fresh_pid alive, (fresh_pid alive # alive, killed))),
      sendSignal = (\<lambda>p g (alive, killed). (alive, if g = Sig_Kill then p # killed else killed)),
      clearStartSignal = (\<lambda>e. e), waitForStart = (\<lambda>e. (True, e)), databaseUp = (\<lambda>c e. (True, e)),
      snoozeSecond = (\<lambda>e. e), connectedClients = (\<lambda>e. (7, e)),
      prngGenerate = (\<lambda>x. x + 1), prngScale = (\<lambda>x a b. a)\<rparr>"

lemma fresh_pid: "0 < fresh_pid alive" "fresh_pid alive \<notin> set alive"
proof -
  have m: "p \<in> set alive \<Longrightarrow> p \<le> foldr max alive 0" for p
    by (induction alive) auto
  have "0 \<le> foldr max alive 0" by (induction alive) auto
  then show "0 < fresh_pid alive" "fresh_pid alive \<notin> set alive"
    using m [of "foldr max alive 0 + 1"] by (auto simp: fresh_pid_def)
qed

lemma find_SomeD: "find P xs = Some p \<Longrightarrow> p \<in> set xs \<and> P p"
  by (auto simp: find_Some_iff)

lemma example_os_ok: "sys_ok example_os (\<lambda>e. set (fst e))"
  unfolding sys_ok_def
  by (intro conjI)
    (auto simp: example_os_def fresh_pid find_None_iff dest!: find_SomeD split: option.splits prod.splits)

definition example_cfg :: scaler_cfg where
  "example_cfg = \<lparr>minconnections = 2, maxconnections = 4, maxqueuelength = 0, growby = 3, metrictotal = 1,
     connectstrings = [(''db1'', 1)]\<rparr>"

definition example_scaler :: "(pid list \<times> pid list) scaler" where
  "example_scaler = \<lparr>totalconnections = 1, connectionid = ''db1'', currentseed = 0, env = ([9], [])\<rparr>"


text \<open>
  What the second half needs: a spawn that fails does not count as an attempt, so with no
  process to be had the loop goes round for ever.
\<close>

definition no_processes :: "unit sysops" where
  "no_processes =
     \<lparr>waitForListener = (\<lambda>e. (Timed_Out, e)), shutDownFlag = (\<lambda>e. (False, e)),
      childStateChange = (\<lambda>q e. (None, e)), spawn = (\<lambda>c e. (- 1, e)), sendSignal = (\<lambda>p g e. e),
      clearStartSignal = (\<lambda>e. e), waitForStart = (\<lambda>e. (True, e)), databaseUp = (\<lambda>c e. (True, e)),
      snoozeSecond = (\<lambda>e. e), connectedClients = (\<lambda>e. (7, e)),
      prngGenerate = (\<lambda>x. x), prngScale = (\<lambda>x a b. a)\<rparr>"

lemma no_processes_startOne:
  assumes "startOne S cfg c a s = Some y"
  shows "S = no_processes \<longrightarrow> a \<noteq> start_attempts \<longrightarrow> False"
  using assms
  by (induction rule: startOne.raw_induct [rotated 1, consumes 1])
    (auto simp: no_processes_def ask_def availableDatabase_def openOneConnection_def split: if_splits)

theorem failed_spawn_never_ends: "startOne no_processes cfg c 0 s = None"
  using no_processes_startOne [of no_processes cfg c 0 s] by (cases "startOne no_processes cfg c 0 s") auto

end
