(* ===== verification/Schedule.thy ===== *)
theory Schedule
  imports Prelude
begin

text \<open>
  Connection schedules: the rules that allow or deny a user by date and time
  (\<open>src/server/sqlrschedule.cpp\<close>), the module that applies them to listed users
  (\<open>src/schedules/cron_userlist.cpp\<close>) and the conjunction of the loaded modules
  (\<open>src/server/sqlrschedules.cpp\<close>).

  Rudiments' string functions are the fields of \<open>textlib\<close>, the XML configuration is given as
  its attribute values, and the system clock is a function of the number of times it was read.
  A definition that would read past an array, or read the member \<open>_allow\<close> before it was set,
  is \<open>None\<close>.
\<close>

section \<open>Data\<close>

record textlib =
  splitOn :: "string \<Rightarrow> string \<Rightarrow> string list" \<comment> \<open>\<open>charstring::split\<close>, collapsing\<close>
  toInteger :: "string \<Rightarrow> int" \<comment> \<open>\<open>charstring::convertToInteger\<close>\<close>
  findFirst :: "string \<Rightarrow> string \<Rightarrow> string option" \<comment> \<open>the suffix at the first occurrence\<close>
  sameIgnoringCase :: "string \<Rightarrow> string \<Rightarrow> bool" \<comment> \<open>\<open>!charstring::compareIgnoringCase\<close>\<close>

record sqlrscheduleperiod =
  p_start :: u16
  p_end :: u16

record sqlrscheduledaypart =
  starthour :: u16
  startminute :: u16
  endhour :: u16
  endminute :: u16

record sqlrschedulerule =
  rule_allow :: "bool option" \<comment> \<open>\<open>_allow\<close>; \<open>None\<close> while it is not initialised\<close>
  years :: "sqlrscheduleperiod list"
  months :: "sqlrscheduleperiod list"
  daysofmonth :: "sqlrscheduleperiod list"
  daysofweek :: "sqlrscheduleperiod list"
  dayparts :: "sqlrscheduledaypart list"

record datetime =
  getYear :: int
  getMonth :: int
  getDayOfMonth :: int
  getDayOfWeek :: int
  getHour :: int
  getMinute :: int

text \<open>Which of the four lists a time part is for (the code compares the list's address).\<close>

datatype timepart = Years | Months | Days_Of_Month | Days_Of_Week

definition emptyRule :: sqlrschedulerule where
  "emptyRule = \<lparr>rule_allow = None, years = [], months = [], daysofmonth = [], daysofweek = [], dayparts = []\<rparr>"

section \<open>Parsing\<close>

fun wholePeriod :: "timepart \<Rightarrow> sqlrscheduleperiod" where
  "wholePeriod Years = \<lparr>p_start = 0, p_end = 65535\<rparr>"
| "wholePeriod Months = \<lparr>p_start = 1, p_end = 12\<rparr>"
| "wholePeriod Days_Of_Month = \<lparr>p_start = 1, p_end = 31\<rparr>"
| "wholePeriod Days_Of_Week = \<lparr>p_start = 1, p_end = 7\<rparr>"

definition parsePeriod :: "textlib \<Rightarrow> string \<Rightarrow> sqlrscheduleperiod option" where
  "parsePeriod L part =
     (case splitOn L part ''-'' of
        [] \<Rightarrow> None
      | from # rest \<Rightarrow>
          (let start = word_of_int (toInteger L from)
           in Some \<lparr>p_start = start,
                    p_end = (case rest of [] \<Rightarrow> start | to # _ \<Rightarrow> word_of_int (toInteger L to))\<rparr>))"

definition splitTimePart ::
  "textlib \<Rightarrow> timepart \<Rightarrow> sqlrscheduleperiod list \<Rightarrow> string \<Rightarrow> sqlrscheduleperiod list option" where
  "splitTimePart L which periods timepartlist =
     (if timepartlist = ''*'' then Some (periods @ [wholePeriod which])
      else map_option (\<lambda>ps. periods @ ps)
             (those (map (parsePeriod L) (splitOn L timepartlist '',''))))"

definition minuteOf :: "textlib \<Rightarrow> string \<Rightarrow> u16" where
  "minuteOf L daypart =
     word_of_int (toInteger L (case findFirst L daypart '':'' of Some m \<Rightarrow> tl m | None \<Rightarrow> ''0''))"

definition parseDayPart :: "textlib \<Rightarrow> string \<Rightarrow> sqlrscheduledaypart option" where
  "parseDayPart L part =
     (case splitOn L part ''-'' of
        [] \<Rightarrow> None
      | from # rest \<Rightarrow>
          (let h = word_of_int (toInteger L from); m = minuteOf L from
           in Some \<lparr>starthour = h, startminute = m,
                    endhour = (case rest of [] \<Rightarrow> h | to # _ \<Rightarrow> word_of_int (toInteger L to)),
                    endminute = (case rest of [] \<Rightarrow> m | to # _ \<Rightarrow> minuteOf L to)\<rparr>))"

definition splitDayParts ::
  "textlib \<Rightarrow> sqlrscheduledaypart list \<Rightarrow> string \<Rightarrow> sqlrscheduledaypart list option" where
  "splitDayParts L parts daypartlist =
     (if daypartlist = ''*'' then
        Some (parts @ [\<lparr>starthour = 0, startminute = 0, endhour = 23, endminute = 59\<rparr>])
      else map_option (\<lambda>ps. parts @ ps)
             (those (map (parseDayPart L) (splitOn L daypartlist '',''))))"

definition init_rule ::
  "textlib \<Rightarrow> bool \<Rightarrow> string \<Rightarrow> string \<Rightarrow> string \<Rightarrow> string \<Rightarrow> string \<Rightarrow>
     sqlrschedulerule \<Rightarrow> sqlrschedulerule option" where
  "init_rule L allow ys ms dms dws dps r =
     Option.bind (splitTimePart L Years (years r) ys) (\<lambda>ys.
     Option.bind (splitTimePart L Months (months r) ms) (\<lambda>ms.
     Option.bind (splitTimePart L Days_Of_Month (daysofmonth r) dms) (\<lambda>dms.
     Option.bind (splitTimePart L Days_Of_Week (daysofweek r) dws) (\<lambda>dws.
     Option.bind (splitDayParts L (dayparts r) dps) (\<lambda>dps.
     Some \<lparr>rule_allow = Some allow, years = ys, months = ms, daysofmonth = dms,
           daysofweek = dws, dayparts = dps\<rparr>)))))"

text \<open>The two constructors; the first leaves a rule that was not split into five parts empty.\<close>

definition new_rule :: "textlib \<Rightarrow> bool \<Rightarrow> string \<Rightarrow> sqlrschedulerule option" where
  "new_rule L allow when =
     (case splitOn L when '' '' of
        [ys, ms, dms, dws, dps] \<Rightarrow> init_rule L allow ys ms dms dws dps emptyRule
      | _ \<Rightarrow> Some emptyRule)"

definition new_rule_parts ::
  "textlib \<Rightarrow> bool \<Rightarrow> string \<Rightarrow> string \<Rightarrow> string \<Rightarrow> string \<Rightarrow> string \<Rightarrow> sqlrschedulerule option" where
  "new_rule_parts L allow ys ms dms dws dps = init_rule L allow ys ms dms dws dps emptyRule"

section \<open>Deciding\<close>

primrec inPeriods :: "sqlrscheduleperiod list \<Rightarrow> int \<Rightarrow> bool" where
  "inPeriods [] part = False"
| "inPeriods (p # ps) part =
     (if uint (p_start p) \<le> part \<and> part \<le> uint (p_end p) then True else inPeriods ps part)"

primrec inDayParts :: "sqlrscheduledaypart list \<Rightarrow> int \<Rightarrow> int \<Rightarrow> bool" where
  "inDayParts [] hour minute = False"
| "inDayParts (dp # dps) hour minute =
     (if uint (starthour dp) \<le> hour \<and> uint (startminute dp) \<le> minute \<and>
         hour \<le> uint (endhour dp) \<and> minute \<le> uint (endminute dp) then True
      else inDayParts dps hour minute)"

definition rule_allowed :: "sqlrschedulerule \<Rightarrow> datetime \<Rightarrow> bool \<Rightarrow> bool option" where
  "rule_allowed r dt currentlyallowed =
     (if inPeriods (years r) (getYear dt) \<and> inPeriods (months r) (getMonth dt) \<and>
         inPeriods (daysofmonth r) (getDayOfMonth dt) \<and> inPeriods (daysofweek r) (getDayOfWeek dt) \<and>
         inDayParts (dayparts r) (getHour dt) (getMinute dt) then
        (case rule_allow r of
           None \<Rightarrow> None
         | Some a \<Rightarrow> if a \<noteq> currentlyallowed then Some (\<not> currentlyallowed) else Some currentlyallowed)
      else Some currentlyallowed)"

record sqlrschedule =
  rules :: "sqlrschedulerule list"
  defaultallow :: bool

definition getDefaultAllow :: "sqlrschedule \<Rightarrow> bool" where
  "getDefaultAllow s = defaultallow s"

definition addRule :: "sqlrschedulerule \<Rightarrow> sqlrschedule \<Rightarrow> sqlrschedule" where
  "addRule r s = s\<lparr>rules := rules s @ [r]\<rparr>"

definition clearRules :: "sqlrschedule \<Rightarrow> sqlrschedule" where
  "clearRules s = s\<lparr>rules := []\<rparr>"

text \<open>
  The constructor: the value of \<open>default\<close>, and name and \<open>when\<close> of each tag under \<open>rules\<close>.
\<close>

primrec addRules :: "textlib \<Rightarrow> (string \<times> string) list \<Rightarrow> sqlrschedule \<Rightarrow> sqlrschedule option" where
  "addRules L [] s = Some s"
| "addRules L (t # ts) s =
     (if fst t = ''allow'' \<or> fst t = ''deny'' then
        (case new_rule L (\<not> sameIgnoringCase L (fst t) ''deny'') (snd t) of
           None \<Rightarrow> None
         | Some r \<Rightarrow> addRules L ts (addRule r s))
      else addRules L ts s)"

definition new_schedule :: "textlib \<Rightarrow> string \<Rightarrow> (string \<times> string) list \<Rightarrow> sqlrschedule option" where
  "new_schedule L dflt tags =
     addRules L tags \<lparr>rules = [], defaultallow = \<not> sameIgnoringCase L dflt ''deny''\<rparr>"

primrec rulesAllow :: "sqlrschedulerule list \<Rightarrow> datetime \<Rightarrow> bool \<Rightarrow> bool option" where
  "rulesAllow [] dt currentlyallowed = Some currentlyallowed"
| "rulesAllow (r # rs) dt currentlyallowed =
     Option.bind (rule_allowed r dt currentlyallowed) (rulesAllow rs dt)"

definition schedule_allowed :: "sqlrschedule \<Rightarrow> datetime \<Rightarrow> bool option" where
  "schedule_allowed s dt = rulesAllow (rules s) dt (getDefaultAllow s)"

text \<open>The \<open>cron_userlist\<close> module: its listed users and its schedule.\<close>

record cron_userlist =
  users :: "string list"
  schedule :: sqlrschedule

primrec userListed :: "string list \<Rightarrow> string \<Rightarrow> bool" where
  "userListed [] user = False"
| "userListed (u # us) user = (if user = u \<or> u = ''*'' then True else userListed us user)"

definition cron_allowed :: "cron_userlist \<Rightarrow> string \<Rightarrow> datetime \<Rightarrow> bool option" where
  "cron_allowed m user dt =
     (if \<not> userListed (users m) user then Some True else schedule_allowed (schedule m) dt)"

text \<open>
  All modules in the order they were loaded; the first that denies ends the loop. \<open>now i\<close> is
  the date and time when the \<open>i\<close>th module is asked.
\<close>

primrec schedules_allowed ::
  "(nat \<Rightarrow> datetime) \<Rightarrow> nat \<Rightarrow> cron_userlist list \<Rightarrow> string \<Rightarrow> bool option" where
  "schedules_allowed now i [] user = Some True"
| "schedules_allowed now i (m # ms) user =
     (case cron_allowed m user (now i) of
        None \<Rightarrow> None
      | Some a \<Rightarrow> if \<not> a then Some False else schedules_allowed now (Suc i) ms user)"

end
