(* ===== verification/Schedule_Rules.thy ===== *)
theory Schedule_Rules
  imports Schedule
begin

text \<open>
  What the schedules of \<open>Schedule\<close> mean: the last rule that applies decides, a rule whose text
  is malformed never applies, and a rule that is written as the documentation says applies at
  exactly the dates it lists, within the hours and, independently, the minutes of its day parts.
\<close>

section \<open>Decisions\<close>

definition applies :: "sqlrschedulerule \<Rightarrow> datetime \<Rightarrow> bool" where
  "applies r dt \<longleftrightarrow>
     inPeriods (years r) (getYear dt) \<and> inPeriods (months r) (getMonth dt) \<and>
     inPeriods (daysofmonth r) (getDayOfMonth dt) \<and> inPeriods (daysofweek r) (getDayOfWeek dt) \<and>
     inDayParts (dayparts r) (getHour dt) (getMinute dt)"

text \<open>A rule in which \<open>_allow\<close> is not initialised applies at no time.\<close>

definition ready :: "sqlrschedulerule \<Rightarrow> bool" where
  "ready r \<longleftrightarrow> (rule_allow r = None \<longrightarrow> dayparts r = [])"

definition verdict :: "sqlrschedulerule list \<Rightarrow> datetime \<Rightarrow> bool \<Rightarrow> bool" where
  "verdict rs dt dflt =
     (case filter (\<lambda>r. applies r dt) (rev rs) of [] \<Rightarrow> dflt | r # _ \<Rightarrow> rule_allow r = Some True)"

lemma rule_allowed_ready:
  "ready r \<Longrightarrow> rule_allowed r dt cur = Some (if applies r dt then rule_allow r = Some True else cur)"
  by (auto simp: ready_def rule_allowed_def applies_def split: option.splits)

lemma rulesAllow_verdict:
  "list_all ready rs \<Longrightarrow> rulesAllow rs dt cur = Some (verdict rs dt cur)"
proof (induction rs arbitrary: cur)
  case Nil
  then show ?case by (simp add: verdict_def)
next
  case (Cons r rs)
  then show ?case
    by (auto simp: rule_allowed_ready verdict_def split: list.split)
qed

lemma those_SomeD: "those xs = Some ys \<Longrightarrow> length ys = length xs"
  by (induction xs arbitrary: ys) (auto split: option.splits)

lemma new_rule_ready: "new_rule L a w = Some r \<Longrightarrow> ready r"
  by (auto simp: new_rule_def ready_def emptyRule_def init_rule_def bind_eq_Some_conv split: list.splits)

lemma addRules_ready:
  "addRules L ts s = Some t \<Longrightarrow> list_all ready (rules s) \<Longrightarrow>
     list_all ready (rules t) \<and> defaultallow t = defaultallow s"
proof (induction ts arbitrary: s)
  case (Cons u ts)
  show ?case
  proof (cases "fst u = ''allow'' \<or> fst u = ''deny''")
    case True
    with Cons.prems(1) obtain r where r: "new_rule L (\<not> sameIgnoringCase L (fst u) ''deny'') (snd u) = Some r"
      and t: "addRules L ts (addRule r s) = Some t"
      by (auto split: option.splits)
    show ?thesis
      using Cons.IH [OF t] Cons.prems(2) new_rule_ready [OF r] by (simp add: addRule_def)
  next
    case False
    with Cons show ?thesis by simp
  qed
qed simp

lemma new_schedule_ready: "new_schedule L d ts = Some s \<Longrightarrow> list_all ready (rules s)"
  by (auto simp: new_schedule_def dest: addRules_ready)

lemma userListed_iff: "userListed us u \<longleftrightarrow> u \<in> set us \<or> ''*'' \<in> set us"
  by (induction us) auto

text \<open>The reference: a user is refused by a module that lists the user and whose verdict is no.\<close>

definition refuses :: "cron_userlist \<Rightarrow> string \<Rightarrow> datetime \<Rightarrow> bool" where
  "refuses m user dt \<longleftrightarrow>
     (user \<in> set (users m) \<or> ''*'' \<in> set (users m)) \<and>
     \<not> verdict (rules (schedule m)) dt (defaultallow (schedule m))"

definition loaded :: "textlib \<Rightarrow> cron_userlist \<Rightarrow> bool" where
  "loaded L m \<longleftrightarrow> (\<exists>d tags. new_schedule L d tags = Some (schedule m))"

lemma cron_allowed_refuses: "loaded L m \<Longrightarrow> cron_allowed m user dt = Some (\<not> refuses m user dt)"
  by (auto simp: cron_allowed_def refuses_def loaded_def schedule_allowed_def getDefaultAllow_def
      userListed_iff rulesAllow_verdict dest!: new_schedule_ready)

section \<open>Rule texts\<close>

definition is_digit :: "char \<Rightarrow> bool" where
  "is_digit c \<longleftrightarrow> 48 \<le> (of_char c :: int) \<and> (of_char c :: int) \<le> 57"

definition number :: "string \<Rightarrow> bool" where
  "number n \<longleftrightarrow> n \<noteq> [] \<and> length n \<le> 4 \<and> list_all is_digit n"

definition number_value :: "string \<Rightarrow> int" where
  "number_value n = foldl (\<lambda>v c. 10 * v + (of_char c - 48)) 0 n"

fun join :: "string \<Rightarrow> string list \<Rightarrow> string" where
  "join sep [] = []"
| "join sep [p] = p"
| "join sep (p # q # ps) = p @ sep @ join sep (q # ps)"

text \<open>The documented behaviour of the string functions, on the texts that rules are made of.\<close>

definition text_ok :: "textlib \<Rightarrow> bool" where
  "text_ok L \<longleftrightarrow>
     (\<forall>c ps. ps \<noteq> [] \<and> (\<forall>p \<in> set ps. p \<noteq> [] \<and> c \<notin> set p) \<longrightarrow> splitOn L (join [c] ps) [c] = ps) \<and>
     (\<forall>n r. number n \<and> (r = [] \<or> \<not> is_digit (hd r)) \<longrightarrow> toInteger L (n @ r) = number_value n) \<and>
     (\<forall>c a b. c \<notin> set a \<longrightarrow> findFirst L (a @ c # b) [c] = Some (c # b)) \<and>
     (\<forall>c a. c \<notin> set a \<longrightarrow> findFirst L a [c] = None) \<and>
     sameIgnoringCase L ''deny'' ''deny'' \<and> \<not> sameIgnoringCase L ''allow'' ''deny''"

text \<open>
  A time part is everything or a list of values and ranges; for the day parts, a value is an hour
  with optional minutes.
\<close>

datatype 'a spans = Everything | Spans "('a \<times> 'a option) list"

type_synonym clock = "string \<times> string option"

record ruletext =
  t_years :: "string spans"
  t_months :: "string spans"
  t_daysofmonth :: "string spans"
  t_daysofweek :: "string spans"
  t_dayparts :: "clock spans"

fun print_clock :: "clock \<Rightarrow> string" where
  "print_clock (h, None) = h"
| "print_clock (h, Some m) = h @ '':'' @ m"

fun print_span :: "('a \<Rightarrow> string) \<Rightarrow> 'a \<times> 'a option \<Rightarrow> string" where
  "print_span pr (a, None) = join ''-'' [pr a]"
| "print_span pr (a, Some b) = join ''-'' [pr a, pr b]"

fun print_spans :: "('a \<Rightarrow> string) \<Rightarrow> 'a spans \<Rightarrow> string" where
  "print_spans pr Everything = ''*''"
| "print_spans pr (Spans xs) = join '','' (map (print_span pr) xs)"

definition print_rule :: "ruletext \<Rightarrow> string" where
  "print_rule t = join '' '' [print_spans id (t_years t), print_spans id (t_months t),
     print_spans id (t_daysofmonth t), print_spans id (t_daysofweek t), print_spans print_clock (t_dayparts t)]"

fun clock_ok :: "clock \<Rightarrow> bool" where
  "clock_ok (h, None) = number h"
| "clock_ok (h, Some m) = (number h \<and> number m)"

fun spans_ok :: "('a \<Rightarrow> bool) \<Rightarrow> 'a spans \<Rightarrow> bool" where
  "spans_ok ok Everything = True"
| "spans_ok ok (Spans xs) = (xs \<noteq> [] \<and> list_all (\<lambda>(a, b). ok a \<and> (case b of None \<Rightarrow> True | Some b \<Rightarrow> ok b)) xs)"

definition ruletext_ok :: "ruletext \<Rightarrow> bool" where
  "ruletext_ok t \<longleftrightarrow> spans_ok number (t_years t) \<and> spans_ok number (t_months t) \<and>
     spans_ok number (t_daysofmonth t) \<and> spans_ok number (t_daysofweek t) \<and> spans_ok clock_ok (t_dayparts t)"

text \<open>What a rule covers: \<open>values\<close> gives the numbers of a value that are compared one by one.\<close>

fun span_covers :: "('a \<Rightarrow> int list) \<Rightarrow> int list \<Rightarrow> 'a \<times> 'a option \<Rightarrow> bool" where
  "span_covers values x (a, b) \<longleftrightarrow>
     list_all2 (\<le>) (values a) x \<and> list_all2 (\<le>) x (values (case b of None \<Rightarrow> a | Some b \<Rightarrow> b))"

fun covers :: "('a \<Rightarrow> int list) \<Rightarrow> bool \<Rightarrow> int list \<Rightarrow> 'a spans \<Rightarrow> bool" where
  "covers values whole x Everything \<longleftrightarrow> whole"
| "covers values whole x (Spans xs) \<longleftrightarrow> list_ex (span_covers values x) xs"

definition hour_minute :: "clock \<Rightarrow> int list" where
  "hour_minute c = [number_value (fst c), case snd c of None \<Rightarrow> 0 | Some m \<Rightarrow> number_value m]"

definition rule_covers :: "ruletext \<Rightarrow> datetime \<Rightarrow> bool" where
  "rule_covers t dt \<longleftrightarrow>
     covers (\<lambda>n. [number_value n]) (0 \<le> getYear dt \<and> getYear dt \<le> 65535) [getYear dt] (t_years t) \<and>
     covers (\<lambda>n. [number_value n]) (1 \<le> getMonth dt \<and> getMonth dt \<le> 12) [getMonth dt] (t_months t) \<and>
     covers (\<lambda>n. [number_value n]) (1 \<le> getDayOfMonth dt \<and> getDayOfMonth dt \<le> 31) [getDayOfMonth dt]
       (t_daysofmonth t) \<and>
     covers (\<lambda>n. [number_value n]) (1 \<le> getDayOfWeek dt \<and> getDayOfWeek dt \<le> 7) [getDayOfWeek dt]
       (t_daysofweek t) \<and>
     covers hour_minute (0 \<le> getHour dt \<and> getHour dt \<le> 23 \<and> 0 \<le> getMinute dt \<and> getMinute dt \<le> 59)
       [getHour dt, getMinute dt] (t_dayparts t)"

section \<open>Reading a rule text\<close>

lemma text_okD:
  assumes "text_ok L"
  shows "ps \<noteq> [] \<Longrightarrow> \<forall>p \<in> set ps. p \<noteq> [] \<and> c \<notin> set p \<Longrightarrow> splitOn L (join [c] ps) [c] = ps"
    and "number n \<Longrightarrow> r = [] \<or> \<not> is_digit (hd r) \<Longrightarrow> toInteger L (n @ r) = number_value n"
    and "c \<notin> set a \<Longrightarrow> findFirst L (a @ c # b) [c] = Some (c # b)"
    and "c \<notin> set a \<Longrightarrow> findFirst L a [c] = None"
    and "sameIgnoringCase L ''deny'' ''deny''" and "\<not> sameIgnoringCase L ''allow'' ''deny''"
  using assms unfolding text_ok_def by auto

lemma digit_not_separator:
  "\<not> is_digit (CHR '':'')" "\<not> is_digit (CHR ''-'')" "\<not> is_digit (CHR '','')" "\<not> is_digit (CHR '' '')"
  "\<not> is_digit (CHR ''*'')"
  by (simp_all add: is_digit_def)

lemma number_chars: "number n \<Longrightarrow> \<not> is_digit c \<Longrightarrow> c \<notin> set n"
  by (auto simp: number_def list_all_iff)

lemma number_nonempty: "number n \<Longrightarrow> n \<noteq> []"
  by (simp add: number_def)

lemma number_zero: "number ''0''" "number_value ''0'' = 0"
  by (simp_all add: number_def is_digit_def number_value_def)

lemma foldl_digits:
  assumes "list_all is_digit n" and "0 \<le> v"
  shows "0 \<le> foldl (\<lambda>v c. 10 * v + (of_char c - 48)) v n \<and>
    foldl (\<lambda>v c. 10 * v + (of_char c - 48)) v n < (v + 1) * (10 :: int) ^ length n"
  using assms
proof (induction n arbitrary: v)
  case (Cons c n)
  let ?d = "of_char c - 48 :: int"
  have d: "0 \<le> ?d" "?d \<le> 9" using Cons.prems(1) by (auto simp: is_digit_def)
  then have "(10 * v + ?d + 1) * 10 ^ length n \<le> (10 * (v + 1)) * 10 ^ length n"
    by (intro mult_right_mono) auto
  moreover have "0 \<le> foldl (\<lambda>v c. 10 * v + (of_char c - 48)) (10 * v + ?d) n \<and>
      foldl (\<lambda>v c. 10 * v + (of_char c - 48)) (10 * v + ?d) n < (10 * v + ?d + 1) * 10 ^ length n"
    using Cons.IH [of "10 * v + ?d"] Cons.prems d by simp
  moreover have "(10 * (v + 1)) * 10 ^ length n = (v + 1) * 10 ^ length (c # n)" by simp
  ultimately show ?case unfolding foldl_Cons by linarith
qed simp

lemma number_bounds: "number n \<Longrightarrow> 0 \<le> number_value n \<and> number_value n < 10000"
proof -
  assume n: "number n"
  then have "(10 :: int) ^ length n \<le> 10 ^ 4"
    by (intro power_increasing) (auto simp: number_def)
  then show ?thesis using foldl_digits [of n 0] n by (auto simp: number_def number_value_def)
qed

lemma number_word: "number n \<Longrightarrow> uint (word_of_int (number_value n) :: u16) = number_value n"
  using number_bounds [of n] by (simp add: uint_word_of_int)

lemma print_clock_chars:
  "clock_ok x \<Longrightarrow> \<not> is_digit c \<Longrightarrow> c \<noteq> CHR '':'' \<Longrightarrow> c \<notin> set (print_clock x)"
  by (cases x rule: print_clock.cases) (auto dest: number_chars)

lemma print_clock_digit: "clock_ok x \<Longrightarrow> print_clock x \<noteq> [] \<and> is_digit (hd (print_clock x))"
  by (cases x rule: print_clock.cases) (auto simp: number_def hd_append list_all_iff)

lemma read_number: "text_ok L \<Longrightarrow> number n \<Longrightarrow> toInteger L n = number_value n"
  using text_okD(2) [of L n "[]"] by simp

lemma read_hour: "text_ok L \<Longrightarrow> clock_ok x \<Longrightarrow> toInteger L (print_clock x) = number_value (fst x)"
  by (cases x rule: print_clock.cases) (simp_all add: read_number text_okD(2) digit_not_separator)

lemma read_minute:
  "text_ok L \<Longrightarrow> clock_ok x \<Longrightarrow> uint (minuteOf L (print_clock x)) = hour_minute x ! 1"
  by (cases x rule: print_clock.cases)
    (simp_all add: minuteOf_def hour_minute_def text_okD(3,4) read_number number_chars digit_not_separator
      number_word number_zero)

text \<open>A printed range is split at its dash, wherever the values do not contain one.\<close>

lemma split_span:
  assumes "text_ok L" and "\<And>a. ok a \<Longrightarrow> pr a \<noteq> [] \<and> CHR ''-'' \<notin> set (pr a)"
    and "ok a" and "case b of None \<Rightarrow> True | Some b \<Rightarrow> ok b"
  shows "splitOn L (print_span pr (a, b)) ''-'' = pr a # (case b of None \<Rightarrow> [] | Some b \<Rightarrow> [pr b])"
proof (cases b)
  case None
  then show ?thesis using text_okD(1) [OF assms(1), of "[pr a]" "CHR ''-''"] assms(2,3) by simp
next
  case (Some d)
  then show ?thesis using text_okD(1) [OF assms(1), of "[pr a, pr d]" "CHR ''-''"] assms(2-4) by simp
qed

lemma parsePeriod_print:
  assumes "text_ok L" and "number a" and "case b of None \<Rightarrow> True | Some b \<Rightarrow> number b"
  shows "\<exists>p. parsePeriod L (print_span id (a, b)) = Some p \<and>
    (\<forall>ps x. inPeriods (p # ps) x \<longleftrightarrow> span_covers (\<lambda>n. [number_value n]) [x] (a, b) \<or> inPeriods ps x)"
  using assms split_span [of L number id a b] number_chars [OF _ digit_not_separator(2)] number_nonempty
  by (cases b) (auto simp: parsePeriod_def read_number number_word Let_def)

lemma parseDayPart_print:
  assumes "text_ok L" and "clock_ok a" and "case b of None \<Rightarrow> True | Some b \<Rightarrow> clock_ok b"
  shows "\<exists>p. parseDayPart L (print_span print_clock (a, b)) = Some p \<and>
    (\<forall>ps x y. inDayParts (p # ps) x y \<longleftrightarrow> span_covers hour_minute [x, y] (a, b) \<or> inDayParts ps x y)"
proof -
  have dash: "clock_ok c \<Longrightarrow> print_clock c \<noteq> [] \<and> CHR ''-'' \<notin> set (print_clock c)" for c
    using print_clock_chars [OF _ digit_not_separator(2)] print_clock_digit [of c] by auto
  have hour: "clock_ok c \<Longrightarrow> uint (word_of_int (toInteger L (print_clock c)) :: u16) = number_value (fst c)" for c
    using number_word [of "fst c"] read_hour [OF assms(1), of c] by (cases c rule: clock_ok.cases) auto
  have minute: "clock_ok c \<Longrightarrow> uint (minuteOf L (print_clock c)) = hour_minute c ! 1" for c
    by (rule read_minute [OF assms(1)])
  have cov: "span_covers hour_minute [x, y] (a, d) \<longleftrightarrow>
      number_value (fst a) \<le> x \<and> hour_minute a ! 1 \<le> y \<and>
      x \<le> number_value (fst (case d of None \<Rightarrow> a | Some d \<Rightarrow> d)) \<and>
      y \<le> hour_minute (case d of None \<Rightarrow> a | Some d \<Rightarrow> d) ! 1" for d x y
    by (simp add: hour_minute_def)
  show ?thesis
    using assms(2,3) split_span [OF assms(1), of clock_ok print_clock a b, OF dash] hour minute
    by (cases b) (auto simp: parseDayPart_def cov Let_def simp del: span_covers.simps)
qed

lemma those_map_rel:
  assumes "\<forall>x \<in> set xs. \<exists>p. f x = Some p \<and> R x p"
  shows "\<exists>ps. those (map f xs) = Some ps \<and> list_all2 R xs ps"
  using assms by (induction xs) fastforce+

lemma print_span_chars:
  assumes "list_all (\<lambda>(a, b). ok a \<and> (case b of None \<Rightarrow> True | Some b \<Rightarrow> ok b)) xs"
    and "\<And>a. ok a \<Longrightarrow> pr a \<noteq> [] \<and> is_digit (hd (pr a)) \<and> c \<notin> set (pr a)" and "c \<noteq> CHR ''-''"
    and "x \<in> set xs"
  shows "print_span pr x \<noteq> [] \<and> is_digit (hd (print_span pr x)) \<and> c \<notin> set (print_span pr x)"
proof (cases x)
  case (Pair a b)
  then have ab: "ok a" "case b of None \<Rightarrow> True | Some b \<Rightarrow> ok b"
    using assms(1,4) by (auto simp: list_all_iff)
  then show ?thesis
    using assms(2) [of a] assms(2) [of "the b"] assms(3) Pair by (cases b) auto
qed

lemma number_prints:
  "number n \<Longrightarrow> id n \<noteq> [] \<and> is_digit (hd (id n)) \<and> CHR '' '' \<notin> set (id n)"
  "number n \<Longrightarrow> id n \<noteq> [] \<and> is_digit (hd (id n)) \<and> CHR '','' \<notin> set (id n)"
  using number_chars [OF _ digit_not_separator(3)] number_chars [OF _ digit_not_separator(4)]
  by (auto simp: number_def list_all_iff)

lemma clock_prints:
  "clock_ok n \<Longrightarrow> print_clock n \<noteq> [] \<and> is_digit (hd (print_clock n)) \<and> CHR '' '' \<notin> set (print_clock n)"
  "clock_ok n \<Longrightarrow> print_clock n \<noteq> [] \<and> is_digit (hd (print_clock n)) \<and> CHR '','' \<notin> set (print_clock n)"
  using print_clock_digit print_clock_chars [OF _ digit_not_separator(3)]
    print_clock_chars [OF _ digit_not_separator(4)] by auto

lemma join_first: "ps \<noteq> [] \<Longrightarrow> hd ps \<noteq> [] \<Longrightarrow> join sep ps \<noteq> [] \<and> hd (join sep ps) = hd (hd ps)"
  by (cases "(sep, ps)" rule: join.cases) auto

lemma join_chars: "\<forall>p \<in> set ps. c \<notin> set p \<Longrightarrow> c \<notin> set sep \<Longrightarrow> c \<notin> set (join sep ps)"
  by (induction sep ps rule: join.induct) auto

text \<open>A whole time part: its text stands alone between spaces, and it is read as a list of its ranges.\<close>

lemma print_spans_alone:
  assumes "spans_ok ok s" and "\<And>a. ok a \<Longrightarrow> pr a \<noteq> [] \<and> is_digit (hd (pr a)) \<and> CHR '' '' \<notin> set (pr a)"
  shows "print_spans pr s \<noteq> [] \<and> CHR '' '' \<notin> set (print_spans pr s)"
proof (cases s)
  case (Spans xs)
  have x: "x \<in> set xs \<Longrightarrow> print_span pr x \<noteq> [] \<and> CHR '' '' \<notin> set (print_span pr x)" for x
    using print_span_chars [where ok = ok and xs = xs and pr = pr and c = "CHR '' ''" and x = x] assms Spans by auto
  moreover have "xs \<noteq> []" using assms(1) Spans by simp
  ultimately show ?thesis
    using join_first [of "map (print_span pr) xs" "'',''"] join_chars [where ps = "map (print_span pr) xs" and c = "CHR '' ''" and sep = "'',''"] Spans
    by (auto simp: hd_map)
qed simp

lemma split_spans:
  assumes "text_ok L" and "spans_ok ok (Spans xs)"
    and "\<And>a. ok a \<Longrightarrow> pr a \<noteq> [] \<and> is_digit (hd (pr a)) \<and> CHR '','' \<notin> set (pr a)"
  shows "print_spans pr (Spans xs) \<noteq> ''*''"
    and "splitOn L (print_spans pr (Spans xs)) '','' = map (print_span pr) xs"
proof -
  have x: "x \<in> set xs \<Longrightarrow> print_span pr x \<noteq> [] \<and> is_digit (hd (print_span pr x)) \<and> CHR '','' \<notin> set (print_span pr x)" for x
    using print_span_chars [where ok = ok and xs = xs and pr = pr and c = "CHR '',''" and x = x] assms(2,3) by auto
  have ne: "xs \<noteq> []" using assms(2) by simp
  have "is_digit (hd (join '','' (map (print_span pr) xs)))"
    using join_first [of "map (print_span pr) xs" "'',''"] ne x [of "hd xs"] by (simp add: hd_map)
  then show "print_spans pr (Spans xs) \<noteq> ''*''"
    using digit_not_separator(5) by (metis list.sel(1) print_spans.simps(2))
  show "splitOn L (print_spans pr (Spans xs)) '','' = map (print_span pr) xs"
    using text_okD(1) [OF assms(1), of "map (print_span pr) xs" "CHR '',''"] ne x by auto
qed

lemma splitTimePart_print:
  assumes "text_ok L" and "spans_ok number s"
  shows "\<exists>ps. splitTimePart L w [] (print_spans id s) = Some ps \<and>
    (\<forall>x. inPeriods ps x \<longleftrightarrow>
      covers (\<lambda>n. [number_value n]) (uint (p_start (wholePeriod w)) \<le> x \<and> x \<le> uint (p_end (wholePeriod w))) [x] s)"
proof (cases s)
  case Everything
  then show ?thesis by (simp add: splitTimePart_def)
next
  case (Spans xs)
  have "\<forall>x \<in> set xs. \<exists>p. (parsePeriod L \<circ> print_span id) x = Some p \<and>
      (\<forall>ps y. inPeriods (p # ps) y \<longleftrightarrow> span_covers (\<lambda>n. [number_value n]) [y] x \<or> inPeriods ps y)"
  proof
    fix x
    assume "x \<in> set xs"
    then show "\<exists>p. (parsePeriod L \<circ> print_span id) x = Some p \<and> (\<forall>ps y. inPeriods (p # ps) y \<longleftrightarrow> span_covers (\<lambda>n. [number_value n]) [y] x \<or> inPeriods ps y)"
      using parsePeriod_print [OF assms(1), of "fst x" "snd x"] assms(2) Spans
      by (cases x) (auto simp: list_all_iff simp del: print_span.simps span_covers.simps inPeriods.simps(2))
  qed
  from those_map_rel [OF this] obtain ps where ps:
    "those (map (parsePeriod L \<circ> print_span id) xs) = Some ps"
    "list_all2 (\<lambda>x p. \<forall>ps y. inPeriods (p # ps) y \<longleftrightarrow>
       span_covers (\<lambda>n. [number_value n]) [y] x \<or> inPeriods ps y) xs ps" by blast
  from ps(2) have "inPeriods ps y \<longleftrightarrow> list_ex (span_covers (\<lambda>n. [number_value n]) [y]) xs" for y
    by (induction rule: list_all2_induct) (simp_all del: inPeriods.simps(2) span_covers.simps)
  then show ?thesis
    using ps(1) split_spans [OF assms(1), of number xs id] assms(2) number_prints(2) Spans
    by (simp add: splitTimePart_def)
qed

lemma splitDayParts_print:
  assumes "text_ok L" and "spans_ok clock_ok s"
  shows "\<exists>ps. splitDayParts L [] (print_spans print_clock s) = Some ps \<and>
    (\<forall>x y. inDayParts ps x y \<longleftrightarrow>
      covers hour_minute (0 \<le> x \<and> x \<le> 23 \<and> 0 \<le> y \<and> y \<le> 59) [x, y] s)"
proof (cases s)
  case Everything
  then show ?thesis by (auto simp: splitDayParts_def)
next
  case (Spans xs)
  have "\<forall>x \<in> set xs. \<exists>p. (parseDayPart L \<circ> print_span print_clock) x = Some p \<and>
      (\<forall>ps y z. inDayParts (p # ps) y z \<longleftrightarrow> span_covers hour_minute [y, z] x \<or> inDayParts ps y z)"
  proof
    fix x
    assume "x \<in> set xs"
    then show "\<exists>p. (parseDayPart L \<circ> print_span print_clock) x = Some p \<and> (\<forall>ps y z. inDayParts (p # ps) y z \<longleftrightarrow> span_covers hour_minute [y, z] x \<or> inDayParts ps y z)"
      using parseDayPart_print [OF assms(1), of "fst x" "snd x"] assms(2) Spans
      by (cases x) (auto simp: list_all_iff simp del: print_span.simps span_covers.simps inDayParts.simps(2))
  qed
  from those_map_rel [OF this] obtain ps where ps:
    "those (map (parseDayPart L \<circ> print_span print_clock) xs) = Some ps"
    "list_all2 (\<lambda>x p. \<forall>ps y z. inDayParts (p # ps) y z \<longleftrightarrow>
       span_covers hour_minute [y, z] x \<or> inDayParts ps y z) xs ps" by blast
  from ps(2) have "inDayParts ps y z \<longleftrightarrow> list_ex (span_covers hour_minute [y, z]) xs" for y z
    by (induction rule: list_all2_induct) (simp_all del: inDayParts.simps(2) span_covers.simps)
  then show ?thesis
    using ps(1) split_spans [OF assms(1), of clock_ok xs print_clock] assms(2) clock_prints(2) Spans
    by (simp add: splitDayParts_def)
qed

lemma new_rule_print:
  assumes "text_ok L" and "ruletext_ok t"
  shows "\<exists>r. new_rule L a (print_rule t) = Some r \<and> rule_allow r = Some a \<and>
    (\<forall>dt. applies r dt \<longleftrightarrow> rule_covers t dt)"
proof -
  let ?parts = "[print_spans id (t_years t), print_spans id (t_months t), print_spans id (t_daysofmonth t),
    print_spans id (t_daysofweek t), print_spans print_clock (t_dayparts t)]"
  have "\<forall>p \<in> set ?parts. p \<noteq> [] \<and> CHR '' '' \<notin> set p"
    using assms(2) print_spans_alone [of number _ id, OF _ number_prints(1)]
      print_spans_alone [of clock_ok _ print_clock, OF _ clock_prints(1)]
    by (simp add: ruletext_ok_def)
  then have split: "splitOn L (print_rule t) '' '' = ?parts"
    using text_okD(1) [OF assms(1), of ?parts] by (simp add: print_rule_def del: join.simps)
  note part = splitTimePart_print [OF assms(1)] splitDayParts_print [OF assms(1)]
  show ?thesis
    using part(1) [of "t_years t" Years] part(1) [of "t_months t" Months] part(1) [of "t_daysofmonth t" Days_Of_Month]
      part(1) [of "t_daysofweek t" Days_Of_Week] part(2) [of "t_dayparts t"] assms(2)
    by (auto simp: new_rule_def split init_rule_def emptyRule_def ruletext_ok_def applies_def rule_covers_def)
qed

section \<open>An implementation of the string functions, for the witnesses\<close>

fun splits :: "char \<Rightarrow> string \<Rightarrow> string list" where
  "splits c [] = [[]]"
| "splits c (d # s) = (if d = c then [] # splits c s else (d # hd (splits c s)) # tl (splits c s))"

definition example_text :: textlib where
  "example_text =
     \<lparr>splitOn = (\<lambda>s sep. filter (\<lambda>p. p \<noteq> []) (splits (hd sep) s)),
      toInteger = (\<lambda>s. number_value (takeWhile is_digit s)),
      findFirst = (\<lambda>s sep. case dropWhile (\<lambda>c. c \<noteq> hd sep) s of [] \<Rightarrow> None | x # xs \<Rightarrow> Some (x # xs)),
      sameIgnoringCase = (\<lambda>a b. a = b)\<rparr>"

lemma splits_plain: "c \<notin> set p \<Longrightarrow> splits c p = [p]"
  by (induction p) auto

lemma splits_first: "c \<notin> set p \<Longrightarrow> splits c (p @ c # s) = p # splits c s"
  by (induction p) auto

lemma splits_join: "ps \<noteq> [] \<Longrightarrow> \<forall>p \<in> set ps. c \<notin> set p \<Longrightarrow> splits c (join [c] ps) = ps"
  by (induction "[c]" ps rule: join.induct) (auto simp: splits_plain splits_first)

lemma takeWhile_digits:
  "number n \<Longrightarrow> r = [] \<or> \<not> is_digit (hd r) \<Longrightarrow> takeWhile is_digit (n @ r) = n"
  by (cases r) (auto simp: number_def list_all_iff takeWhile_append)

lemma example_text_ok: "text_ok example_text"
proof -
  have ne: "\<forall>p \<in> set ps. p \<noteq> [] \<Longrightarrow> filter (\<lambda>p. p \<noteq> []) ps = ps" for ps :: "string list"
    by simp
  have none: "c \<notin> set a \<Longrightarrow> dropWhile (\<lambda>d. d \<noteq> c) a = []" for c and a :: string
    by (auto simp: dropWhile_eq_Nil_conv)
  show ?thesis
    unfolding text_ok_def
    by (intro conjI allI impI)
      (auto simp: none example_text_def splits_join takeWhile_digits ne dropWhile_append split: list.splits)
qed

section \<open>Properties\<close>

text \<open>A rule reads as the text it was written as.\<close>

definition reads_as :: "bool \<times> ruletext \<Rightarrow> sqlrschedulerule \<Rightarrow> bool" where
  "reads_as x r \<longleftrightarrow> rule_allow r = Some (fst x) \<and> (\<forall>dt. applies r dt = rule_covers (snd x) dt)"

definition tag_of :: "bool \<times> ruletext \<Rightarrow> string \<times> string" where
  "tag_of x = (if fst x then ''allow'' else ''deny'', print_rule (snd x))"

lemma addRules_print:
  assumes "text_ok L" and "\<forall>x \<in> set xs. ruletext_ok (snd x)"
  shows "\<exists>rs. addRules L (map tag_of xs) s = Some (s\<lparr>rules := rules s @ rs\<rparr>) \<and> list_all2 reads_as xs rs"
  using assms(2)
proof (induction xs arbitrary: s)
  case (Cons x xs)
  then obtain r where r: "new_rule L (fst x) (print_rule (snd x)) = Some r" "reads_as x r"
    using new_rule_print [OF assms(1)] by (fastforce simp: reads_as_def)
  obtain rs where "addRules L (map tag_of xs) (addRule r s) = Some (s\<lparr>rules := rules s @ r # rs\<rparr>)"
    "list_all2 reads_as xs rs"
    using Cons.IH [of "addRule r s"] Cons.prems by (auto simp: addRule_def)
  with r show ?case
    using text_okD(5,6) [OF assms(1)] by (intro exI [of _ "r # rs"]) (auto simp: tag_of_def [of x])
qed simp

lemma first_verdict:
  "list_all2 reads_as xs rs \<Longrightarrow>
     (case filter (\<lambda>r. applies r dt) rs of [] \<Rightarrow> d | r # _ \<Rightarrow> rule_allow r = Some True) =
     (case filter (\<lambda>x. rule_covers (snd x) dt) xs of [] \<Rightarrow> d | x # _ \<Rightarrow> fst x)"
  by (induction rule: list_all2_induct) (auto simp: reads_as_def)

lemma reads_as_ready: "list_all2 reads_as xs rs \<Longrightarrow> list_all ready rs"
  by (induction rule: list_all2_induct) (auto simp: reads_as_def ready_def)


definition office_hours :: ruletext where
  "office_hours = \<lparr>t_years = Everything, t_months = Everything, t_daysofmonth = Everything,
     t_daysofweek = Spans [(''2'', Some ''5'')],
     t_dayparts = Spans [((''8'', Some ''00''), Some (''11'', Some ''59'')), ((''13'', Some ''00''), Some (''16'', Some ''59''))]\<rparr>"

definition on_tuesday :: "int \<Rightarrow> int \<Rightarrow> datetime" where
  "on_tuesday h m = \<lparr>getYear = 2025, getMonth = 3, getDayOfMonth = 4, getDayOfWeek = 3, getHour = h, getMinute = m\<rparr>"


text \<open>
  C34: The modules together. A connection is refused exactly when some module lists the user,
  by name or with a star, and the last of its rules that applies denies (or none applies and its
  default denies) at the moment the module is asked. The decision is always reached, and never
  rests on a rule whose text was malformed and whose \<open>_allow\<close> was therefore never set.
\<close>

theorem schedules_refuse:
  assumes "\<forall>m \<in> set ms. loaded L m"
  shows "schedules_allowed now i ms user = Some (\<forall>k < length ms. \<not> refuses (ms ! k) user (now (i + k)))"
  using assms
proof (induction ms arbitrary: i)
  case (Cons m ms)
  have split: "(\<forall>k < length (m # ms). P k ((m # ms) ! k)) \<longleftrightarrow> P 0 m \<and> (\<forall>k < length ms. P (Suc k) (ms ! k))" for P
    by (auto simp: less_Suc_eq_0_disj)
  show ?case
    using Cons.IH [of "Suc i"] Cons.prems cron_allowed_refuses [of L m user "now i"]
    by (subst split) auto
qed simp

definition night_watch :: cron_userlist where
  "night_watch = \<lparr>users = [''bob''], schedule = \<lparr>rules = [emptyRule], defaultallow = False\<rparr>\<rparr>"

theorem schedules_refuse_witness:
  "schedules_allowed (\<lambda>i. on_tuesday 9 20) 0 [night_watch] ''alice'' = Some True \<and>
   schedules_allowed (\<lambda>i. on_tuesday 9 20) 0 [night_watch] ''bob'' = Some False"
proof -
  have "new_schedule example_text ''deny'' [(''allow'', ''8:00-16:59'')] = Some (schedule night_watch)"
    by (simp add: new_schedule_def night_watch_def new_rule_def addRule_def example_text_def)
  then have "\<forall>m \<in> set [night_watch]. loaded example_text m" by (auto simp: loaded_def)
  from schedules_refuse [OF this] show ?thesis
    by (simp add: refuses_def night_watch_def verdict_def applies_def emptyRule_def del: schedules_allowed.simps)
qed

text \<open>
  Hours and minutes are compared one by one, so a day part from half past eight to a quarter past
  five leaves out twenty past nine.
\<close>

theorem daypart_minutes_apart:
  "map_option (\<lambda>dp. inDayParts [dp] 9 20) (parseDayPart example_text ''8:30-17:15'') = Some False"
  "map_option (\<lambda>dp. inDayParts [dp] 9 14) (parseDayPart example_text ''8:30-17:15'') = Some False"
  by (simp_all add: parseDayPart_def minuteOf_def example_text_def number_value_def is_digit_def)

end
