(* ===== verification/Cursor_Pool.thy ===== *)
theory Cursor_Pool
  imports Prelude
begin

text \<open>
  The cursors of a connection (\<open>src/server/sqlrservercontroller.cpp\<close>): an array of at most
  \<open>maxcursorcount\<close> cursors of which the first \<open>cursorcount\<close> are in use, grown on demand, shrunk
  at the end of a session, and the temporary cursors outside the array that internal queries use.

  The array \<open>_cur\<close> is a list of optional cursors, \<open>None\<close> for a null pointer; the empty list is
  the array that is not allocated. An operation that would follow a null pointer or index past the
  array is \<open>None\<close>. The database's driver is the record \<open>cursordb\<close>, each field a function on an
  environment; events, debug output and the mutex of the shared statistics are left out.
\<close>

section \<open>State\<close>

datatype sqlrcursorstate = Cursor_Available | Cursor_Busy | Cursor_Suspended

record sqlrservercursor =
  cursor_id :: u16
  cursor_state :: sqlrcursorstate
  translatebinds :: bool
  requirebinds :: bool
  cursorname :: "string option"

record 'e cursordb =
  db_open :: "u16 \<Rightarrow> 'e \<Rightarrow> bool \<times> 'e"
  db_close :: "u16 \<Rightarrow> 'e \<Rightarrow> 'e"
  db_abort :: "u16 \<Rightarrow> 'e \<Rightarrow> 'e"
  db_closeResultSet :: "u16 \<Rightarrow> 'e \<Rightarrow> 'e"
  db_logOut :: "'e \<Rightarrow> 'e"
  db_logIn :: "'e \<Rightarrow> bool \<times> 'e"
  db_shutDownFlag :: "'e \<Rightarrow> bool \<times> 'e"

record 'e pool =
  cur :: "sqlrservercursor option list"
  cursorcount :: u16
  mincursorcount :: u16
  maxcursorcount :: u16
  cursorsgrowby :: u16
  tempcursorid :: u16
  open_db_cursors :: u32
  opened_db_cursors :: u32
  times_new_cursor_used :: u32
  times_cursor_reused :: u32
  dbenv :: 'e

definition newConnCursor :: "u16 \<Rightarrow> sqlrservercursor" where
  "newConnCursor n =
     \<lparr>cursor_id = n, cursor_state = Cursor_Available, translatebinds = True, requirebinds = False,
      cursorname = None\<rparr>"

definition setState :: "sqlrcursorstate \<Rightarrow> sqlrservercursor \<Rightarrow> sqlrservercursor" where
  "setState st c = c\<lparr>cursor_state := st\<rparr>"

definition setCursorName :: "string option \<Rightarrow> sqlrservercursor \<Rightarrow> sqlrservercursor" where
  "setCursorName name c = c\<lparr>cursorname := name\<rparr>"

definition resetBinds :: "sqlrservercursor \<Rightarrow> sqlrservercursor" where
  "resetBinds c = c\<lparr>translatebinds := True, requirebinds := False\<rparr>"

definition onEnv :: "('e \<Rightarrow> 'e) \<Rightarrow> 'e pool \<Rightarrow> 'e pool" where
  "onEnv f p = p\<lparr>dbenv := f (dbenv p)\<rparr>"

definition askEnv :: "('e \<Rightarrow> 'a \<times> 'e) \<Rightarrow> 'e pool \<Rightarrow> 'a \<times> 'e pool" where
  "askEnv f p = (fst (f (dbenv p)), p\<lparr>dbenv := snd (f (dbenv p))\<rparr>)"

section \<open>Creating and deleting cursors\<close>

definition incrementOpenDatabaseCursors :: "'e pool \<Rightarrow> 'e pool" where
  "incrementOpenDatabaseCursors p =
     p\<lparr>open_db_cursors := open_db_cursors p + 1, opened_db_cursors := opened_db_cursors p + 1\<rparr>"

definition decrementOpenDatabaseCursors :: "'e pool \<Rightarrow> 'e pool" where
  "decrementOpenDatabaseCursors p =
     (if open_db_cursors p \<noteq> 0 then p\<lparr>open_db_cursors := open_db_cursors p - 1\<rparr> else p)"

definition newCursor :: "u16 \<Rightarrow> 'e pool \<Rightarrow> sqlrservercursor \<times> 'e pool" where
  "newCursor n p = (newConnCursor n, incrementOpenDatabaseCursors p)"

definition newTempCursor :: "'e pool \<Rightarrow> sqlrservercursor \<times> 'e pool" where
  "newTempCursor p =
     (let n = (if tempcursorid p < maxcursorcount p \<or> tempcursorid p = 65535
               then maxcursorcount p else tempcursorid p + 1)
      in newCursor n (p\<lparr>tempcursorid := n\<rparr>))"

definition deleteCursor :: "'e pool \<Rightarrow> 'e pool" where
  "deleteCursor p = decrementOpenDatabaseCursors p"

definition openCursor :: "'e cursordb \<Rightarrow> sqlrservercursor \<Rightarrow> 'e pool \<Rightarrow> bool \<times> 'e pool" where
  "openCursor S c = askEnv (db_open S (cursor_id c))"

definition closeCursor :: "'e cursordb \<Rightarrow> sqlrservercursor \<Rightarrow> 'e pool \<Rightarrow> 'e pool" where
  "closeCursor S c = onEnv (db_close S (cursor_id c))"

definition abortCursor :: "'e cursordb \<Rightarrow> sqlrservercursor \<Rightarrow> 'e pool \<Rightarrow> 'e pool" where
  "abortCursor S c = onEnv (db_abort S (cursor_id c))"

definition release :: "sqlrservercursor \<Rightarrow> sqlrservercursor" where
  "release c = setState Cursor_Available c"

section \<open>Initialising and closing\<close>

primrec initLoop :: "'e cursordb \<Rightarrow> nat \<Rightarrow> nat \<Rightarrow> 'e pool \<Rightarrow> (bool \<times> 'e pool) option" where
  "initLoop S 0 i p = Some (True, p)"
| "initLoop S (Suc n) i p =
     (if length (cur p) \<le> i then None
      else case (case cur p ! i of
                   Some c \<Rightarrow> (c, p)
                 | None \<Rightarrow> (case newCursor (of_nat i) p of (c, p) \<Rightarrow> (c, p\<lparr>cur := (cur p)[i := Some c]\<rparr>))) of
        (c, p) \<Rightarrow>
          (case openCursor S c p of (opened, p) \<Rightarrow>
             if \<not> opened then Some (False, p) else initLoop S n (Suc i) p))"

definition initCursors :: "'e cursordb \<Rightarrow> u16 \<Rightarrow> 'e pool \<Rightarrow> (bool \<times> 'e pool) option" where
  "initCursors S count p =
     (let p = p\<lparr>cursorcount := count\<rparr>;
          p = (if cur p = [] then p\<lparr>cur := replicate (unat (maxcursorcount p)) None\<rparr> else p)
      in initLoop S (unat count) 0 p)"

primrec closeLoop :: "'e cursordb \<Rightarrow> bool \<Rightarrow> nat \<Rightarrow> 'e pool \<Rightarrow> 'e pool option" where
  "closeLoop S destroy 0 p = Some p"
| "closeLoop S destroy (Suc n) p =
     (if length (cur p) \<le> n then None
      else case cur p ! n of
             None \<Rightarrow> closeLoop S destroy n (p\<lparr>cursorcount := of_nat n\<rparr>)
           | Some c \<Rightarrow>
               (let p = closeCursor S c (onEnv (db_closeResultSet S (cursor_id c)) (p\<lparr>cursorcount := of_nat n\<rparr>))
                in closeLoop S destroy n
                     (if destroy then (deleteCursor p)\<lparr>cur := (cur p)[n := None]\<rparr> else p)))"

definition closeCursors :: "'e cursordb \<Rightarrow> bool \<Rightarrow> 'e pool \<Rightarrow> 'e pool option" where
  "closeCursors S destroy p =
     (if cur p = [] then Some p
      else map_option (\<lambda>p. if destroy then p\<lparr>cur := []\<rparr> else p)
             (closeLoop S destroy (unat (cursorcount p)) p))"

section \<open>Getting cursors\<close>

text \<open>
  The two search loops: the index of the first cursor for which the test holds, \<open>None\<close> where a
  null pointer is met first.
\<close>

primrec findCursor ::
  "(sqlrservercursor \<Rightarrow> bool) \<Rightarrow> nat \<Rightarrow> sqlrservercursor option list \<Rightarrow> nat option option" where
  "findCursor test i [] = Some None"
| "findCursor test i (x # xs) =
     (case x of None \<Rightarrow> None
      | Some c \<Rightarrow> if test c then Some (Some i) else findCursor test (Suc i) xs)"

definition inUse :: "'e pool \<Rightarrow> sqlrservercursor option list" where
  "inUse p = (if unat (cursorcount p) \<le> length (cur p) then take (unat (cursorcount p)) (cur p)
              else cur p @ [None])"

definition changeCursor :: "nat \<Rightarrow> (sqlrservercursor \<Rightarrow> sqlrservercursor) \<Rightarrow> 'e pool \<Rightarrow> 'e pool" where
  "changeCursor i f p = p\<lparr>cur := (cur p)[i := map_option f (cur p ! i)]\<rparr>"

definition getCursorById :: "u16 \<Rightarrow> 'e pool \<Rightarrow> (nat option \<times> 'e pool) option" where
  "getCursorById n p =
     (case findCursor (\<lambda>c. cursor_id c = n) 0 (inUse p) of
        None \<Rightarrow> None
      | Some None \<Rightarrow> Some (None, p)
      | Some (Some i) \<Rightarrow>
          Some (Some i, changeCursor i resetBinds (p\<lparr>times_cursor_reused := times_cursor_reused p + 1\<rparr>)))"

definition handOut :: "nat \<Rightarrow> 'e pool \<Rightarrow> nat option \<times> 'e pool" where
  "handOut i p =
     (Some i, changeCursor i (resetBinds \<circ> setState Cursor_Busy)
                (p\<lparr>times_new_cursor_used := times_new_cursor_used p + 1\<rparr>))"

text \<open>The body of the growing loop, run \<open>n\<close> times; the result tells whether every cursor opened.\<close>

primrec growLoop :: "'e cursordb \<Rightarrow> nat \<Rightarrow> 'e pool \<Rightarrow> (bool \<times> 'e pool) option" where
  "growLoop S 0 p = Some (True, p)"
| "growLoop S (Suc n) p =
     (if length (cur p) \<le> unat (cursorcount p) then None
      else case newCursor (cursorcount p) p of (c, p) \<Rightarrow>
        (case openCursor S c (p\<lparr>cur := (cur p)[unat (cursorcount p) := Some c]\<rparr>) of (opened, p) \<Rightarrow>
           if \<not> opened then Some (False, p)
           else growLoop S n (p\<lparr>cursorcount := cursorcount p + 1\<rparr>)))"

definition expandTo :: "'e pool \<Rightarrow> u16" where
  "expandTo p =
     (let expandto = cursorcount p + cursorsgrowby p
      in if maxcursorcount p \<le> expandto then maxcursorcount p else expandto)"

text \<open>A \<open>do\<close> loop up to \<open>expandto\<close>: at least one round.\<close>

definition growRounds :: "'e pool \<Rightarrow> nat" where
  "growRounds p = (if expandTo p \<le> cursorcount p then 1 else unat (expandTo p) - unat (cursorcount p))"

definition getCursor :: "'e cursordb \<Rightarrow> 'e pool \<Rightarrow> (nat option \<times> 'e pool) option" where
  "getCursor S p =
     (case findCursor (\<lambda>c. cursor_state c = Cursor_Available) 0 (inUse p) of
        None \<Rightarrow> None
      | Some (Some i) \<Rightarrow> Some (handOut i p)
      | Some None \<Rightarrow>
          if cursorcount p = maxcursorcount p then Some (None, p)
          else (let firstnewcursor = unat (cursorcount p)
                in case growLoop S (growRounds p) p of
                     None \<Rightarrow> None
                   | Some (grown, q) \<Rightarrow> if grown then Some (handOut firstnewcursor q) else Some (None, q)))"

section \<open>Sessions\<close>

text \<open>A loop over the cursors in use; \<open>skip\<close> where the code tests the pointer first.\<close>

primrec forCursors ::
  "bool \<Rightarrow> (sqlrservercursor \<Rightarrow> 'e pool \<Rightarrow> sqlrservercursor \<times> 'e pool) \<Rightarrow> nat list \<Rightarrow> 'e pool \<Rightarrow> 'e pool option"
where
  "forCursors skip f [] p = Some p"
| "forCursors skip f (i # is) p =
     (if length (cur p) \<le> i then None
      else case cur p ! i of
             None \<Rightarrow> if skip then forCursors skip f is p else None
           | Some c \<Rightarrow> (case f c p of (c, p) \<Rightarrow> forCursors skip f is (p\<lparr>cur := (cur p)[i := Some c]\<rparr>)))"

definition initSession :: "'e pool \<Rightarrow> 'e pool option" where
  "initSession p = forCursors False (\<lambda>c p. (release c, p)) [0..<unat (cursorcount p)] p"

definition suspendSession :: "'e cursordb \<Rightarrow> 'e pool \<Rightarrow> 'e pool option" where
  "suspendSession S p =
     forCursors False
       (\<lambda>c p. if cursor_state c = Cursor_Busy then (release c, abortCursor S c p) else (c, p))
       [0..<unat (cursorcount p)] p"

primrec shrinkLoop :: "'e cursordb \<Rightarrow> nat \<Rightarrow> 'e pool \<Rightarrow> 'e pool option" where
  "shrinkLoop S 0 p = Some p"
| "shrinkLoop S (Suc n) p =
     (let i = unat (cursorcount p) - 1; p = p\<lparr>cursorcount := cursorcount p - 1\<rparr>
      in if length (cur p) \<le> i then None
         else case cur p ! i of
                None \<Rightarrow> None
              | Some c \<Rightarrow>
                  shrinkLoop S n ((deleteCursor (closeCursor S c p))\<lparr>cur := (cur p)[i := None]\<rparr>))"

definition shrink :: "'e cursordb \<Rightarrow> 'e pool \<Rightarrow> 'e pool option" where
  "shrink S p = shrinkLoop S (unat (cursorcount p) - unat (mincursorcount p)) p"

text \<open>
  The three loops of \<open>endSession\<close>: abort and release every cursor, forget the cursor names, shrink
  the array.
\<close>

definition endSession :: "'e cursordb \<Rightarrow> 'e pool \<Rightarrow> 'e pool option" where
  "endSession S p =
     Option.bind (forCursors True (\<lambda>c p. (release c, abortCursor S c p)) [0..<unat (cursorcount p)] p) (\<lambda>p.
     Option.bind (forCursors True (\<lambda>c p. (setCursorName None c, p)) [0..<unat (cursorcount p)] p) (\<lambda>p.
     shrink S p))"

definition changeUser :: "'e cursordb \<Rightarrow> 'e pool \<Rightarrow> (bool \<times> 'e pool) option" where
  "changeUser S p =
     (let oldcursorcount = cursorcount p
      in Option.bind (closeCursors S False p) (\<lambda>p.
         (case askEnv (db_logIn S) (onEnv (db_logOut S) p) of (loggedin, p) \<Rightarrow>
            if loggedin then initCursors S oldcursorcount p else Some (False, p))))"

partial_function (option) reLogInLoop ::
  "'e cursordb \<Rightarrow> u16 \<Rightarrow> 'e pool \<Rightarrow> 'e pool option" where
  "reLogInLoop S oldcursorcount p =
     (case askEnv (db_shutDownFlag S) p of (down, p) \<Rightarrow>
        if down then Some p
        else
          (case askEnv (db_logIn S) p of (loggedin, p) \<Rightarrow>
             if \<not> loggedin then reLogInLoop S oldcursorcount p
             else Option.bind (initCursors S oldcursorcount p) (\<lambda>(inited, p).
                    if inited then Some p
                    else Option.bind (closeCursors S False p) (\<lambda>p.
                           reLogInLoop S oldcursorcount (onEnv (db_logOut S) p)))))"

definition reLogIn :: "'e cursordb \<Rightarrow> 'e pool \<Rightarrow> 'e pool option" where
  "reLogIn S p =
     (let oldcursorcount = cursorcount p
      in Option.bind (closeCursors S False p) (\<lambda>p. reLogInLoop S oldcursorcount (onEnv (db_logOut S) p)))"

section \<open>What the protocols do with a cursor\<close>

definition releaseCursor :: "nat \<Rightarrow> 'e pool \<Rightarrow> 'e pool" where
  "releaseCursor i = changeCursor i release"

definition suspendResultSet :: "nat \<Rightarrow> 'e pool \<Rightarrow> 'e pool" where
  "suspendResultSet i = changeCursor i (setState Cursor_Suspended)"

definition setTranslateBindVariablesForThisQuery :: "bool \<Rightarrow> nat \<Rightarrow> 'e pool \<Rightarrow> 'e pool" where
  "setTranslateBindVariablesForThisQuery b i = changeCursor i (\<lambda>c. c\<lparr>translatebinds := b\<rparr>)"

definition setRequireBindVariableTranslation :: "bool \<Rightarrow> nat \<Rightarrow> 'e pool \<Rightarrow> 'e pool" where
  "setRequireBindVariableTranslation b i = changeCursor i (\<lambda>c. c\<lparr>requirebinds := b\<rparr>)"

end
