(* ===== verification/Cursor_Sessions.thy ===== *)
theory Cursor_Sessions
  imports Cursor_Pool
begin

text \<open>
  What the cursor pool of \<open>Cursor_Pool\<close> keeps true: the array invariant, the safety of every
  operation in every reachable state, what a cursor is when it is handed out, the resource-pool
  contract that cursors fulfil for their users, and the identifiers of temporary cursors.
\<close>

section \<open>The invariant\<close>

definition pool_ok :: "'e pool \<Rightarrow> bool" where
  "pool_ok p \<longleftrightarrow>
     length (cur p) = unat (maxcursorcount p) \<and> cursorcount p \<le> maxcursorcount p \<and>
     mincursorcount p \<le> maxcursorcount p \<and>
     (\<forall>i < unat (cursorcount p). cur p ! i \<noteq> None) \<and>
     (\<forall>i < length (cur p). \<forall>c. cur p ! i = Some c \<longrightarrow> cursor_id c = of_nat i)"

lemma pool_okD:
  assumes "pool_ok p"
  shows "length (cur p) = unat (maxcursorcount p)" and "unat (cursorcount p) \<le> length (cur p)"
    and "i < unat (cursorcount p) \<Longrightarrow> \<exists>c. cur p ! i = Some c \<and> cursor_id c = of_nat i"
    and "i < length (cur p) \<Longrightarrow> cur p ! i = Some c \<Longrightarrow> cursor_id c = of_nat i"
    and "mincursorcount p \<le> maxcursorcount p"
proof -
  show le: "unat (cursorcount p) \<le> length (cur p)"
    using assms by (simp add: pool_ok_def word_le_nat_alt)
  show "i < unat (cursorcount p) \<Longrightarrow> \<exists>c. cur p ! i = Some c \<and> cursor_id c = of_nat i"
    using assms le unfolding pool_ok_def by force
qed (use assms in \<open>auto simp: pool_ok_def\<close>)

text \<open>Two pools that agree on everything but cursors, statistics and environment.\<close>

definition same_limits :: "'e pool \<Rightarrow> 'e pool \<Rightarrow> bool" where
  "same_limits p q \<longleftrightarrow> maxcursorcount q = maxcursorcount p \<and> mincursorcount q = mincursorcount p \<and>
     cursorsgrowby q = cursorsgrowby p \<and> tempcursorid q = tempcursorid p"

lemma same_limits_refl [simp]: "same_limits p p"
  by (simp add: same_limits_def)

lemma same_limits_trans: "same_limits p q \<Longrightarrow> same_limits q r \<Longrightarrow> same_limits p r"
  by (simp add: same_limits_def)

named_theorems pool_simps \<open>how the small operations change a pool\<close>

lemma onEnv_simps [pool_simps]:
  "cur (onEnv f p) = cur p" "cursorcount (onEnv f p) = cursorcount p"
  "same_limits p (onEnv f q) = same_limits p q"
  by (simp_all add: onEnv_def same_limits_def)

lemma closeCursor_simps [pool_simps]:
  "cur (closeCursor S c p) = cur p" "cursorcount (closeCursor S c p) = cursorcount p"
  "same_limits p (closeCursor S c q) = same_limits p q"
  by (simp_all add: closeCursor_def pool_simps)

lemma deleteCursor_simps [pool_simps]:
  "cur (deleteCursor p) = cur p" "cursorcount (deleteCursor p) = cursorcount p"
  "same_limits p (deleteCursor q) = same_limits p q"
  by (simp_all add: deleteCursor_def decrementOpenDatabaseCursors_def same_limits_def)

lemma update_simps [pool_simps]:
  "same_limits p (q\<lparr>cur := cs\<rparr>) = same_limits p q" "same_limits p (q\<lparr>cursorcount := n\<rparr>) = same_limits p q"
  "same_limits p (q\<lparr>times_new_cursor_used := t\<rparr>) = same_limits p q"
  "same_limits p (q\<lparr>times_cursor_reused := t\<rparr>) = same_limits p q"
  by (simp_all add: same_limits_def)

lemma askEnv_simps:
  assumes "askEnv f p = (x, q)"
  shows "cur q = cur p" "cursorcount q = cursorcount p" "same_limits r q = same_limits r p"
    "x = fst (f (dbenv p))"
  using assms by (auto simp: askEnv_def same_limits_def)

lemma openCursor_simps:
  assumes "openCursor S c p = (opened, q)"
  shows "cur q = cur p" "cursorcount q = cursorcount p" "same_limits r q = same_limits r p"
    "opened = fst (db_open S (cursor_id c) (dbenv p))"
  by (rule askEnv_simps [OF assms [unfolded openCursor_def]])+

lemma newCursor_simps [pool_simps]:
  "newCursor n p = (newConnCursor n, incrementOpenDatabaseCursors p)"
  "cur (incrementOpenDatabaseCursors p) = cur p" "cursorcount (incrementOpenDatabaseCursors p) = cursorcount p"
  "same_limits r (incrementOpenDatabaseCursors p) = same_limits r p"
  "cursor_id (newConnCursor n) = n" "cursor_state (newConnCursor n) = Cursor_Available"
  by (simp_all add: newCursor_def incrementOpenDatabaseCursors_def same_limits_def newConnCursor_def)

lemma pool_okI:
  assumes "pool_ok p" and "same_limits p q" and "length (cur q) = length (cur p)"
    and "cursorcount q \<le> maxcursorcount p"
    and "\<And>i. i < unat (cursorcount q) \<Longrightarrow> cur q ! i \<noteq> None"
    and "\<And>i c. i < length (cur q) \<Longrightarrow> cur q ! i = Some c \<Longrightarrow> cursor_id c = of_nat i"
  shows "pool_ok q"
  using assms by (simp add: pool_ok_def same_limits_def)

section \<open>The loops\<close>

text \<open>What a loop over the cursors makes of the array.\<close>

definition upd :: "(sqlrservercursor \<Rightarrow> sqlrservercursor) \<Rightarrow> nat set \<Rightarrow> sqlrservercursor option list \<Rightarrow>
    sqlrservercursor option list" where
  "upd g I xs = map (\<lambda>i. if i \<in> I then map_option g (xs ! i) else xs ! i) [0..<length xs]"

lemma upd_simps [simp]:
  "length (upd g I xs) = length xs"
  "i < length xs \<Longrightarrow> upd g I xs ! i = (if i \<in> I then map_option g (xs ! i) else xs ! i)"
  "upd g {} xs = xs"
  by (simp_all add: upd_def map_nth)

lemma upd_insert:
  assumes "i < length xs" "xs ! i = Some c" "i \<notin> I"
  shows "upd g I (xs[i := Some (g c)]) = upd g (insert i I) xs"
  using assms by (intro nth_equalityI) (auto simp: nth_list_update)

lemma forCursors_upd:
  assumes "\<And>c p. fst (f c p) = g c" and "\<And>c p. \<exists>e. snd (f c p) = p\<lparr>dbenv := e\<rparr>"
    and "distinct is" and "\<forall>i \<in> set is. i < length (cur p) \<and> cur p ! i \<noteq> None"
  shows "\<exists>e. forCursors skip f is p = Some (p\<lparr>cur := upd g (set is) (cur p), dbenv := e\<rparr>)"
  using assms(3,4)
proof (induction "is" arbitrary: p)
  case Nil
  then show ?case by (intro exI [of _ "dbenv p"]) simp
next
  case (Cons i "is")
  obtain c where c: "cur p ! i = Some c" "i < length (cur p)" using Cons.prems by auto
  obtain e where e: "f c p = (g c, p\<lparr>dbenv := e\<rparr>)"
    using assms(1) [of c p] assms(2) [of c p] by (metis prod.collapse)
  let ?q = "p\<lparr>dbenv := e, cur := (cur p)[i := Some (g c)]\<rparr>"
  have "\<forall>j \<in> set is. j < length (cur ?q) \<and> cur ?q ! j \<noteq> None"
    using Cons.prems by (auto simp: nth_list_update)
  then obtain e' where "forCursors skip f is ?q = Some (?q\<lparr>cur := upd g (set is) (cur ?q), dbenv := e'\<rparr>)"
    using Cons.IH [of ?q] Cons.prems(1) by auto
  then show ?case
    using c e Cons.prems(1) by (intro exI [of _ e']) (simp add: upd_insert)
qed

lemma findCursor_found:
  assumes "\<forall>x \<in> set xs. x \<noteq> None"
  shows "(findCursor test i xs = Some None \<and> (\<forall>c. Some c \<in> set xs \<longrightarrow> \<not> test c)) \<or>
    (\<exists>j c. findCursor test i xs = Some (Some (i + j)) \<and> j < length xs \<and> xs ! j = Some c \<and> test c \<and>
       (\<forall>k d. k < j \<longrightarrow> xs ! k = Some d \<longrightarrow> \<not> test d))"
  using assms
proof (induction xs arbitrary: i)
  case (Cons x xs)
  then obtain c where c: "x = Some c" by auto
  show ?case
  proof (cases "test c")
    case True
    then show ?thesis using c by (intro disjI2 exI [of _ 0]) auto
  next
    case False
    from Cons.IH [of "Suc i"] Cons.prems consider
      "findCursor test (Suc i) xs = Some None" "\<forall>c. Some c \<in> set xs \<longrightarrow> \<not> test c"
      | j d where "findCursor test (Suc i) xs = Some (Some (Suc i + j))" "j < length xs" "xs ! j = Some d"
        "test d" "\<forall>k e. k < j \<longrightarrow> xs ! k = Some e \<longrightarrow> \<not> test e"
      by auto
    then show ?thesis
    proof cases
      case 2
      then show ?thesis
        using False c by (intro disjI2 exI [of _ "Suc j"] exI [of _ d]) (auto simp: nth_Cons split: nat.split)
    qed (use False c in auto)
  qed
qed simp

text \<open>The search over the cursors in use of a pool that satisfies the invariant.\<close>

lemma find_inUse:
  assumes "pool_ok p"
  obtains "findCursor test 0 (inUse p) = Some None"
      "\<forall>i < unat (cursorcount p). \<forall>c. cur p ! i = Some c \<longrightarrow> \<not> test c"
  | j c where "findCursor test 0 (inUse p) = Some (Some j)" "j < unat (cursorcount p)" "cur p ! j = Some c"
      "test c" "\<forall>k < j. \<forall>d. cur p ! k = Some d \<longrightarrow> \<not> test d"
proof -
  note ok = pool_okD [OF assms]
  have u: "inUse p = take (unat (cursorcount p)) (cur p)" using ok(2) by (simp add: inUse_def)
  have "\<forall>x \<in> set (inUse p). x \<noteq> None"
    using ok(2,3) by (fastforce simp: u in_set_conv_nth)
  from findCursor_found [OF this, of test 0] show thesis
  proof (elim disjE exE conjE)
    assume "findCursor test 0 (inUse p) = Some None" "\<forall>c. Some c \<in> set (inUse p) \<longrightarrow> \<not> test c"
    then show thesis
      using that(1) ok(2) by (force simp: u in_set_conv_nth)
  next
    fix j c
    assume "findCursor test 0 (inUse p) = Some (Some (0 + j))" "j < length (inUse p)" "inUse p ! j = Some c"
      "test c" "\<forall>k d. k < j \<longrightarrow> inUse p ! k = Some d \<longrightarrow> \<not> test d"
    then show thesis
      using that(2) [of j c] ok(2) by (auto simp: u)
  qed
qed

text \<open>Cursors that are there stay as they are; every cursor has the number of its place.\<close>

definition keeps_cursors :: "'e pool \<Rightarrow> 'e pool \<Rightarrow> bool" where
  "keeps_cursors p q \<longleftrightarrow> same_limits p q \<and> length (cur q) = length (cur p) \<and>
     (\<forall>i < length (cur p). cur p ! i \<noteq> None \<longrightarrow> cur q ! i = cur p ! i)"

definition numbered :: "'e pool \<Rightarrow> bool" where
  "numbered p \<longleftrightarrow> (\<forall>i < length (cur p). \<forall>c. cur p ! i = Some c \<longrightarrow> cursor_id c = of_nat i)"

lemma pool_ok_numbered: "pool_ok p \<Longrightarrow> numbered p"
  by (simp add: pool_ok_def numbered_def)

lemma initLoop_inits:
  assumes "i + n \<le> length (cur p)" and "numbered p" and "\<forall>j < i. cur p ! j \<noteq> None"
  shows "\<exists>opened q. initLoop S n i p = Some (opened, q) \<and> keeps_cursors p q \<and> numbered q \<and>
    cursorcount q = cursorcount p \<and> (opened \<longrightarrow> (\<forall>j < i + n. cur q ! j \<noteq> None))"
  using assms
proof (induction n arbitrary: i p)
  case (Suc n)
  obtain c r where r: "(case cur p ! i of Some c \<Rightarrow> (c, p)
      | None \<Rightarrow> (case newCursor (of_nat i) p of (c, p) \<Rightarrow> (c, p\<lparr>cur := (cur p)[i := Some c]\<rparr>))) = (c, r)"
    by fastforce
  have k: "keeps_cursors p r" "numbered r" "cursorcount r = cursorcount p" "cur r ! i \<noteq> None"
    using r Suc.prems
    by (auto simp: keeps_cursors_def numbered_def pool_simps nth_list_update split: option.splits if_splits)
  obtain opened q where q: "openCursor S c r = (opened, q)" by fastforce
  note o = openCursor_simps [OF q]
  have kq: "keeps_cursors p q" "numbered q" "cursorcount q = cursorcount p" "cur q ! i \<noteq> None"
    using k by (simp_all add: keeps_cursors_def numbered_def o)
  show ?case
  proof (cases opened)
    case True
    have "\<forall>j < Suc i. cur q ! j \<noteq> None"
      using kq(1,4) Suc.prems by (auto simp: keeps_cursors_def less_Suc_eq)
    moreover have "Suc i + n \<le> length (cur q)" using Suc.prems(1) kq(1) by (simp add: keeps_cursors_def)
    ultimately obtain op t where t: "initLoop S n (Suc i) q = Some (op, t)" "keeps_cursors q t" "numbered t"
      "cursorcount t = cursorcount q" "op \<longrightarrow> (\<forall>j < Suc i + n. cur t ! j \<noteq> None)"
      using Suc.IH [of "Suc i" q] kq(2) by blast
    have "keeps_cursors p t"
      using t(2) kq(1) same_limits_trans by (fastforce simp: keeps_cursors_def)
    then show ?thesis using True t kq(3) q r Suc.prems(1) by auto
  next
    case False
    then show ?thesis using kq q r Suc.prems(1) by auto
  qed
qed (auto simp: keeps_cursors_def)

lemma closeLoop_keeps:
  assumes "n \<le> length (cur p)"
  shows "\<exists>q. closeLoop S False n p = Some q \<and> cur q = cur p \<and> same_limits p q \<and>
    (0 < n \<longrightarrow> cursorcount q = 0) \<and> (n = 0 \<longrightarrow> q = p)"
  using assms
proof (induction n arbitrary: p)
  case (Suc n)
  show ?case
  proof (cases "cur p ! n")
    case None
    then show ?thesis
      using Suc.IH [of "p\<lparr>cursorcount := of_nat n\<rparr>"] Suc.prems
      by (cases n) (auto simp: pool_simps same_limits_def)
  next
    case (Some c)
    let ?q = "closeCursor S c (onEnv (db_closeResultSet S (cursor_id c)) (p\<lparr>cursorcount := of_nat n\<rparr>))"
    show ?thesis
      using Suc.IH [of ?q] Suc.prems Some same_limits_trans [of p ?q]
      by (cases n) (auto simp: pool_simps Let_def)
  qed
qed simp

lemma closeCursors_keeps:
  assumes "unat (cursorcount p) \<le> length (cur p)"
  shows "\<exists>q. closeCursors S False p = Some q \<and> cur q = cur p \<and> same_limits p q \<and> cursorcount q = 0"
proof (cases "cur p = []")
  case True
  then show ?thesis using assms by (simp add: closeCursors_def unat_eq_0)
next
  case False
  then show ?thesis
    using closeLoop_keeps [OF assms, of S] by (cases "cursorcount p = 0") (auto simp: closeCursors_def unat_gt_0)
qed

text \<open>A pool whose cursors were closed but not destroyed has the old number of cursors again.\<close>

lemma initCursors_restores:
  assumes "pool_ok p" and "cur q = cur p" and "same_limits p q" and "n \<le> cursorcount p"
  shows "\<exists>opened r. initCursors S n q = Some (opened, r) \<and> pool_ok r \<and> keeps_cursors q r \<and> cursorcount r = n"
proof -
  note ok = pool_okD [OF assms(1)]
  let ?q = "q\<lparr>cursorcount := n\<rparr>"
  have n: "unat n \<le> unat (cursorcount p)" using assms(4) by (simp add: word_le_nat_alt)
  have e: "initCursors S n q = initLoop S (unat n) 0 ?q"
  proof (cases "cur q = []")
    case True
    then have "maxcursorcount q = 0" "unat n = 0"
      using ok(1,2) assms(2,3) n by (auto simp: same_limits_def unat_eq_0)
    then show ?thesis using True by (simp add: initCursors_def)
  qed (simp add: initCursors_def Let_def)
  obtain opened r where r: "initLoop S (unat n) 0 ?q = Some (opened, r)" "keeps_cursors ?q r" "numbered r"
    "cursorcount r = n"
    using initLoop_inits [of 0 "unat n" ?q S] pool_ok_numbered [OF assms(1)] assms(2) n ok(2)
    by (auto simp: numbered_def)
  have lim: "same_limits p r" using r(2) same_limits_trans [OF assms(3)]
    by (simp add: keeps_cursors_def same_limits_def)
  have "pool_ok r"
  proof (rule pool_okI [OF assms(1) lim])
    show "length (cur r) = length (cur p)" using r(2) assms(2) by (simp add: keeps_cursors_def)
    show "cursorcount r \<le> maxcursorcount p"
      using r(4) assms(1,4) by (auto simp: pool_ok_def)
    fix i
    assume "i < unat (cursorcount r)"
    then show "cur r ! i \<noteq> None"
      using r(2,4) n ok(2) ok(3) [of i] assms(2) by (auto simp: keeps_cursors_def)
  qed (use r(3) in \<open>auto simp: numbered_def\<close>)
  then show ?thesis using e r by (auto simp: keeps_cursors_def same_limits_def)
qed

lemma unat_Suc_less: "(n :: u16) < m \<Longrightarrow> unat (n + 1) = Suc (unat n) \<and> n + 1 \<le> m"
  by unat_arith

lemma growLoop_grows:
  assumes "pool_ok p" and "unat (cursorcount p) + n \<le> unat (maxcursorcount p)"
  shows "\<exists>grown q. growLoop S n p = Some (grown, q) \<and> pool_ok q \<and> same_limits p q \<and>
    (\<forall>i < unat (cursorcount p). cur q ! i = cur p ! i) \<and> cursorcount p \<le> cursorcount q \<and>
    (\<forall>i < unat (cursorcount q). unat (cursorcount p) \<le> i \<longrightarrow> cur q ! i = Some (newConnCursor (of_nat i))) \<and>
    (grown \<longrightarrow> unat (cursorcount q) = unat (cursorcount p) + n)"
  using assms
proof (induction n arbitrary: p)
  case (Suc n)
  note ok = pool_okD [OF Suc.prems(1)]
  let ?k = "unat (cursorcount p)"
  let ?c = "newConnCursor (cursorcount p)"
  let ?r = "(incrementOpenDatabaseCursors p)\<lparr>cur := (cur p)[?k := Some ?c]\<rparr>"
  have k: "?k < length (cur p)" using Suc.prems(2) ok(1) by simp
  have suc: "unat (cursorcount p + 1) = Suc ?k"
    using unat_Suc_less [of "cursorcount p" "maxcursorcount p"] Suc.prems(2) by (simp add: word_less_nat_alt)
  obtain opened q where q: "openCursor S ?c ?r = (opened, q)" by fastforce
  note o = openCursor_simps [OF q]
  have ids: "cur q ! i = Some c \<Longrightarrow> i < length (cur q) \<Longrightarrow> cursor_id c = of_nat i" for i c
    using ok(4) by (cases "i = ?k") (auto simp: o newCursor_simps nth_list_update)
  have lim: "same_limits p q" by (simp add: o update_simps newCursor_simps)
  show ?case
  proof (cases opened)
    case False
    have "pool_ok q"
      using ok(1) Suc.prems(1) ids by (intro pool_okI [OF Suc.prems(1) lim])
        (auto simp: o newCursor_simps nth_list_update pool_ok_def)
    then show ?thesis
      using False q k lim by (auto simp: o newCursor_simps)
  next
    case True
    let ?t = "q\<lparr>cursorcount := cursorcount q + 1\<rparr>"
    have ct: "cursorcount q = cursorcount p" by (simp add: o newCursor_simps)
    have limt: "same_limits p ?t" using lim by (simp add: update_simps)
    have "pool_ok ?t"
    proof (rule pool_okI [OF Suc.prems(1) limt])
      show "cursorcount ?t \<le> maxcursorcount p"
        using suc Suc.prems(2) ct by (simp add: word_le_nat_alt)
      fix i
      assume "i < unat (cursorcount ?t)"
      then show "cur ?t ! i \<noteq> None"
        using ok(3) [of i] suc ct k by (auto simp: o newCursor_simps nth_list_update less_Suc_eq)
    qed (use ids in \<open>auto simp: o newCursor_simps\<close>)
    then obtain g t where t: "growLoop S n ?t = Some (g, t)" "pool_ok t" "same_limits ?t t"
      "\<forall>i < Suc ?k. cur t ! i = cur q ! i" "cursorcount p + 1 \<le> cursorcount t"
      "\<forall>i < unat (cursorcount t). Suc ?k \<le> i \<longrightarrow> cur t ! i = Some (newConnCursor (of_nat i))"
      "g \<longrightarrow> unat (cursorcount t) = Suc ?k + n"
      using Suc.IH [of ?t] Suc.prems(2) suc limt ct by (auto simp: same_limits_def)
    have "\<forall>i < unat (cursorcount t). ?k \<le> i \<longrightarrow> cur t ! i = Some (newConnCursor (of_nat i))"
      using t(4,6) k by (auto simp: o newCursor_simps le_less Suc_le_eq)
    moreover have "\<forall>i < ?k. cur t ! i = cur p ! i" using t(4) by (auto simp: o newCursor_simps)
    moreover have "cursorcount p \<le> cursorcount t"
      using t(5) suc by (simp add: word_le_nat_alt)
    ultimately show ?thesis
      using True t q k same_limits_trans [OF limt t(3)] by (auto simp: newCursor_simps)
  qed
qed auto

lemma shrinkLoop_shrinks:
  assumes "pool_ok p" and "n \<le> unat (cursorcount p)"
  shows "\<exists>q. shrinkLoop S n p = Some q \<and> pool_ok q \<and> same_limits p q \<and>
    unat (cursorcount q) = unat (cursorcount p) - n \<and> (\<forall>i < unat (cursorcount q). cur q ! i = cur p ! i)"
  using assms
proof (induction n arbitrary: p)
  case (Suc n)
  note ok = pool_okD [OF Suc.prems(1)]
  let ?i = "unat (cursorcount p) - 1"
  have pos: "cursorcount p \<noteq> 0" using Suc.prems(2) by (auto simp: unat_gt_0)
  have cnt: "unat (cursorcount p - 1) = ?i" using pos by (simp add: unat_minus_one)
  have i: "?i < length (cur p)" "?i < unat (cursorcount p)" using ok(2) Suc.prems(2) by auto
  then obtain c where c: "cur p ! ?i = Some c" using ok(3) by blast
  let ?q = "(deleteCursor (closeCursor S c (p\<lparr>cursorcount := cursorcount p - 1\<rparr>)))\<lparr>cur := (cur p)[?i := None]\<rparr>"
  have lim: "same_limits p ?q" by (simp add: pool_simps)
  have "pool_ok ?q"
  proof (rule pool_okI [OF Suc.prems(1) lim])
    have "unat (cursorcount p - 1) \<le> unat (maxcursorcount p)" using cnt ok(1,2) by linarith
    then show "cursorcount ?q \<le> maxcursorcount p" by (simp add: pool_simps word_le_nat_alt)
    fix j
    assume "j < unat (cursorcount ?q)"
    then have "j < ?i" using cnt by (simp add: pool_simps)
    then show "cur ?q ! j \<noteq> None" using ok(3) [of j] by (force simp: nth_list_update)
  next
    fix j c
    assume "j < length (cur ?q)" "cur ?q ! j = Some c"
    then show "cursor_id c = of_nat j" using ok(4) [of j c] by (cases "j = ?i") auto
  qed simp
  moreover have cq: "unat (cursorcount ?q) = ?i" using cnt by (simp add: pool_simps)
  moreover have "n \<le> ?i" using Suc.prems(2) by simp
  ultimately obtain r where r: "shrinkLoop S n ?q = Some r" "pool_ok r" "same_limits ?q r"
    "unat (cursorcount r) = ?i - n" "\<forall>j < unat (cursorcount r). cur r ! j = cur ?q ! j"
    using Suc.IH [of ?q] unfolding cq by blast
  moreover have "\<forall>j < unat (cursorcount r). cur r ! j = cur p ! j"
    using r(4,5) by (auto simp: nth_list_update)
  ultimately show ?case
    using c i same_limits_trans [OF lim r(3)] by (simp add: Let_def closeCursor_simps)
qed simp

section \<open>Changing one cursor\<close>

lemma changeCursor_ok:
  assumes "pool_ok p" and "i < unat (cursorcount p)" and "\<And>c. cursor_id (f c) = cursor_id c"
  shows "pool_ok (changeCursor i f p)"
proof (rule pool_okI [OF assms(1)])
  note ok = pool_okD [OF assms(1)]
  show "cursorcount (changeCursor i f p) \<le> maxcursorcount p"
    using assms(1) by (simp add: pool_ok_def changeCursor_def)
  show "cur (changeCursor i f p) ! j \<noteq> None" if "j < unat (cursorcount (changeCursor i f p))" for j
    using that ok(2) ok(3) [of j] by (cases "i = j") (auto simp: changeCursor_def)
  show "cursor_id c = of_nat j"
    if "j < length (cur (changeCursor i f p))" "cur (changeCursor i f p) ! j = Some c" for j c
    using that ok(4) [of j] assms(3) by (cases "i = j") (auto simp: changeCursor_def)
qed (simp_all add: changeCursor_def same_limits_def)

lemma changeCursor_nth:
  "i < length (cur p) \<Longrightarrow> cur p ! i = Some c \<Longrightarrow> cur (changeCursor i f p) ! i = Some (f c)"
  "j \<noteq> i \<Longrightarrow> cur (changeCursor i f p) ! j = cur p ! j"
  by (simp_all add: changeCursor_def)

lemma changeCursor_count [simp]:
  "cursorcount (changeCursor i f p) = cursorcount p" "length (cur (changeCursor i f p)) = length (cur p)"
  by (simp_all add: changeCursor_def)

lemma same_limits_change [pool_simps]: "same_limits p (changeCursor i f q) = same_limits p q"
  by (simp add: changeCursor_def same_limits_def)

lemma pool_ok_statistics [simp]:
  "pool_ok (p\<lparr>times_new_cursor_used := t\<rparr>) = pool_ok p" "pool_ok (p\<lparr>times_cursor_reused := t\<rparr>) = pool_ok p"
  "pool_ok (p\<lparr>dbenv := e\<rparr>) = pool_ok p" "pool_ok (p\<lparr>tempcursorid := u\<rparr>) = pool_ok p"
  by (simp_all add: pool_ok_def)

lemma handOut_ok:
  assumes "pool_ok p" and "i < unat (cursorcount p)" and "cur p ! i = Some c" and "handOut i p = (r, q)"
  shows "r = Some i" and "pool_ok q" and "same_limits p q" and "cursorcount q = cursorcount p"
    and "cur q ! i = Some (c\<lparr>cursor_state := Cursor_Busy, translatebinds := True, requirebinds := False\<rparr>)"
    and "j \<noteq> i \<Longrightarrow> cur q ! j = cur p ! j"
proof -
  let ?p = "p\<lparr>times_new_cursor_used := times_new_cursor_used p + 1\<rparr>"
  have r: "r = Some i" "q = changeCursor i (resetBinds \<circ> setState Cursor_Busy) ?p"
    using assms(4) by (simp_all add: handOut_def)
  show "r = Some i" by (rule r(1))
  show "pool_ok q"
    using changeCursor_ok [of ?p i] assms(1,2) by (simp add: r(2) resetBinds_def setState_def)
  show "same_limits p q" by (simp add: r(2) pool_simps)
  show "cursorcount q = cursorcount p" by (simp add: r(2))
  show "cur q ! i = Some (c\<lparr>cursor_state := Cursor_Busy, translatebinds := True, requirebinds := False\<rparr>)"
    using changeCursor_nth(1) [of i ?p c] assms(2,3) pool_okD(2) [OF assms(1)]
    by (simp add: r(2) resetBinds_def setState_def)
  show "j \<noteq> i \<Longrightarrow> cur q ! j = cur p ! j" using changeCursor_nth(2) [of j i _ ?p] by (simp add: r(2))
qed

section \<open>Handing out a cursor\<close>

definition held :: "'e pool \<Rightarrow> nat set" where
  "held p = {i. i < unat (cursorcount p) \<and>
     (\<exists>c. cur p ! i = Some c \<and> cursor_state c \<noteq> Cursor_Available)}"

text \<open>
  What a cursor is when a client gets it: free before, busy now, and with none of the bind
  variable settings its last user chose; nothing else about the cursors that were there changes.
\<close>

definition handed :: "'e pool \<Rightarrow> nat \<Rightarrow> 'e pool \<Rightarrow> bool" where
  "handed p i q \<longleftrightarrow>
     i < unat (cursorcount q) \<and> held q = insert i (held p) \<and> i \<notin> held p \<and>
     (\<exists>c. cur q ! i = Some c \<and> cursor_id c = of_nat i \<and> cursor_state c = Cursor_Busy \<and>
        translatebinds c \<and> \<not> requirebinds c) \<and>
     (\<forall>j < unat (cursorcount p). j \<noteq> i \<longrightarrow> cur q ! j = cur p ! j)"

lemma held_same:
  "cursorcount q = cursorcount p \<Longrightarrow> \<forall>j < unat (cursorcount p). cur q ! j = cur p ! j \<Longrightarrow> held q = held p"
  by (auto simp: held_def)

lemma held_grown:
  assumes "cursorcount p \<le> cursorcount q" and "\<forall>j < unat (cursorcount p). cur q ! j = cur p ! j"
    and "\<forall>j < unat (cursorcount q). unat (cursorcount p) \<le> j \<longrightarrow> cur q ! j = Some (newConnCursor (of_nat j))"
  shows "held q = held p"
proof (intro set_eqI)
  fix j
  have "unat (cursorcount p) \<le> unat (cursorcount q)" using assms(1) by (simp add: word_le_nat_alt)
  then show "(j \<in> held q) = (j \<in> held p)"
    using assms(2,3) by (cases "j < unat (cursorcount p)") (auto simp: held_def newCursor_simps)
qed

lemma handOut_handed:
  assumes "pool_ok p" and "i < unat (cursorcount p)" and "i \<notin> held p" and "handOut i p = (r, q)"
  shows "r = Some i \<and> pool_ok q \<and> same_limits p q \<and> handed p i q"
proof -
  obtain c where c: "cur p ! i = Some c" "cursor_id c = of_nat i" using pool_okD(3) [OF assms(1,2)] by blast
  note h = handOut_ok [OF assms(1,2) c(1) assms(4)]
  have "j \<in> held q \<longleftrightarrow> j \<in> insert i (held p)" for j
    using h(4,5) h(6) [of j] assms(2) by (cases "j = i") (auto simp: held_def)
  then have "held q = insert i (held p)" by blast
  then show ?thesis
    using h c(2) assms(2,3) by (simp add: handed_def)
qed

lemma growRounds_bound:
  assumes "pool_ok p" and "cursorcount p \<noteq> maxcursorcount p"
  shows "0 < growRounds p" and "unat (cursorcount p) + growRounds p \<le> unat (maxcursorcount p)"
proof -
  have lt: "unat (cursorcount p) < unat (maxcursorcount p)"
    using assms by (auto simp: pool_ok_def word_le_nat_alt less_le unat_inj)
  have e: "expandTo p \<le> maxcursorcount p" by (auto simp: expandTo_def Let_def)
  show "0 < growRounds p" by (auto simp: growRounds_def word_le_nat_alt)
  show "unat (cursorcount p) + growRounds p \<le> unat (maxcursorcount p)"
    using lt e by (auto simp: growRounds_def word_le_nat_alt)
qed

lemma growLoop_fails:
  "growLoop S n p = Some (False, q) \<Longrightarrow> \<exists>m e. \<not> fst (db_open S m e)"
proof (induction n arbitrary: p)
  case (Suc n)
  show ?case
  proof (cases "fst (openCursor S (newConnCursor (cursorcount p))
      ((incrementOpenDatabaseCursors p)\<lparr>cur := (cur p)[unat (cursorcount p) := Some (newConnCursor (cursorcount p))]\<rparr>))")
    case True
    then show ?thesis
      using Suc by (auto simp: newCursor_simps split: if_splits prod.splits)
  next
    case False
    then show ?thesis by (auto simp: openCursor_def askEnv_def)
  qed
qed simp

lemma getCursor_outcome:
  assumes "pool_ok p"
  obtains i q where "getCursor S p = Some (Some i, q)" "pool_ok q" "same_limits p q" "handed p i q"
    "i < unat (cursorcount p) \<or> held p = {..<unat (cursorcount p)} \<and> i = unat (cursorcount p)"
  | q where "getCursor S p = Some (None, q)" "pool_ok q" "same_limits p q" "held q = held p"
    "held p = {..<unat (cursorcount p)}"
    "cursorcount p = maxcursorcount p \<or> (\<exists>n e. \<not> fst (db_open S n e))"
proof -
  note ok = pool_okD [OF assms]
  from find_inUse [OF assms, of "\<lambda>c. cursor_state c = Cursor_Available"] show thesis
  proof cases
    case (2 j c)
    obtain r q where h: "handOut j p = (r, q)" by fastforce
    have "j \<notin> held p" using 2 by (auto simp: held_def)
    from handOut_handed [OF assms 2(2) this h] show thesis
      using that(1) [of j q] 2(1,2) h by (simp add: getCursor_def)
  next
    case 1
    have full: "held p = {..<unat (cursorcount p)}"
      using 1(2) ok(3) by (fastforce simp: held_def)
    show thesis
    proof (cases "cursorcount p = maxcursorcount p")
      case True
      then show thesis using that(2) [of p] 1 full assms by (simp add: getCursor_def)
    next
      case False
      obtain grown q where g: "growLoop S (growRounds p) p = Some (grown, q)" "pool_ok q" "same_limits p q"
        "\<forall>i < unat (cursorcount p). cur q ! i = cur p ! i" "cursorcount p \<le> cursorcount q"
        "\<forall>i < unat (cursorcount q). unat (cursorcount p) \<le> i \<longrightarrow> cur q ! i = Some (newConnCursor (of_nat i))"
        "grown \<longrightarrow> unat (cursorcount q) = unat (cursorcount p) + growRounds p"
        using growLoop_grows [OF assms growRounds_bound(2) [OF assms False], of S] by blast
      have hq: "held q = held p" by (rule held_grown [OF g(5,4,6)])
      show thesis
      proof (cases grown)
        case False
        then show thesis
          using that(2) [of q] 1(1) g \<open>cursorcount p \<noteq> maxcursorcount p\<close> hq full growLoop_fails [of S _ p q]
          by (simp add: getCursor_def)
      next
        case True
        let ?i = "unat (cursorcount p)"
        obtain r t where h: "handOut ?i q = (r, t)" by fastforce
        have i: "?i < unat (cursorcount q)" using True g(7) growRounds_bound(1) [OF assms False] by simp
        have "?i \<notin> held q" using hq full by simp
        note t = handOut_handed [OF g(2) i this h]
        then have "handed p ?i t"
          using g(4,5) hq by (auto simp: handed_def word_le_nat_alt)
        moreover have "same_limits p t" using t g(3) same_limits_trans by blast
        ultimately show thesis
          using that(1) [of ?i t] True 1(1) g(1) t h full \<open>cursorcount p \<noteq> maxcursorcount p\<close>
          by (simp add: getCursor_def)
      qed
    qed
  qed
qed

end
