(* ===== verification/Cursor_Clients.thy ===== *)
theory Cursor_Clients
  imports Cursor_Sessions
begin

text \<open>
  The cursor pool as its clients see it: every operation is safe in every reachable state, no two
  clients hold the same cursor, the next session finds a clean pool, and the cursors of internal
  queries never take the number of a pooled one.
\<close>

section \<open>The contract of a pool of resources\<close>

text \<open>
  A client's log: \<open>None\<close> asks for a resource and \<open>Some h\<close> gives \<open>h\<close> back, if the client has it.
  The result is the pool and what the client holds at the end.
\<close>

primrec serve ::
  "('s \<Rightarrow> 'h option \<times> 's) \<Rightarrow> ('h \<Rightarrow> 's \<Rightarrow> 's) \<Rightarrow> 'h option list \<Rightarrow> 's \<Rightarrow> 'h list \<Rightarrow> 's \<times> 'h list" where
  "serve acquire give [] s hs = (s, hs)"
| "serve acquire give (r # rs) s hs =
     (case r of
        None \<Rightarrow> (case acquire s of
                   (None, s) \<Rightarrow> serve acquire give rs s hs
                 | (Some h, s) \<Rightarrow> serve acquire give rs s (h # hs))
      | Some h \<Rightarrow> if h \<in> set hs then serve acquire give rs (give h s) (remove1 h hs)
                  else serve acquire give rs s hs)"

locale resource_pool =
  fixes ok :: "'s \<Rightarrow> bool" and taken :: "'s \<Rightarrow> 'h set"
    and acquire :: "'s \<Rightarrow> 'h option \<times> 's" and give :: "'h \<Rightarrow> 's \<Rightarrow> 's"
  assumes acquire_ok: "ok s \<Longrightarrow> ok (snd (acquire s))"
    and acquire_new: "ok s \<Longrightarrow> fst (acquire s) = Some h \<Longrightarrow> h \<notin> taken s \<and> taken (snd (acquire s)) = insert h (taken s)"
    and acquire_none: "ok s \<Longrightarrow> fst (acquire s) = None \<Longrightarrow> taken (snd (acquire s)) = taken s"
    and give_ok: "ok s \<Longrightarrow> h \<in> taken s \<Longrightarrow> ok (give h s)"
    and give_taken: "ok s \<Longrightarrow> h \<in> taken s \<Longrightarrow> taken (give h s) = taken s - {h}"
begin

lemma serve_distinct:
  assumes "ok s" and "distinct hs" and "set hs \<subseteq> taken s" and "serve acquire give rs s hs = (t, ks)"
  shows "ok t \<and> distinct ks \<and> set ks \<subseteq> taken t \<and> taken t - set ks = taken s - set hs"
  using assms
proof (induction rs arbitrary: s hs)
  case (Cons r rs)
  show ?case
  proof (cases r)
    case None
    then show ?thesis
      using Cons.IH [of "snd (acquire s)" hs] Cons.IH [of "snd (acquire s)" "the (fst (acquire s)) # hs"]
        Cons.prems acquire_ok [of s] acquire_new [of s] acquire_none [of s]
      by (auto split: prod.splits option.splits)
  next
    case (Some h)
    show ?thesis
    proof (cases "h \<in> set hs")
      case True
      then have h: "h \<in> taken s" using Cons.prems(3) by blast
      have "set (remove1 h hs) \<subseteq> taken (give h s)" "taken (give h s) - set (remove1 h hs) = taken s - set hs"
        using Cons.prems(2,3) give_taken [OF Cons.prems(1) h] True by auto
      then show ?thesis
        using Cons.IH [of "give h s" "remove1 h hs"] Cons.prems True Some give_ok [OF Cons.prems(1) h] by simp
    next
      case False
      then show ?thesis using Cons Some by simp
    qed
  qed
qed simp

end

lemma getCursor_defined: "pool_ok p \<Longrightarrow> \<exists>r q. getCursor S p = Some (r, q) \<and> pool_ok q"
  using getCursor_outcome [of p S] by metis

interpretation cursors: resource_pool pool_ok held "\<lambda>p. the (getCursor S p)" releaseCursor for S
proof unfold_locales
  fix p :: "'a pool"
  assume p: "pool_ok p"
  show "pool_ok (snd (the (getCursor S p)))"
    using getCursor_defined [OF p, of S] by auto
  show "i \<notin> held p \<and> held (snd (the (getCursor S p))) = insert i (held p)"
    if "fst (the (getCursor S p)) = Some i" for i
    by (rule getCursor_outcome [OF p, of S]) (use that in \<open>auto simp: handed_def\<close>)
  show "held (snd (the (getCursor S p))) = held p" if "fst (the (getCursor S p)) = None"
    by (rule getCursor_outcome [OF p, of S]) (use that in auto)
  fix i
  assume i: "i \<in> held p"
  show "pool_ok (releaseCursor i p)"
    using changeCursor_ok [OF p, of i release] i
    by (simp add: releaseCursor_def release_def setState_def held_def)
  show "held (releaseCursor i p) = held p - {i}"
  proof (intro set_eqI)
    fix j
    show "j \<in> held (releaseCursor i p) \<longleftrightarrow> j \<in> held p - {i}"
      using i pool_okD(2) [OF p] changeCursor_nth(1) [of i p _ release] changeCursor_nth(2) [of j i release p]
      by (cases "j = i") (auto simp: held_def releaseCursor_def release_def setState_def)
  qed
qed

section \<open>Sessions\<close>

lemma upd_ok:
  assumes "pool_ok p" and "\<And>c. cursor_id (g c) = cursor_id c"
  shows "pool_ok (p\<lparr>cur := upd g I (cur p), dbenv := e\<rparr>)"
  using pool_okD [OF assms(1)] assms
  by (auto simp: pool_ok_def split: if_splits)

lemma forCursors_ok:
  assumes "pool_ok p" and "\<And>c p. fst (f c p) = g c" and "\<And>c p. \<exists>e. snd (f c p) = p\<lparr>dbenv := e\<rparr>"
    and "\<And>c. cursor_id (g c) = cursor_id c"
  shows "\<exists>q. forCursors skip f [0..<unat (cursorcount p)] p = Some q \<and> pool_ok q \<and> same_limits p q \<and>
    cursorcount q = cursorcount p \<and>
    (\<forall>i < unat (cursorcount p). cur q ! i = map_option g (cur p ! i))"
proof -
  have "\<forall>i \<in> set [0..<unat (cursorcount p)]. i < length (cur p) \<and> cur p ! i \<noteq> None"
    using pool_okD(2,3) [OF assms(1)] by fastforce
  from forCursors_upd [of f g, OF assms(2,3) distinct_upt this] obtain e where
    "forCursors skip f [0..<unat (cursorcount p)] p =
       Some (p\<lparr>cur := upd g {0..<unat (cursorcount p)} (cur p), dbenv := e\<rparr>)"
    by auto
  then show ?thesis
    using upd_ok [of p g, OF assms(1,4)] pool_okD(2) [OF assms(1)] by (simp add: same_limits_def)
qed

lemma env_only: "\<exists>e. snd (c, abortCursor S d p) = p\<lparr>dbenv := e\<rparr>" "\<exists>e. snd (c, p) = p\<lparr>dbenv := e\<rparr>"
proof -
  show "\<exists>e. snd (c, abortCursor S d p) = p\<lparr>dbenv := e\<rparr>" by (auto simp: abortCursor_def onEnv_def)
  show "\<exists>e. snd (c, p) = p\<lparr>dbenv := e\<rparr>" by (intro exI [of _ "dbenv p"]) simp
qed

lemma ids_kept [simp]:
  "cursor_id (release c) = cursor_id c" "cursor_id (setCursorName name c) = cursor_id c"
  "cursor_id (setState st c) = cursor_id c" "cursor_id (resetBinds c) = cursor_id c"
  by (simp_all add: release_def setState_def setCursorName_def resetBinds_def)

lemma initSession_ok:
  "pool_ok p \<Longrightarrow> \<exists>q. initSession p = Some q \<and> pool_ok q \<and> held q = {}"
  using forCursors_ok [of p "\<lambda>c p. (release c, p)" release False] env_only(2)
  by (fastforce simp: initSession_def held_def release_def setState_def)

lemma suspendSession_ok:
  assumes "pool_ok p"
  shows "\<exists>q. suspendSession S p = Some q \<and> pool_ok q"
  using forCursors_ok [OF assms,
      of "\<lambda>c p. if cursor_state c = Cursor_Busy then (release c, abortCursor S c p) else (c, p)"
         "\<lambda>c. if cursor_state c = Cursor_Busy then release c else c" False] env_only
  by (fastforce simp: suspendSession_def)

lemma endSession_ok:
  assumes "pool_ok p"
  shows "\<exists>q. endSession S p = Some q \<and> pool_ok q \<and> same_limits p q \<and>
    cursorcount q = min (cursorcount p) (mincursorcount p) \<and>
    (\<forall>i < unat (cursorcount q). \<exists>c. cur q ! i = Some c \<and> cursor_state c = Cursor_Available \<and> cursorname c = None)"
proof -
  obtain q1 where q1: "forCursors True (\<lambda>c p. (release c, abortCursor S c p)) [0..<unat (cursorcount p)] p = Some q1"
    "pool_ok q1" "same_limits p q1" "cursorcount q1 = cursorcount p"
    "\<forall>i < unat (cursorcount p). cur q1 ! i = map_option release (cur p ! i)"
    using forCursors_ok [OF assms, of "\<lambda>c p. (release c, abortCursor S c p)" release True] env_only by fastforce
  obtain q2 where q2: "forCursors True (\<lambda>c p. (setCursorName None c, p)) [0..<unat (cursorcount q1)] q1 = Some q2"
    "pool_ok q2" "same_limits q1 q2" "cursorcount q2 = cursorcount q1"
    "\<forall>i < unat (cursorcount q1). cur q2 ! i = map_option (setCursorName None) (cur q1 ! i)"
    using forCursors_ok [OF q1(2), of "\<lambda>c p. (setCursorName None c, p)" "setCursorName None" True] env_only by fastforce
  let ?n = "unat (cursorcount q2) - unat (mincursorcount q2)"
  obtain q where q: "shrinkLoop S ?n q2 = Some q" "pool_ok q" "same_limits q2 q"
    "unat (cursorcount q) = unat (cursorcount q2) - ?n" "\<forall>i < unat (cursorcount q). cur q ! i = cur q2 ! i"
    using shrinkLoop_shrinks [OF q2(2), of ?n S] by auto
  have cnt: "cursorcount q = min (cursorcount p) (mincursorcount p)"
    using q(4) q1(3,4) q2(3,4)
    by (auto simp: same_limits_def min_def word_le_nat_alt intro!: unat_inj)
  have le: "unat (cursorcount q) \<le> unat (cursorcount p)"
    using cnt by (auto simp: word_le_nat_alt [symmetric])
  have "\<exists>c. cur q ! i = Some c \<and> cursor_state c = Cursor_Available \<and> cursorname c = None"
    if "i < unat (cursorcount q)" for i
    using that le q(5) q1(4,5) q2(5) pool_okD(3) [OF assms, of i]
    by (auto simp: release_def setState_def setCursorName_def)
  moreover have "endSession S p = Some q" using q1(1) q2(1) q(1) by (simp add: endSession_def shrink_def)
  moreover have "same_limits p q" using q1(3) q2(3) q(3) same_limits_trans by blast
  ultimately show ?thesis using q(2) cnt by blast
qed

lemma changeUser_ok:
  assumes "pool_ok p"
  shows "\<exists>b q. changeUser S p = Some (b, q) \<and> pool_ok q \<and> (b \<longrightarrow> cursorcount q = cursorcount p)"
proof -
  obtain q where q: "closeCursors S False p = Some q" "cur q = cur p" "same_limits p q" "cursorcount q = 0"
    using closeCursors_keeps [OF pool_okD(2) [OF assms], of S] by blast
  obtain l r where r: "askEnv (db_logIn S) (onEnv (db_logOut S) q) = (l, r)" by fastforce
  have k: "cur r = cur p" "same_limits p r" "cursorcount r = 0"
    using askEnv_simps [OF r] q by (simp_all add: pool_simps)
  have "pool_ok r"
    using pool_okI [OF assms k(2)] k(1,3) pool_okD(4) [OF assms] by auto
  moreover obtain b t where "initCursors S (cursorcount p) r = Some (b, t)" "pool_ok t" "cursorcount t = cursorcount p"
    using initCursors_restores [OF assms k(1,2), of "cursorcount p" S] by auto
  ultimately show ?thesis using q(1) r by (cases l) (auto simp: changeUser_def)
qed

lemma reLogInLoop_ok:
  assumes "reLogInLoop S n p = Some q"
  shows "pool_ok p0 \<Longrightarrow> cur p = cur p0 \<Longrightarrow> same_limits p0 p \<Longrightarrow> cursorcount p = 0 \<Longrightarrow> n \<le> cursorcount p0 \<Longrightarrow>
    pool_ok q"
  using assms
proof (induction arbitrary: p0 rule: reLogInLoop.raw_induct [rotated 1, consumes 1])
  case (1 rec S n p q)
  obtain down p1 where p1: "askEnv (db_shutDownFlag S) p = (down, p1)" by fastforce
  obtain l p2 where p2: "askEnv (db_logIn S) p1 = (l, p2)" by fastforce
  note a1 = askEnv_simps [OF p1] and a2 = askEnv_simps [OF p2]
  have ok1: "pool_ok p1"
    using pool_okI [OF "1.prems"(1), of p1] pool_okD(4) [OF "1.prems"(1)] a1 "1.prems" by auto
  obtain b p3 where p3: "initCursors S n p2 = Some (b, p3)" "pool_ok p3" "keeps_cursors p2 p3" "cursorcount p3 = n"
    using initCursors_restores [OF "1.prems"(1), of p2 n S] a1 a2 "1.prems" by auto
  obtain p4 where p4: "closeCursors S False p3 = Some p4" "cur p4 = cur p3" "same_limits p3 p4" "cursorcount p4 = 0"
    using closeCursors_keeps [OF pool_okD(2) [OF p3(2)], of S] by blast
  show ?case
  proof (cases "down \<or> l \<and> b")
    case True
    then show ?thesis using "1.hyps" p1 p2 p3 ok1 by (auto split: if_splits)
  next
    case False
    show ?thesis
    proof (cases l)
      case True
      then have "rec S n (onEnv (db_logOut S) p4) = Some q"
        using "1.hyps" p1 p2 p3(1) p4(1) False by simp
      from "1.IH" [OF this p3(2)] show ?thesis using p3(4) p4 by (simp add: pool_simps)
    next
      case notl: False
      then have "rec S n p2 = Some q" using "1.hyps" p1 p2 False by simp
      from "1.IH" [OF this "1.prems"(1)] show ?thesis using a1 a2 "1.prems" by simp
    qed
  qed
qed

lemma reLogIn_ok:
  assumes "pool_ok p" and "reLogIn S p = Some q"
  shows "pool_ok q"
proof -
  obtain r where r: "closeCursors S False p = Some r" "cur r = cur p" "same_limits p r" "cursorcount r = 0"
    using closeCursors_keeps [OF pool_okD(2) [OF assms(1)], of S] by blast
  then have "reLogInLoop S (cursorcount p) (onEnv (db_logOut S) r) = Some q"
    using assms(2) by (simp add: reLogIn_def)
  from reLogInLoop_ok [OF this assms(1)] show ?thesis using r by (simp add: pool_simps)
qed

section \<open>Reachable pools\<close>

text \<open>The operations the server performs on its pool, in any order.\<close>

inductive pool_step :: "'e cursordb \<Rightarrow> 'e pool \<Rightarrow> 'e pool \<Rightarrow> bool" for S where
  get: "getCursor S p = Some (r, q) \<Longrightarrow> pool_step S p q"
| get_by_id: "getCursorById n p = Some (r, q) \<Longrightarrow> pool_step S p q"
| use: "i < unat (cursorcount p) \<Longrightarrow>
     f \<in> {release, setState Cursor_Suspended, setCursorName name, (\<lambda>c. c\<lparr>translatebinds := b\<rparr>),
          (\<lambda>c. c\<lparr>requirebinds := b\<rparr>)} \<Longrightarrow> pool_step S p (changeCursor i f p)"
| database: "pool_step S p (p\<lparr>dbenv := e\<rparr>)"
| temporary: "newTempCursor p = (c, q) \<Longrightarrow> pool_step S p q"
| temporary_end: "pool_step S p (deleteCursor p)"
| begin_session: "initSession p = Some q \<Longrightarrow> pool_step S p q"
| suspend: "suspendSession S p = Some q \<Longrightarrow> pool_step S p q"
| end_session: "endSession S p = Some q \<Longrightarrow> pool_step S p q"
| change_user: "changeUser S p = Some (r, q) \<Longrightarrow> pool_step S p q"
| log_in_again: "reLogIn S p = Some q \<Longrightarrow> pool_step S p q"

inductive pool_reachable :: "'e cursordb \<Rightarrow> 'e pool \<Rightarrow> bool" for S where
  start: "cur p = [] \<Longrightarrow> mincursorcount p \<le> maxcursorcount p \<Longrightarrow>
    initCursors S (mincursorcount p) p = Some (True, q) \<Longrightarrow> pool_reachable S q"
| step: "pool_reachable S p \<Longrightarrow> pool_step S p q \<Longrightarrow> pool_reachable S q"

lemma getCursorById_ok:
  assumes "pool_ok p"
  shows "\<exists>r q. getCursorById n p = Some (r, q) \<and> pool_ok q \<and> same_limits p q \<and>
    (case r of None \<Rightarrow> unat (cursorcount p) \<le> unat n | Some i \<Rightarrow> i = unat n \<and> i < unat (cursorcount p))"
proof -
  note ok = pool_okD [OF assms]
  have small: "unat (of_nat i :: u16) = i" if "i < unat (cursorcount p)" for i
    using that ok(1,2) unat_less_pow [of "maxcursorcount p"] by (auto simp: unat_of_nat)
  from find_inUse [OF assms, of "\<lambda>c. cursor_id c = n"] show ?thesis
  proof cases
    case 1
    have "unat (cursorcount p) \<le> unat n"
      using 1(2) ok(3) [of "unat n"] by (cases "unat n < unat (cursorcount p)") auto
    then show ?thesis using 1(1) assms by (simp add: getCursorById_def)
  next
    case (2 j c)
    then have "j = unat n" using ok(3) [of j] small [of j] by auto
    moreover have "pool_ok (changeCursor j resetBinds (p\<lparr>times_cursor_reused := times_cursor_reused p + 1\<rparr>))"
      using 2(2) assms by (intro changeCursor_ok) simp_all
    ultimately show ?thesis
      using 2(1,2) by (simp add: getCursorById_def pool_simps)
  qed
qed

lemma initial_pool_ok:
  assumes "cur p = []" and "mincursorcount p \<le> maxcursorcount p"
    and "initCursors S (mincursorcount p) p = Some (True, q)"
  shows "pool_ok q"
proof -
  let ?p = "p\<lparr>cursorcount := mincursorcount p, cur := replicate (unat (maxcursorcount p)) None\<rparr>"
  have "initLoop S (unat (mincursorcount p)) 0 ?p = Some (True, q)"
    using assms by (simp add: initCursors_def Let_def)
  then show ?thesis
    using initLoop_inits [of 0 "unat (mincursorcount p)" ?p S] assms(2)
    by (auto simp: pool_ok_def keeps_cursors_def same_limits_def numbered_def word_le_nat_alt)
qed

lemma step_ok:
  assumes "pool_step S p q" and "pool_ok p"
  shows "pool_ok q"
  using assms
proof cases
  case (get r)
  then show ?thesis using getCursor_defined [OF assms(2), of S] by auto
next
  case (get_by_id n r)
  then show ?thesis using getCursorById_ok [OF assms(2), of n] by auto
next
  case (use i f name b)
  show ?thesis
    unfolding use(1) by (rule changeCursor_ok [OF assms(2) use(2)]) (use use(3) in auto)
next
  case (temporary c)
  then show ?thesis
    using assms(2) by (auto simp: newTempCursor_def newCursor_def incrementOpenDatabaseCursors_def pool_ok_def Let_def)
next
  case temporary_end
  then show ?thesis
    using assms(2) by (auto simp: deleteCursor_def decrementOpenDatabaseCursors_def pool_ok_def)
next
  case begin_session
  then show ?thesis using initSession_ok [OF assms(2)] by auto
next
  case suspend
  then show ?thesis using suspendSession_ok [OF assms(2), of S] by auto
next
  case end_session
  then show ?thesis using endSession_ok [OF assms(2), of S] by auto
next
  case (change_user r)
  then show ?thesis using changeUser_ok [OF assms(2), of S] by auto
next
  case log_in_again
  then show ?thesis using reLogIn_ok [OF assms(2)] by auto
qed auto

lemma reachable_ok: "pool_reachable S p \<Longrightarrow> pool_ok p"
  by (induction rule: pool_reachable.induct) (auto intro: initial_pool_ok step_ok)

section \<open>Temporary cursors\<close>

text \<open>The numbers of the next \<open>n\<close> temporary cursors.\<close>

primrec tempIds :: "nat \<Rightarrow> 'e pool \<Rightarrow> u16 list" where
  "tempIds 0 p = []"
| "tempIds (Suc n) p = (case newTempCursor p of (c, q) \<Rightarrow> cursor_id c # tempIds n q)"

text \<open>The place of the last number in the cycle of \<open>65536 - max\<close> numbers.\<close>

definition place :: "'e pool \<Rightarrow> nat" where
  "place p = (if tempcursorid p < maxcursorcount p then 65535 - unat (maxcursorcount p)
     else unat (tempcursorid p) - unat (maxcursorcount p))"

lemma newTempCursor_place:
  assumes "newTempCursor p = (c, q)"
  shows "maxcursorcount q = maxcursorcount p" and "maxcursorcount p \<le> cursor_id c"
    and "place q = (place p + 1) mod (65536 - unat (maxcursorcount p))"
    and "unat (cursor_id c) = unat (maxcursorcount p) + place q"
proof -
  let ?m = "unat (maxcursorcount p)"
  have m: "?m < 65536" using unat_less_pow [of "maxcursorcount p"] by simp
  show max: "maxcursorcount q = maxcursorcount p"
    using assms by (auto simp: newTempCursor_def newCursor_simps incrementOpenDatabaseCursors_def Let_def)
  have c: "cursor_id c = tempcursorid q"
    using assms by (auto simp: newTempCursor_def newCursor_simps incrementOpenDatabaseCursors_def Let_def)
  have "maxcursorcount p \<le> tempcursorid q \<and> place q = (place p + 1) mod (65536 - ?m)"
  proof (cases "tempcursorid p < maxcursorcount p \<or> tempcursorid p = 65535")
    case True
    then have t: "tempcursorid q = maxcursorcount p"
      using assms by (auto simp: newTempCursor_def newCursor_simps incrementOpenDatabaseCursors_def Let_def)
    have "place p + 1 = 65536 - ?m"
      using True m by (auto simp: place_def word_less_nat_alt)
    then show ?thesis using t max by (simp add: place_def)
  next
    case False
    then have t: "tempcursorid q = tempcursorid p + 1"
      using assms by (auto simp: newTempCursor_def newCursor_simps incrementOpenDatabaseCursors_def Let_def)
    have "unat (tempcursorid p) \<noteq> 65535" using False unat_inj [of "tempcursorid p" 65535] by auto
    then have "tempcursorid p < 65535"
      using unat_less_pow [of "tempcursorid p"] by (simp add: word_less_nat_alt)
    then have u: "unat (tempcursorid q) = Suc (unat (tempcursorid p))" "unat (tempcursorid p) < 65535"
      using t unat_Suc_less [of "tempcursorid p" 65535] by (auto simp: word_less_nat_alt)
    have le: "?m \<le> unat (tempcursorid p)" using False by (simp add: word_less_nat_alt)
    then have "place q = place p + 1"
      using u max False by (simp add: place_def word_less_nat_alt)
    moreover have "place p + 1 < 65536 - ?m" using le u(2) False by (simp add: place_def)
    ultimately show ?thesis using u(1) le by (simp add: word_le_nat_alt)
  qed
  then show "maxcursorcount p \<le> cursor_id c" "place q = (place p + 1) mod (65536 - ?m)"
    "unat (cursor_id c) = ?m + place q"
    using c max by (auto simp: place_def word_le_nat_alt word_less_nat_alt)
qed

lemma tempIds_place:
  "k < n \<Longrightarrow> unat (tempIds n p ! k) =
     unat (maxcursorcount p) + (place p + Suc k) mod (65536 - unat (maxcursorcount p))"
proof (induction n arbitrary: p k)
  case (Suc n)
  obtain c q where q: "newTempCursor p = (c, q)" by fastforce
  note s = newTempCursor_place [OF q]
  show ?case
  proof (cases k)
    case 0
    then show ?thesis using s q by simp
  next
    case (Suc j)
    have "(place q + Suc j) mod (65536 - unat (maxcursorcount p)) =
        (place p + 1 + Suc j) mod (65536 - unat (maxcursorcount p))"
      unfolding s(3) by (rule mod_add_left_eq)
    then show ?thesis
      using Suc.IH [of j q] Suc.prems s(1) q \<open>k = Suc j\<close> by simp
  qed
qed simp

lemma length_tempIds [simp]: "length (tempIds n p) = n"
  by (induction n arbitrary: p) (auto split: prod.split)

section \<open>A database for the witnesses\<close>

definition calm_db :: "unit cursordb" where
  "calm_db = \<lparr>db_open = (\<lambda>n e. (True, e)), db_close = (\<lambda>n e. e), db_abort = (\<lambda>n e. e),
     db_closeResultSet = (\<lambda>n e. e), db_logOut = (\<lambda>e. e), db_logIn = (\<lambda>e. (True, e)),
     db_shutDownFlag = (\<lambda>e. (False, e))\<rparr>"

definition blank_pool :: "unit pool" where
  "blank_pool = \<lparr>cur = [], cursorcount = 0, mincursorcount = 1, maxcursorcount = 3, cursorsgrowby = 2,
     tempcursorid = 0, open_db_cursors = 0, opened_db_cursors = 0, times_new_cursor_used = 0,
     times_cursor_reused = 0, dbenv = ()\<rparr>"

definition first_pool :: "unit pool" where
  "first_pool = blank_pool\<lparr>cur := [Some (newConnCursor 0), None, None], cursorcount := 1,
     open_db_cursors := 1, opened_db_cursors := 1\<rparr>"

lemma first_pool_inits: "initCursors calm_db 1 blank_pool = Some (True, first_pool)"
proof -
  have "unat (3 :: u16) = Suc (Suc (Suc 0))" by simp
  then have "replicate (unat (3 :: u16)) None = [None, None, None :: sqlrservercursor option]"
    by (simp only: replicate.simps)
  then show ?thesis
    by (simp add: initCursors_def blank_pool_def first_pool_def calm_db_def newCursor_def openCursor_def askEnv_def
        incrementOpenDatabaseCursors_def)
qed

lemma first_pool_reachable: "pool_reachable calm_db first_pool"
  using pool_reachable.start [of blank_pool calm_db first_pool] first_pool_inits by (simp add: blank_pool_def)

section \<open>Properties\<close>



text \<open>
  C17: What \<open>getCursor\<close> gives. A cursor it returns was free (an old one that was available, or a
  new one where all others are taken), is now busy, has the number of its place, and carries none
  of the bind variable settings of its last user; every other cursor is as it was. It returns
  nothing only where every cursor is taken and there can be no more of them, or the database did
  not open one.
\<close>

theorem getCursor_gives_free_cursor:
  assumes "pool_reachable S p"
  shows "\<exists>r q. getCursor S p = Some (r, q) \<and>
    (case r of
       Some i \<Rightarrow> handed p i q \<and> (unat (cursorcount p) \<le> i \<longrightarrow> held p = {..<unat (cursorcount p)})
     | None \<Rightarrow> held q = held p \<and> held p = {..<unat (cursorcount p)} \<and>
         (cursorcount p = maxcursorcount p \<or> (\<exists>n e. \<not> fst (db_open S n e))))"
  by (rule getCursor_outcome [OF reachable_ok [OF assms], of S]) auto

theorem getCursor_gives_free_cursor_witness:
  "\<exists>i q. getCursor calm_db first_pool = Some (Some i, q) \<and> i \<notin> held first_pool \<and> held q = {i}"
proof -
  have "held first_pool = {}" by (auto simp: held_def first_pool_def blank_pool_def newCursor_simps)
  moreover have "cursorcount first_pool \<noteq> 0" "cursorcount first_pool \<noteq> maxcursorcount first_pool"
    by (simp_all add: first_pool_def blank_pool_def)
  ultimately show ?thesis
    using getCursor_gives_free_cursor [OF first_pool_reachable]
    by (auto simp: handed_def unat_eq_0 calm_db_def split: option.splits)
qed

text \<open>
  C21: no two clients have the same cursor. Whatever clients take and give back, in any order,
  from any reachable state, the cursors they hold at the end are all different and all busy or
  suspended, and the cursors held by others are still theirs.
\<close>

theorem clients_hold_distinct_cursors:
  assumes "pool_reachable S p"
    and "serve (\<lambda>p. the (getCursor S p)) releaseCursor requests p [] = (q, hs)"
  shows "distinct hs \<and> set hs \<subseteq> held q \<and> held q - set hs = held p"
  using cursors.serve_distinct [OF reachable_ok [OF assms(1)] _ _ assms(2)] by auto

theorem clients_hold_distinct_cursors_witness:
  "distinct (snd (serve (\<lambda>p. the (getCursor calm_db p)) releaseCursor [None, None, Some 0, None] first_pool []))"
  using clients_hold_distinct_cursors [OF first_pool_reachable prod.collapse [symmetric]] by blast

text \<open>
  C29: the end of a session leaves a clean pool: at most the minimum number of cursors, all of
  them available and without a cursor name; and where the minimum is not zero and there were
  cursors, the next client that asks gets one.
\<close>

theorem next_session_gets_cursor:
  assumes "pool_reachable S p"
  shows "\<exists>q. endSession S p = Some q \<and> cursorcount q = min (cursorcount p) (mincursorcount p) \<and> held q = {} \<and>
    (\<forall>i < unat (cursorcount q). map_option cursorname (cur q ! i) = Some None) \<and>
    (0 < cursorcount q \<longrightarrow> (\<exists>i r. getCursor S q = Some (Some i, r)))"
proof -
  obtain q where q: "endSession S p = Some q" "pool_ok q"
    "cursorcount q = min (cursorcount p) (mincursorcount p)"
    "\<forall>i < unat (cursorcount q). \<exists>c. cur q ! i = Some c \<and> cursor_state c = Cursor_Available \<and> cursorname c = None"
    using endSession_ok [OF reachable_ok [OF assms], of S] by blast
  have h: "held q = {}" using q(4) by (fastforce simp: held_def)
  have "\<exists>i r. getCursor S q = Some (Some i, r)" if "0 < cursorcount q"
  proof (rule getCursor_outcome [OF q(2), of S])
    fix r
    assume "held q = {..<unat (cursorcount q)}"
    then show ?thesis using h that by (auto simp: word_less_nat_alt)
  qed blast
  then show ?thesis using q(1,3,4) h by fastforce
qed

theorem next_session_gets_cursor_witness:
  "\<exists>q i r. endSession calm_db first_pool = Some q \<and> getCursor calm_db q = Some (Some i, r)"
proof -
  have "0 < min (cursorcount first_pool) (mincursorcount first_pool)"
    by (simp add: first_pool_def blank_pool_def)
  then show ?thesis using next_session_gets_cursor [OF first_pool_reachable] by metis
qed

text \<open>
  A temporary cursor never has the number of a pooled cursor, and of any \<open>65536 - max\<close>
  temporary cursors in a row no two have the same number.
\<close>

theorem temporary_ids_distinct:
  "(\<forall>u \<in> set (tempIds n p). maxcursorcount p \<le> u) \<and>
   (n + unat (maxcursorcount p) \<le> 65536 \<longrightarrow> distinct (tempIds n p))"
proof -
  let ?r = "65536 - unat (maxcursorcount p)"
  have "\<forall>u \<in> set (tempIds n p). maxcursorcount p \<le> u"
    using tempIds_place [of _ n p] by (auto simp: in_set_conv_nth word_le_nat_alt)
  moreover have "distinct (tempIds n p)" if "n + unat (maxcursorcount p) \<le> 65536"
  proof (rule ccontr)
    assume "\<not> distinct (tempIds n p)"
    then obtain j k where jk: "j < k" "k < n" "tempIds n p ! j = tempIds n p ! k"
      by (metis distinct_conv_nth length_tempIds linorder_neqE_nat)
    then have "(place p + Suc j) mod ?r = (place p + Suc k) mod ?r"
      using tempIds_place [of j n p] tempIds_place [of k n p] by simp
    then have "?r dvd k - j"
      using jk(1) mod_eq_dvd_iff_nat [of "place p + Suc j" "place p + Suc k" ?r] by auto
    then show False using jk(1,2) that by (auto dest: dvd_imp_le)
  qed
  ultimately show ?thesis by blast
qed

theorem temporary_ids_distinct_witness:
  "distinct (tempIds 65533 first_pool)"
  using temporary_ids_distinct [of 65533 first_pool] by (simp add: first_pool_def blank_pool_def)

text \<open>
  A cursor that does not open stays in the array and in the count of open cursors, and the next
  attempt puts another in its place: each failing \<open>getCursor\<close> leaves one more cursor that is
  never deleted.
\<close>

definition stuck_db :: "unit cursordb" where
  "stuck_db = calm_db\<lparr>db_open := (\<lambda>n e. (False, e))\<rparr>"

definition busy_pool :: "unit pool" where
  "busy_pool = changeCursor 0 (setState Cursor_Busy) first_pool"

theorem failed_open_leaks_cursor:
  "\<exists>q r. getCursor stuck_db busy_pool = Some (None, q) \<and> getCursor stuck_db q = Some (None, r) \<and>
     open_db_cursors busy_pool = 1 \<and> open_db_cursors q = 2 \<and> open_db_cursors r = 3 \<and>
     cur r = cur q \<and> cursorcount r = cursorcount busy_pool"
proof -
  have rounds: "growRounds busy_pool = Suc (Suc 0)" "cur busy_pool = [Some ((newConnCursor 0)\<lparr>cursor_state := Cursor_Busy\<rparr>), None, None]"
    by (simp_all add: growRounds_def expandTo_def word_le_nat_alt busy_pool_def first_pool_def blank_pool_def changeCursor_def setState_def)
  let ?q = "busy_pool\<lparr>cur := [Some ((newConnCursor 0)\<lparr>cursor_state := Cursor_Busy\<rparr>), Some (newConnCursor 1), None],
      open_db_cursors := 2, opened_db_cursors := 2\<rparr>"
  have counts: "cursorcount busy_pool = 1" "maxcursorcount busy_pool = 3" "open_db_cursors busy_pool = 1"
    "opened_db_cursors busy_pool = 1" "dbenv busy_pool = ()"
    by (simp_all add: busy_pool_def first_pool_def blank_pool_def changeCursor_def)
  have rounds2: "growRounds ?q = Suc (Suc 0)"
    by (simp add: growRounds_def expandTo_def word_le_nat_alt busy_pool_def first_pool_def blank_pool_def changeCursor_def)
  have 1: "getCursor stuck_db busy_pool = Some (None, ?q)"
    by (simp add: getCursor_def rounds counts inUse_def newCursor_simps(1,5,6) incrementOpenDatabaseCursors_def
        openCursor_def askEnv_def stuck_db_def)
  moreover have "getCursor stuck_db ?q = Some (None, ?q\<lparr>open_db_cursors := 3, opened_db_cursors := 3\<rparr>)"
    by (simp add: getCursor_def rounds2 counts inUse_def newCursor_simps(1,5,6) incrementOpenDatabaseCursors_def
        openCursor_def askEnv_def stuck_db_def)
  ultimately show ?thesis using counts by fastforce
qed

end
