(* ===== verification/Result_Wire.thy ===== *)
theory Result_Wire
  imports Prelude
begin

text \<open>
  What the server and the client of SQL Relay's own protocol share: the numbers of
  \<open>src/common/defines.h.in\<close> and \<open>datatypes.h\<close> that travel in a result set, the description of
  a column, and the socket.

  The socket class is Rudiments': the bytes it makes of an integer, and the integer it makes of
  bytes, are the fields of \<open>sockcodec\<close>; a read that gets fewer bytes than it needs is
  \<open>None\<close>. \<open>sock_ok\<close> states that an integer that was written is read back. What one side has
  written and the other has not read is a list of bytes.
\<close>

section \<open>The socket\<close>

record sockcodec =
  put16 :: "u16 \<Rightarrow> bytes"
  put32 :: "u32 \<Rightarrow> bytes"
  put64 :: "u64 \<Rightarrow> bytes"
  get16 :: "bytes \<Rightarrow> (u16 \<times> bytes) option"
  get32 :: "bytes \<Rightarrow> (u32 \<times> bytes) option"
  get64 :: "bytes \<Rightarrow> (u64 \<times> bytes) option"

definition sock_ok :: "sockcodec \<Rightarrow> bool" where
  "sock_ok C \<longleftrightarrow> (\<forall>x r. get16 C (put16 C x @ r) = Some (x, r)) \<and>
     (\<forall>x r. get32 C (put32 C x @ r) = Some (x, r)) \<and> (\<forall>x r. get64 C (put64 C x @ r) = Some (x, r))"

lemma sock_okD:
  assumes "sock_ok C"
  shows "get16 C (put16 C x @ r) = Some (x, r)" and "get32 C (put32 C y @ r) = Some (y, r)"
    and "get64 C (put64 C z @ r) = Some (z, r)"
  using assms by (simp_all add: sock_ok_def)

text \<open>A socket that sends its integers most significant byte first.\<close>

definition be_get :: "nat \<Rightarrow> bytes \<Rightarrow> ('a::len word \<times> bytes) option" where
  "be_get n s = (if length s < n then None else Some (of_be (take n s), drop n s))"

definition be_sock :: sockcodec where
  "be_sock = \<lparr>put16 = be_bytes 2, put32 = be_bytes 4, put64 = be_bytes 8,
              get16 = be_get 2, get32 = be_get 4, get64 = be_get 8\<rparr>"

lemma be_get_put: "LENGTH('a) \<le> 8 * n \<Longrightarrow> be_get n (be_bytes n (w :: 'a::len word) @ r) = Some (w, r)"
  by (simp add: be_get_def codec_simps)

lemma be_sock_ok: "sock_ok be_sock"
  by (simp add: sock_ok_def be_sock_def be_get_put)

text \<open>Reading \<open>n\<close> bytes; the size parameter of the read is an \<open>int32_t\<close>.\<close>

definition getBytes :: "u32 \<Rightarrow> bytes \<Rightarrow> (bytes \<times> bytes) option" where
  "getBytes n s = (if unat n < 2 ^ 31 \<and> unat n \<le> length s then Some (take (unat n) s, drop (unat n) s) else None)"

lemma getBytes_append [simp]:
  "unat n = length bs \<Longrightarrow> length bs < 2 ^ 31 \<Longrightarrow> getBytes n (bs @ r) = Some (bs, r)"
  by (simp add: getBytes_def)

lemma unat_u32: "n < 2 ^ 32 \<Longrightarrow> unat (of_nat n :: u32) = n"
  by (simp add: unat_of_nat)

lemma unat_u64: "n < 2 ^ 64 \<Longrightarrow> unat (of_nat n :: u64) = n"
  by (simp add: unat_of_nat)

lemma getBytes_data [simp]: "length bs < 2 ^ 31 \<Longrightarrow> getBytes (of_nat (length bs)) (bs @ r) = Some (bs, r)"
  by (simp add: unat_u32)

section \<open>Numbers of the protocol\<close>

abbreviation "NULL_DATA \<equiv> 0 :: u16"
abbreviation "STRING_DATA \<equiv> 1 :: u16"
abbreviation "START_LONG_DATA \<equiv> 2 :: u16"
abbreviation "END_LONG_DATA \<equiv> 3 :: u16"
abbreviation "END_RESULT_SET \<equiv> 8 :: u16"
abbreviation "FETCH_ERROR \<equiv> 9 :: u16"
abbreviation "ERROR_OCCURRED \<equiv> 0 :: u16"
abbreviation "NO_ERROR_OCCURRED \<equiv> 1 :: u16"
abbreviation "ERROR_OCCURRED_DISCONNECT \<equiv> 2 :: u16"
abbreviation "ACTUAL_ROWS \<equiv> 1 :: u16"
abbreviation "NO_ACTUAL_ROWS \<equiv> 0 :: u16"
abbreviation "AFFECTED_ROWS \<equiv> 1 :: u16"
abbreviation "NO_AFFECTED_ROWS \<equiv> 0 :: u16"
abbreviation "SEND_COLUMN_INFO \<equiv> 1 :: u16"
abbreviation "DONT_SEND_COLUMN_INFO \<equiv> 0 :: u16"
abbreviation "COLUMN_TYPE_IDS \<equiv> 0 :: u16"
abbreviation "FETCH_RESULT_SET \<equiv> 1 :: u16"
abbreviation "UNKNOWN_DATATYPE \<equiv> 0 :: u16"

section \<open>Columns\<close>

record column =
  col_name :: bytes
  col_type :: u16
  col_typestring :: bytes
  col_size :: u32
  col_precision :: u32
  col_scale :: u32
  col_nullable :: u16
  col_primarykey :: u16
  col_unique :: u16
  col_partofkey :: u16
  col_unsigned :: u16
  col_zerofill :: u16
  col_binary :: u16
  col_autoincrement :: u16
  col_table :: bytes

end
