(* ===== verification/Result_Server.thy ===== *)
theory Result_Server
  imports Result_Wire
begin

text \<open>
  The server's side of a result set (\<open>src/protocols/sqlrclient.cpp\<close>): the header with row counts
  and columns, and the rows, field by field, up to the number the client asked for, with the
  skipping of rows in \<open>src/server/sqlrservercontroller.cpp\<close>. A definition returns the bytes it
  writes to the socket. Debug output and the flushing of the write buffer are left out.

  The cursor of the database driver is the record \<open>rowsource\<close>, each field a function on a state
  \<open>'s\<close>.
\<close>

section \<open>The driver\<close>

record serverfield =
  f_data :: bytes
  f_lob :: bool
  f_null :: bool

record servererror =
  err_number :: u64
  err_string :: bytes
  err_live :: bool
  err_sqlstate :: bytes

record 's rowsource =
  src_colCount :: "'s \<Rightarrow> u32"
  src_noRowsToReturn :: "'s \<Rightarrow> bool"
  src_skipRow :: "'s \<Rightarrow> bool \<times> bool \<times> 's" \<comment> \<open>success, error\<close>
  src_fetchRow :: "'s \<Rightarrow> bool \<times> bool \<times> 's"
  src_nextRow :: "'s \<Rightarrow> 's"
  src_getField :: "'s \<Rightarrow> u32 \<Rightarrow> serverfield"
  src_lobLength :: "'s \<Rightarrow> u32 \<Rightarrow> u64 option"
  src_lobSegment :: "'s \<Rightarrow> u32 \<Rightarrow> u64 \<Rightarrow> (bytes \<times> u64) option"
    \<comment> \<open>column and offset; the contents of the segment buffer, and \<open>charsread\<close>\<close>
  src_closeLob :: "'s \<Rightarrow> u32 \<Rightarrow> 's"
  src_getError :: "'s \<Rightarrow> servererror"

text \<open>What the connection remembers between commands.\<close>

record sessionstate =
  protocolversion :: u16
  lazyfetch :: bool
  skip :: u64
  fetch :: u64

section \<open>Fields\<close>

definition sendField :: "sockcodec \<Rightarrow> bytes \<Rightarrow> bytes" where
  "sendField C data =
     (let n = of_nat (length data) :: u32
      in put16 C STRING_DATA @ put32 C n @ take (unat n) data)"

definition sendNullField :: "sockcodec \<Rightarrow> bytes" where
  "sendNullField C = put16 C NULL_DATA"

definition startSendingLong :: "sockcodec \<Rightarrow> u64 \<Rightarrow> bytes" where
  "startSendingLong C longsize = put16 C START_LONG_DATA @ put64 C longsize"

definition sendLongSegment :: "sockcodec \<Rightarrow> bytes \<Rightarrow> u32 \<Rightarrow> bytes" where
  "sendLongSegment C data n = put16 C STRING_DATA @ put32 C n @ take (unat n) data"

definition endSendingLong :: "sockcodec \<Rightarrow> bytes" where
  "endSendingLong C = put16 C END_LONG_DATA"

text \<open>\<open>sizeof(lobbuffer)\<close>.\<close>

abbreviation lobbuffersize :: u64 where
  "lobbuffersize \<equiv> 32768"

partial_function (option) lobLoop ::
  "sockcodec \<Rightarrow> 's rowsource \<Rightarrow> 's \<Rightarrow> u32 \<Rightarrow> u64 \<Rightarrow> u64 \<Rightarrow> bool \<Rightarrow> bytes \<Rightarrow> bytes option" where
  "lobLoop C D s col loblength offset start out =
     (let segment = src_lobSegment D s col offset
      in if segment = None \<or> snd (the segment) = 0 then
           Some (out @ (if start then sendNullField C else endSendingLong C))
         else
           (let out = out @ (if start then startSendingLong C loblength else []);
                charsread = snd (the segment);
                charsread = (if lobbuffersize < charsread then lobbuffersize else charsread)
            in lobLoop C D s col loblength (offset + charsread) False
                 (out @ sendLongSegment C (fst (the segment)) (ucast charsread))))"

definition sendLobField :: "sockcodec \<Rightarrow> 's rowsource \<Rightarrow> u32 \<Rightarrow> 's \<Rightarrow> (bytes \<times> 's) option" where
  "sendLobField C D col s =
     (case src_lobLength D s col of
        None \<Rightarrow> Some (sendNullField C, src_closeLob D s col)
      | Some loblength \<Rightarrow>
          if loblength = 0 then
            Some (startSendingLong C 0 @ sendLongSegment C [] 0 @ endSendingLong C, src_closeLob D s col)
          else map_option (\<lambda>out. (out, src_closeLob D s col)) (lobLoop C D s col loblength 0 True []))"

section \<open>Rows\<close>

primrec sendFields :: "sockcodec \<Rightarrow> 's rowsource \<Rightarrow> nat \<Rightarrow> nat \<Rightarrow> 's \<Rightarrow> (bytes \<times> 's) option" where
  "sendFields C D 0 i s = Some ([], s)"
| "sendFields C D (Suc n) i s =
     (let field = src_getField D s (of_nat i);
          sent = (if f_null field then Some (sendNullField C, s)
                  else if f_lob field then sendLobField C D (of_nat i) s
                  else Some (sendField C (f_data field), s))
      in Option.bind sent (\<lambda>(out, s).
           map_option (\<lambda>(outs, s). (out @ outs, s)) (sendFields C D n (Suc i) s)))"

definition returnRow :: "sockcodec \<Rightarrow> 's rowsource \<Rightarrow> 's \<Rightarrow> (bytes \<times> 's) option" where
  "returnRow C D s = sendFields C D (unat (src_colCount D s)) 0 s"

definition sendSqlState :: "sockcodec \<Rightarrow> u16 \<Rightarrow> bytes \<Rightarrow> bytes" where
  "sendSqlState C version sqlstate =
     (if version < 3 then []
      else (let n = of_nat (length sqlstate) :: u16
            in put16 C n @ (if n \<noteq> 0 then take (unat n) sqlstate else [])))"

text \<open>The error string is written with all its bytes, its size with 16 bits.\<close>

definition returnFetchError :: "sockcodec \<Rightarrow> 's rowsource \<Rightarrow> u16 \<Rightarrow> 's \<Rightarrow> bytes" where
  "returnFetchError C D version s =
     (let e = src_getError D s
      in put16 C FETCH_ERROR @
         put16 C (if \<not> err_live e then ERROR_OCCURRED_DISCONNECT else ERROR_OCCURRED) @
         put64 C (err_number e) @ put16 C (of_nat (length (err_string e))) @ err_string e @
         sendSqlState C version (err_sqlstate e))"

definition endresultset :: "u16 \<Rightarrow> u16" where
  "endresultset version = (if version = 1 then 3 else END_RESULT_SET)"

text \<open>
  The loop over the rows to send. The counter \<open>i\<close> is 64 bits wide, and \<open>fetch = 0\<close> asks for all
  rows; \<open>None\<close> where the driver has rows for ever.
\<close>

partial_function (option) rowLoop ::
  "sockcodec \<Rightarrow> 's rowsource \<Rightarrow> sessionstate \<Rightarrow> u64 \<Rightarrow> 's \<Rightarrow> bytes \<Rightarrow> (bytes \<times> 's) option" where
  "rowLoop C D cs i s out =
     (if fetch cs \<noteq> 0 \<and> \<not> i < fetch cs then Some (out, s)
      else
        (let fetched = src_fetchRow D s
         in if fst fetched then
              Option.bind (returnRow C D (snd (snd fetched)))
                (\<lambda>row. rowLoop C D cs (i + 1) (src_nextRow D (snd row)) (out @ fst row))
            else
              Some (out @ (if fst (snd fetched) \<and> 2 \<le> protocolversion cs
                           then returnFetchError C D (protocolversion cs) (snd (snd fetched))
                           else put16 C (endresultset (protocolversion cs))), snd (snd fetched))))"

text \<open>
  \<open>sqlrservercontroller::skipRows\<close>: the variable that \<open>skipRow\<close> sets inside the loop is local
  to the loop, so the caller's \<open>error\<close> is returned as it was.
\<close>

primrec skipLoop :: "'s rowsource \<Rightarrow> nat \<Rightarrow> bool \<Rightarrow> 's \<Rightarrow> bool \<times> bool \<times> 's" where
  "skipLoop D 0 error s = (True, error, s)"
| "skipLoop D (Suc n) error s =
     (case src_skipRow D s of
        (skipped, innererror, s) \<Rightarrow> if \<not> skipped then (False, error, s) else skipLoop D n error s)"

definition skipRows :: "'s rowsource \<Rightarrow> u64 \<Rightarrow> bool \<Rightarrow> 's \<Rightarrow> bool \<times> bool \<times> 's" where
  "skipRows D rows error s = skipLoop D (unat rows) error s"

section \<open>A block of rows\<close>

definition getSkipAndFetch :: "sockcodec \<Rightarrow> bool \<Rightarrow> bytes \<Rightarrow> sessionstate \<Rightarrow> (sessionstate \<times> bytes) option" where
  "getSkipAndFetch C initial request cs =
     Option.bind
       (if initial then
          map_option (\<lambda>(flags, request). (cs\<lparr>lazyfetch := flags \<noteq> 0, skip := 0\<rparr>, request)) (get64 C request)
        else map_option (\<lambda>(rows, request). (cs\<lparr>skip := rows\<rparr>, request)) (get64 C request))
       (\<lambda>(cs, request).
          map_option (\<lambda>(rows, request). (cs\<lparr>fetch := rows\<rparr>, request)) (get64 C request))"

text \<open>
  \<open>returnResultSetData\<close>: the result is what it returns, what it writes, and the states. A request
  that is too short ends it without writing anything.
\<close>

definition sendBlock :: "sockcodec \<Rightarrow> 's rowsource \<Rightarrow> sessionstate \<Rightarrow> 's \<Rightarrow> (bytes \<times> 's) option" where
  "sendBlock C D cs s =
     (if src_noRowsToReturn D s then Some (put16 C (endresultset (protocolversion cs)), s)
      else
        (case skipRows D (skip cs) False s of
           (skipped, error, s) \<Rightarrow>
             if \<not> skipped then
               Some (if error then returnFetchError C D (protocolversion cs) s
                     else put16 C (endresultset (protocolversion cs)), s)
             else rowLoop C D cs 0 s []))"

definition returnResultSetData ::
  "sockcodec \<Rightarrow> 's rowsource \<Rightarrow> bool \<Rightarrow> bool \<Rightarrow> bytes \<Rightarrow> sessionstate \<Rightarrow> 's \<Rightarrow>
     (bool \<times> bytes \<times> sessionstate \<times> 's) option" where
  "returnResultSetData C D getskipandfetch overridelazyfetch request cs s =
     (case (if getskipandfetch then map_option fst (getSkipAndFetch C False request cs) else Some cs) of
        None \<Rightarrow> Some (False, [], cs, s)
      | Some cs \<Rightarrow>
          if \<not> lazyfetch cs \<or> overridelazyfetch then
            map_option (\<lambda>(out, s). (True, out, cs, s)) (sendBlock C D cs s)
          else Some (True, [], cs, s))"

definition fetchResultSetCommand ::
  "sockcodec \<Rightarrow> 's rowsource \<Rightarrow> bytes \<Rightarrow> sessionstate \<Rightarrow> 's \<Rightarrow> (bool \<times> bytes \<times> sessionstate \<times> 's) option" where
  "fetchResultSetCommand C D request cs s = returnResultSetData C D True True request cs s"

section \<open>The header\<close>

definition sendRowCounts :: "sockcodec \<Rightarrow> u64 option \<Rightarrow> u64 option \<Rightarrow> bytes" where
  "sendRowCounts C actual affected =
     (case actual of Some n \<Rightarrow> put16 C ACTUAL_ROWS @ put64 C n | None \<Rightarrow> put16 C NO_ACTUAL_ROWS) @
     (case affected of Some n \<Rightarrow> put16 C AFFECTED_ROWS @ put64 C n | None \<Rightarrow> put16 C NO_AFFECTED_ROWS)"

definition sendColumnNumbers :: "sockcodec \<Rightarrow> column \<Rightarrow> bytes" where
  "sendColumnNumbers C c =
     put32 C (col_size c) @ put32 C (col_precision c) @ put32 C (col_scale c) @
     put16 C (col_nullable c) @ put16 C (col_primarykey c) @ put16 C (col_unique c) @
     put16 C (col_partofkey c) @ put16 C (col_unsigned c) @ put16 C (col_zerofill c) @
     put16 C (col_binary c) @ put16 C (col_autoincrement c)"

definition sendTable :: "sockcodec \<Rightarrow> u16 \<Rightarrow> column \<Rightarrow> bytes" where
  "sendTable C version c =
     (if version < 2 then [] else put16 C (of_nat (length (col_table c))) @ col_table c)"

definition sendColumnDefinition :: "sockcodec \<Rightarrow> u16 \<Rightarrow> u16 \<Rightarrow> column \<Rightarrow> bytes" where
  "sendColumnDefinition C version type c =
     put16 C (of_nat (length (col_name c))) @ col_name c @ put16 C type @ sendColumnNumbers C c @
     sendTable C version c"

definition sendColumnDefinitionString :: "sockcodec \<Rightarrow> u16 \<Rightarrow> column \<Rightarrow> bytes" where
  "sendColumnDefinitionString C version c =
     put16 C (of_nat (length (col_name c))) @ col_name c @
     put16 C (of_nat (length (col_typestring c))) @ col_typestring c @ sendColumnNumbers C c @
     sendTable C version c"

text \<open>Types that older clients do not know; the numbers are those of \<open>datatypes.h\<close>.\<close>

definition protocolAppropriateColumnType :: "u16 \<Rightarrow> u16 \<Rightarrow> u16" where
  "protocolAppropriateColumnType version coltype =
     (if 2 \<le> version then coltype
      else if coltype = 180 then 43 \<comment> \<open>\<open>TINYTEXT\<close>, \<open>TINY_BLOB\<close>\<close>
      else if coltype = 181 then 44 \<comment> \<open>\<open>MEDIUMTEXT\<close>, \<open>MEDIUM_BLOB\<close>\<close>
      else if coltype = 182 then 45 \<comment> \<open>\<open>LONGTEXT\<close>, \<open>LONG_BLOB\<close>\<close>
      else if coltype = 183 then UNKNOWN_DATATYPE \<comment> \<open>\<open>JSON\<close>\<close>
      else if coltype = 184 then UNKNOWN_DATATYPE \<comment> \<open>\<open>GEOMETRY\<close>\<close>
      else if coltype = 185 then 46 \<comment> \<open>\<open>SDO_GEOMETRY\<close>, \<open>BLOB\<close>\<close>
      else if coltype = 186 then 1 \<comment> \<open>\<open>NCHAR\<close>, \<open>CHAR\<close>\<close>
      else if coltype = 187 then 17 \<comment> \<open>\<open>NVARCHAR\<close>, \<open>VARCHAR\<close>\<close>
      else if coltype = 188 then 16 \<comment> \<open>\<open>NTEXT\<close>, \<open>TEXT\<close>\<close>
      else if coltype = 189 then 17 \<comment> \<open>\<open>XML\<close>, \<open>VARCHAR\<close>\<close>
      else if coltype = 190 then 6 \<comment> \<open>\<open>DATETIMEOFFSET\<close>, \<open>DATETIME\<close>\<close>
      else coltype)"

definition returnColumnInfo :: "sockcodec \<Rightarrow> u16 \<Rightarrow> u16 \<Rightarrow> column list \<Rightarrow> bytes" where
  "returnColumnInfo C version format cs =
     concat (map (\<lambda>c. if format = COLUMN_TYPE_IDS
                      then sendColumnDefinition C version (protocolAppropriateColumnType version (col_type c)) c
                      else sendColumnDefinitionString C version c) cs)"

text \<open>The header as far as the bind variables, which follow it.\<close>

definition returnResultSetHeader ::
  "sockcodec \<Rightarrow> u16 \<Rightarrow> u64 option \<Rightarrow> u64 option \<Rightarrow> bool \<Rightarrow> u16 \<Rightarrow> column list \<Rightarrow> bytes" where
  "returnResultSetHeader C version actual affected sendcolumninfo format cs =
     sendRowCounts C actual affected @
     put16 C (if sendcolumninfo then SEND_COLUMN_INFO else DONT_SEND_COLUMN_INFO) @
     put32 C (of_nat (length cs)) @
     (if sendcolumninfo then put16 C format @ returnColumnInfo C version format cs else [])"

end
