(* ===== verification/Result_Client.thy ===== *)
theory Result_Client
  imports Result_Wire
begin

text \<open>
  The client's side of a result set (\<open>src/api/c++/sqlrcursor.cpp\<close>): parsing the header and the
  rows, and fetching the block of rows that holds a requested row. Bytes of a field that were
  allocated but never received are \<open>None\<close>. Reading from and writing to a cache file, debug
  output and time-outs are left out: a read that comes short is an error at once. The row buffers
  that the code reuses or links together are one list, the current block.
\<close>

section \<open>State\<close>

record clientfield =
  fd_buffer :: "byte option list option" \<comment> \<open>\<open>None\<close> for \<open>NULL\<close>\<close>
  fd_length :: u32

datatype clienterror = Local_Error string | Server_Error bytes

record clientst =
  cursorid :: u16
  rsbuffersize :: u64
  rowcount :: u64
  firstrowindex :: u64
  resumedlastrowindex :: u64
  endofresultset :: bool
  colcount :: u32
  returnnulls :: bool
  cachedest :: bool
  connected :: bool
  sentcolumninfo :: u16
  longdatatype :: "bool list" \<comment> \<open>of each column\<close>
  longest :: "u32 list" \<comment> \<open>of each column\<close>
  block :: "clientfield list list"
  errorno :: u64
  clienterror :: "clienterror option"
  sqlstate :: bytes

definition setError :: "string \<Rightarrow> clientst \<Rightarrow> clientst" where
  "setError err cl = cl\<lparr>clienterror := Some (Local_Error err), sqlstate := [], endofresultset := True\<rparr>"

text \<open>The second line of the messages for reads that come short.\<close>

definition networkError :: "string \<Rightarrow> string" where
  "networkError err = err @ CHR 0x0A # ''A network error may have occurred''"

text \<open>What the end of the session means for this cursor; the connection's other cursors are not modelled.\<close>

definition endSession :: "clientst \<Rightarrow> clientst" where
  "endSession cl = cl\<lparr>connected := False\<rparr>"

section \<open>Errors from the server\<close>

definition getErrorStatus :: "sockcodec \<Rightarrow> clientst \<Rightarrow> bytes \<Rightarrow> u16 \<times> clientst \<times> bytes" where
  "getErrorStatus C cl s =
     (case get16 C s of
        None \<Rightarrow> (ERROR_OCCURRED, setError (''Failed to determine whether an error occurred or not.'' @ CHR 0x0A #
                  '' A network error may have occurred.'') cl, s)
      | Some (err, s) \<Rightarrow> (err, cl, s))"

text \<open>The size of \<open>_sqlstate\<close>, with its terminator.\<close>

abbreviation sqlstatesize :: nat where
  "sqlstatesize \<equiv> 6"

definition getSqlState :: "sockcodec \<Rightarrow> bytes \<Rightarrow> bytes \<times> bytes" where
  "getSqlState C s =
     (case get16 C s of
        None \<Rightarrow> ([], s)
      | Some (n, s) \<Rightarrow>
          if n \<noteq> 0 \<and> unat n < sqlstatesize then
            (if unat n \<le> length s then (take (unat n) s, drop (unat n) s) else ([], []))
          else ([], s))"

definition lostError :: string where
  "lostError = ''There was an error, but the connection died trying to retrieve it.  Sorry.''"

definition getErrorFromServer :: "sockcodec \<Rightarrow> clientst \<Rightarrow> bytes \<Rightarrow> clientst \<times> bytes" where
  "getErrorFromServer C cl s =
     (case get64 C s of
        None \<Rightarrow> (setError lostError cl, s)
      | Some (number, s) \<Rightarrow>
          (case get16 C s of
             None \<Rightarrow> (setError lostError
                       (cl\<lparr>errorno := number\<rparr>), s)
           | Some (n, s) \<Rightarrow>
               (case getSqlState C (drop (unat n) s) of (state, r) \<Rightarrow>
                  (cl\<lparr>errorno := number, clienterror := Some (Server_Error (take (unat n) s)),
                      sqlstate := state, endofresultset := True\<rparr>, r))))"

section \<open>Fields\<close>

text \<open>
  What reading a field can give: a value, a message for \<open>setError\<close>, or no defined behaviour.
\<close>

datatype 'a reading = Got 'a | Broken string | Undefined_Reading

record chunks =
  ch_buffer :: "byte option list"
  ch_offset :: u64
  ch_total :: u64
  ch_input :: bytes

definition chunkStep :: "sockcodec \<Rightarrow> chunks \<Rightarrow> (chunks + chunks reading) option" where
  "chunkStep C st =
     Some (case get16 C (ch_input st) of
       None \<Rightarrow> Inr (Broken ''Failed to get chunk type.'')
     | Some (type, s) \<Rightarrow>
         if type = END_LONG_DATA then Inr (Got (st\<lparr>ch_input := s\<rparr>))
         else (case get32 C s of
           None \<Rightarrow> Inr (Broken ''Failed to get chunk length.'')
         | Some (len, s) \<Rightarrow>
             (let offset = ch_offset st; upto = offset + ucast len;
                  st = (if ch_total st < upto
                        then st\<lparr>ch_buffer := take (unat offset) (ch_buffer st) @ replicate (unat len) None,
                                ch_total := upto\<rparr>
                        else st)
              in case getBytes len s of
                   None \<Rightarrow> Inr (Broken ''Failed to get chunk data.'')
                 | Some (data, s) \<Rightarrow>
                     Inl (st\<lparr>ch_buffer := take (unat offset) (ch_buffer st) @ map Some data @
                                           drop (unat upto) (ch_buffer st),
                             ch_offset := upto, ch_input := s\<rparr>))))"

text \<open>
  One field: its value, the type that was read last, and the rest of the input. A type that is
  none of the protocol's leaves the variables of the field before as they are; before the first
  field, the length is not initialised.
\<close>

definition readField ::
  "sockcodec \<Rightarrow> bool \<Rightarrow> clientfield option \<Rightarrow> u16 \<Rightarrow> bytes \<Rightarrow> (clientfield \<times> u16 \<times> bytes) reading option" where
  "readField C nulls before type s =
     (if type = NULL_DATA then
        Some (Got (\<lparr>fd_buffer = (if nulls then None else Some []), fd_length = 0\<rparr>, type, s))
      else if type = STRING_DATA then
        Some (case get32 C s of
          None \<Rightarrow> Broken ''Failed to get the field length.''
        | Some (len, s) \<Rightarrow>
            (case getBytes len s of
               None \<Rightarrow> Broken ''Failed to get the field data.''
             | Some (data, s) \<Rightarrow> Got (\<lparr>fd_buffer = Some (map Some data), fd_length = len\<rparr>, type, s)))
      else if type = START_LONG_DATA then
        (case get64 C s of
           None \<Rightarrow> Some (Broken ''Failed to get total length.'')
         | Some (totallength, s) \<Rightarrow>
             map_option
               (\<lambda>r. case r of
                  Got st \<Rightarrow> Got (\<lparr>fd_buffer = Some (ch_buffer st), fd_length = ucast (ch_total st)\<rparr>,
                                  END_LONG_DATA, ch_input st)
                | Broken err \<Rightarrow> Broken err
                | Undefined_Reading \<Rightarrow> Undefined_Reading)
               (iterate (chunkStep C)
                  \<lparr>ch_buffer = replicate (unat totallength) None, ch_offset = 0, ch_total = totallength, ch_input = s\<rparr>))
      else Some (case before of None \<Rightarrow> Undefined_Reading | Some f \<Rightarrow> Got (f, type, s)))"

section \<open>Rows\<close>

record parsest =
  ps_input :: bytes
  ps_colindex :: u32
  ps_before :: "clientfield option"
  ps_firstrow :: bool
  ps_rowblockcount :: u64
  ps_client :: clientst

definition startRow :: "parsest \<Rightarrow> parsest" where
  "startRow st =
     (if ps_colindex st = 0 then
        st\<lparr>ps_rowblockcount := ps_rowblockcount st + 1,
           ps_client := (ps_client st)\<lparr>block := block (ps_client st) @ [[]],
             rowcount := rowcount (ps_client st) + 1\<rparr>\<rparr>
      else st)"

text \<open>The field goes into the current row, and what is known about its column is brought up to date.\<close>

definition addField :: "clientfield \<Rightarrow> u16 \<Rightarrow> parsest \<Rightarrow> parsest" where
  "addField f type st =
     (let cl = ps_client st; i = unat (ps_colindex st);
          cl = cl\<lparr>block := butlast (block cl) @ [last (block cl) @ [f]]\<rparr>;
          cl = (if ps_firstrow st \<or> \<not> longdatatype cl ! i
                then cl\<lparr>longdatatype := (longdatatype cl)[i := (type = END_LONG_DATA)]\<rparr> else cl);
          cl = (if sentcolumninfo cl = SEND_COLUMN_INFO \<and> longest cl ! i < fd_length f
                then cl\<lparr>longest := (longest cl)[i := fd_length f]\<rparr> else cl)
      in st\<lparr>ps_client := cl, ps_before := Some f, ps_colindex := ps_colindex st + 1\<rparr>)"

text \<open>
  One round of the loop over fields. Leaving the loop, it gives what \<open>parseResults\<close> returns, the
  client and the input that is left; \<open>None\<close> where the code has no defined behaviour.
\<close>

definition parseStep :: "sockcodec \<Rightarrow> parsest \<Rightarrow> (parsest + (bool \<times> clientst \<times> bytes) option) option" where
  "parseStep C st =
     (let cl = ps_client st in
      case get16 C (ps_input st) of
        None \<Rightarrow> Some (Inr (Some (False, setError (networkError ''Failed to get the field type.'') cl, ps_input st)))
      | Some (type, s) \<Rightarrow>
          if type = FETCH_ERROR then
            (case getErrorStatus C (cl\<lparr>endofresultset := True\<rparr>) s of (err, cl, s) \<Rightarrow>
               (case getErrorFromServer C cl s of (cl, s) \<Rightarrow>
                  Some (Inr (Some (if err = ERROR_OCCURRED_DISCONNECT then (False, endSession cl, s)
                                   else (True, cl, s))))))
          else if type = END_RESULT_SET then
            Some (Inr (Some (True, cl\<lparr>endofresultset := True\<rparr>, s)))
          else
            (let st = startRow st in
             map_option
               (\<lambda>r. case r of
                  Broken err \<Rightarrow> Inr (Some (False, setError (networkError err) (ps_client st), s))
                | Undefined_Reading \<Rightarrow> Inr None
                | Got (f, type, s) \<Rightarrow>
                    (let st = (addField f type st)\<lparr>ps_input := s\<rparr> in
                     if ps_colindex st = colcount (ps_client st) then
                       (if rsbuffersize cl \<noteq> 0 \<and> ps_rowblockcount st = rsbuffersize cl then
                          Inr (Some (True, ps_client st, s))
                        else Inl (st\<lparr>ps_colindex := 0, ps_firstrow := False\<rparr>))
                     else Inl st))
               (readField C (returnnulls cl) (ps_before st) type s)))"

definition parseResults :: "sockcodec \<Rightarrow> clientst \<Rightarrow> bytes \<Rightarrow> (bool \<times> clientst \<times> bytes) option option" where
  "parseResults C cl s =
     (if endofresultset cl then Some (Some (True, cl, s))
      else
        (let rc = (if rowcount cl = 0 \<and> resumedlastrowindex cl \<noteq> 0 then resumedlastrowindex cl + 1
                   else rowcount cl)
         in iterate (parseStep C)
              \<lparr>ps_input = s, ps_colindex = 0, ps_before = None, ps_firstrow = True, ps_rowblockcount = 0,
               ps_client = cl\<lparr>rowcount := rc, firstrowindex := rc, block := []\<rparr>\<rparr>))"

section \<open>Blocks\<close>

definition skipRows :: "sockcodec \<Rightarrow> bool \<Rightarrow> bool \<Rightarrow> u64 \<Rightarrow> clientst \<Rightarrow> bytes \<times> clientst" where
  "skipRows C initial lazy rowstoskip cl =
     (put64 C (if initial then (if lazy then 1 else 0) else rowstoskip),
      cl\<lparr>rowcount := rowcount cl + rowstoskip\<rparr>)"

definition fetchRows :: "sockcodec \<Rightarrow> clientst \<Rightarrow> bytes" where
  "fetchRows C cl = put64 C (rsbuffersize cl)"

definition skipAndFetch :: "sockcodec \<Rightarrow> bool \<Rightarrow> bool \<Rightarrow> u64 \<Rightarrow> clientst \<Rightarrow> bytes \<times> clientst" where
  "skipAndFetch C initial lazy rowstoskip cl =
     (case skipRows C initial lazy rowstoskip cl of (out, cl) \<Rightarrow> (out @ fetchRows C cl, cl))"

definition rowsToSkip :: "clientst \<Rightarrow> u64 \<Rightarrow> u64" where
  "rowsToSkip cl row =
     (if \<not> cachedest cl \<and> rsbuffersize cl \<noteq> 0 then row - row mod rsbuffersize cl - rowcount cl else 0)"

text \<open>
  \<open>net\<close> is the other side: it takes what the client has written and answers. The client keeps what
  it has not read in \<open>pending\<close>.
\<close>

definition fetchStep ::
  "sockcodec \<Rightarrow> (bytes \<Rightarrow> 'n \<Rightarrow> (bytes \<times> 'n) option) \<Rightarrow> u64 \<Rightarrow> clientst \<times> bytes \<times> 'n \<Rightarrow>
     ((clientst \<times> bytes \<times> 'n) + (u64 option \<times> clientst \<times> bytes \<times> 'n) option) option" where
  "fetchStep C net row st =
     (case st of (cl, pending, n) \<Rightarrow>
        (case skipAndFetch C False False (rowsToSkip cl row) (cl\<lparr>block := []\<rparr>) of (out, cl) \<Rightarrow>
           Option.bind (net (put16 C FETCH_RESULT_SET @ put16 C (cursorid cl) @ out) n) (\<lambda>(answer, n).
           Option.bind (parseResults C cl (pending @ answer)) (\<lambda>r.
             Some (case r of
               None \<Rightarrow> Inr None
             | Some (ok, cl, pending) \<Rightarrow>
                 if \<not> ok then Inr (Some (None, cl, pending, n))
                 else if \<not> endofresultset cl \<and> rowcount cl \<le> row then Inl (cl, pending, n)
                 else Inr (Some (if rowcount cl \<le> row then None
                                 else Some (if rsbuffersize cl \<noteq> 0 then row mod rsbuffersize cl else row),
                                 cl, pending, n)))))))"

definition fetchRowIntoBuffer ::
  "sockcodec \<Rightarrow> (bytes \<Rightarrow> 'n \<Rightarrow> (bytes \<times> 'n) option) \<Rightarrow> u64 \<Rightarrow> clientst \<times> bytes \<times> 'n \<Rightarrow>
     (u64 option \<times> clientst \<times> bytes \<times> 'n) option option" where
  "fetchRowIntoBuffer C net row st =
     (let cl = fst st in
      if row < firstrowindex cl then Some (Some (None, st))
      else if row < rowcount cl then Some (Some (Some (row - firstrowindex cl), st))
      else if endofresultset cl \<or> \<not> connected cl then Some (Some (None, st))
      else iterate (fetchStep C net row) st)"

text \<open>
  \<open>getField\<close>: no field, or the field at the row of the buffer; \<open>None\<close> where the buffer does not
  have that row.
\<close>

definition getField ::
  "sockcodec \<Rightarrow> (bytes \<Rightarrow> 'n \<Rightarrow> (bytes \<times> 'n) option) \<Rightarrow> u64 \<Rightarrow> u32 \<Rightarrow> clientst \<times> bytes \<times> 'n \<Rightarrow>
     (clientfield option \<times> clientst \<times> bytes \<times> 'n) option option" where
  "getField C net row col st =
     (if colcount (fst st) \<le> col then Some (Some (None, st))
      else map_option
        (\<lambda>r. Option.bind r (\<lambda>(found, cl, rest).
           case found of
             None \<Rightarrow> Some (None, cl, rest)
           | Some i \<Rightarrow>
               if unat i < length (block cl) \<and> unat col < length (block cl ! unat i)
               then Some (Some (block cl ! unat i ! unat col), cl, rest) else None))
        (fetchRowIntoBuffer C net row st))"

section \<open>The header\<close>

record header =
  h_actualrows :: "u64 option"
  h_affectedrows :: "u64 option"
  h_sentcolumninfo :: u16
  h_colcount :: u32
  h_columns :: "column list"

abbreviation END_DATATYPE :: u16 where
  "END_DATATYPE \<equiv> 193"

definition getSized :: "sockcodec \<Rightarrow> bytes \<Rightarrow> (bytes \<times> bytes) option" where
  "getSized C s = Option.bind (get16 C s) (\<lambda>(n, s). getBytes (ucast n) s)"

text \<open>
  A column's type is a number or a name. The other one stays what it is in the buffer of columns,
  which is kept from one result set to the next.
\<close>

definition parseColumnType :: "sockcodec \<Rightarrow> u16 \<Rightarrow> column \<Rightarrow> bytes \<Rightarrow> (column \<times> bytes) option" where
  "parseColumnType C format c s =
     (if format = COLUMN_TYPE_IDS then
        Option.bind (get16 C s) (\<lambda>(type, s).
          Some (c\<lparr>col_type := (if END_DATATYPE \<le> type then UNKNOWN_DATATYPE else type)\<rparr>, s))
      else Option.bind (getSized C s) (\<lambda>(typestring, s). Some (c\<lparr>col_typestring := typestring\<rparr>, s)))"

definition parseColumn :: "sockcodec \<Rightarrow> (bytes \<Rightarrow> bytes) \<Rightarrow> u16 \<Rightarrow> column \<Rightarrow> bytes \<Rightarrow> (column \<times> bytes) option" where
  "parseColumn C colcase format c s =
     Option.bind (getSized C s) (\<lambda>(name, s).
     Option.bind (parseColumnType C format (c\<lparr>col_name := colcase name\<rparr>) s) (\<lambda>(c, s).
     Option.bind (get32 C s) (\<lambda>(len, s).
     Option.bind (get32 C s) (\<lambda>(precision, s).
     Option.bind (get32 C s) (\<lambda>(scale, s).
     Option.bind (get16 C s) (\<lambda>(nullable, s).
     Option.bind (get16 C s) (\<lambda>(primarykey, s).
     Option.bind (get16 C s) (\<lambda>(unique, s).
     Option.bind (get16 C s) (\<lambda>(partofkey, s).
     Option.bind (get16 C s) (\<lambda>(unsignednumber, s).
     Option.bind (get16 C s) (\<lambda>(zerofill, s).
     Option.bind (get16 C s) (\<lambda>(binary, s).
     Option.bind (get16 C s) (\<lambda>(autoincrement, s).
     Option.bind (getSized C s) (\<lambda>(table, s).
     Some (c\<lparr>col_size := len, col_precision := precision, col_scale := scale, col_nullable := nullable,
             col_primarykey := primarykey, col_unique := unique, col_partofkey := partofkey,
             col_unsigned := unsignednumber, col_zerofill := zerofill, col_binary := binary,
             col_autoincrement := autoincrement, col_table := table\<rparr>, s)))))))))))))))"

primrec parseColumns ::
  "sockcodec \<Rightarrow> (bytes \<Rightarrow> bytes) \<Rightarrow> u16 \<Rightarrow> column list \<Rightarrow> bytes \<Rightarrow> (column list \<times> bytes) option" where
  "parseColumns C colcase format [] s = Some ([], s)"
| "parseColumns C colcase format (c # cs) s =
     Option.bind (parseColumn C colcase format c s) (\<lambda>(c, s).
     Option.bind (parseColumns C colcase format cs s) (\<lambda>(cs, s). Some (c # cs, s)))"

definition parseRowCount :: "sockcodec \<Rightarrow> u16 \<Rightarrow> bytes \<Rightarrow> (u64 option \<times> bytes) option" where
  "parseRowCount C known s =
     Option.bind (get16 C s) (\<lambda>(knows, s).
       if knows = known then Option.bind (get64 C s) (\<lambda>(n, s). Some (Some n, s)) else Some (None, s))"

text \<open>
  \<open>parseColumnInfo\<close>, \<open>None\<close> on its network errors; \<open>colcase\<close> changes the case of a column's name,
  \<open>buffer\<close> is the buffer of columns.
\<close>

definition parseColumnInfo ::
  "sockcodec \<Rightarrow> (bytes \<Rightarrow> bytes) \<Rightarrow> (nat \<Rightarrow> column) \<Rightarrow> bytes \<Rightarrow> (header \<times> bytes) option" where
  "parseColumnInfo C colcase buffer s =
     Option.bind (parseRowCount C ACTUAL_ROWS s) (\<lambda>(actual, s).
     Option.bind (parseRowCount C AFFECTED_ROWS s) (\<lambda>(affected, s).
     Option.bind (get16 C s) (\<lambda>(sent, s).
     Option.bind (get32 C s) (\<lambda>(n, s).
       (let h = \<lparr>h_actualrows = actual, h_affectedrows = affected, h_sentcolumninfo = sent,
                 h_colcount = n, h_columns = []\<rparr>
        in if sent = SEND_COLUMN_INFO then
             Option.bind (get16 C s) (\<lambda>(format, s).
               map_option (\<lambda>(cs, s). (h\<lparr>h_columns := cs\<rparr>, s))
                 (parseColumns C colcase format (map buffer [0..<unat n]) s))
           else Some (h, s))))))"

end
