(* ===== verification/Result_Rows.thy ===== *)
theory Result_Rows
  imports Result_Server Result_Client
begin

text \<open>
  The rows of a result set on the wire: what the server of \<open>Result_Server\<close> sends for a value, and
  the proof that the client of \<open>Result_Client\<close> parses exactly the rows that were sent, for
  every field type, for blocks that end the result set and for blocks that do not.
\<close>

section \<open>Values\<close>

text \<open>
  A value of a row: null, text, or a large object with the length the database announces for it and
  the segments it is read in.
\<close>

datatype rowvalue = V_Null | V_Text bytes | V_Lob u64 "bytes list"

fun enc_value :: "sockcodec \<Rightarrow> rowvalue \<Rightarrow> bytes" where
  "enc_value C V_Null = sendNullField C"
| "enc_value C (V_Text data) = sendField C data"
| "enc_value C (V_Lob n segments) =
     startSendingLong C n @ concat (map (\<lambda>d. sendLongSegment C d (of_nat (length d))) segments) @ endSendingLong C"

fun value_ok :: "rowvalue \<Rightarrow> bool" where
  "value_ok V_Null = True"
| "value_ok (V_Text data) = (length data < 2 ^ 31)"
| "value_ok (V_Lob n segments) =
     (list_all (\<lambda>d. length d < 2 ^ 31) segments \<and> length (concat segments) < 2 ^ 64)"

text \<open>
  What the client should make of it: of a large object, at least as many bytes as were announced,
  those that never came undefined.
\<close>

fun client_value :: "bool \<Rightarrow> rowvalue \<Rightarrow> clientfield" where
  "client_value nulls V_Null = \<lparr>fd_buffer = (if nulls then None else Some []), fd_length = 0\<rparr>"
| "client_value nulls (V_Text data) = \<lparr>fd_buffer = Some (map Some data), fd_length = of_nat (length data)\<rparr>"
| "client_value nulls (V_Lob n segments) =
     (let data = concat segments in
      \<lparr>fd_buffer = Some (map Some data @ replicate (unat n - length data) None),
       fd_length = ucast (max n (of_nat (length data)))\<rparr>)"

fun value_type :: "rowvalue \<Rightarrow> u16" where
  "value_type V_Null = NULL_DATA"
| "value_type (V_Text data) = STRING_DATA"
| "value_type (V_Lob n segments) = START_LONG_DATA"

fun last_type :: "rowvalue \<Rightarrow> u16" where
  "last_type V_Null = NULL_DATA"
| "last_type (V_Text data) = STRING_DATA"
| "last_type (V_Lob n segments) = END_LONG_DATA"

section \<open>One field\<close>

lemma sendLongSegment_data:
  "length d < 2 ^ 31 \<Longrightarrow>
     sendLongSegment C d (of_nat (length d)) = put16 C STRING_DATA @ put32 C (of_nat (length d)) @ d"
  by (simp add: sendLongSegment_def unat_u32)

lemma sendField_data:
  "length d < 2 ^ 31 \<Longrightarrow> sendField C d = put16 C STRING_DATA @ put32 C (of_nat (length d)) @ d"
  by (simp add: sendField_def unat_u32)

lemma unat_end:
  fixes offset :: u64
  assumes "unat offset + n < 2 ^ 64" and "n < 2 ^ 31"
  shows "unat (offset + ucast (of_nat n :: u32)) = unat offset + n"
proof -
  have "unat (ucast (of_nat n :: u32) :: u64) = n" using assms(2)
    by (simp add: unsigned_ucast_eq unat_u32 take_bit_nat_eq_self)
  then show ?thesis using assms(1) by (simp add: unat_word_ariths)
qed

text \<open>The buffer while chunks arrive: what has come, and what is announced and has not.\<close>

definition chunk_state :: "bytes \<Rightarrow> u64 \<Rightarrow> bytes \<Rightarrow> chunks" where
  "chunk_state done n s =
     \<lparr>ch_buffer = map Some done @ replicate (unat n - length done) None, ch_offset = of_nat (length done),
      ch_total = n, ch_input = s\<rparr>"

lemma chunk_step:
  assumes "sock_ok C" and "length d < 2 ^ 31" and "length done + length d < 2 ^ 64" and "length done \<le> unat n"
  shows "chunkStep C (chunk_state done n (sendLongSegment C d (of_nat (length d)) @ s)) =
    Some (Inl (chunk_state (done @ d) (max n (of_nat (length (done @ d)))) s))"
proof -
  let ?o = "of_nat (length done) :: u64"
  let ?e = "?o + ucast (of_nat (length d) :: u32)"
  have o: "unat ?o = length done" using assms(3) by (simp add: unat_u64)
  have e: "unat ?e = length done + length d" using unat_end [of ?o "length d"] assms(2,3) o by simp
  then have eo: "?e = of_nat (length (done @ d))" using assms(3) unat_u64 [of "length done + length d"]
    by (intro unat_inj) (simp del: of_nat_add)
  have less: "n < ?e \<longleftrightarrow> unat n < length done + length d" using e by (simp add: word_less_nat_alt)
  show ?thesis
  proof (cases "n < ?e")
    case True
    then have "max n ?e = ?e" by simp
    moreover have "unat n - length (done @ d) = 0" using True less by simp
    ultimately show ?thesis
      using True e o eo assms(2)
      by (simp add: chunkStep_def chunk_state_def sendLongSegment_data sock_okD [OF assms(1)] Let_def unat_u32)
  next
    case False
    then have "max n ?e = n" by simp
    then show ?thesis
      using False e o eo assms(2,4)
      by (simp add: chunkStep_def chunk_state_def sendLongSegment_data sock_okD [OF assms(1)] Let_def unat_u32)
  qed
qed

lemma chunks_read:
  assumes "sock_ok C"
  shows "list_all (\<lambda>d. length d < 2 ^ 31) segments \<Longrightarrow> length done + length (concat segments) < 2 ^ 64 \<Longrightarrow>
    length done \<le> unat n \<Longrightarrow>
    iterate (chunkStep C)
      (chunk_state done n (concat (map (\<lambda>d. sendLongSegment C d (of_nat (length d))) segments) @ endSendingLong C @ r)) =
    Some (Got (chunk_state (done @ concat segments) (max n (of_nat (length (done @ concat segments)))) r))"
proof (induction segments arbitrary: "done" n)
  case Nil
  then have "of_nat (length done) \<le> n"
    by (simp add: word_le_nat_alt unat_of_nat)
  then show ?case
    by (simp add: iterate_Inr chunkStep_def endSendingLong_def sock_okD [OF assms] chunk_state_def max_def)
next
  case (Cons d segments)
  let ?m = "max n (of_nat (length (done @ d)))"
  have len: "length (done @ d) + length (concat segments) < 2 ^ 64" using Cons.prems(2) by simp
  have u: "unat (of_nat (length (done @ d)) :: u64) = length (done @ d)" using len by (intro unat_u64) simp
  have le: "length (done @ d) \<le> unat ?m" using u by (auto simp: max_def word_le_nat_alt)
  have max: "max ?m (of_nat (length (done @ d @ concat segments))) = max n (of_nat (length (done @ d @ concat segments)))"
  proof -
    have "unat (of_nat (length (done @ d @ concat segments)) :: u64) = length (done @ d @ concat segments)"
      using len by (intro unat_u64) simp
    then have "(of_nat (length (done @ d)) :: u64) \<le> of_nat (length (done @ d @ concat segments))"
      using u by (simp add: word_le_nat_alt)
    then show ?thesis by (simp add: max.assoc max_absorb2)
  qed
  show ?case
    using Cons.IH [of "done @ d" ?m] Cons.prems len le max
      chunk_step [OF assms, of d "done" n] iterate_Inl [of "chunkStep C"]
    by simp
qed

lemma readField_value:
  assumes "sock_ok C" and "value_ok v"
  shows "\<exists>s. get16 C (enc_value C v @ r) = Some (value_type v, s) \<and>
    readField C nulls before (value_type v) s = Some (Got (client_value nulls v, last_type v, r))"
proof (cases v)
  case V_Null
  then show ?thesis by (simp add: sendNullField_def sock_okD [OF assms(1)] readField_def)
next
  case (V_Text data)
  then show ?thesis
    using assms(2) by (simp add: sendField_data sock_okD [OF assms(1)] readField_def)
next
  case (V_Lob n segments)
  have "chunk_state [] n s = \<lparr>ch_buffer = replicate (unat n) None, ch_offset = 0, ch_total = n, ch_input = s\<rparr>" for s
    by (simp add: chunk_state_def)
  moreover have "unat (max n (of_nat (length (concat segments)))) - length (concat segments) =
      unat n - length (concat segments)"
    using assms(2) V_Lob by (auto simp: max_def word_le_nat_alt unat_u64)
  ultimately show ?thesis
    using chunks_read [OF assms(1), of segments "[]" n r] assms(2) V_Lob
    by (simp add: startSendingLong_def sock_okD [OF assms(1)] readField_def chunk_state_def Let_def)
qed

section \<open>One row\<close>

definition enc_row :: "sockcodec \<Rightarrow> rowvalue list \<Rightarrow> bytes" where
  "enc_row C vs = concat (map (enc_value C) vs)"

definition client_row :: "bool \<Rightarrow> rowvalue list \<Rightarrow> clientfield list" where
  "client_row nulls vs = map (client_value nulls) vs"

text \<open>What parsing rows leaves alone.\<close>

definition kept :: "clientst \<Rightarrow> clientst \<Rightarrow> bool" where
  "kept cl cl' \<longleftrightarrow> cursorid cl' = cursorid cl \<and> rsbuffersize cl' = rsbuffersize cl \<and>
     firstrowindex cl' = firstrowindex cl \<and> endofresultset cl' = endofresultset cl \<and>
     resumedlastrowindex cl' = resumedlastrowindex cl \<and> colcount cl' = colcount cl \<and>
     returnnulls cl' = returnnulls cl \<and> cachedest cl' = cachedest cl \<and> connected cl' = connected cl \<and>
     sentcolumninfo cl' = sentcolumninfo cl \<and> errorno cl' = errorno cl \<and>
     clienterror cl' = clienterror cl \<and> sqlstate cl' = sqlstate cl"

lemma kept_refl [simp]: "kept cl cl"
  by (simp add: kept_def)

lemma kept_trans: "kept a b \<Longrightarrow> kept b c \<Longrightarrow> kept a c"
  by (simp add: kept_def)

lemma keptD: "kept cl cl' \<Longrightarrow> returnnulls cl' = returnnulls cl" "kept cl cl' \<Longrightarrow> colcount cl' = colcount cl"
  "kept cl cl' \<Longrightarrow> rsbuffersize cl' = rsbuffersize cl"
  by (simp_all add: kept_def)

lemma addField_simps:
  "ps_input (addField f t st) = ps_input st" "ps_firstrow (addField f t st) = ps_firstrow st"
  "ps_rowblockcount (addField f t st) = ps_rowblockcount st" "ps_colindex (addField f t st) = ps_colindex st + 1"
  "rowcount (ps_client (addField f t st)) = rowcount (ps_client st)"
  "block (ps_client (addField f t st)) = butlast (block (ps_client st)) @ [last (block (ps_client st)) @ [f]]"
  "kept (ps_client st) (ps_client (addField f t st))"
  by (simp_all add: addField_def Let_def kept_def)

lemma addField_input: "addField f t (st\<lparr>ps_input := s\<rparr>) = (addField f t st)\<lparr>ps_input := s\<rparr>"
  by (simp add: addField_def Let_def)

lemma startRow_simps:
  "ps_input (startRow st) = ps_input st" "ps_firstrow (startRow st) = ps_firstrow st"
  "ps_before (startRow st) = ps_before st" "ps_colindex (startRow st) = ps_colindex st"
  "kept (ps_client st) (ps_client (startRow st))"
  by (simp_all add: startRow_def kept_def)

definition add_values :: "bool \<Rightarrow> rowvalue list \<Rightarrow> parsest \<Rightarrow> parsest" where
  "add_values nulls vs st = foldl (\<lambda>st v. addField (client_value nulls v) (last_type v) st) st vs"

lemma add_values_Cons:
  "add_values nulls (v # vs) st = add_values nulls vs (addField (client_value nulls v) (last_type v) st)"
  by (simp add: add_values_def)

lemma add_values_input: "add_values nulls vs (st\<lparr>ps_input := s\<rparr>) = (add_values nulls vs st)\<lparr>ps_input := s\<rparr>"
  by (induction vs arbitrary: st) (simp_all add: add_values_def addField_input)

lemma add_values_simps:
  "ps_rowblockcount (add_values nulls vs st) = ps_rowblockcount st"
  "rowcount (ps_client (add_values nulls vs st)) = rowcount (ps_client st)"
  "kept (ps_client st) (ps_client (add_values nulls vs st))"
proof -
  show "ps_rowblockcount (add_values nulls vs st) = ps_rowblockcount st"
    "rowcount (ps_client (add_values nulls vs st)) = rowcount (ps_client st)"
    by (induction vs arbitrary: st) (simp_all add: add_values_def addField_simps)
  show "kept (ps_client st) (ps_client (add_values nulls vs st))"
  proof (induction vs arbitrary: st)
    case (Cons v vs)
    show ?case
      unfolding add_values_Cons by (rule kept_trans [OF addField_simps(7) Cons])
  qed (simp add: add_values_def)
qed

lemma add_values_block:
  "block (ps_client st) = rows @ [row] \<Longrightarrow>
     block (ps_client (add_values nulls vs st)) = rows @ [row @ client_row nulls vs]"
  by (induction vs arbitrary: st row) (simp_all add: add_values_def addField_simps client_row_def)

lemma value_type_data: "value_type v \<noteq> FETCH_ERROR" "value_type v \<noteq> END_RESULT_SET"
  by (cases v; simp)+

definition rowfull :: "parsest \<Rightarrow> bool" where
  "rowfull st \<longleftrightarrow> rsbuffersize (ps_client st) \<noteq> 0 \<and> ps_rowblockcount st = rsbuffersize (ps_client st)"

lemma parseStep_value:
  assumes "sock_ok C" and "value_ok v" and "ps_input st = enc_value C v @ r"
  shows "parseStep C st =
    (let st' = (addField (client_value (returnnulls (ps_client st)) v) (last_type v) (startRow st))\<lparr>ps_input := r\<rparr> in
     Some (if ps_colindex st' = colcount (ps_client st') then
             (if rowfull st' then Inr (Some (True, ps_client st', r))
              else Inl (st'\<lparr>ps_colindex := 0, ps_firstrow := False\<rparr>))
           else Inl st'))"
proof -
  obtain s where s: "get16 C (ps_input st) = Some (value_type v, s)"
    "readField C (returnnulls (ps_client st)) (ps_before st) (value_type v) s =
       Some (Got (client_value (returnnulls (ps_client st)) v, last_type v, r))"
    using readField_value [OF assms(1,2)] unfolding assms(3) by metis
  let ?st = "addField (client_value (returnnulls (ps_client st)) v) (last_type v) (startRow st)"
  have k: "rsbuffersize (ps_client ?st) = rsbuffersize (ps_client st)"
    using kept_trans [OF startRow_simps(5) [of st] addField_simps(7)] keptD(3) by blast
  show ?thesis
    using s k by (simp add: parseStep_def value_type_data startRow_simps rowfull_def Let_def)
qed

lemma row_read:
  assumes "sock_ok C"
  shows "vs \<noteq> [] \<Longrightarrow> list_all value_ok vs \<Longrightarrow> ps_colindex st = of_nat i \<Longrightarrow>
    i + length vs = unat (colcount (ps_client st)) \<Longrightarrow> ps_input st = enc_row C vs @ r \<Longrightarrow>
    iterate (parseStep C) st =
     (let st' = (add_values (returnnulls (ps_client st)) vs (startRow st))\<lparr>ps_input := r\<rparr> in
      if rowfull st' then Some (Some (True, ps_client st', r))
      else iterate (parseStep C) (st'\<lparr>ps_colindex := 0, ps_firstrow := False\<rparr>))"
proof (induction vs arbitrary: st i)
  case (Cons v vs)
  let ?nulls = "returnnulls (ps_client st)"
  let ?t = "addField (client_value ?nulls v) (last_type v) (startRow st)"
  have k: "kept (ps_client st) (ps_client ?t)"
    by (rule kept_trans [OF startRow_simps(5) addField_simps(7)])
  have small: "unat (colcount (ps_client st)) < 2 ^ 32" using unat_less_pow [of "colcount (ps_client st)"] by simp
  have ci: "ps_colindex ?t = of_nat (Suc i)" using Cons.prems(3) by (simp add: addField_simps startRow_simps)
  have step: "parseStep C st = Some (if ps_colindex ?t = colcount (ps_client st) then
      (if rowfull (?t\<lparr>ps_input := enc_row C vs @ r\<rparr>) then Inr (Some (True, ps_client ?t, enc_row C vs @ r))
       else Inl ((?t\<lparr>ps_input := enc_row C vs @ r\<rparr>)\<lparr>ps_colindex := 0, ps_firstrow := False\<rparr>))
     else Inl (?t\<lparr>ps_input := enc_row C vs @ r\<rparr>))"
    using parseStep_value [OF assms, of v st "enc_row C vs @ r"] Cons.prems(2,5) keptD(2) [OF k]
    by (simp add: enc_row_def Let_def)
  show ?case
  proof (cases "vs = []")
    case True
    then have "ps_colindex ?t = colcount (ps_client st)"
      using ci Cons.prems(4) unat_u32 [of "Suc i"] small by (intro unat_inj) (simp del: of_nat_Suc)
    then show ?thesis
      using step True by (auto simp: iterate_Inr iterate_Inl add_values_def enc_row_def Let_def)
  next
    case False
    have "ps_colindex ?t \<noteq> colcount (ps_client st)"
    proof
      assume "ps_colindex ?t = colcount (ps_client st)"
      then have "unat (of_nat (Suc i) :: u32) = unat (colcount (ps_client st))" using ci by simp
      moreover have "Suc i < unat (colcount (ps_client st))" using Cons.prems(4) False by (cases vs) auto
      ultimately show False using small unat_u32 [of "Suc i"] by simp
    qed
    then have one: "iterate (parseStep C) st = iterate (parseStep C) (?t\<lparr>ps_input := enc_row C vs @ r\<rparr>)"
      using step by (simp add: iterate_Inl)
    have "ps_colindex ?t \<noteq> 0"
      using ci small Cons.prems(4) unat_u32 [of "Suc i"] by (metis add_lessD1 add_Suc_right add_Suc length_Cons
          nat.simps(3) unat_0)
    then have "startRow (?t\<lparr>ps_input := enc_row C vs @ r\<rparr>) = ?t\<lparr>ps_input := enc_row C vs @ r\<rparr>"
      by (simp add: startRow_def)
    then show ?thesis
      using Cons.IH [of "?t\<lparr>ps_input := enc_row C vs @ r\<rparr>" "Suc i"] Cons.prems False ci one keptD(1,2) [OF k]
      by (simp add: add_values_Cons add_values_input)
  qed
qed simp

section \<open>A block of rows\<close>

definition row_ok :: "clientst \<Rightarrow> rowvalue list \<Rightarrow> bool" where
  "row_ok cl vs \<longleftrightarrow> vs \<noteq> [] \<and> length vs = unat (colcount cl) \<and> list_all value_ok vs"

text \<open>A client that has parsed \<open>rows\<close> since it was \<open>cl\<close>.\<close>

definition has_rows :: "clientst \<Rightarrow> rowvalue list list \<Rightarrow> clientst \<Rightarrow> bool" where
  "has_rows cl rows cl' \<longleftrightarrow> kept cl cl' \<and> rowcount cl' = rowcount cl + of_nat (length rows) \<and>
     block cl' = block cl @ map (client_row (returnnulls cl)) rows"

definition at_row :: "clientst \<Rightarrow> rowvalue list list \<Rightarrow> bytes \<Rightarrow> parsest \<Rightarrow> bool" where
  "at_row cl rows s st \<longleftrightarrow> has_rows cl rows (ps_client st) \<and> ps_input st = s \<and> ps_colindex st = 0 \<and>
     ps_rowblockcount st = of_nat (length rows)"

lemma row_parsed:
  assumes "sock_ok C" and "row_ok cl vs" and "at_row cl rows (enc_row C vs @ r) st"
  shows "if rsbuffersize cl \<noteq> 0 \<and> of_nat (length (rows @ [vs])) = rsbuffersize cl
    then \<exists>cl'. iterate (parseStep C) st = Some (Some (True, cl', r)) \<and> has_rows cl (rows @ [vs]) cl'
    else \<exists>st'. iterate (parseStep C) st = iterate (parseStep C) st' \<and> at_row cl (rows @ [vs]) r st'"
proof -
  note at = assms(3) [unfolded at_row_def has_rows_def]
  let ?nulls = "returnnulls cl"
  let ?t = "(add_values ?nulls vs (startRow st))\<lparr>ps_input := r\<rparr>"
  have n: "returnnulls (ps_client st) = ?nulls" "colcount (ps_client st) = colcount cl"
    using at keptD by simp_all
  have k: "kept cl (ps_client ?t)"
    using kept_trans [OF _ kept_trans [OF startRow_simps(5) add_values_simps(3)]] at by simp
  have started: "block (ps_client (startRow st)) = block cl @ map (client_row ?nulls) rows @ [[]]"
    using at by (simp add: startRow_def)
  have blk: "block (ps_client ?t) = block cl @ map (client_row ?nulls) (rows @ [vs])"
    using add_values_block [of "startRow st" "block cl @ map (client_row ?nulls) rows" "[]"] started by simp
  have cnt: "rowcount (ps_client ?t) = rowcount cl + of_nat (length (rows @ [vs]))"
    "ps_rowblockcount ?t = of_nat (length (rows @ [vs]))"
    using at by (simp_all add: add_values_simps startRow_def)
  have has: "has_rows cl (rows @ [vs]) (ps_client ?t)" using k blk cnt by (simp add: has_rows_def)
  have full: "rowfull ?t \<longleftrightarrow> rsbuffersize cl \<noteq> 0 \<and> of_nat (length (rows @ [vs])) = rsbuffersize cl"
    using cnt(2) keptD(3) [OF k] by (simp add: rowfull_def)
  have "iterate (parseStep C) st = (if rowfull ?t then Some (Some (True, ps_client ?t, r))
      else iterate (parseStep C) (?t\<lparr>ps_colindex := 0, ps_firstrow := False\<rparr>))"
    using row_read [OF assms(1), of vs st 0 r] assms(2) at n by (simp add: row_ok_def)
  then show ?thesis
    unfolding full [symmetric] using has cnt(2) by (auto simp: at_row_def)
qed

lemma rows_parsed:
  assumes "sock_ok C" and "length done + length rows < 2 ^ 64"
    and "rsbuffersize cl \<noteq> 0 \<Longrightarrow> length done + length rows \<le> unat (rsbuffersize cl)"
    and "rsbuffersize cl \<noteq> 0 \<Longrightarrow> length done < unat (rsbuffersize cl)"
    and "list_all (row_ok cl) rows" and "at_row cl done (concat (map (enc_row C) rows) @ r) st"
  shows "if rsbuffersize cl \<noteq> 0 \<and> length done + length rows = unat (rsbuffersize cl)
    then \<exists>cl'. iterate (parseStep C) st = Some (Some (True, cl', r)) \<and> has_rows cl (done @ rows) cl'
    else \<exists>st'. iterate (parseStep C) st = iterate (parseStep C) st' \<and> at_row cl (done @ rows) r st'"
  using assms(2-6)
proof (induction rows arbitrary: "done" st)
  case Nil
  then show ?case by auto
next
  case (Cons vs rows)
  have eq: "of_nat (length (done @ [vs])) = rsbuffersize cl \<longleftrightarrow> length (done @ [vs]) = unat (rsbuffersize cl)"
  proof -
    have "unat (of_nat (length (done @ [vs])) :: u64) = length (done @ [vs])"
      using Cons.prems(1) by (intro unat_u64) simp
    then show ?thesis using unat_inj by metis
  qed
  have row: "row_ok cl vs" "at_row cl done (enc_row C vs @ concat (map (enc_row C) rows) @ r) st"
    using Cons.prems(4,5) by simp_all
  note parsed = row_parsed [OF assms(1) row, unfolded eq]
  show ?case
  proof (cases "rsbuffersize cl \<noteq> 0 \<and> length (done @ [vs]) = unat (rsbuffersize cl)")
    case True
    then have "rows = []" using Cons.prems(2) by (cases rows) auto
    then show ?thesis using parsed True by simp
  next
    case False
    then obtain t where t: "iterate (parseStep C) st = iterate (parseStep C) t"
      "at_row cl (done @ [vs]) (concat (map (enc_row C) rows) @ r) t"
      using parsed by (auto split: if_splits)
    have "rsbuffersize cl \<noteq> 0 \<Longrightarrow> length (done @ [vs]) < unat (rsbuffersize cl)"
      using False Cons.prems(3) by simp
    then show ?thesis
      using Cons.IH [of "done @ [vs]" t] Cons.prems t by (auto split: if_split_asm)
  qed
qed

text \<open>What the client is when the rows of one answer are in.\<close>

definition block_start :: "clientst \<Rightarrow> u64" where
  "block_start cl = (if rowcount cl = 0 \<and> resumedlastrowindex cl \<noteq> 0 then resumedlastrowindex cl + 1
     else rowcount cl)"

definition has_block :: "clientst \<Rightarrow> rowvalue list list \<Rightarrow> clientst \<Rightarrow> bool" where
  "has_block cl rows cl' \<longleftrightarrow>
     kept (cl\<lparr>firstrowindex := block_start cl, endofresultset := endofresultset cl'\<rparr>) cl' \<and>
     rowcount cl' = block_start cl + of_nat (length rows) \<and> block cl' = map (client_row (returnnulls cl)) rows"

lemma parseResults_start:
  assumes "\<not> endofresultset cl"
  shows "\<exists>st. parseResults C cl s = iterate (parseStep C) st \<and>
    at_row (cl\<lparr>rowcount := block_start cl, firstrowindex := block_start cl, block := []\<rparr>) [] s st"
proof (intro exI conjI)
  let ?cl = "cl\<lparr>rowcount := block_start cl, firstrowindex := block_start cl, block := []\<rparr>"
  let ?st = "\<lparr>ps_input = s, ps_colindex = 0, ps_before = None, ps_firstrow = True, ps_rowblockcount = 0,
    ps_client = ?cl\<rparr>"
  show "parseResults C cl s = iterate (parseStep C) ?st"
    using assms by (simp add: parseResults_def block_start_def Let_def)
  show "at_row ?cl [] s ?st" by (simp add: at_row_def has_rows_def)
qed

lemma full_block_parsed:
  assumes "sock_ok C" and "\<not> endofresultset cl" and "rsbuffersize cl \<noteq> 0"
    and "length rows = unat (rsbuffersize cl)" and "list_all (row_ok cl) rows"
  shows "\<exists>cl'. parseResults C cl (concat (map (enc_row C) rows) @ r) = Some (Some (True, cl', r)) \<and>
    has_block cl rows cl' \<and> \<not> endofresultset cl'"
proof -
  let ?cl = "cl\<lparr>rowcount := block_start cl, firstrowindex := block_start cl, block := []\<rparr>"
  obtain st where st: "parseResults C cl (concat (map (enc_row C) rows) @ r) = iterate (parseStep C) st"
    "at_row ?cl [] (concat (map (enc_row C) rows) @ r) st"
    using parseResults_start [OF assms(2)] by blast
  have "list_all (row_ok ?cl) rows" using assms(5) by (simp add: row_ok_def list_all_iff)
  moreover have "0 < unat (rsbuffersize cl)" "length rows < 2 ^ 64"
    using assms(3,4) unat_less_pow [of "rsbuffersize cl"] by (simp_all add: unat_gt_0)
  ultimately obtain cl' where "iterate (parseStep C) st = Some (Some (True, cl', r))" "has_rows ?cl rows cl'"
    using rows_parsed [OF assms(1) _ _ _ _ st(2)] assms(3,4) by auto
  then show ?thesis
    using st(1) assms(2) by (auto simp: has_rows_def has_block_def kept_def)
qed

lemma parse_to_end:
  assumes "sock_ok C" and "\<not> endofresultset cl" and "length rows < 2 ^ 64"
    and "rsbuffersize cl \<noteq> 0 \<Longrightarrow> length rows < unat (rsbuffersize cl)" and "list_all (row_ok cl) rows"
  shows "\<exists>st. parseResults C cl (concat (map (enc_row C) rows) @ r) = iterate (parseStep C) st \<and>
      at_row (cl\<lparr>rowcount := block_start cl, firstrowindex := block_start cl, block := []\<rparr>) rows r st"
proof -
  let ?cl = "cl\<lparr>rowcount := block_start cl, firstrowindex := block_start cl, block := []\<rparr>"
  obtain st where st: "parseResults C cl (concat (map (enc_row C) rows) @ r) = iterate (parseStep C) st"
    "at_row ?cl [] (concat (map (enc_row C) rows) @ r) st"
    using parseResults_start [OF assms(2)] by blast
  have "list_all (row_ok ?cl) rows" using assms(5) by (simp add: row_ok_def list_all_iff)
  moreover have "0 < unat (rsbuffersize cl)" if "rsbuffersize cl \<noteq> 0" using that by (simp add: unat_gt_0)
  moreover have "length rows \<noteq> unat (rsbuffersize cl)" if "rsbuffersize cl \<noteq> 0" using assms(4) [OF that] by simp
  ultimately show ?thesis
    using rows_parsed [OF assms(1), of "[]" rows ?cl r st] st assms(3,4)
    by (auto simp: less_imp_le split: if_split_asm)
qed

lemma last_block_parsed:
  assumes "sock_ok C" and "\<not> endofresultset cl" and "length rows < 2 ^ 64"
    and "rsbuffersize cl \<noteq> 0 \<Longrightarrow> length rows < unat (rsbuffersize cl)" and "list_all (row_ok cl) rows"
  shows "\<exists>cl'. parseResults C cl (concat (map (enc_row C) rows) @ put16 C END_RESULT_SET @ r) =
      Some (Some (True, cl', r)) \<and> has_block cl rows cl' \<and> endofresultset cl'"
proof -
  let ?r = "put16 C END_RESULT_SET @ r"
  obtain t where t: "parseResults C cl (concat (map (enc_row C) rows) @ ?r) = iterate (parseStep C) t"
    "at_row (cl\<lparr>rowcount := block_start cl, firstrowindex := block_start cl, block := []\<rparr>) rows ?r t"
    using parse_to_end [OF assms] by blast
  have "parseStep C t = Some (Inr (Some (True, (ps_client t)\<lparr>endofresultset := True\<rparr>, r)))"
    using t(2) by (simp add: parseStep_def at_row_def sock_okD [OF assms(1)] Let_def)
  then show ?thesis
    using t by (auto simp: iterate_Inr at_row_def has_rows_def has_block_def kept_def)
qed

end
