(* ===== verification/Result_Source.thy ===== *)
theory Result_Source
  imports Result_Server Result_Rows
begin

text \<open>
  What the server of \<open>Result_Server\<close> sends when the rows of the result set are known:
  \<open>delivers\<close> says that a source of rows hands out the rows of a list, one after the other; every
  operation of the protocol module then sends the encoding of \<open>Result_Rows\<close> of the rows that were
  asked for.
\<close>

section \<open>What a source hands out\<close>

text \<open>The segments a large object is read in, from an offset on.\<close>

fun lob_segments :: "'s rowsource \<Rightarrow> 's \<Rightarrow> u32 \<Rightarrow> u64 \<Rightarrow> bytes list \<Rightarrow> bool" where
  "lob_segments D s col offset [] =
     (case src_lobSegment D s col offset of None \<Rightarrow> True | Some segment \<Rightarrow> snd segment = 0)"
| "lob_segments D s col offset (d # ds) =
     (case src_lobSegment D s col offset of
        None \<Rightarrow> False
      | Some (buffer, charsread) \<Rightarrow>
          charsread \<noteq> 0 \<and> charsread \<le> lobbuffersize \<and> d = take (unat charsread) buffer \<and>
          length d = unat charsread \<and> lob_segments D s col (offset + charsread) ds)"

fun hands_out :: "'s rowsource \<Rightarrow> 's \<Rightarrow> u32 \<Rightarrow> rowvalue \<Rightarrow> bool" where
  "hands_out D s col V_Null \<longleftrightarrow>
     f_null (src_getField D s col) \<or> f_lob (src_getField D s col) \<and>
       (case src_lobLength D s col of None \<Rightarrow> True | Some n \<Rightarrow> n \<noteq> 0 \<and> lob_segments D s col 0 [])"
| "hands_out D s col (V_Text data) \<longleftrightarrow>
     src_getField D s col = \<lparr>f_data = data, f_lob = False, f_null = False\<rparr>"
| "hands_out D s col (V_Lob n segments) \<longleftrightarrow>
     f_lob (src_getField D s col) \<and> \<not> f_null (src_getField D s col) \<and> src_lobLength D s col = Some n \<and>
     (if n = 0 then segments = [[]] else segments \<noteq> [] \<and> lob_segments D s col 0 segments)"

text \<open>
  The law of a source: \<open>before rows\<close> holds of the states with \<open>rows\<close> yet to come, \<open>reading row rows\<close>
  of those where \<open>row\<close> is being read. The rows end with the end of the result set, or with a
  \<open>failure\<close>.
\<close>

definition delivers ::
  "'s rowsource \<Rightarrow> servererror option \<Rightarrow> (rowvalue list list \<Rightarrow> 's \<Rightarrow> bool) \<Rightarrow>
     (rowvalue list \<Rightarrow> rowvalue list list \<Rightarrow> 's \<Rightarrow> bool) \<Rightarrow> bool"
where
  "delivers D failure before reading \<longleftrightarrow>
     (\<forall>rows s. before rows s \<longrightarrow> \<not> src_noRowsToReturn D s) \<and>
     (\<forall>s. before [] s \<longrightarrow> (\<exists>s'. src_fetchRow D s = (False, failure \<noteq> None, s') \<and> before [] s' \<and>
        (\<forall>e. failure = Some e \<longrightarrow> src_getError D s' = e))) \<and>
     (\<forall>s. before [] s \<longrightarrow> (\<exists>e s'. src_skipRow D s = (False, e, s') \<and> before [] s')) \<and>
     (\<forall>row rows s. before (row # rows) s \<longrightarrow> (\<exists>e s'. src_fetchRow D s = (True, e, s') \<and> reading row rows s')) \<and>
     (\<forall>row rows s. before (row # rows) s \<longrightarrow> (\<exists>e s'. src_skipRow D s = (True, e, s') \<and> before rows s')) \<and>
     (\<forall>row rows s. reading row rows s \<longrightarrow>
        unat (src_colCount D s) = length row \<and> before rows (src_nextRow D s) \<and>
        (\<forall>i<length row. hands_out D s (of_nat i) (row ! i) \<and> reading row rows (src_closeLob D s (of_nat i))))"

lemma deliversD:
  assumes "delivers D failure before reading"
  shows delivers_some: "before rows s \<Longrightarrow> \<not> src_noRowsToReturn D s"
    and delivers_end: "before [] s \<Longrightarrow> \<exists>s'. src_fetchRow D s = (False, failure \<noteq> None, s') \<and>
      before [] s' \<and> (\<forall>e. failure = Some e \<longrightarrow> src_getError D s' = e)"
    and delivers_skip_end: "before [] s \<Longrightarrow> \<exists>e s'. src_skipRow D s = (False, e, s') \<and> before [] s'"
    and delivers_fetch: "before (row # rows) s \<Longrightarrow> \<exists>e s'. src_fetchRow D s = (True, e, s') \<and> reading row rows s'"
    and delivers_skip: "before (row # rows) s \<Longrightarrow> \<exists>e s'. src_skipRow D s = (True, e, s') \<and> before rows s'"
    and delivers_cols: "reading row rows s \<Longrightarrow> unat (src_colCount D s) = length row"
    and delivers_next: "reading row rows s \<Longrightarrow> before rows (src_nextRow D s)"
    and delivers_field: "reading row rows s \<Longrightarrow> i < length row \<Longrightarrow> hands_out D s (of_nat i) (row ! i)"
    and delivers_close: "reading row rows s \<Longrightarrow> i < length row \<Longrightarrow> reading row rows (src_closeLob D s (of_nat i))"
  using assms unfolding delivers_def by blast+

section \<open>Large objects\<close>

lemma unat_buffersize: "n \<le> lobbuffersize \<Longrightarrow> unat n < 2 ^ 31" "n \<le> lobbuffersize \<Longrightarrow> unat (ucast n :: u32) = unat n"
proof -
  show small: "unat n < 2 ^ 31" if "n \<le> lobbuffersize" using that by (simp add: word_le_nat_alt)
  show "unat (ucast n :: u32) = unat n" if "n \<le> lobbuffersize"
    using small [OF that] by (simp add: unsigned_ucast_eq take_bit_nat_eq_self)
qed

lemma lobLoop_end:
  "lob_segments D s col offset [] \<Longrightarrow>
     lobLoop C D s col n offset start out = Some (out @ (if start then sendNullField C else endSendingLong C))"
  by (subst lobLoop.simps) (auto simp: Let_def split: option.splits)

lemma lobLoop_segment:
  assumes "lob_segments D s col offset (d # ds)"
  shows "\<exists>k. lob_segments D s col (offset + k) ds \<and>
    lobLoop C D s col n offset start out = lobLoop C D s col n (offset + k) False
      (out @ (if start then startSendingLong C n else []) @ sendLongSegment C d (of_nat (length d)))"
proof -
  obtain buffer k where k: "src_lobSegment D s col offset = Some (buffer, k)" "k \<noteq> 0" "k \<le> lobbuffersize"
    "d = take (unat k) buffer" "length d = unat k" "lob_segments D s col (offset + k) ds"
    using assms by (auto split: option.splits)
  have "sendLongSegment C buffer (ucast k) = sendLongSegment C d (of_nat (length d))"
    using k(4,5) unat_buffersize [OF k(3)] by (simp add: sendLongSegment_def unat_u32 unat_inj)
  moreover have "lobLoop C D s col n offset start out = lobLoop C D s col n (offset + k) False
      ((out @ (if start then startSendingLong C n else [])) @ sendLongSegment C buffer (ucast k))"
    using k(1-3) by (subst lobLoop.simps) (simp add: Let_def leD)
  ultimately show ?thesis using k(6) by auto
qed

lemma lobLoop_segments:
  "lob_segments D s col offset ds \<Longrightarrow>
     lobLoop C D s col n offset False out =
     Some (out @ concat (map (\<lambda>d. sendLongSegment C d (of_nat (length d))) ds) @ endSendingLong C)"
proof (induction ds arbitrary: offset out)
  case (Cons d ds)
  obtain k where k: "lob_segments D s col (offset + k) ds"
    "lobLoop C D s col n offset False out =
       lobLoop C D s col n (offset + k) False (out @ sendLongSegment C d (of_nat (length d)))"
    using lobLoop_segment [OF Cons.prems, of C n False out] by auto
  then show ?case using Cons.IH by simp
qed (simp add: lobLoop_end)

lemma lobLoop_value:
  assumes "lob_segments D s col 0 segments"
  shows "lobLoop C D s col n 0 True [] =
    Some (if segments = [] then sendNullField C else enc_value C (V_Lob n segments))"
proof (cases segments)
  case (Cons d ds)
  then show ?thesis
    using lobLoop_segment [of D s col 0 d ds C n True "[]"] lobLoop_segments [of D s col _ ds C n] assms
    by auto
qed (use assms in \<open>simp add: lobLoop_end\<close>)

section \<open>A row\<close>

definition sendValue :: "sockcodec \<Rightarrow> 's rowsource \<Rightarrow> u32 \<Rightarrow> 's \<Rightarrow> (bytes \<times> 's) option" where
  "sendValue C D col s =
     (let field = src_getField D s col
      in if f_null field then Some (sendNullField C, s)
         else if f_lob field then sendLobField C D col s
         else Some (sendField C (f_data field), s))"

lemma sendFields_Suc:
  "sendFields C D (Suc n) i s =
     Option.bind (sendValue C D (of_nat i) s)
       (\<lambda>(out, s). map_option (\<lambda>(outs, s). (out @ outs, s)) (sendFields C D n (Suc i) s))"
  by (simp add: sendValue_def Let_def)

lemma sendLobField_null:
  assumes "case src_lobLength D s col of None \<Rightarrow> True | Some n \<Rightarrow> n \<noteq> 0 \<and> lob_segments D s col 0 []"
  shows "sendLobField C D col s = Some (sendNullField C, src_closeLob D s col)"
  using assms lobLoop_value [of D s col "[]" C] by (auto simp: sendLobField_def split: option.split_asm)

lemma sendLobField_value:
  assumes "src_lobLength D s col = Some n"
    and "if n = 0 then segments = [[]] else segments \<noteq> [] \<and> lob_segments D s col 0 segments"
  shows "sendLobField C D col s = Some (enc_value C (V_Lob n segments), src_closeLob D s col)"
proof (cases "n = 0")
  case False
  then show ?thesis
    using assms lobLoop_value [of D s col segments C n] by (simp add: sendLobField_def del: enc_value.simps)
qed (use assms in \<open>simp add: sendLobField_def\<close>)

lemma sendValue_value:
  assumes "hands_out D s col v"
  shows "\<exists>s'. sendValue C D col s = Some (enc_value C v, s') \<and> (s' = s \<or> s' = src_closeLob D s col)"
proof (cases v)
  case V_Null
  then show ?thesis
    using assms sendLobField_null [of D s col C]
    by (cases "f_null (src_getField D s col)") (simp_all add: sendValue_def)
next
  case (V_Text data)
  then show ?thesis using assms by (simp add: sendValue_def)
next
  case (V_Lob n segments)
  then show ?thesis
    using assms sendLobField_value [of D s col n segments C] by (simp add: sendValue_def del: enc_value.simps)
qed

lemma sendFields_values:
  assumes "delivers D failure before reading"
  shows "reading (sent @ rest) rows s \<Longrightarrow>
    \<exists>s'. sendFields C D (length rest) (length sent) s = Some (enc_row C rest, s') \<and> reading (sent @ rest) rows s'"
proof (induction rest arbitrary: sent s)
  case (Cons v rest)
  obtain t where t: "sendValue C D (of_nat (length sent)) s = Some (enc_value C v, t)"
    "t = s \<or> t = src_closeLob D s (of_nat (length sent))"
    using sendValue_value [OF delivers_field [OF assms Cons.prems, of "length sent"]] by auto
  have "reading ((sent @ [v]) @ rest) rows t"
    using t(2) Cons.prems delivers_close [OF assms Cons.prems, of "length sent"] by auto
  from Cons.IH [OF this] obtain s' where
    "sendFields C D (length rest) (Suc (length sent)) t = Some (enc_row C rest, s')" "reading (sent @ v # rest) rows s'"
    by auto
  then show ?case
    using t(1) by (simp add: sendFields_Suc enc_row_def del: sendFields.simps)
qed (simp add: enc_row_def)

lemma returnRow_values:
  assumes "delivers D failure before reading" and "reading row rows s"
  shows "\<exists>s'. returnRow C D s = Some (enc_row C row, s') \<and> reading row rows s'"
  using sendFields_values [OF assms(1), of "[]" row rows s C] assms(2) delivers_cols [OF assms]
  by (simp add: returnRow_def)

section \<open>Rows\<close>

text \<open>What follows the last row.\<close>

definition fetchError :: "sockcodec \<Rightarrow> u16 \<Rightarrow> servererror \<Rightarrow> bytes" where
  "fetchError C version e =
     put16 C FETCH_ERROR @ put16 C (if \<not> err_live e then ERROR_OCCURRED_DISCONNECT else ERROR_OCCURRED) @
     put64 C (err_number e) @ put16 C (of_nat (length (err_string e))) @ err_string e @
     sendSqlState C version (err_sqlstate e)"

lemma returnFetchError_error: "returnFetchError C D version s = fetchError C version (src_getError D s)"
  by (simp add: returnFetchError_def fetchError_def Let_def)

definition ending :: "sockcodec \<Rightarrow> u16 \<Rightarrow> servererror option \<Rightarrow> bytes" where
  "ending C version failure =
     (case failure of
        Some e \<Rightarrow> if 2 \<le> version then fetchError C version e else put16 C (endresultset version)
      | None \<Rightarrow> put16 C (endresultset version))"

lemma rowLoop_done: "fetch cs \<noteq> 0 \<Longrightarrow> \<not> i < fetch cs \<Longrightarrow> rowLoop C D cs i s out = Some (out, s)"
  by (subst rowLoop.simps) simp

lemma rowLoop_end:
  assumes "delivers D failure before reading" and "before [] s" and "fetch cs = 0 \<or> i < fetch cs"
  shows "\<exists>s'. rowLoop C D cs i s out = Some (out @ ending C (protocolversion cs) failure, s') \<and> before [] s'"
proof -
  obtain t where t: "src_fetchRow D s = (False, failure \<noteq> None, t)" "before [] t"
    "\<And>e. failure = Some e \<Longrightarrow> src_getError D t = e"
    using delivers_end [OF assms(1,2)] by blast
  have "rowLoop C D cs i s out = Some (out @ ending C (protocolversion cs) failure, t)"
    using t(1,3) assms(3)
    by (cases failure; subst rowLoop.simps) (auto simp: ending_def returnFetchError_error Let_def)
  then show ?thesis using t(2) by blast
qed

lemma rowLoop_row:
  assumes "delivers D failure before reading" and "before (row # rows) s" and "fetch cs = 0 \<or> i < fetch cs"
  shows "\<exists>s'. rowLoop C D cs i s out = rowLoop C D cs (i + 1) s' (out @ enc_row C row) \<and> before rows s'"
proof -
  obtain e t where t: "src_fetchRow D s = (True, e, t)" "reading row rows t"
    using delivers_fetch [OF assms(1,2)] by blast
  obtain t' where t': "returnRow C D t = Some (enc_row C row, t')" "reading row rows t'"
    using returnRow_values [OF assms(1) t(2)] by blast
  show ?thesis
    using t t' assms(3) delivers_next [OF assms(1) t'(2)]
    by (intro exI [of _ "src_nextRow D t'"]) (subst rowLoop.simps, auto simp: Let_def)
qed

lemma rowLoop_all:
  assumes "delivers D failure before reading" and "fetch cs = 0"
  shows "before rows s \<Longrightarrow> \<exists>s'. rowLoop C D cs i s out =
    Some (out @ concat (map (enc_row C) rows) @ ending C (protocolversion cs) failure, s') \<and> before [] s'"
proof (induction rows arbitrary: s i out)
  case Nil
  then show ?case using rowLoop_end [OF assms(1)] assms(2) by simp
next
  case (Cons row rows)
  obtain t where "rowLoop C D cs i s out = rowLoop C D cs (i + 1) t (out @ enc_row C row)" "before rows t"
    using rowLoop_row [OF assms(1) Cons.prems] assms(2) by blast
  then show ?case using Cons.IH [of t "i + 1" "out @ enc_row C row"] by simp
qed

lemma rowLoop_some:
  assumes "delivers D failure before reading" and "fetch cs \<noteq> 0"
  shows "before rows s \<Longrightarrow> unat i \<le> unat (fetch cs) \<Longrightarrow> n = unat (fetch cs) - unat i \<Longrightarrow>
    \<exists>s'. rowLoop C D cs i s out =
      Some (out @ concat (map (enc_row C) (take n rows)) @
            (if length rows < n then ending C (protocolversion cs) failure else []), s') \<and>
      before (drop n rows) s'"
proof (induction rows arbitrary: s i out n)
  case Nil
  then show ?case
    using rowLoop_end [OF assms(1), of s cs i C out] rowLoop_done [OF assms(2), of i C D s out]
    by (cases "i < fetch cs") (auto simp: word_less_nat_alt)
next
  case (Cons row rows)
  show ?case
  proof (cases "i < fetch cs")
    case True
    obtain t where t: "rowLoop C D cs i s out = rowLoop C D cs (i + 1) t (out @ enc_row C row)" "before rows t"
      using rowLoop_row [OF assms(1) Cons.prems(1)] True by blast
    have less: "unat i < unat (fetch cs)" using True by (simp add: word_less_nat_alt)
    then have "unat (i + 1) = Suc (unat i)"
      using unat_less_pow [of "fetch cs"] by (simp add: unat_word_ariths)
    moreover obtain m where m: "n = Suc m" "unat (fetch cs) - Suc (unat i) = m"
      using Cons.prems(3) less by (metis Suc_diff_Suc)
    ultimately show ?thesis
      using Cons.IH [OF t(2), of "i + 1" m "out @ enc_row C row"] t(1) less by auto
  next
    case False
    then show ?thesis
      using rowLoop_done [OF assms(2) False, of C D s out] Cons.prems by (auto simp: word_less_nat_alt)
  qed
qed

section \<open>Blocks\<close>

lemma skipRows_source:
  assumes "delivers D failure before reading"
  shows "before rows s \<Longrightarrow> \<exists>s'. skipLoop D n False s = (n \<le> length rows, False, s') \<and> before (drop n rows) s'"
proof (induction n arbitrary: rows s)
  case (Suc n)
  show ?case
  proof (cases rows)
    case Nil
    then show ?thesis using delivers_skip_end [OF assms] Suc.prems by fastforce
  next
    case (Cons row rest)
    then obtain e t where "src_skipRow D s = (True, e, t)" "before rest t"
      using delivers_skip [OF assms] Suc.prems by blast
    then show ?thesis using Suc.IH [of rest t] Cons by simp
  qed
qed simp

text \<open>
  What an answer holds: the rows asked for, and how the result set ended when they ran out. Rows
  that run out while they are skipped end the result set, whatever the reason.
\<close>

definition answer :: "sockcodec \<Rightarrow> sessionstate \<Rightarrow> servererror option \<Rightarrow> rowvalue list list \<Rightarrow> bytes" where
  "answer C cs failure rows =
     (let rest = drop (unat (skip cs)) rows;
          asked = (if fetch cs = 0 then rest else take (unat (fetch cs)) rest)
      in concat (map (enc_row C) asked) @
         (if length rows < unat (skip cs) then put16 C (endresultset (protocolversion cs))
          else if fetch cs = 0 \<or> length rows < unat (skip cs) + unat (fetch cs)
          then ending C (protocolversion cs) failure else []))"

definition rows_left :: "sessionstate \<Rightarrow> 'a list \<Rightarrow> 'a list" where
  "rows_left cs rows = (if fetch cs = 0 then [] else drop (unat (skip cs) + unat (fetch cs)) rows)"

lemma sendBlock_answer:
  assumes "delivers D failure before reading" and "before rows s"
  shows "\<exists>s'. sendBlock C D cs s = Some (answer C cs failure rows, s') \<and> before (rows_left cs rows) s'"
proof -
  obtain t where t: "skipLoop D (unat (skip cs)) False s = (unat (skip cs) \<le> length rows, False, t)"
    "before (drop (unat (skip cs)) rows) t"
    using skipRows_source [OF assms] by blast
  note unfold = sendBlock_def Result_Server.skipRows_def answer_def rows_left_def Let_def
  show ?thesis
  proof (cases "unat (skip cs) \<le> length rows")
    case False
    then show ?thesis
      using t delivers_some [OF assms] by (auto simp: unfold)
  next
    case skipped: True
    show ?thesis
    proof (cases "fetch cs = 0")
      case True
      then show ?thesis
        using t skipped delivers_some [OF assms] rowLoop_all [OF assms(1) True t(2), of C 0 "[]"] by (simp add: unfold)
    next
      case False
      then show ?thesis
        using t skipped delivers_some [OF assms]
          rowLoop_some [OF assms(1) False t(2), of 0 "unat (fetch cs)" C "[]"]
        by (auto simp: unfold add.commute)
    qed
  qed
qed

section \<open>Rows from a list\<close>

text \<open>A source that reads its rows, without large objects, from a list.\<close>

definition list_source :: "u32 \<Rightarrow> servererror option \<Rightarrow> (rowvalue list list \<times> rowvalue list) rowsource" where
  "list_source n failure =
     \<lparr>src_colCount = \<lambda>s. n,
      src_noRowsToReturn = \<lambda>s. False,
      src_skipRow = \<lambda>s. (fst s \<noteq> [], False, tl (fst s), []),
      src_fetchRow = \<lambda>s. if fst s = [] then (False, failure \<noteq> None, s) else (True, False, tl (fst s), hd (fst s)),
      src_nextRow = \<lambda>s. s,
      src_getField = \<lambda>s i. (case snd s ! unat i of
         V_Text data \<Rightarrow> \<lparr>f_data = data, f_lob = False, f_null = False\<rparr>
       | _ \<Rightarrow> \<lparr>f_data = [], f_lob = False, f_null = True\<rparr>),
      src_lobLength = \<lambda>s i. None,
      src_lobSegment = \<lambda>s i offset. None,
      src_closeLob = \<lambda>s i. s,
      src_getError = \<lambda>s. (case failure of Some e \<Rightarrow> e
       | None \<Rightarrow> \<lparr>err_number = 0, err_string = [], err_live = True, err_sqlstate = []\<rparr>)\<rparr>"

definition plain_row :: "u32 \<Rightarrow> rowvalue list \<Rightarrow> bool" where
  "plain_row n row \<longleftrightarrow> length row = unat n \<and> list_all (\<lambda>v. case v of V_Lob k segments \<Rightarrow> False | _ \<Rightarrow> True) row"

lemma list_source_delivers:
  "delivers (list_source n failure) failure (\<lambda>rows s. fst s = rows \<and> list_all (plain_row n) rows)
     (\<lambda>row rows s. s = (rows, row) \<and> list_all (plain_row n) (row # rows))"
proof -
  have "hands_out (list_source n failure) (rows, row) (of_nat i) (row ! i)" if "plain_row n row" "i < length row" for rows row i
  proof -
    have "unat (of_nat i :: u32) = i"
      using that unat_less_pow [of n] by (intro unat_u32) (simp add: plain_row_def)
    moreover have "case row ! i of V_Lob k segments \<Rightarrow> False | _ \<Rightarrow> True"
      using that by (simp add: plain_row_def list_all_length)
    ultimately show ?thesis by (cases "row ! i") (simp_all add: list_source_def)
  qed
  then show ?thesis
    by (auto simp: delivers_def) (auto simp: list_source_def plain_row_def)
qed

end
