(* ===== verification/Result_Session.thy ===== *)
theory Result_Session
  imports Result_Source
begin

text \<open>
  The client and the server together: a request for a field of a row, the exchange it may need, and
  the invariant that the two sides keep between requests. \<open>sync\<close> says where the client is in the
  result set, which rows it holds, and that the server is where the client believes it is;
  \<open>getField\<close> implements a look-up in the list of rows.
\<close>

section \<open>The command\<close>

text \<open>
  The server's loop over commands (\<open>sqlrprotocol_sqlrclient::clientSession\<close>) for a request to fetch
  rows of the cursor with the given identifier; \<open>None\<close> for any other command or cursor, and for a
  request that is cut off.
\<close>

definition serveFetch ::
  "sockcodec \<Rightarrow> 's rowsource \<Rightarrow> u16 \<Rightarrow> bytes \<Rightarrow> sessionstate \<times> 's \<Rightarrow> (bytes \<times> sessionstate \<times> 's) option" where
  "serveFetch C D ident request st =
     Option.bind (get16 C request) (\<lambda>(command, request).
       if command = FETCH_RESULT_SET then
         Option.bind (get16 C request) (\<lambda>(cursor, request).
           if cursor = ident then
             Option.bind (fetchResultSetCommand C D request (fst st) (snd st))
               (\<lambda>(loop, out, cs, s). if loop then Some (out, cs, s) else None)
           else None)
       else None)"

lemma serveFetch_answer:
  assumes "sock_ok C" and "delivers D failure before reading" and "before rows s"
  shows "\<exists>s'. serveFetch C D ident (put16 C FETCH_RESULT_SET @ put16 C ident @ put64 C k @ put64 C f) (cs, s) =
      Some (answer C (cs\<lparr>skip := k, fetch := f\<rparr>) failure rows, cs\<lparr>skip := k, fetch := f\<rparr>, s') \<and>
    before (rows_left (cs\<lparr>skip := k, fetch := f\<rparr>) rows) s'"
proof -
  have "get64 C (put64 C f) = Some (f, [])" using sock_okD(3) [OF assms(1), of f "[]"] by simp
  then show ?thesis
    using sendBlock_answer [OF assms(2,3), of C "cs\<lparr>skip := k, fetch := f\<rparr>"]
    by (auto simp: serveFetch_def fetchResultSetCommand_def returnResultSetData_def getSkipAndFetch_def
        sock_okD [OF assms(1)])
qed

section \<open>The two sides in step\<close>

definition rows_between :: "nat \<Rightarrow> nat \<Rightarrow> 'a list \<Rightarrow> 'a list" where
  "rows_between q p rows = take (p - q) (drop q rows)"

definition holds_rows :: "rowvalue list list \<Rightarrow> clientst \<Rightarrow> bool" where
  "holds_rows rows cl \<longleftrightarrow> firstrowindex cl \<le> rowcount cl \<and>
     block cl = map (client_row (returnnulls cl))
       (rows_between (unat (firstrowindex cl)) (unat (rowcount cl)) rows)"

definition sync :: "(rowvalue list list \<Rightarrow> 's \<Rightarrow> bool) \<Rightarrow> rowvalue list list \<Rightarrow> clientst \<Rightarrow> 's \<Rightarrow> bool" where
  "sync before rows cl s \<longleftrightarrow>
     list_all (row_ok cl) rows \<and> length rows < 2 ^ 64 \<and> resumedlastrowindex cl = 0 \<and> \<not> cachedest cl \<and>
     holds_rows rows cl \<and>
     (if endofresultset cl
      then unat (rowcount cl) = length rows \<or> length rows < unat (rowcount cl) \<and> firstrowindex cl = rowcount cl
      else connected cl \<and> unat (rowcount cl) \<le> length rows \<and>
           unat (rsbuffersize cl) dvd unat (rowcount cl) \<and> before (drop (unat (rowcount cl)) rows) s)"

text \<open>The client of a fresh result set.\<close>

definition fresh :: "clientst \<Rightarrow> bool" where
  "fresh cl \<longleftrightarrow> rowcount cl = 0 \<and> firstrowindex cl = 0 \<and> resumedlastrowindex cl = 0 \<and> block cl = [] \<and>
     \<not> cachedest cl \<and> connected cl \<and> \<not> endofresultset cl"

lemma sync_fresh:
  "fresh cl \<Longrightarrow> list_all (row_ok cl) rows \<Longrightarrow> length rows < 2 ^ 64 \<Longrightarrow> before rows s \<Longrightarrow> sync before rows cl s"
  by (simp add: sync_def fresh_def holds_rows_def rows_between_def)

lemma sync_field:
  assumes "sync before rows cl s" and "firstrowindex cl \<le> row" and "row < rowcount cl" and "col < colcount cl"
  shows "unat row < length rows \<and> unat (row - firstrowindex cl) < length (block cl) \<and>
    unat col < length (block cl ! unat (row - firstrowindex cl)) \<and>
    block cl ! unat (row - firstrowindex cl) ! unat col =
      client_value (returnnulls cl) (rows ! unat row ! unat col)"
proof -
  note le = assms(2,3) [unfolded word_le_nat_alt word_less_nat_alt]
  have bound: "unat (rowcount cl) \<le> length rows" using assms(1-3) by (auto simp: sync_def split: if_splits)
  have idx: "unat (row - firstrowindex cl) = unat row - unat (firstrowindex cl)"
    using assms(2) by (simp add: unat_sub)
  have less: "unat row < length rows" using le bound by simp
  then have "length (rows ! unat row) = unat (colcount cl)"
    using assms(1) by (auto simp: sync_def list_all_iff row_ok_def)
  moreover have "unat col < unat (colcount cl)" using assms(4) by (simp add: word_less_nat_alt)
  moreover have "block cl ! unat (row - firstrowindex cl) = client_row (returnnulls cl) (rows ! unat row)"
    using assms(1) le bound idx by (simp add: sync_def holds_rows_def rows_between_def)
  moreover have "unat (row - firstrowindex cl) < length (block cl)"
    using assms(1) le bound idx by (simp add: sync_def holds_rows_def rows_between_def)
  ultimately show ?thesis using less by (simp add: client_row_def)
qed

section \<open>One exchange\<close>

text \<open>Where the block with a row begins.\<close>

definition block_of :: "clientst \<Rightarrow> u64 \<Rightarrow> u64" where
  "block_of cl row = (if rsbuffersize cl = 0 then 0 else row - row mod rsbuffersize cl)"

lemma unat_block_of:
  "unat (block_of cl row) = (if rsbuffersize cl = 0 then 0 else unat row - unat row mod unat (rsbuffersize cl))"
proof -
  have "row mod rsbuffersize cl \<le> row" by (simp add: word_le_nat_alt unat_mod)
  then show ?thesis by (simp add: block_of_def unat_sub unat_mod)
qed

lemma block_of_row:
  "unat (block_of cl row) \<le> unat row"
  "rsbuffersize cl \<noteq> 0 \<Longrightarrow> unat row < unat (block_of cl row) + unat (rsbuffersize cl)"
  "unat (rsbuffersize cl) dvd unat (block_of cl row)"
proof -
  show "unat (block_of cl row) \<le> unat row" by (simp add: unat_block_of)
  show "unat row < unat (block_of cl row) + unat (rsbuffersize cl)" if "rsbuffersize cl \<noteq> 0"
  proof -
    have "unat row mod unat (rsbuffersize cl) < unat (rsbuffersize cl)" using that by (simp add: unat_gt_0)
    then show ?thesis using that by (simp add: unat_block_of)
  qed
  show "unat (rsbuffersize cl) dvd unat (block_of cl row)" by (simp add: unat_block_of dvd_minus_mod)
qed

lemma block_of_later:
  assumes "unat (rsbuffersize cl) dvd unat (rowcount cl)" and "rowcount cl \<le> row"
  shows "unat (rowcount cl) \<le> unat (block_of cl row)"
proof (cases "rsbuffersize cl = 0")
  case False
  obtain k where k: "unat (rowcount cl) = unat (rsbuffersize cl) * k" using assms(1) by blast
  have "k \<le> unat row div unat (rsbuffersize cl)"
    using assms(2) False k by (simp add: word_le_nat_alt less_eq_div_iff_mult_less_eq unat_gt_0 mult.commute)
  then have "unat (rowcount cl) \<le> unat (rsbuffersize cl) * (unat row div unat (rsbuffersize cl))"
    using k by simp
  then show ?thesis using False by (simp add: unat_block_of minus_mod_eq_mult_div)
qed (use assms(1) in \<open>simp add: unat_block_of\<close>)

lemma rowsToSkip_block:
  assumes "\<not> cachedest cl" and "unat (rsbuffersize cl) dvd unat (rowcount cl)" and "rowcount cl \<le> row"
  shows "rowcount cl + rowsToSkip cl row = block_of cl row"
    and "unat (rowsToSkip cl row) = unat (block_of cl row) - unat (rowcount cl)"
proof -
  show eq: "rowcount cl + rowsToSkip cl row = block_of cl row"
    using assms(1,2) unat_eq_zero [of "rowcount cl"] by (auto simp: rowsToSkip_def block_of_def)
  then have "rowsToSkip cl row = block_of cl row - rowcount cl" by (metis add_diff_cancel_left')
  moreover have "rowcount cl \<le> block_of cl row"
    using block_of_later [OF assms(2,3)] by (simp add: word_le_nat_alt)
  ultimately show "unat (rowsToSkip cl row) = unat (block_of cl row) - unat (rowcount cl)"
    by (simp add: unat_sub)
qed

lemma answer_rows:
  assumes "protocolversion cs \<noteq> 1" and "unat k = n - m" and "m \<le> n" and "f = 0 \<Longrightarrow> n = 0"
  shows "answer C (cs\<lparr>skip := k, fetch := f\<rparr>) None (drop m rows) =
      (if f \<noteq> 0 \<and> n + unat f \<le> length rows then concat (map (enc_row C) (take (unat f) (drop n rows)))
       else concat (map (enc_row C) (drop n rows)) @ put16 C END_RESULT_SET)"
    and "rows_left (cs\<lparr>skip := k, fetch := f\<rparr>) (drop m rows) = (if f = 0 then [] else drop (n + unat f) rows)"
  using assms unat_gt_0 [of f] by (auto simp: answer_def ending_def rows_left_def endresultset_def Let_def)

text \<open>What a request leaves alone.\<close>

definition same_result :: "clientst \<Rightarrow> clientst \<Rightarrow> bool" where
  "same_result cl cl' \<longleftrightarrow> cursorid cl' = cursorid cl \<and> rsbuffersize cl' = rsbuffersize cl \<and>
     resumedlastrowindex cl' = resumedlastrowindex cl \<and> colcount cl' = colcount cl \<and>
     returnnulls cl' = returnnulls cl \<and> cachedest cl' = cachedest cl \<and> connected cl' = connected cl \<and>
     sentcolumninfo cl' = sentcolumninfo cl \<and> errorno cl' = errorno cl \<and> clienterror cl' = clienterror cl \<and>
     sqlstate cl' = sqlstate cl"

lemma same_result_refl [simp]: "same_result cl cl"
  by (simp add: same_result_def)

lemma same_result_trans: "same_result a b \<Longrightarrow> same_result b c \<Longrightarrow> same_result a c"
  by (simp add: same_result_def)

lemma same_result_row_ok: "same_result cl cl' \<Longrightarrow> row_ok cl' = row_ok cl"
  by (simp add: same_result_def row_ok_def fun_eq_iff)

lemma has_block_same:
  "has_block (cl\<lparr>block := [], rowcount := n\<rparr>) rows cl' \<Longrightarrow> same_result cl cl'"
  by (simp add: has_block_def kept_def same_result_def)

text \<open>The client once it has sent its request for the block at \<open>n\<close>, and the answer it gets.\<close>

lemma block_received:
  assumes "sock_ok C" and "sync before rows cl s" and "\<not> endofresultset cl" and "rsbuffersize cl = 0 \<Longrightarrow> n = 0"
    and "bs = (if rsbuffersize cl \<noteq> 0 \<and> unat n + unat (rsbuffersize cl) \<le> length rows
      then concat (map (enc_row C) (take (unat (rsbuffersize cl)) (drop (unat n) rows)))
      else concat (map (enc_row C) (drop (unat n) rows)) @ put16 C END_RESULT_SET)"
  shows "\<exists>cl'. parseResults C (cl\<lparr>block := [], rowcount := n\<rparr>) bs = Some (Some (True, cl', [])) \<and>
    same_result cl cl' \<and> firstrowindex cl' = n \<and> holds_rows rows cl' \<and>
    (if rsbuffersize cl \<noteq> 0 \<and> unat n + unat (rsbuffersize cl) \<le> length rows
     then \<not> endofresultset cl' \<and> unat (rowcount cl') = unat n + unat (rsbuffersize cl)
     else endofresultset cl' \<and> unat (rowcount cl') = max (unat n) (length rows))"
proof -
  let ?cl = "cl\<lparr>block := [], rowcount := n\<rparr>"
  let ?b = "unat (rsbuffersize cl)"
  have start: "block_start ?cl = n" using assms(2) by (simp add: block_start_def sync_def)
  have ok: "list_all (row_ok ?cl) rows" and small: "length rows < 2 ^ 64"
    using assms(2) by (simp_all add: sync_def row_ok_def list_all_iff)
  have held: "holds_rows rows cl' \<and> unat (rowcount cl') = unat n + m \<and> firstrowindex cl' = n"
    if "has_block ?cl (take m (drop (unat n) rows)) cl'" and "m \<le> length rows - unat n" for cl' m
  proof -
    have "rowcount cl' = n + of_nat m" "firstrowindex cl' = n" "returnnulls cl' = returnnulls cl"
      "block cl' = map (client_row (returnnulls cl)) (take m (drop (unat n) rows))"
      using that by (simp_all add: has_block_def kept_def start)
    moreover have "unat (n + of_nat m) = unat n + m"
    proof -
      have "unat n + m < 2 ^ 64" using that(2) small unat_less_pow [of n] by (cases "m = 0") auto
      then show ?thesis using unat_u64 [of m] by (simp add: unat_word_ariths)
    qed
    ultimately show ?thesis by (simp add: holds_rows_def rows_between_def word_le_nat_alt)
  qed
  show ?thesis
  proof (cases "rsbuffersize cl \<noteq> 0 \<and> unat n + ?b \<le> length rows")
    case True
    let ?rows = "take ?b (drop (unat n) rows)"
    have "length ?rows = ?b" "list_all (row_ok ?cl) ?rows"
      using True ok by (auto simp: list_all_iff dest: in_set_takeD in_set_dropD)
    then obtain cl' where "parseResults C ?cl bs = Some (Some (True, cl', []))" "has_block ?cl ?rows cl'"
      "\<not> endofresultset cl'"
      using full_block_parsed [OF assms(1), of ?cl ?rows "[]"] assms(3,5) True by auto
    then show ?thesis using held [of ?b cl'] has_block_same True by auto
  next
    case False
    let ?rows = "take (length rows - unat n) (drop (unat n) rows)"
    have rows: "?rows = drop (unat n) rows" by simp
    have "length ?rows < 2 ^ 64" "list_all (row_ok ?cl) ?rows" "rsbuffersize ?cl \<noteq> 0 \<Longrightarrow> length ?rows < unat (rsbuffersize ?cl)"
      using False ok small unat_gt_0 [of "rsbuffersize cl"]
      by (auto simp: list_all_iff dest: in_set_takeD in_set_dropD)
    then obtain cl' where "parseResults C ?cl bs = Some (Some (True, cl', []))" "has_block ?cl ?rows cl'"
      "endofresultset cl'"
      using last_block_parsed [OF assms(1), of ?cl ?rows "[]"] assms(3,5) False unfolding rows by auto
    then show ?thesis using held [of "length rows - unat n" cl'] has_block_same False by (auto simp: max_def)
  qed
qed

lemma exchange:
  assumes "sock_ok C" and "delivers D None before reading" and "protocolversion cs \<noteq> 1"
    and "sync before rows cl s" and "\<not> endofresultset cl" and "rowcount cl \<le> row"
  shows "\<exists>cl' cs' s'. fetchStep C (serveFetch C D (cursorid cl)) row (cl, [], cs, s) =
      Some (Inr (Some (if rowcount cl' \<le> row then None else Some (row - firstrowindex cl'), cl', [], cs', s'))) \<and>
    sync before rows cl' s' \<and> same_result cl cl' \<and> protocolversion cs' = protocolversion cs \<and>
    firstrowindex cl' \<le> row \<and> (rowcount cl' \<le> row \<longrightarrow> length rows \<le> unat row)"
proof -
  let ?b = "rsbuffersize cl"
  let ?n = "block_of cl row"
  let ?m = "unat (rowcount cl)"
  let ?cs = "cs\<lparr>skip := rowsToSkip cl row, fetch := ?b\<rparr>"
  note at = assms(4,5) [unfolded sync_def]
  have skip: "rowcount cl + rowsToSkip cl row = ?n" "unat (rowsToSkip cl row) = unat ?n - ?m" "?m \<le> unat ?n"
    using rowsToSkip_block [of cl row] block_of_later [of cl row] at assms(6) by simp_all
  have zero: "?b = 0 \<Longrightarrow> unat ?n = 0" by (simp add: unat_block_of)
  obtain s' where s': "serveFetch C D (cursorid cl)
      (put16 C FETCH_RESULT_SET @ put16 C (cursorid cl) @ put64 C (rowsToSkip cl row) @ put64 C ?b) (cs, s) =
      Some (answer C ?cs None (drop ?m rows), ?cs, s')" "before (rows_left ?cs (drop ?m rows)) s'"
    using serveFetch_answer [OF assms(1,2), of "drop ?m rows" s "cursorid cl" "rowsToSkip cl row" ?b cs] at by auto
  note sent = answer_rows [OF assms(3) skip(2,3) zero]
  obtain cl' where cl': "parseResults C (cl\<lparr>block := [], rowcount := ?n\<rparr>) (answer C ?cs None (drop ?m rows)) =
      Some (Some (True, cl', []))" "same_result cl cl'" "firstrowindex cl' = ?n" "holds_rows rows cl'"
    and counts: "if ?b \<noteq> 0 \<and> unat ?n + unat ?b \<le> length rows
     then \<not> endofresultset cl' \<and> unat (rowcount cl') = unat ?n + unat ?b
     else endofresultset cl' \<and> unat (rowcount cl') = max (unat ?n) (length rows)"
    using block_received [OF assms(1,4,5), of ?n "answer C ?cs None (drop ?m rows)"] sent(1) by (auto simp: block_of_def)
  note same = cl'(2) [unfolded same_result_def]
  have step: "fetchStep C (serveFetch C D (cursorid cl)) row (cl, [], cs, s) =
      Some (if \<not> endofresultset cl' \<and> rowcount cl' \<le> row then Inl (cl', [], ?cs, s')
            else Inr (Some (if rowcount cl' \<le> row then None
                            else Some (if ?b \<noteq> 0 then row mod ?b else row), cl', [], ?cs, s')))"
    using s'(1) cl'(1) skip(1) same
    by (simp add: fetchStep_def skipAndFetch_def Result_Client.skipRows_def fetchRows_def rowsToSkip_def)
  have idx: "(if ?b \<noteq> 0 then row mod ?b else row) = row - ?n" by (simp add: block_of_def)
  have within: "?b \<noteq> 0 \<Longrightarrow> unat row < unat ?n + unat ?b" "unat ?n \<le> unat row" "unat ?b dvd unat ?n"
    by (simp_all add: block_of_row)
  have rows: "row_ok cl' = row_ok cl" by (rule same_result_row_ok [OF cl'(2)])
  have "sync before rows cl' s'"
    using at cl'(3,4) counts same within(3) s'(2) sent(2) rows
    by (auto simp: sync_def max_def word_unat_eq_iff split: if_splits)
  then show ?thesis
    using step idx cl'(2,3) counts within by (auto simp: word_le_nat_alt max_def split: if_splits)
qed

section \<open>A sample\<close>

abbreviation "sample_rows \<equiv>
  [[V_Text [65], V_Null], [V_Text [66, 67], V_Text []], [V_Null, V_Null], [V_Text [68], V_Text [69]]]"

definition sample_client :: clientst where
  "sample_client = \<lparr>cursorid = 7, rsbuffersize = 2, rowcount = 0, firstrowindex = 0, resumedlastrowindex = 0,
     endofresultset = False, colcount = 2, returnnulls = True, cachedest = False, connected = True,
     sentcolumninfo = SEND_COLUMN_INFO, longdatatype = [False, False], longest = [0, 0], block = [],
     errorno = 0, clienterror = None, sqlstate = []\<rparr>"

abbreviation "sample_session \<equiv> \<lparr>protocolversion = 3, lazyfetch = False, skip = 0, fetch = 0\<rparr>"

lemma sample_ok:
  "fresh sample_client" "list_all (row_ok sample_client) sample_rows" "list_all (plain_row 2) sample_rows"
  "protocolversion sample_session \<noteq> 1"
  by (simp_all add: sample_client_def fresh_def row_ok_def plain_row_def)

end
