(* ===== verification/Result_Access.thy ===== *)
theory Result_Access
  imports Result_Session
begin

text \<open>
  Requests for fields: \<open>getField\<close> of the client, over any number of exchanges with the server, is a
  look-up in the rows that the driver hands out.
\<close>

definition lookup_field :: "bool \<Rightarrow> rowvalue list list \<Rightarrow> u64 \<Rightarrow> u32 \<Rightarrow> clientfield option" where
  "lookup_field nulls rows row col =
     (if unat row < length rows \<and> unat col < length (rows ! unat row)
      then Some (client_value nulls (rows ! unat row ! unat col)) else None)"

lemma colcount_outside:
  assumes "sync before rows cl s" and "colcount cl \<le> col"
  shows "lookup_field nulls rows row col = None"
  using assms by (auto simp: sync_def lookup_field_def list_all_iff row_ok_def word_le_nat_alt)

lemma lookup_inside:
  assumes "sync before rows cl s" and "col < colcount cl" and "unat row < length rows"
  shows "lookup_field nulls rows row col = Some (client_value nulls (rows ! unat row ! unat col))"
proof -
  have "length (rows ! unat row) = unat (colcount cl)"
    using assms(1,3) by (auto simp: sync_def list_all_iff row_ok_def)
  then show ?thesis using assms(2,3) by (simp add: lookup_field_def word_less_nat_alt)
qed

lemma getField_buffered:
  assumes "sync before rows cl s" and "firstrowindex cl \<le> row" and "row < rowcount cl"
  shows "getField C net row col (cl, rest) = Some (Some (lookup_field (returnnulls cl) rows row col, cl, rest))"
proof (cases "colcount cl \<le> col")
  case True
  then show ?thesis using colcount_outside [OF assms(1)] by (simp add: getField_def)
next
  case False
  then have col: "col < colcount cl" by simp
  show ?thesis
    using sync_field [OF assms col] lookup_inside [OF assms(1) col] assms(2,3) False
    by (simp add: getField_def fetchRowIntoBuffer_def Let_def not_le)
qed

lemma getField_none:
  assumes "colcount cl \<le> col \<or> row < firstrowindex cl \<or> rowcount cl \<le> row \<and> endofresultset cl"
    and "firstrowindex cl \<le> rowcount cl"
  shows "getField C net row col (cl, rest) = Some (Some (None, cl, rest))"
  using assms by (auto simp: getField_def fetchRowIntoBuffer_def Let_def not_le)

lemma getField_step:
  assumes "sock_ok C" and "delivers D None before reading" and "protocolversion cs \<noteq> 1" and "sync before rows cl s"
    and "firstrowindex cl \<le> row"
  shows "\<exists>cl' cs' s'. getField C (serveFetch C D (cursorid cl)) row col (cl, [], cs, s) =
      Some (Some (lookup_field (returnnulls cl) rows row col, cl', [], cs', s')) \<and>
    sync before rows cl' s' \<and> same_result cl cl' \<and> protocolversion cs' = protocolversion cs \<and>
    firstrowindex cl' \<le> row"
proof -
  let ?net = "serveFetch C D (cursorid cl)"
  consider (columns) "colcount cl \<le> col" | (buffer) "row < rowcount cl"
    | (finished) "rowcount cl \<le> row" "endofresultset cl"
    | (fetch) "col < colcount cl" "rowcount cl \<le> row" "\<not> endofresultset cl"
    by fastforce
  then show ?thesis
  proof cases
    case columns
    then show ?thesis
      using getField_none [of cl col row C ?net] colcount_outside [OF assms(4)] assms(3-5)
      by (auto simp: sync_def holds_rows_def)
  next
    case buffer
    show ?thesis
      by (intro exI conjI) (rule getField_buffered [OF assms(4,5) buffer], use assms(3-5) in simp_all)
  next
    case finished
    then have "length rows \<le> unat row" using assms(4) by (auto simp: sync_def word_le_nat_alt)
    then have "lookup_field (returnnulls cl) rows row col = None" by (simp add: lookup_field_def)
    then show ?thesis
      using getField_none [of cl col row C ?net] finished assms(3-5) by (auto simp: sync_def holds_rows_def)
  next
    case fetch
    then obtain cl' cs' s' where step: "fetchStep C ?net row (cl, [], cs, s) =
        Some (Inr (Some (if rowcount cl' \<le> row then None else Some (row - firstrowindex cl'), cl', [], cs', s')))"
      and sync': "sync before rows cl' s'" and same: "same_result cl cl'"
      and rest: "protocolversion cs' = protocolversion cs" "firstrowindex cl' \<le> row"
        "rowcount cl' \<le> row \<longrightarrow> length rows \<le> unat row"
      using exchange [OF assms(1-4)] by blast
    have fetched: "fetchRowIntoBuffer C ?net row (cl, [], cs, s) =
        Some (Some (if rowcount cl' \<le> row then None else Some (row - firstrowindex cl'), cl', [], cs', s'))"
      using step fetch assms(4) leD [OF assms(5)] leD [OF fetch(2)]
      by (simp add: fetchRowIntoBuffer_def iterate_Inr Let_def sync_def)
    have cols: "colcount cl' = colcount cl" "returnnulls cl' = returnnulls cl" using same by (simp_all add: same_result_def)
    show ?thesis
    proof (cases "rowcount cl' \<le> row")
      case True
      then have "lookup_field (returnnulls cl) rows row col = None" using rest(3) by (simp add: lookup_field_def)
      then show ?thesis using True fetched fetch sync' same rest by (auto simp: getField_def)
    next
      case False
      then have "row < rowcount cl'" "col < colcount cl'" using fetch cols by simp_all
      note field = sync_field [OF sync' rest(2) this]
      then have "lookup_field (returnnulls cl) rows row col =
          Some (client_value (returnnulls cl) (rows ! unat row ! unat col))"
        using lookup_inside [OF assms(4) fetch(1)] by blast
      then show ?thesis using False fetched fetch sync' same rest field cols by (auto simp: getField_def)
    qed
  qed
qed

lemma getField_any:
  assumes "sock_ok C" and "delivers D None before reading" and "protocolversion cs \<noteq> 1" and "sync before rows cl s"
  shows "\<exists>r cl' cs' s'. getField C (serveFetch C D (cursorid cl)) row col (cl, [], cs, s) =
      Some (Some (r, cl', [], cs', s')) \<and> (r = None \<or> r = lookup_field (returnnulls cl) rows row col) \<and>
    sync before rows cl' s' \<and> same_result cl cl' \<and> protocolversion cs' = protocolversion cs"
proof (cases "firstrowindex cl \<le> row")
  case True
  then show ?thesis using getField_step [OF assms True, of col] by blast
next
  case False
  then have "row < firstrowindex cl" "firstrowindex cl \<le> rowcount cl"
    using assms(4) by (auto simp: sync_def holds_rows_def)
  then show ?thesis
    using getField_none [of cl col row C "serveFetch C D (cursorid cl)" "([], cs, s)"] assms(3,4) by auto
qed

section \<open>Any number of requests\<close>

fun getFields ::
  "sockcodec \<Rightarrow> (bytes \<Rightarrow> 'n \<Rightarrow> (bytes \<times> 'n) option) \<Rightarrow> (u64 \<times> u32) list \<Rightarrow> clientst \<times> bytes \<times> 'n \<Rightarrow>
     (clientfield option list \<times> clientst \<times> bytes \<times> 'n) option option" where
  "getFields C net [] st = Some (Some ([], st))"
| "getFields C net ((row, col) # requests) st =
     Option.bind (getField C net row col st) (\<lambda>r.
       case r of
         None \<Rightarrow> Some None
       | Some (field, st) \<Rightarrow>
           map_option (map_option (\<lambda>(fields, st). (field # fields, st))) (getFields C net requests st))"

text \<open>
  C7: A client that asks for fields in the order of their rows gets each of them, whatever the size
  of its buffer, however rows it skips, and gets no field beyond the last row or column: reading
  the result set through the protocol is looking its rows up. No request waits for ever.
\<close>

theorem fields_read_in_order:
  assumes "sock_ok C" and "delivers D None before reading" and "protocolversion cs \<noteq> 1"
    and "fresh cl" and "list_all (row_ok cl) rows" and "length rows < 2 ^ 64" and "before rows s"
    and "sorted (map fst requests)"
  shows "\<exists>st. getFields C (serveFetch C D (cursorid cl)) requests (cl, [], cs, s) =
    Some (Some (map (\<lambda>(row, col). lookup_field (returnnulls cl) rows row col) requests, st))"
proof -
  have "sync before rows cl s" by (rule sync_fresh) (fact assms)+
  moreover have "\<forall>row\<in>fst ` set requests. firstrowindex cl \<le> row" using assms(4) by (simp add: fresh_def)
  ultimately show ?thesis using assms(3,8)
  proof (induction requests arbitrary: cl cs s)
    case (Cons request requests)
    obtain row col where request: "request = (row, col)" by fastforce
    then have "firstrowindex cl \<le> row" using Cons.prems(2) by simp
    then obtain cl' cs' s' where step: "getField C (serveFetch C D (cursorid cl)) row col (cl, [], cs, s) =
        Some (Some (lookup_field (returnnulls cl) rows row col, cl', [], cs', s'))"
      and after: "sync before rows cl' s'" "same_result cl cl'" "protocolversion cs' = protocolversion cs"
        "firstrowindex cl' \<le> row"
      using getField_step [OF assms(1,2) Cons.prems(3,1)] by blast
    have rest: "\<forall>later\<in>fst ` set requests. firstrowindex cl' \<le> later"
      using Cons.prems(4) after(4) request by auto
    then obtain st where "getFields C (serveFetch C D (cursorid cl')) requests (cl', [], cs', s') =
        Some (Some (map (\<lambda>(row, col). lookup_field (returnnulls cl') rows row col) requests, st))"
      using Cons.IH [OF after(1) rest, of cs'] Cons.prems(3,4) after(3) by auto
    then show ?case using step request after(2) by (cases st) (simp add: same_result_def)
  qed simp
qed

theorem fields_read_in_order_witness:
  "\<exists>st. getFields be_sock (serveFetch be_sock (list_source 2 None) 7) [(0, 1), (1, 0), (3, 1), (9, 0)]
      (sample_client, [], sample_session, sample_rows, []) =
    Some (Some ([Some \<lparr>fd_buffer = None, fd_length = 0\<rparr>, Some \<lparr>fd_buffer = Some [Some 66, Some 67], fd_length = 2\<rparr>,
                 Some \<lparr>fd_buffer = Some [Some 69], fd_length = 1\<rparr>, None], st))"
  using fields_read_in_order [OF be_sock_ok list_source_delivers [of 2 None] sample_ok(4,1,2),
      where s = "(sample_rows, [])" and requests = "[(0, 1), (1, 0), (3, 1), (9, 0)]"] sample_ok(3)
  by (simp add: lookup_field_def sample_client_def)

text \<open>
  C16: Whatever fields the client asks for, in any order, the two sides stay in step: the rows in
  the client's buffer are the rows of its place in the result set, the server is at the row the
  client counts from, and no request gets a field of another row.
\<close>

theorem requests_stay_in_step:
  assumes "sock_ok C" and "delivers D None before reading" and "protocolversion cs \<noteq> 1" and "sync before rows cl s"
  shows "\<exists>fields cl' cs' s'. getFields C (serveFetch C D (cursorid cl)) requests (cl, [], cs, s) =
      Some (Some (fields, cl', [], cs', s')) \<and> sync before rows cl' s' \<and>
    list_all2 (\<lambda>(row, col) field. field = None \<or> field = lookup_field (returnnulls cl) rows row col) requests fields"
  using assms(3,4)
proof (induction requests arbitrary: cl cs s)
  case (Cons request requests)
  obtain row col where request: "request = (row, col)" by fastforce
  obtain field cl' cs' s' where step: "getField C (serveFetch C D (cursorid cl)) row col (cl, [], cs, s) =
      Some (Some (field, cl', [], cs', s'))" "field = None \<or> field = lookup_field (returnnulls cl) rows row col"
    and after: "sync before rows cl' s'" "same_result cl cl'" "protocolversion cs' = protocolversion cs"
    using getField_any [OF assms(1,2) Cons.prems] by blast
  have same: "cursorid cl' = cursorid cl" "returnnulls cl' = returnnulls cl"
    using after(2) by (simp_all add: same_result_def)
  obtain fields st where "getFields C (serveFetch C D (cursorid cl)) requests (cl', [], cs', s') =
      Some (Some (fields, st))" "\<exists>cl'' cs'' s''. st = (cl'', [], cs'', s'') \<and> sync before rows cl'' s''"
    "list_all2 (\<lambda>(row, col) field. field = None \<or> field = lookup_field (returnnulls cl) rows row col) requests fields"
    using Cons.IH [OF _ after(1), of cs'] Cons.prems(1) after(3) unfolding same by auto
  then show ?case using step request by auto
qed simp

theorem requests_stay_in_step_witness:
  "\<exists>fields cl' cs' s'. getFields be_sock (serveFetch be_sock (list_source 2 None) 7) [(3, 0), (0, 0), (3, 1)]
      (sample_client, [], sample_session, sample_rows, []) = Some (Some (fields, cl', [], cs', s')) \<and>
    length fields = 3"
proof -
  have "sync (\<lambda>rows s. fst s = rows \<and> list_all (plain_row 2) rows) sample_rows sample_client (sample_rows, [])"
    by (rule sync_fresh [OF sample_ok(1,2)]) (use sample_ok(3) in simp_all)
  from requests_stay_in_step [OF be_sock_ok list_source_delivers [of 2 None] sample_ok(4) this, of "[(3, 0), (0, 0), (3, 1)]"]
  show ?thesis by (fastforce simp: sample_client_def dest: list_all2_lengthD)
qed

end
