(* ===== verification/Result_Errors.thy ===== *)
theory Result_Errors
  imports Result_Session
begin

text \<open>
  Errors while rows are fetched: how the server reports one, what the client makes of the report,
  and which reports do not arrive.
\<close>

section \<open>Reports\<close>

text \<open>A report whose sizes are those the client can take.\<close>

definition error_ok :: "servererror \<Rightarrow> bool" where
  "error_ok e \<longleftrightarrow> length (err_string e) < 2 ^ 16 \<and> err_sqlstate e \<noteq> [] \<and> length (err_sqlstate e) < sqlstatesize"

definition reported :: "servererror \<Rightarrow> clientst \<Rightarrow> bool" where
  "reported e cl \<longleftrightarrow> errorno cl = err_number e \<and> clienterror cl = Some (Server_Error (err_string e)) \<and>
     sqlstate cl = err_sqlstate e \<and> endofresultset cl"

lemma unat_u16: "n < 2 ^ 16 \<Longrightarrow> unat (of_nat n :: u16) = n"
  by (simp add: unat_of_nat)

lemma getSqlState_sent:
  assumes "sock_ok C" and "3 \<le> version" and "error_ok e"
  shows "getSqlState C (sendSqlState C version (err_sqlstate e) @ r) = (err_sqlstate e, r)"
proof -
  have "unat (of_nat (length (err_sqlstate e)) :: u16) = length (err_sqlstate e)"
    using assms(3) by (intro unat_u16) (simp add: error_ok_def)
  moreover from this have "(of_nat (length (err_sqlstate e)) :: u16) \<noteq> 0"
    using assms(3) by (metis error_ok_def length_0_conv unat_0)
  ultimately show ?thesis
    using leD [OF assms(2)] assms(3) by (simp add: getSqlState_def sendSqlState_def Let_def sock_okD [OF assms(1)] error_ok_def)
qed

lemma getErrorFromServer_sent:
  assumes "sock_ok C" and "3 \<le> version" and "error_ok e"
  shows "getErrorFromServer C cl (put64 C (err_number e) @ put16 C (of_nat (length (err_string e))) @
      err_string e @ sendSqlState C version (err_sqlstate e) @ r) =
    (cl\<lparr>errorno := err_number e, clienterror := Some (Server_Error (err_string e)),
        sqlstate := err_sqlstate e, endofresultset := True\<rparr>, r)"
proof -
  have "unat (of_nat (length (err_string e)) :: u16) = length (err_string e)"
    using assms(3) by (intro unat_u16) (simp add: error_ok_def)
  then show ?thesis
    using getSqlState_sent [OF assms] by (simp add: getErrorFromServer_def sock_okD [OF assms(1)])
qed

text \<open>The rows before the error stay in the client's buffer.\<close>

definition error_block :: "servererror \<Rightarrow> clientst \<Rightarrow> rowvalue list list \<Rightarrow> clientst \<Rightarrow> bool" where
  "error_block e cl rows cl' \<longleftrightarrow> reported e cl' \<and> connected cl' = (connected cl \<and> err_live e) \<and>
     firstrowindex cl' = block_start cl \<and> rowcount cl' = block_start cl + of_nat (length rows) \<and>
     block cl' = map (client_row (returnnulls cl)) rows \<and> rsbuffersize cl' = rsbuffersize cl \<and>
     returnnulls cl' = returnnulls cl"

lemma error_block_parsed:
  assumes "sock_ok C" and "\<not> endofresultset cl" and "length rows < 2 ^ 64"
    and "rsbuffersize cl \<noteq> 0 \<Longrightarrow> length rows < unat (rsbuffersize cl)" and "list_all (row_ok cl) rows"
    and "3 \<le> version" and "error_ok e"
  shows "\<exists>cl'. parseResults C cl (concat (map (enc_row C) rows) @ fetchError C version e @ r) =
      Some (Some (err_live e, cl', r)) \<and> error_block e cl rows cl'"
proof -
  let ?s = "fetchError C version e @ r"
  obtain st where st: "parseResults C cl (concat (map (enc_row C) rows) @ ?s) = iterate (parseStep C) st"
    "at_row (cl\<lparr>rowcount := block_start cl, firstrowindex := block_start cl, block := []\<rparr>) rows ?s st"
    using parse_to_end [OF assms(1-5)] by blast
  have report: "parseStep C st = Some (Inr (Some (err_live e,
      (if err_live e then id else endSession) ((ps_client st)\<lparr>errorno := err_number e,
        clienterror := Some (Server_Error (err_string e)), sqlstate := err_sqlstate e, endofresultset := True\<rparr>), r)))"
    using st(2) getErrorFromServer_sent [OF assms(1,6,7)]
    by (simp add: parseStep_def at_row_def fetchError_def sock_okD [OF assms(1)] getErrorStatus_def Let_def)
  show ?thesis
    using st report
    by (auto simp: iterate_Inr at_row_def has_rows_def kept_def error_block_def reported_def endSession_def)
qed

section \<open>Failed fetches\<close>

lemma error_answer:
  assumes "unat k = n - m" and "m \<le> n" and "n \<le> length rows" and "2 \<le> protocolversion cs"
    and "f \<noteq> 0 \<Longrightarrow> length rows < n + unat f"
  shows "answer C (cs\<lparr>skip := k, fetch := f\<rparr>) (Some e) (drop m rows) =
    concat (map (enc_row C) (drop n rows)) @ fetchError C (protocolversion cs) e"
proof (cases "f = 0")
  case True
  moreover have "\<not> length rows - m < n - m" using assms(3) by linarith
  ultimately show ?thesis using assms(1,2,4) by (simp add: answer_def ending_def Let_def)
next
  case False
  then have "length (drop n rows) \<le> unat f" using assms(3,5) by simp
  moreover have "\<not> length rows - m < n - m" "length rows - m < n - m + unat f"
    using assms(2,3,5) False by simp_all
  ultimately show ?thesis using assms(1,2,4) False by (simp add: answer_def ending_def Let_def)
qed

text \<open>
  C20: When the driver fails on the row after the last of \<open>rows\<close>, a request that makes the server
  fetch that row leaves the client with the error's number, message and state, at the end of the
  result set, with the rows before the error in its buffer. It is served if its row is one of
  those and the connection to the database lives; if that is lost, the client ends its session.
\<close>

theorem fetch_error_reaches_client:
  assumes "sock_ok C" and "delivers D (Some e) before reading" and "3 \<le> protocolversion cs" and "error_ok e"
    and "sync before rows cl s" and "\<not> endofresultset cl" and "rowcount cl \<le> row"
    and "unat (block_of cl row) \<le> length rows"
    and "rsbuffersize cl = 0 \<or> length rows < unat (block_of cl row) + unat (rsbuffersize cl)"
  shows "\<exists>cl' cs' s'. fetchRowIntoBuffer C (serveFetch C D (cursorid cl)) row (cl, [], cs, s) =
      Some (Some (if err_live e \<and> unat row < length rows then Some (row - block_of cl row) else None,
                  cl', [], cs', s')) \<and>
    reported e cl' \<and> connected cl' = err_live e \<and> holds_rows rows cl' \<and> unat (rowcount cl') = length rows"
proof -
  let ?b = "rsbuffersize cl"
  let ?n = "block_of cl row"
  let ?m = "unat (rowcount cl)"
  let ?cl = "cl\<lparr>block := [], rowcount := ?n\<rparr>"
  let ?cs = "cs\<lparr>skip := rowsToSkip cl row, fetch := ?b\<rparr>"
  note at = assms(5,6) [unfolded sync_def]
  have skip: "rowcount cl + rowsToSkip cl row = ?n" "unat (rowsToSkip cl row) = unat ?n - ?m" "?m \<le> unat ?n"
    using rowsToSkip_block [of cl row] block_of_later [of cl row] at assms(7) by simp_all
  have "2 \<le> protocolversion cs" using assms(3) by (simp add: word_le_nat_alt)
  then have sent: "answer C ?cs (Some e) (drop ?m rows) =
      concat (map (enc_row C) (drop (unat ?n) rows)) @ fetchError C (protocolversion cs) e"
    using error_answer [OF skip(2,3) assms(8)] assms(9) by blast
  obtain s' where s': "serveFetch C D (cursorid cl)
      (put16 C FETCH_RESULT_SET @ put16 C (cursorid cl) @ put64 C (rowsToSkip cl row) @ put64 C ?b) (cs, s) =
      Some (answer C ?cs (Some e) (drop ?m rows), ?cs, s')"
    using serveFetch_answer [OF assms(1,2), of "drop ?m rows" s "cursorid cl" "rowsToSkip cl row" ?b cs] at by auto
  let ?rows = "drop (unat ?n) rows"
  have "length ?rows < 2 ^ 64" "rsbuffersize ?cl \<noteq> 0 \<Longrightarrow> length ?rows < unat (rsbuffersize ?cl)"
    using at assms(8,9) by auto
  moreover have "list_all (row_ok ?cl) ?rows"
    using at by (auto simp: list_all_iff row_ok_def dest: in_set_dropD)
  ultimately obtain cl' where cl': "parseResults C ?cl (answer C ?cs (Some e) (drop ?m rows)) =
      Some (Some (err_live e, cl', []))" "error_block e ?cl ?rows cl'"
    using error_block_parsed [OF assms(1), of ?cl ?rows "protocolversion cs" e "[]"] assms(3,4,6) sent by auto
  note err = cl'(2) [unfolded error_block_def]
  have start: "block_start ?cl = ?n" using at by (simp add: block_start_def)
  have count: "unat (rowcount cl') = length rows"
  proof -
    have "rowcount cl' = ?n + of_nat (length rows - unat ?n)" using err start by simp
    then show ?thesis using at assms(8) unat_u64 [of "length rows"] by simp
  qed
  have held: "holds_rows rows cl'"
    using err start assms(8) count by (simp add: holds_rows_def rows_between_def word_le_nat_alt)
  have "fetchStep C (serveFetch C D (cursorid cl)) row (cl, [], cs, s) =
      Some (Inr (Some (if err_live e \<and> unat row < length rows then Some (row - ?n) else None, cl', [], ?cs, s')))"
    using s' cl'(1) skip(1) err count
    by (simp add: fetchStep_def skipAndFetch_def Result_Client.skipRows_def fetchRows_def rowsToSkip_def
        reported_def word_le_nat_alt block_of_def)
  then have "fetchRowIntoBuffer C (serveFetch C D (cursorid cl)) row (cl, [], cs, s) =
      Some (Some (if err_live e \<and> unat row < length rows then Some (row - ?n) else None, cl', [], ?cs, s'))"
    using assms(6,7) at leD [OF assms(7)] by (auto simp: fetchRowIntoBuffer_def iterate_Inr holds_rows_def Let_def)
  moreover have "reported e cl'" "connected cl' = err_live e" using err at by simp_all
  ultimately show ?thesis using held count by blast
qed

theorem fetch_error_reaches_client_witness:
  "\<exists>cl' cs' s'. fetchRowIntoBuffer be_sock
      (serveFetch be_sock (list_source 2 (Some \<lparr>err_number = 1555, err_string = [111, 108, 100], err_live = True,
         err_sqlstate = [55, 50, 48, 48, 48]\<rparr>)) 7) 4
      (sample_client\<lparr>rowcount := 4, firstrowindex := 2, block := map (client_row True) (drop 2 sample_rows)\<rparr>,
       [], sample_session, [], []) = Some (Some (None, cl', [], cs', s')) \<and>
    clienterror cl' = Some (Server_Error [111, 108, 100]) \<and> unat (rowcount cl') = length sample_rows"
proof -
  let ?cl = "sample_client\<lparr>rowcount := 4, firstrowindex := 2, block := map (client_row True) (drop 2 sample_rows)\<rparr>"
  let ?e = "\<lparr>err_number = 1555, err_string = [111, 108, 100], err_live = True, err_sqlstate = [55, 50, 48, 48, 48]\<rparr>"
  have sync: "sync (\<lambda>rows s. fst s = rows \<and> list_all (plain_row 2) rows) sample_rows ?cl ([], [])"
    by (simp add: sync_def row_ok_def holds_rows_def rows_between_def sample_client_def)
  have "error_ok ?e" by (simp add: error_ok_def)
  from fetch_error_reaches_client [OF be_sock_ok list_source_delivers [of 2 "Some ?e"] _ this sync,
      of sample_session 4]
  show ?thesis by (simp add: sample_client_def unat_block_of reported_def) blast
qed

section \<open>Reports that do not arrive\<close>

text \<open>
  An error while rows are skipped is not reported: the server sends the end of the result set,
  with every version of the protocol, as if the rows had run out.
\<close>

theorem skip_error_sent_as_end:
  assumes "\<not> src_noRowsToReturn D s" and "skip cs \<noteq> 0" and "src_skipRow D s = (False, True, s')"
  shows "sendBlock C D cs s = Some (put16 C (endresultset (protocolversion cs)), s')"
proof -
  obtain n where "unat (skip cs) = Suc n" using assms(2) by (metis not0_implies_Suc unat_eq_zero)
  then show ?thesis using assms(1,3) by (simp add: sendBlock_def Result_Server.skipRows_def)
qed

text \<open>A source that fails on every row.\<close>

definition failing_source :: "servererror \<Rightarrow> (rowvalue list list \<times> rowvalue list) rowsource" where
  "failing_source e = (list_source 1 (Some e))\<lparr>src_skipRow := \<lambda>s. (False, True, s)\<rparr>"

theorem skip_error_sent_as_end_witness:
  "sendBlock be_sock (failing_source \<lparr>err_number = 1, err_string = [110, 111], err_live = True, err_sqlstate = []\<rparr>)
     (sample_session\<lparr>skip := 5\<rparr>) ([], []) = Some (put16 be_sock END_RESULT_SET, [], [])"
proof -
  let ?D = "failing_source \<lparr>err_number = 1, err_string = [110, 111], err_live = True, err_sqlstate = []\<rparr>"
  have "\<not> src_noRowsToReturn ?D ([], [])" "src_skipRow ?D ([], []) = (False, True, [], [])"
    by (simp_all add: failing_source_def list_source_def)
  from skip_error_sent_as_end [OF this(1) _ this(2), of "sample_session\<lparr>skip := 5\<rparr>" be_sock]
  show ?thesis by (simp add: endresultset_def)
qed

text \<open>
  The size of an error's message is sent with 16 bits, the message with all its bytes: of a
  message of 64 kilobytes or more the client takes the remainder for what follows the message.
\<close>

theorem long_message_left_over:
  assumes "sock_ok C" and "length (err_string e) = 2 ^ 16 + k" and "k < 2 ^ 16"
  shows "getErrorFromServer C cl (put64 C (err_number e) @ put16 C (of_nat (length (err_string e))) @ err_string e @ r) =
    (case getSqlState C (drop k (err_string e) @ r) of (state, left) \<Rightarrow>
       (cl\<lparr>errorno := err_number e, clienterror := Some (Server_Error (take k (err_string e))),
           sqlstate := state, endofresultset := True\<rparr>, left))"
proof -
  have "unat (of_nat (length (err_string e)) :: u16) = k"
    by (simp only: assms(2) unat_of_nat) (use assms(3) in simp)
  then show ?thesis using assms(2) by (simp add: getErrorFromServer_def sock_okD [OF assms(1)])
qed

text \<open>
  A large object that is shorter than announced leaves the end of the client's field undefined,
  within the length that the client reports.
\<close>

theorem short_lob_undefined_bytes:
  assumes "sock_ok C" and "value_ok (V_Lob n segments)" and "length (concat segments) < unat n"
  shows "\<exists>s f. get16 C (enc_value C (V_Lob n segments) @ r) = Some (START_LONG_DATA, s) \<and>
    readField C nulls before START_LONG_DATA s = Some (Got (f, END_LONG_DATA, r)) \<and>
    fd_length f = ucast n \<and> None \<in> set (the (fd_buffer f))"
proof -
  have "(of_nat (length (concat segments)) :: u64) \<le> n"
    using assms(2,3) by (simp add: word_le_nat_alt unat_u64)
  moreover obtain s where "get16 C (enc_value C (V_Lob n segments) @ r) = Some (START_LONG_DATA, s)"
    "readField C nulls before START_LONG_DATA s = Some (Got (client_value nulls (V_Lob n segments), END_LONG_DATA, r))"
    using readField_value [OF assms(1,2), of r nulls before] by auto
  ultimately show ?thesis using assms(3) by (auto simp: Let_def max_def)
qed

text \<open>
  After a result set is resumed, the client counts rows from the row after the last that was
  fetched before. If that is not the first row of a block of the client's own block size, the
  number of rows to skip is negative, as an unsigned number.
\<close>

theorem resumed_client_skips_everything:
  assumes "\<not> cachedest cl" and "rsbuffersize cl \<noteq> 0" and "rowcount cl mod rsbuffersize cl \<noteq> 0"
  shows "unat (rowsToSkip cl (rowcount cl)) = 2 ^ 64 - unat (rowcount cl mod rsbuffersize cl)"
proof -
  have "rowsToSkip cl (rowcount cl) = - (rowcount cl mod rsbuffersize cl)"
    using assms(1,2) by (simp add: rowsToSkip_def)
  moreover have "unat (- n) = 2 ^ 64 - unat n" if "n \<noteq> 0" for n :: u64
  proof -
    have "unat (- n) = unat (- 1 - (n - 1))" by simp
    also have "\<dots> = unat (- 1 :: u64) - unat (n - 1)" by (rule unat_sub) simp
    also have "\<dots> = 2 ^ 64 - 1 - (unat n - 1)" using that
      by (simp add: unat_minus_one unsigned_minus_1_eq_mask mask_eq_exp_minus_1)
    finally show ?thesis using that unat_gt_0 [of n] by simp
  qed
  ultimately show ?thesis using assms(3) by simp
qed

end
