(* ===== verification/Result_Header.thy ===== *)
theory Result_Header
  imports Result_Server Result_Client
begin

text \<open>
  The header of a result set: the client parses the row counts and the columns that the server
  sent, in both formats of column types.
\<close>

definition column_ok :: "column \<Rightarrow> bool" where
  "column_ok c \<longleftrightarrow> length (col_name c) < 2 ^ 16 \<and> length (col_typestring c) < 2 ^ 16 \<and> length (col_table c) < 2 ^ 16"

text \<open>What the client has for a column: of its type, what is sent, and the rest from the buffer.\<close>

definition client_column :: "(bytes \<Rightarrow> bytes) \<Rightarrow> u16 \<Rightarrow> column \<Rightarrow> column \<Rightarrow> column" where
  "client_column colcase format old c =
     c\<lparr>col_name := colcase (col_name c),
       col_type := (if format \<noteq> COLUMN_TYPE_IDS then col_type old
                    else if END_DATATYPE \<le> col_type c then UNKNOWN_DATATYPE else col_type c),
       col_typestring := (if format = COLUMN_TYPE_IDS then col_typestring old else col_typestring c)\<rparr>"

lemma getSized_sent:
  assumes "sock_ok C" and "length s < 2 ^ 16"
  shows "getSized C (put16 C (of_nat (length s)) @ s @ r) = Some (s, r)"
proof -
  have "unat (ucast (of_nat (length s) :: u16) :: u32) = length s"
    using assms(2) by (simp add: unsigned_ucast_eq unat_of_nat take_bit_nat_eq_self)
  then show ?thesis using assms(2) by (simp add: getSized_def sock_okD [OF assms(1)])
qed

lemma parseColumn_sent:
  assumes "sock_ok C" and "2 \<le> version" and "column_ok c"
  shows "parseColumn C colcase format old (returnColumnInfo C version format [c] @ r) =
    Some (client_column colcase format old c, r)"
proof -
  have "protocolAppropriateColumnType version (col_type c) = col_type c"
    using assms(2) by (simp add: protocolAppropriateColumnType_def)
  moreover have "length (col_name c) < 2 ^ 16" "length (col_typestring c) < 2 ^ 16" "length (col_table c) < 2 ^ 16"
    using assms(3) by (simp_all add: column_ok_def)
  ultimately show ?thesis
    using leD [OF assms(2)]
    by (simp add: parseColumn_def parseColumnType_def returnColumnInfo_def sendColumnDefinition_def
        sendColumnDefinitionString_def sendColumnNumbers_def sendTable_def client_column_def
        sock_okD [OF assms(1)] getSized_sent [OF assms(1)])
qed

lemma parseColumns_sent:
  assumes "sock_ok C" and "2 \<le> version"
  shows "list_all column_ok cs \<Longrightarrow> length olds = length cs \<Longrightarrow>
    parseColumns C colcase format olds (returnColumnInfo C version format cs @ r) =
    Some (map2 (client_column colcase format) olds cs, r)"
proof (induction cs arbitrary: olds)
  case (Cons c cs)
  obtain old rest where olds: "olds = old # rest" using Cons.prems(2) by (cases olds) auto
  have "returnColumnInfo C version format (c # cs) =
      returnColumnInfo C version format [c] @ returnColumnInfo C version format cs"
    by (simp add: returnColumnInfo_def)
  then show ?case
    using Cons.IH [of rest] Cons.prems olds parseColumn_sent [OF assms, of c colcase format old] by simp
qed (simp add: returnColumnInfo_def)

lemma parseRowCount_sent:
  assumes "sock_ok C"
  shows "parseRowCount C 1 ((case n of Some k \<Rightarrow> put16 C 1 @ put64 C k | None \<Rightarrow> put16 C 0) @ r) = Some (n, r)"
  by (cases n) (simp_all add: parseRowCount_def sock_okD [OF assms])

lemma header_parsed:
  assumes "sock_ok C" and "2 \<le> version" and "length cs < 2 ^ 32" and "list_all column_ok cs"
  shows "parseColumnInfo C colcase buffer (returnResultSetHeader C version actual affected sendinfo format cs @ r) =
    Some (\<lparr>h_actualrows = actual, h_affectedrows = affected,
           h_sentcolumninfo = (if sendinfo then SEND_COLUMN_INFO else DONT_SEND_COLUMN_INFO),
           h_colcount = of_nat (length cs),
           h_columns = (if sendinfo then map2 (client_column colcase format) (map buffer [0..<length cs]) cs else [])\<rparr>, r)"
  using parseColumns_sent [OF assms(1,2,4), of "map buffer [0..<length cs]" colcase format r] assms(3)
  by (simp add: parseColumnInfo_def returnResultSetHeader_def sendRowCounts_def parseRowCount_sent [OF assms(1)]
      sock_okD [OF assms(1)] unat_u32 Let_def)

text \<open>
  C25: The client that parses a result set's header has the row counts the server knew, and the
  columns with their names, types, sizes and flags as the server sent them, and reads exactly the
  header. A type the client's table does not have is the unknown type.
\<close>

theorem header_roundtrip:
  assumes "sock_ok C" and "2 \<le> version" and "length cs < 2 ^ 32" and "list_all column_ok cs"
  shows "parseColumnInfo C colcase buffer (returnResultSetHeader C version actual affected sendinfo format cs @ r) =
    Some (\<lparr>h_actualrows = actual, h_affectedrows = affected,
           h_sentcolumninfo = (if sendinfo then SEND_COLUMN_INFO else DONT_SEND_COLUMN_INFO),
           h_colcount = of_nat (length cs),
           h_columns = (if sendinfo then map2 (client_column colcase format) (map buffer [0..<length cs]) cs else [])\<rparr>, r)"
  by (rule header_parsed [OF assms])

abbreviation sample_column :: column where
  "sample_column \<equiv>
     \<lparr>col_name = [105, 100], col_type = 9, col_typestring = [], col_size = 4, col_precision = 10, col_scale = 0,
      col_nullable = 0, col_primarykey = 1, col_unique = 1, col_partofkey = 1, col_unsigned = 0, col_zerofill = 0,
      col_binary = 0, col_autoincrement = 1, col_table = [116]\<rparr>"

theorem header_roundtrip_witness:
  "parseColumnInfo be_sock id (\<lambda>_. sample_column) (returnResultSetHeader be_sock 3 (Some 2) None True COLUMN_TYPE_IDS
      [sample_column, sample_column\<lparr>col_type := 200\<rparr>]) =
    Some (\<lparr>h_actualrows = Some 2, h_affectedrows = None, h_sentcolumninfo = 1, h_colcount = 2,
           h_columns = [sample_column, sample_column\<lparr>col_type := 0\<rparr>]\<rparr>, [])"
  using header_roundtrip [OF be_sock_ok, of 3 "[sample_column, sample_column\<lparr>col_type := 200\<rparr>]" id "\<lambda>_. sample_column" "Some 2" None
      True COLUMN_TYPE_IDS "[]"]
  by (simp add: column_ok_def client_column_def)

end
