(* ===== verification/Bind_Scan.thy ===== *)
theory Bind_Scan
  imports Query_Text
begin

text \<open>
  Bind variables in the text of a query: the loops that count them, replace them with null
  (\<open>src/common/bindvariables.h\<close>), rewrite them in the format of the database
  (\<open>sqlrservercontroller::translateBindVariables\<close>) and replace them with their values
  (\<open>sqlrservercursor::fakeInputBinds\<close>). Each loop runs through the text with a state of its own,
  the character before, and a pointer, which is the rest of the text; logging is left out.

  More functions of Rudiments are the fields of \<open>bindlib\<close>; the theorems
  hold for any of them.
\<close>

section \<open>Characters\<close>

record bindlib = charlib +
  isDigit :: "char \<Rightarrow> bool"
  isNumber :: "string \<Rightarrow> bool"
  convertToInteger :: "string \<Rightarrow> int"
  parseNumber :: "int \<Rightarrow> string" \<comment> \<open>a number as text, as \<open>stringbuffer::append\<close> writes it, too\<close>

datatype queryparsestate = IN_QUERY | IN_QUOTES | BEFORE_BIND | IN_BIND

record delims =
  questionmark :: bool
  colon :: bool
  atsign :: bool
  dollarsign :: bool

abbreviation quote :: char where
  "quote \<equiv> CHR 0x27"

abbreviation backslash :: char where
  "backslash \<equiv> CHR 0x5C"

abbreviation nul :: char where
  "nul \<equiv> CHR 0x00"

definition beforeBindVariable :: "string \<Rightarrow> bool" where
  "beforeBindVariable ptr \<longleftrightarrow>
     ptr \<noteq> [] \<and> hd ptr \<in> set ('' '' @ [CHR 0x09, CHR 0x0A, CHR 0x0D] @ ''=<>,(+-*/%|&!~^'')"

definition isBindDelimiter :: "delims \<Rightarrow> string \<Rightarrow> bool" where
  "isBindDelimiter D ptr \<longleftrightarrow>
     (case ptr of [] \<Rightarrow> False
      | c # rest \<Rightarrow>
          (questionmark D \<and> c = CHR ''?'') \<or> (colon D \<and> c = CHR '':'' \<and> take 1 rest \<noteq> ''='') \<or>
          (atsign D \<and> c = CHR ''@'' \<and> take 1 rest \<noteq> ''@'') \<or> (dollarsign D \<and> c = CHR ''$''))"

definition isBindVariableNameCharacter :: "('b charlib_scheme) \<Rightarrow> char \<Rightarrow> bool" where
  "isBindVariableNameCharacter L c \<longleftrightarrow>
     isAlphanumeric L c \<or> c = CHR ''_'' \<or> c = CHR ''$'' \<or> c = CHR ''#''"

definition afterBindVariable :: "('b charlib_scheme) \<Rightarrow> string \<Rightarrow> bool" where
  "afterBindVariable L ptr \<longleftrightarrow>
     (case ptr of [] \<Rightarrow> False
      | c # rest \<Rightarrow>
          \<not> isBindVariableNameCharacter L c \<and>
          (c \<in> set ('' '' @ [CHR 0x09, CHR 0x0A, CHR 0x0D] @ '',);=<>!'') \<or>
           c = CHR '':'' \<and> take 1 rest = ''=''))"

text \<open>The character before, once \<open>c\<close> has been read: the second of two backslashes does not count.\<close>

definition advance :: "char \<Rightarrow> char \<Rightarrow> char" where
  "advance prev c = (if c = backslash \<and> prev = backslash then nul else c)"

text \<open>The state after a character of the query outside and inside of quotes.\<close>

definition afterQueryChar :: "string \<Rightarrow> queryparsestate" where
  "afterQueryChar ptr =
     (if beforeBindVariable ptr then BEFORE_BIND
      else if take 1 ptr = [quote] then IN_QUOTES else IN_QUERY)"

definition afterQuotedChar :: "bool \<Rightarrow> char \<Rightarrow> char \<Rightarrow> queryparsestate" where
  "afterQuotedChar bs prev c = (if c = quote \<and> (\<not> bs \<or> prev \<noteq> backslash) then IN_QUERY else IN_QUOTES)"

text \<open>Rounds that read no character come before the others: the measure of the loops.\<close>

fun rank :: "queryparsestate \<Rightarrow> nat" where
  "rank BEFORE_BIND = 2"
| "rank IN_BIND = 1"
| "rank _ = 0"

section \<open>Counting\<close>

record bindcounts =
  questionmarkcount :: u16
  coloncount :: u16
  atsigncount :: u16
  dollarsigncount :: u16

definition only :: "char \<Rightarrow> delims" where
  "only c = \<lparr>questionmark = (c = CHR ''?''), colon = (c = CHR '':''), atsign = (c = CHR ''@''), dollarsign = (c = CHR ''$'')\<rparr>"

definition countBind :: "delims \<Rightarrow> string \<Rightarrow> bindcounts \<Rightarrow> bindcounts option" where
  "countBind D ptr n =
     (if questionmark D \<and> isBindDelimiter (only (CHR ''?'')) ptr then
        Some (n\<lparr>questionmarkcount := questionmarkcount n + 1\<rparr>)
      else if colon D \<and> isBindDelimiter (only (CHR '':'')) ptr then Some (n\<lparr>coloncount := coloncount n + 1\<rparr>)
      else if atsign D \<and> isBindDelimiter (only (CHR ''@'')) ptr then Some (n\<lparr>atsigncount := atsigncount n + 1\<rparr>)
      else if dollarsign D \<and> isBindDelimiter (only (CHR ''$'')) ptr then
        Some (n\<lparr>dollarsigncount := dollarsigncount n + 1\<rparr>)
      else None)"

function (sequential) countLoop ::
  "('b charlib_scheme) \<Rightarrow> delims \<Rightarrow> bool \<Rightarrow> queryparsestate \<Rightarrow> char \<Rightarrow> string \<Rightarrow> bindcounts \<Rightarrow> bindcounts" where
  "countLoop L D bs ps prev [] n = n"
| "countLoop L D bs IN_QUERY prev (c # ptr) n =
     countLoop L D bs (afterQueryChar (c # ptr)) (advance prev c) ptr n"
| "countLoop L D bs IN_QUOTES prev (c # ptr) n =
     countLoop L D bs (afterQuotedChar bs prev c) (advance prev c) ptr n"
| "countLoop L D bs BEFORE_BIND prev (c # ptr) n =
     (case countBind D (c # ptr) n of
        Some n \<Rightarrow> countLoop L D bs IN_BIND prev (c # ptr) n
      | None \<Rightarrow> countLoop L D bs IN_QUERY prev (c # ptr) n)"
| "countLoop L D bs IN_BIND prev (c # ptr) n =
     (if afterBindVariable L (c # ptr) then countLoop L D bs IN_QUERY prev (c # ptr) n
      else countLoop L D bs IN_BIND (advance prev c) ptr n)"
  by pat_completeness auto
termination
  by (relation "measures [\<lambda>(L, D, bs, ps, prev, ptr, n). length ptr, \<lambda>(L, D, bs, ps, prev, ptr, n). rank ps]") auto

definition countBindVariables :: "('b charlib_scheme) \<Rightarrow> delims \<Rightarrow> bool \<Rightarrow> string \<Rightarrow> u16" where
  "countBindVariables L D bs query =
     (let n = countLoop L D bs IN_QUERY nul query
                \<lparr>questionmarkcount = 0, coloncount = 0, atsigncount = 0, dollarsigncount = 0\<rparr>
      in if dollarsigncount n \<noteq> 0 then dollarsigncount n
         else if questionmarkcount n \<noteq> 0 then questionmarkcount n
         else if coloncount n \<noteq> 0 then coloncount n
         else if atsigncount n \<noteq> 0 then atsigncount n
         else 0)"

section \<open>Null for bind variables\<close>

function (sequential) nullLoop ::
  "('b charlib_scheme) \<Rightarrow> delims \<Rightarrow> bool \<Rightarrow> queryparsestate \<Rightarrow> char \<Rightarrow> string \<Rightarrow> u16 \<times> string \<Rightarrow> u16 \<times> string" where
  "nullLoop L D bs ps prev [] st = st"
| "nullLoop L D bs IN_QUERY prev (c # ptr) st =
     nullLoop L D bs (afterQueryChar (c # ptr)) (advance prev c) ptr (fst st, snd st @ [c])"
| "nullLoop L D bs IN_QUOTES prev (c # ptr) st =
     nullLoop L D bs (afterQuotedChar bs prev c) (advance prev c) ptr (fst st, snd st @ [c])"
| "nullLoop L D bs BEFORE_BIND prev (c # ptr) st =
     (if isBindDelimiter D (c # ptr)
      then nullLoop L D bs IN_BIND prev (c # ptr) (fst st + 1, snd st @ ''NULL'')
      else nullLoop L D bs IN_QUERY prev (c # ptr) st)"
| "nullLoop L D bs IN_BIND prev (c # ptr) st =
     (if afterBindVariable L (c # ptr) then nullLoop L D bs IN_QUERY prev (c # ptr) st
      else nullLoop L D bs IN_BIND (advance prev c) ptr st)"
  by pat_completeness auto
termination
  by (relation "measures [\<lambda>(L, D, bs, ps, prev, ptr, st). length ptr, \<lambda>(L, D, bs, ps, prev, ptr, st). rank ps]") auto

text \<open>The kind of marker to replace: the first, in the order of the code, that the query has.\<close>

definition markerKind :: "('b charlib_scheme) \<Rightarrow> delims \<Rightarrow> bool \<Rightarrow> string \<Rightarrow> char option" where
  "markerKind L D bs query =
     (let has = (\<lambda>c. countBindVariables L (only c) bs query \<noteq> 0)
      in if dollarsign D \<and> has (CHR ''$'') then Some (CHR ''$'')
         else if questionmark D \<and> has (CHR ''?'') then Some (CHR ''?'')
         else if colon D \<and> has (CHR '':'') then Some (CHR '':'')
         else if atsign D \<and> has (CHR ''@'') then Some (CHR ''@'')
         else None)"

definition substituteNullForBindVariables ::
  "('b charlib_scheme) \<Rightarrow> delims \<Rightarrow> bool \<Rightarrow> string \<Rightarrow> u16 \<times> string" where
  "substituteNullForBindVariables L D bs query =
     (if query = [] then (0, [])
      else (case markerKind L D bs query of
              None \<Rightarrow> (0, query)
            | Some c \<Rightarrow> nullLoop L (only c) bs IN_QUERY nul query (0, [])))"

section \<open>The format of the database\<close>

definition matchesNativeBindFormat :: "('b bindlib_scheme) \<Rightarrow> string \<Rightarrow> string \<Rightarrow> bool" where
  "matchesNativeBindFormat L bindformat bind \<longleftrightarrow>
     bind ! 0 = bindformat ! 0 \<and>
     (length bindformat = 1 \<or>
      bindformat ! 1 = CHR ''1'' \<and> 1 < length bind \<and> isDigit L (bind ! 1) \<or>
      bindformat ! 1 = CHR ''*'' \<and> 1 < length bind \<and> isAlphanumeric L (bind ! 1))"

record translation =
  currentbind :: string
  bindindex :: u16
  newquery :: string
  translated :: bool
  mappings :: "string \<rightharpoonup> string"

text \<open>
  A bind variable's name is mapped to its number. For a \<open>?\<close> the code copies a null pointer instead
  of the name; what that makes the key is not defined, and the model has no entry.
\<close>

definition mapBindVariable :: "('b bindlib_scheme) \<Rightarrow> string \<Rightarrow> string \<Rightarrow> u16 \<Rightarrow> (string \<rightharpoonup> string) \<Rightarrow> (string \<rightharpoonup> string)"
where
  "mapBindVariable L bindformat bindvariable i maps =
     (if bindvariable = ''?'' then maps
      else maps(bindvariable \<mapsto> bindformat ! 0 # parseNumber L (int (unat i))))"

definition translateBindVariableInStringAndMap ::
  "('b bindlib_scheme) \<Rightarrow> string \<Rightarrow> translation \<Rightarrow> translation" where
  "translateBindVariableInStringAndMap L bindformat st =
     (let bind = bindformat ! 0 # tl (currentbind st);
          number = parseNumber L (int (unat (bindindex st)));
          st = st\<lparr>currentbind := bind, newquery := newquery st @ [bindformat ! 0]\<rparr>;
          mapped = st\<lparr>mappings := mapBindVariable L bindformat bind (bindindex st) (mappings st)\<rparr>
      in if length bindformat = 1 then mapped
         else if bindformat ! 1 = CHR ''1'' \<and> \<not> isNumber L (tl bind) then mapped\<lparr>newquery := newquery st @ number\<rparr>
         else if length bind = 1 then mapped\<lparr>newquery := newquery st @ number\<rparr>
         else st\<lparr>newquery := newquery st @ tl bind\<rparr>)"

definition endBind :: "('b bindlib_scheme) \<Rightarrow> string \<Rightarrow> translation \<Rightarrow> translation" where
  "endBind L bindformat st =
     (let st = (if matchesNativeBindFormat L bindformat (currentbind st)
                then st\<lparr>newquery := newquery st @ currentbind st\<rparr>
                else translateBindVariableInStringAndMap L bindformat (st\<lparr>translated := True\<rparr>))
      in st\<lparr>bindindex := bindindex st + 1\<rparr>)"

function (sequential) translateLoop ::
  "('b bindlib_scheme) \<Rightarrow> string \<Rightarrow> delims \<Rightarrow> bool \<Rightarrow> queryparsestate \<Rightarrow> char \<Rightarrow> string \<Rightarrow> translation \<Rightarrow> translation"
where
  "translateLoop L F D bs ps prev [] st = st"
| "translateLoop L F D bs IN_QUERY prev (c # ptr) st =
     translateLoop L F D bs (afterQueryChar (c # ptr)) (advance prev c) ptr (st\<lparr>newquery := newquery st @ [c]\<rparr>)"
| "translateLoop L F D bs IN_QUOTES prev (c # ptr) st =
     translateLoop L F D bs (afterQuotedChar bs prev c) (advance prev c) ptr (st\<lparr>newquery := newquery st @ [c]\<rparr>)"
| "translateLoop L F D bs BEFORE_BIND prev (c # ptr) st =
     (if isBindDelimiter D (c # ptr) then translateLoop L F D bs IN_BIND prev (c # ptr) (st\<lparr>currentbind := []\<rparr>)
      else translateLoop L F D bs IN_QUERY prev (c # ptr) st)"
| "translateLoop L F D bs IN_BIND prev (c # ptr) st =
     (if afterBindVariable L (c # ptr) then translateLoop L F D bs IN_QUERY prev (c # ptr) (endBind L F st)
      else if ptr = [] then
        translateLoop L F D bs IN_QUERY (advance prev c) ptr (endBind L F (st\<lparr>currentbind := currentbind st @ [c]\<rparr>))
      else translateLoop L F D bs IN_BIND (advance prev c) ptr (st\<lparr>currentbind := currentbind st @ [c]\<rparr>))"
  by pat_completeness auto
termination
  by (relation "measures [\<lambda>(L, F, D, bs, ps, prev, ptr, st). length ptr, \<lambda>(L, F, D, bs, ps, prev, ptr, st). rank ps]") auto

text \<open>The query and the mappings, which the caller has cleared.\<close>

definition translateBindVariables ::
  "('b bindlib_scheme) \<Rightarrow> string \<Rightarrow> delims \<Rightarrow> bool \<Rightarrow> u32 \<Rightarrow> string \<Rightarrow> string \<times> (string \<rightharpoonup> string)" where
  "translateBindVariables L bindformat D bs maxquerysize query =
     (let st = translateLoop L bindformat D bs IN_QUERY nul query
                 \<lparr>currentbind = [], bindindex = 1, newquery = [], translated = False, mappings = Map.empty\<rparr>
      in (if translated st then take (unat maxquerysize) (newquery st) else query, mappings st))"

section \<open>Values for bind variables\<close>

text \<open>
  The values of bind variables. A double and a date are given by the text the library and the
  driver make of them.
\<close>

datatype bindvalue =
  BV_String string | BV_Clob string | BV_Array string | BV_Blob bytes | BV_Integer int | BV_Double string
| BV_Date string | BV_Null | BV_NullBlob | BV_NullClob | BV_Cursor u16 | BV_Delimiter string | BV_Newline string

record bindvar =
  variable :: string
  bindvalue :: bindvalue

definition escapeChar :: "char \<Rightarrow> string" where
  "escapeChar ch = (if ch = quote then [quote, ch] else if ch = nul then [backslash, CHR ''0'', ch] else [ch])"

definition stringLiteral :: "bool \<Rightarrow> string \<Rightarrow> string" where
  "stringLiteral unicodestrings s =
     (if unicodestrings then ''N'' else []) @ [quote] @ concat (map escapeChar s) @ [quote]"

definition encodeBlob :: "bytes \<Rightarrow> string" where
  "encodeBlob data = CHR ''X'' # quote # concat (map asciiToHex data) @ [quote]"

fun performSubstitution :: "('b bindlib_scheme) \<Rightarrow> bool \<Rightarrow> bindvalue \<Rightarrow> string" where
  "performSubstitution L unicodestrings (BV_String s) = stringLiteral unicodestrings s"
| "performSubstitution L unicodestrings (BV_Clob s) = stringLiteral unicodestrings s"
| "performSubstitution L unicodestrings (BV_Array s) = stringLiteral unicodestrings s"
| "performSubstitution L unicodestrings (BV_Blob data) = encodeBlob data"
| "performSubstitution L unicodestrings (BV_Integer i) = parseNumber L i"
| "performSubstitution L unicodestrings (BV_Double dbuf) = map (\<lambda>c. if c = CHR '','' then CHR ''.'' else c) dbuf"
| "performSubstitution L unicodestrings (BV_Date buf) = [quote] @ buf @ [quote]"
| "performSubstitution L unicodestrings BV_Null = ''NULL''"
| "performSubstitution L unicodestrings BV_NullBlob = ''NULL''"
| "performSubstitution L unicodestrings BV_NullClob = ''NULL''"
| "performSubstitution L unicodestrings (BV_Cursor cursorid) = []"
| "performSubstitution L unicodestrings (BV_Delimiter s) = []"
| "performSubstitution L unicodestrings (BV_Newline s) = []"

text \<open>Whether a variable is the one at the pointer. A variable's name is never empty: it has a delimiter.\<close>

definition bindMatches :: "('b bindlib_scheme) \<Rightarrow> int \<Rightarrow> string \<Rightarrow> bindvar \<Rightarrow> bool" where
  "bindMatches L i ptr v \<longleftrightarrow>
     take 1 ptr = ''?'' \<and> convertToInteger L (tl (variable v)) = i \<or>
     take (length (variable v) - 1) (tl ptr) = tl (variable v) \<and>
       (afterBindVariable L (drop (length (variable v)) ptr) \<or> length (variable v) = length ptr)"

text \<open>One round in a bind variable: the text to append, the pointer and the index.\<close>

definition substituteAt ::
  "('b bindlib_scheme) \<Rightarrow> bool \<Rightarrow> bindvar list \<Rightarrow> int \<Rightarrow> string \<Rightarrow> string \<times> string \<times> int" where
  "substituteAt L unicodestrings vars i ptr =
     (case find (bindMatches L i ptr) vars of
        None \<Rightarrow> ([], ptr, i)
      | Some v \<Rightarrow>
          (performSubstitution L unicodestrings (bindvalue v),
           (if take 1 ptr = ''?'' then drop 1 ptr else drop (length (variable v)) ptr), i + 1))"

lemma substituteAt_length: "length (fst (snd (substituteAt L u vars i ptr))) \<le> length ptr"
  by (auto simp: substituteAt_def split: option.splits)

function (sequential) fakeLoop ::
  "('b bindlib_scheme) \<Rightarrow> bool \<Rightarrow> bindvar list \<Rightarrow> delims \<Rightarrow> bool \<Rightarrow> queryparsestate \<Rightarrow> char \<Rightarrow> string \<Rightarrow> int \<Rightarrow> string \<Rightarrow> string"
where
  "fakeLoop L u vars D bs ps prev [] i out = out"
| "fakeLoop L u vars D bs IN_QUERY prev (c # ptr) i out =
     fakeLoop L u vars D bs (afterQueryChar (c # ptr)) (advance prev c) ptr i (out @ [c])"
| "fakeLoop L u vars D bs IN_QUOTES prev (c # ptr) i out =
     fakeLoop L u vars D bs (afterQuotedChar bs prev c) (advance prev c) ptr i (out @ [c])"
| "fakeLoop L u vars D bs BEFORE_BIND prev (c # ptr) i out =
     (if isBindDelimiter D (c # ptr) then fakeLoop L u vars D bs IN_BIND prev (c # ptr) i out
      else fakeLoop L u vars D bs IN_QUERY prev (c # ptr) i out)"
| "fakeLoop L u vars D bs IN_BIND prev (c # ptr) i out =
     fakeLoop L u vars D bs IN_QUERY prev (fst (snd (substituteAt L u vars i (c # ptr))))
       (snd (snd (substituteAt L u vars i (c # ptr)))) (out @ fst (substituteAt L u vars i (c # ptr)))"
  by pat_completeness auto
termination
proof (relation "measures [\<lambda>(L, u, vars, D, bs, ps, prev, ptr, i, out). length ptr,
    \<lambda>(L, u, vars, D, bs, ps, prev, ptr, i, out). rank ps]", goal_cases)
  case (6 L u vars D bs prev c ptr i out)
  then show ?case using substituteAt_length [of L u vars i "c # ptr"] by auto
qed auto

text \<open>
  \<open>fakeInputBinds\<close>: the query with the values, or nothing where there are no input binds. The loop
  runs once on an empty query, and copies its terminator.
\<close>

definition fakeInputBinds ::
  "('b bindlib_scheme) \<Rightarrow> bool \<Rightarrow> bindvar list \<Rightarrow> delims \<Rightarrow> bool \<Rightarrow> string \<Rightarrow> string option" where
  "fakeInputBinds L unicodestrings vars D bs query =
     (if vars = [] then None
      else Some (if query = [] then [nul] else fakeLoop L unicodestrings vars D bs IN_QUERY nul query 1 []))"

end
