(* ===== verification/Bind_Pieces.thy ===== *)
theory Bind_Pieces
  imports Bind_Scan Query_Class
begin

text \<open>
  The four loops of \<open>Bind_Scan\<close> against one reference: \<open>scan\<close> splits a query into characters and
  bind variables, and each loop computes a function of those pieces.
\<close>

section \<open>Pieces of a query\<close>

datatype piece = Text char | Bind string

fun splitBind :: "('b charlib_scheme) \<Rightarrow> string \<Rightarrow> string \<times> string" where
  "splitBind L [] = ([], [])"
| "splitBind L (c # ptr) =
     (if afterBindVariable L (c # ptr) then ([], c # ptr)
      else (c # fst (splitBind L ptr), snd (splitBind L ptr)))"

lemma splitBind_length: "length (snd (splitBind L ptr)) \<le> length ptr"
  by (induction ptr) auto

lemma splitBind_append: "fst (splitBind L ptr) @ snd (splitBind L ptr) = ptr"
  by (induction ptr) auto

function (sequential) scan ::
  "('b charlib_scheme) \<Rightarrow> delims \<Rightarrow> bool \<Rightarrow> queryparsestate \<Rightarrow> char \<Rightarrow> string \<Rightarrow> piece list" where
  "scan L D bs ps prev [] = []"
| "scan L D bs IN_QUERY prev (c # ptr) =
     Text c # scan L D bs (afterQueryChar (c # ptr)) (advance prev c) ptr"
| "scan L D bs IN_QUOTES prev (c # ptr) =
     Text c # scan L D bs (afterQuotedChar bs prev c) (advance prev c) ptr"
| "scan L D bs BEFORE_BIND prev (c # ptr) =
     (if isBindDelimiter D (c # ptr)
      then scan L D bs IN_BIND prev (c # ptr) else scan L D bs IN_QUERY prev (c # ptr))"
| "scan L D bs IN_BIND prev (c # ptr) =
     Bind (fst (splitBind L (c # ptr))) #
     scan L D bs IN_QUERY (foldl advance prev (fst (splitBind L (c # ptr)))) (snd (splitBind L (c # ptr)))"
  by pat_completeness auto
termination
proof (relation "measures [\<lambda>(L, D, bs, ps, prev, ptr). length ptr, \<lambda>(L, D, bs, ps, prev, ptr). rank ps]", goal_cases)
  case (6 L D bs prev c ptr)
  then show ?case using splitBind_length [of L "c # ptr"] by auto
qed auto

definition pieces :: "('b charlib_scheme) \<Rightarrow> delims \<Rightarrow> bool \<Rightarrow> string \<Rightarrow> piece list" where
  "pieces L D bs query = scan L D bs IN_QUERY nul query"

primrec flat :: "piece \<Rightarrow> string" where
  "flat (Text c) = [c]"
| "flat (Bind b) = b"

primrec bindOf :: "piece \<Rightarrow> string list" where
  "bindOf (Text c) = []"
| "bindOf (Bind b) = [b]"

definition binds :: "piece list \<Rightarrow> string list" where
  "binds ps = concat (map bindOf ps)"

lemma binds_simps [simp]: "binds [] = []" "binds (Text c # ps) = binds ps" "binds (Bind b # ps) = b # binds ps"
  by (simp_all add: binds_def)

text \<open>Nothing of the query is lost.\<close>

lemma scan_flat: "concat (map flat (scan L D bs ps prev ptr)) = ptr"
  by (induction L D bs ps prev ptr rule: scan.induct) (simp_all add: splitBind_append)

lemma delimiter_no_end: "isBindDelimiter D (c # ptr) \<Longrightarrow> \<not> afterBindVariable L (c # ptr)"
  by (auto simp: isBindDelimiter_def afterBindVariable_def isBindVariableNameCharacter_def)

lemma splitBind_delimiter:
  "isBindDelimiter D (c # ptr) \<Longrightarrow> fst (splitBind L (c # ptr)) = c # fst (splitBind L ptr)"
  by (simp add: delimiter_no_end)

text \<open>
  Induction along a loop: a bind variable is one step. The state \<open>IN_BIND\<close> has no case of its own.
\<close>

lemma loop_induct [consumes 1, case_names empty query quotes bind nobind]:
  assumes "ps \<noteq> IN_BIND"
    and "\<And>ps prev. ps \<noteq> IN_BIND \<Longrightarrow> P ps prev []"
    and "\<And>prev c ptr. P (afterQueryChar (c # ptr)) (advance prev c) ptr \<Longrightarrow> P IN_QUERY prev (c # ptr)"
    and "\<And>prev c ptr. P (afterQuotedChar bs prev c) (advance prev c) ptr \<Longrightarrow> P IN_QUOTES prev (c # ptr)"
    and "\<And>prev c ptr. isBindDelimiter D (c # ptr) \<Longrightarrow>
      P IN_QUERY (foldl advance prev (fst (splitBind L (c # ptr)))) (snd (splitBind L (c # ptr))) \<Longrightarrow>
      P BEFORE_BIND prev (c # ptr)"
    and "\<And>prev c ptr. \<not> isBindDelimiter D (c # ptr) \<Longrightarrow> P IN_QUERY prev (c # ptr) \<Longrightarrow> P BEFORE_BIND prev (c # ptr)"
  shows "P ps prev ptr"
  using assms(1)
proof (induction "(ps, ptr)" arbitrary: ps prev ptr
    rule: wf_induct_rule [OF wf_measures [of "[\<lambda>(ps, ptr). length ptr, \<lambda>(ps, ptr). rank ps]"]])
  case 1
  show ?case
  proof (cases ptr)
    case Nil
    then show ?thesis using assms(2) 1(2) by simp
  next
    case (Cons c rest)
    show ?thesis
    proof (cases ps)
      case IN_QUERY
      then show ?thesis using 1(1) [of "afterQueryChar ptr" rest] assms(3) Cons by (simp add: afterQueryChar_def)
    next
      case IN_QUOTES
      then show ?thesis using 1(1) [of "afterQuotedChar bs prev c" rest] assms(4) Cons by (simp add: afterQuotedChar_def)
    next
      case BEFORE_BIND
      show ?thesis
      proof (cases "isBindDelimiter D (c # rest)")
        case True
        have "length (snd (splitBind L (c # rest))) < length ptr"
          using splitBind_length [of L rest] Cons delimiter_no_end [OF True] by (simp add: less_Suc_eq_le)
        then show ?thesis using 1(1) [of IN_QUERY "snd (splitBind L (c # rest))"] assms(5) [OF True] BEFORE_BIND Cons
          by (simp del: splitBind.simps)
      next
        case False
        then show ?thesis using 1(1) [of IN_QUERY ptr] assms(6) BEFORE_BIND Cons by simp
      qed
    next
      case IN_BIND
      then show ?thesis using 1(2) by simp
    qed
  qed
qed

lemmas bind_step = splitBind.simps [simp del]

section \<open>Null for bind variables\<close>

lemma nullLoop_bind:
  "nullLoop L D bs IN_BIND prev ptr st =
     nullLoop L D bs IN_QUERY (foldl advance prev (fst (splitBind L ptr))) (snd (splitBind L ptr)) st"
  by (induction ptr arbitrary: prev) (auto simp: bind_step)

primrec nullFor :: "piece \<Rightarrow> string" where
  "nullFor (Text c) = [c]"
| "nullFor (Bind b) = ''NULL''"

lemma nullLoop_scan:
  "ps \<noteq> IN_BIND \<Longrightarrow> nullLoop L D bs ps prev ptr st =
     (fst st + of_nat (length (binds (scan L D bs ps prev ptr))),
      snd st @ concat (map nullFor (scan L D bs ps prev ptr)))"
proof (induction ps prev ptr arbitrary: st rule: loop_induct [where D = D and bs = bs and L = L])
  case (bind prev c ptr)
  then show ?case by (simp add: nullLoop_bind [of L D bs prev "c # ptr"] del: nullLoop.simps(5))
qed simp_all

section \<open>Counting\<close>

lemma countLoop_bind:
  "countLoop L D bs IN_BIND prev ptr n =
     countLoop L D bs IN_QUERY (foldl advance prev (fst (splitBind L ptr))) (snd (splitBind L ptr)) n"
  by (induction ptr arbitrary: prev) (auto simp: bind_step)

definition kind :: "char \<Rightarrow> piece list \<Rightarrow> nat" where
  "kind d ps = length (filter (\<lambda>b. hd b = d) (binds ps))"

lemma kind_simps [simp]:
  "kind d [] = 0" "kind d (Text c # ps) = kind d ps" "kind d (Bind b # ps) = (if hd b = d then 1 else 0) + kind d ps"
  by (simp_all add: kind_def)

lemma countBind_none: "countBind D (c # ptr) n = None \<longleftrightarrow> \<not> isBindDelimiter D (c # ptr)"
  by (auto simp: countBind_def isBindDelimiter_def only_def)

lemma countBind_some:
  assumes "isBindDelimiter D (c # ptr)"
  shows "countBind D (c # ptr) n = Some (n\<lparr>
     questionmarkcount := questionmarkcount n + (if c = CHR ''?'' then 1 else 0),
     coloncount := coloncount n + (if c = CHR '':'' then 1 else 0),
     atsigncount := atsigncount n + (if c = CHR ''@'' then 1 else 0),
     dollarsigncount := dollarsigncount n + (if c = CHR ''$'' then 1 else 0)\<rparr>)"
  using assms by (auto simp: countBind_def isBindDelimiter_def only_def)

lemma countLoop_scan:
  "ps \<noteq> IN_BIND \<Longrightarrow> countLoop L D bs ps prev ptr n =
     (let q = scan L D bs ps prev ptr in
      n\<lparr>questionmarkcount := questionmarkcount n + of_nat (kind (CHR ''?'') q),
        coloncount := coloncount n + of_nat (kind (CHR '':'') q),
        atsigncount := atsigncount n + of_nat (kind (CHR ''@'') q),
        dollarsigncount := dollarsigncount n + of_nat (kind (CHR ''$'') q)\<rparr>)"
proof (induction ps prev ptr arbitrary: n rule: loop_induct [where D = D and bs = bs and L = L])
  case (bind prev c ptr)
  have "hd (fst (splitBind L (c # ptr))) = c" using splitBind_delimiter [OF bind(1), of L] by simp
  then show ?case
    using bind by (simp add: countBind_some countLoop_bind [of L D bs prev "c # ptr"] Let_def algebra_simps
        del: countLoop.simps(5))
next
  case (nobind prev c ptr)
  then show ?case by (simp add: countBind_none [THEN iffD2])
qed (simp_all add: Let_def)

section \<open>The format of the database\<close>

lemma translateLoop_bind:
  "ptr \<noteq> [] \<Longrightarrow> translateLoop L F D bs IN_BIND prev ptr st =
     translateLoop L F D bs IN_QUERY (foldl advance prev (fst (splitBind L ptr))) (snd (splitBind L ptr))
       (endBind L F (st\<lparr>currentbind := currentbind st @ fst (splitBind L ptr)\<rparr>))"
proof (induction ptr arbitrary: prev st)
  case (Cons c ptr)
  then show ?case by (cases "ptr = []") (auto simp: bind_step)
qed simp

primrec translatePiece :: "('b bindlib_scheme) \<Rightarrow> string \<Rightarrow> translation \<Rightarrow> piece \<Rightarrow> translation" where
  "translatePiece L F st (Text c) = st\<lparr>newquery := newquery st @ [c]\<rparr>"
| "translatePiece L F st (Bind b) = endBind L F (st\<lparr>currentbind := b\<rparr>)"

lemma translateLoop_scan:
  "ps \<noteq> IN_BIND \<Longrightarrow> translateLoop L F D bs ps prev ptr st = foldl (translatePiece L F) st (scan L D bs ps prev ptr)"
proof (induction ps prev ptr arbitrary: st rule: loop_induct [where D = D and bs = bs and L = L])
  case (bind prev c ptr)
  then show ?case by (simp add: translateLoop_bind [of "c # ptr"] del: translateLoop.simps(5))
qed simp_all

text \<open>What becomes of the \<open>i\<close>-th bind variable, and of the query.\<close>

definition renamed :: "('b bindlib_scheme) \<Rightarrow> string \<Rightarrow> u16 \<Rightarrow> string \<Rightarrow> string" where
  "renamed L F i b =
     (if matchesNativeBindFormat L F b then b
      else F ! 0 # (if length F = 1 then []
                    else if F ! 1 = CHR ''1'' \<and> \<not> isNumber L (tl b) \<or> length (tl b) = 0
                    then parseNumber L (int (unat i)) else tl b))"

primrec render :: "('b bindlib_scheme) \<Rightarrow> string \<Rightarrow> u16 \<Rightarrow> piece list \<Rightarrow> string" where
  "render L F i [] = []"
| "render L F i (p # ps) =
     (case p of Text c \<Rightarrow> c # render L F i ps | Bind b \<Rightarrow> renamed L F i b @ render L F (i + 1) ps)"

lemma endBind_simps:
  "newquery (endBind L F st) = newquery st @ renamed L F (bindindex st) (currentbind st)"
  "bindindex (endBind L F st) = bindindex st + 1"
  "translated (endBind L F st) \<longleftrightarrow> translated st \<or> \<not> matchesNativeBindFormat L F (currentbind st)"
  by (auto simp: endBind_def renamed_def translateBindVariableInStringAndMap_def Let_def)

lemma foldl_translate:
  "newquery (foldl (translatePiece L F) st ps) = newquery st @ render L F (bindindex st) ps \<and>
   (translated (foldl (translatePiece L F) st ps) \<longleftrightarrow>
     translated st \<or> \<not> list_all (matchesNativeBindFormat L F) (binds ps))"
proof (induction ps arbitrary: st)
  case (Cons p ps)
  then show ?case by (cases p) (auto simp: endBind_simps)
qed simp

lemma render_native: "list_all (matchesNativeBindFormat L F) (binds ps) \<Longrightarrow> render L F i ps = concat (map flat ps)"
proof (induction ps arbitrary: i)
  case (Cons p ps)
  then show ?case by (cases p) (simp_all add: renamed_def)
qed simp


definition kinds :: string where
  "kinds = ''$?:@''"

lemma binds_hd:
  "ps \<noteq> IN_BIND \<Longrightarrow> d \<in> set kinds \<Longrightarrow>
     list_all (\<lambda>b. hd b = d) (binds (scan L (only d) bs ps prev ptr))"
proof (induction ps prev ptr rule: loop_induct [where D = "only d" and bs = bs and L = L])
  case (bind prev c ptr)
  have "c = d" using bind(1,3) by (auto simp: isBindDelimiter_def only_def kinds_def)
  then show ?case using bind splitBind_delimiter [OF bind(1), of L] by simp
qed simp_all

lemma kind_all: "list_all (\<lambda>b. hd b = d) (binds ps) \<Longrightarrow> kind e ps = (if e = d then length (binds ps) else 0)"
  by (auto simp: kind_def list_all_iff filter_empty_conv intro!: arg_cong [where f = length] filter_True)

lemma count_only:
  assumes "d \<in> set kinds"
  shows "countBindVariables L (only d) bs query = of_nat (length (binds (pieces L (only d) bs query)))"
proof -
  have "list_all (\<lambda>b. hd b = d) (binds (pieces L (only d) bs query))"
    unfolding pieces_def by (rule binds_hd [OF _ assms]) simp
  then show ?thesis
    using assms by (auto simp: countBindVariables_def countLoop_scan pieces_def [symmetric] kind_all Let_def kinds_def)
qed

lemma markerKind_kinds: "markerKind L D bs query = Some d \<Longrightarrow> d \<in> set kinds \<and> countBindVariables L (only d) bs query \<noteq> 0"
  by (auto simp: markerKind_def kinds_def Let_def split: if_splits)

text \<open>
  Null is put in for exactly the bind variables of one kind, as many as
  \<open>countBindVariables\<close> counts of that kind, and the rest of the query is kept.
\<close>

theorem null_for_binds:
  "case markerKind L D bs query of
     None \<Rightarrow> substituteNullForBindVariables L D bs query = (0, query)
   | Some d \<Rightarrow>
       substituteNullForBindVariables L D bs query =
         (countBindVariables L (only d) bs query, concat (map nullFor (pieces L (only d) bs query))) \<and>
       countBindVariables L (only d) bs query = of_nat (length (binds (pieces L (only d) bs query))) \<and>
       countBindVariables L (only d) bs query \<noteq> 0 \<and> concat (map flat (pieces L (only d) bs query)) = query"
proof (cases "markerKind L D bs query")
  case None
  then show ?thesis by (simp add: substituteNullForBindVariables_def)
next
  case (Some d)
  then have d: "d \<in> set kinds" "countBindVariables L (only d) bs query \<noteq> 0" using markerKind_kinds by blast+
  then have "query \<noteq> []" by (auto simp: count_only pieces_def)
  then show ?thesis
    using Some d by (simp add: substituteNullForBindVariables_def nullLoop_scan pieces_def scan_flat count_only)
qed

end
