(* ===== verification/Bind_Values.thy ===== *)
theory Bind_Values
  imports Bind_Pieces
begin

text \<open>
  Values in place of bind variables: where \<open>fakeInputBinds\<close> puts them, and what the database's
  reader of literals makes of the ones that it quotes.
\<close>

section \<open>The library\<close>

text \<open>The library on ASCII text, with decimal numbers.\<close>

fun decimal :: "nat \<Rightarrow> string" where
  "decimal n = (if n < 10 then [] else decimal (n div 10)) @ [char_of (48 + n mod 10)]"

definition undecimal :: "string \<Rightarrow> int" where
  "undecimal s = foldl (\<lambda>v c. 10 * v + (of_char c - 48)) 0 s"

definition ascii_digit :: "char \<Rightarrow> bool" where
  "ascii_digit c \<longleftrightarrow> 48 \<le> (of_char c :: int) \<and> (of_char c :: int) \<le> 57"

definition ascii_bind :: bindlib where
  "ascii_bind = charlib.extend ascii
     \<lparr>isDigit = ascii_digit, isNumber = (\<lambda>s. s \<noteq> [] \<and> list_all ascii_digit s), convertToInteger = undecimal,
      parseNumber = (\<lambda>n. decimal (nat n))\<rparr>"

section \<open>Literals\<close>

text \<open>
  The reader of literals of an SQL database, after the opening quote: two quotes are a quote, and
  where the database has them (\<open>bs\<close>), a backslash stands before a character that is taken as it is.
\<close>

fun readLiteral :: "bool \<Rightarrow> string \<Rightarrow> (string \<times> string) option" where
  "readLiteral bs [] = None"
| "readLiteral bs (c # r) =
     (if c = quote then
        (case r of [] \<Rightarrow> Some ([], [])
         | d # r' \<Rightarrow> if d = quote then map_option (\<lambda>(s, t). (quote # s, t)) (readLiteral bs r') else Some ([], r))
      else if bs \<and> c = backslash then
        (case r of [] \<Rightarrow> None | d # r' \<Rightarrow> map_option (\<lambda>(s, t). (d # s, t)) (readLiteral bs r'))
      else map_option (\<lambda>(s, t). (c # s, t)) (readLiteral bs r))"

lemma read_escaped:
  "nul \<notin> set s \<Longrightarrow> bs \<longrightarrow> backslash \<notin> set s \<Longrightarrow> take 1 r \<noteq> [quote] \<Longrightarrow>
     readLiteral bs (concat (map escapeChar s) @ quote # r) = Some (s, r)"
proof (induction s)
  case Nil
  then show ?case by (cases r) auto
next
  case (Cons c s)
  then show ?case by (cases "c = quote") (auto simp: escapeChar_def)
qed

text \<open>
  C27: a string that is put in for a bind variable stays inside its quotes: the database reads back
  the string and goes on with what stands after it, whatever quotes are in the string. This needs
  a database without backslash escapes, or a string without backslashes.
\<close>

theorem string_value_stays_inside:
  assumes "nul \<notin> set s" and "bs \<longrightarrow> backslash \<notin> set s" and "take 1 r \<noteq> [quote]"
  shows "\<exists>t. performSubstitution L False (BV_String s) = quote # t \<and> readLiteral bs (t @ r) = Some (s, r)"
  using read_escaped [OF assms] by (simp add: stringLiteral_def)

theorem string_value_stays_inside_witness:
  "\<exists>t. performSubstitution ascii_bind False (BV_String ([quote] @ ''; drop table t; --'')) = quote # t \<and>
     readLiteral False (t @ '' where 1=1'') = Some ([quote] @ ''; drop table t; --'', '' where 1=1'')"
  by (rule string_value_stays_inside) simp_all

text \<open>
  With backslash escapes, it does not: a string that begins with a backslash and a quote ends
  its own literal, and the database takes the rest of the string for part of the query.
\<close>

theorem backslash_value_escapes:
  assumes "take 1 s \<noteq> [quote]" and "take 1 s \<noteq> [nul]" and "s \<noteq> []"
  shows "\<exists>t. performSubstitution L False (BV_String (backslash # quote # s)) = quote # t \<and>
    readLiteral True (t @ r) = Some ([quote], concat (map escapeChar s) @ quote # r)"
proof -
  obtain c s' where s: "s = c # s'" using assms(3) by (cases s) auto
  then show ?thesis using assms(1,2) by (simp add: stringLiteral_def escapeChar_def)
qed

theorem backslash_value_escapes_witness:
  "\<exists>t. performSubstitution ascii_bind False (BV_String (backslash # quote # ''; drop table t; --'')) = quote # t \<and>
     readLiteral True t = Some ([quote], ''; drop table t; --'' @ [quote])"
  using backslash_value_escapes [of "''; drop table t; --''" ascii_bind "[]"] by (simp add: escapeChar_def)

section \<open>Question marks\<close>

primrec fill :: "string list \<Rightarrow> piece list \<Rightarrow> string" where
  "fill vs [] = []"
| "fill vs (p # ps) =
     (case p of Text c \<Rightarrow> c # fill vs ps
      | Bind b \<Rightarrow> (case vs of [] \<Rightarrow> b @ fill [] ps | v # vs \<Rightarrow> v @ fill vs ps))"

text \<open>Variables with the names one, two and so on, after a delimiter.\<close>

definition numbered :: "('b bindlib_scheme) \<Rightarrow> bindvar list \<Rightarrow> bool" where
  "numbered L vars \<longleftrightarrow>
     (\<forall>k<length vars. convertToInteger L (tl (variable (vars ! k))) = int k + 1 \<and> tl (variable (vars ! k)) \<noteq> [] \<and>
        isBindVariableNameCharacter L (hd (tl (variable (vars ! k)))))"

lemma question_found:
  assumes "numbered L vars" and "i < length vars" and "rest = [] \<or> afterBindVariable L rest"
  shows "find (bindMatches L (int i + 1) (CHR ''?'' # rest)) vars = Some (vars ! i)"
proof -
  have "bindMatches L (int i + 1) (CHR ''?'' # rest) (vars ! k) \<longleftrightarrow> k = i" if "k < length vars" for k
  proof -
    let ?v = "tl (variable (vars ! k))"
    have v: "convertToInteger L ?v = int k + 1" "?v \<noteq> []" "isBindVariableNameCharacter L (hd ?v)"
      using assms(1) that by (simp_all add: numbered_def)
    have "take (length (variable (vars ! k)) - 1) rest \<noteq> ?v"
    proof
      assume eq: "take (length (variable (vars ! k)) - 1) rest = ?v"
      then obtain c r where rest: "rest = c # r" using v(2) by (cases rest) auto
      then have "hd ?v = c" using eq v(2) by (metis take_eq_Nil hd_take list.sel(1) neq0_conv)
      then show False using v(3) assms(3) rest by (simp add: afterBindVariable_def)
    qed
    then show ?thesis using v(1) by (auto simp: bindMatches_def)
  qed
  then show ?thesis using assms(2) by (subst find_Some_iff) (auto intro!: exI [of _ i])
qed

lemma splitBind_question:
  "fst (splitBind L (CHR ''?'' # rest)) = ''?'' \<Longrightarrow> snd (splitBind L (CHR ''?'' # rest)) = rest \<and> (rest = [] \<or> afterBindVariable L rest)"
  by (cases rest) (auto simp: bind_step afterBindVariable_def split: if_splits)

definition same_escape :: "queryparsestate \<Rightarrow> char \<Rightarrow> char \<Rightarrow> bool" where
  "same_escape ps p p' \<longleftrightarrow> (p = backslash \<longleftrightarrow> p' = backslash) \<and> (ps = BEFORE_BIND \<longrightarrow> p \<noteq> backslash)"

lemma same_escape_query: "same_escape IN_QUERY p p' \<Longrightarrow> same_escape (afterQueryChar (c # ptr)) (advance p c) (advance p' c)"
  by (auto simp: same_escape_def advance_def afterQueryChar_def beforeBindVariable_def)

lemma same_escape_quoted:
  "same_escape IN_QUOTES p p' \<Longrightarrow> same_escape (afterQuotedChar bs p c) (advance p c) (advance p' c) \<and>
     afterQuotedChar bs p c = afterQuotedChar bs p' c"
  by (auto simp: same_escape_def advance_def afterQuotedChar_def)

lemma fakeLoop_fill:
  assumes "numbered L vars"
  shows "ps \<noteq> IN_BIND \<Longrightarrow> same_escape ps p prev \<Longrightarrow> list_all (\<lambda>b. b = ''?'') (binds (scan L D bs ps prev ptr)) \<Longrightarrow>
    i + length (binds (scan L D bs ps prev ptr)) \<le> length vars \<Longrightarrow>
    fakeLoop L u vars D bs ps p ptr (int i + 1) out =
      out @ fill (drop i (map (\<lambda>v. performSubstitution L u (bindvalue v)) vars)) (scan L D bs ps prev ptr)"
proof (induction ps prev ptr arbitrary: p i out rule: loop_induct [where D = D and bs = bs and L = L])
  case (query prev c ptr)
  then show ?case using same_escape_query [of p prev c ptr] by simp
next
  case (quotes prev c ptr)
  have e: "afterQuotedChar bs p c = afterQuotedChar bs prev c"
    using same_escape_quoted [OF quotes.prems(1), of bs c] by blast
  have s: "same_escape (afterQuotedChar bs prev c) (advance p c) (advance prev c)"
    using same_escape_quoted [OF quotes.prems(1), of bs c] unfolding e by blast
  then show ?case using quotes.IH [of "advance p c" i "out @ [c]"] quotes.prems s by (simp add: e)
next
  case (nobind prev c ptr)
  then show ?case by (simp add: same_escape_def)
next
  case (bind prev c ptr)
  have c: "c = CHR ''?''" "fst (splitBind L (c # ptr)) = ''?''"
    using bind.prems(2) bind.hyps splitBind_delimiter [OF bind.hyps, of L] by simp_all
  have rest: "snd (splitBind L (c # ptr)) = ptr" "ptr = [] \<or> afterBindVariable L ptr"
    using splitBind_question [of L ptr] c by simp_all
  have i: "i < length vars" using bind.prems(3) bind.hyps c by simp
  have "same_escape IN_QUERY p (advance prev c)" using bind.prems(1) c by (auto simp: same_escape_def advance_def)
  then show ?case
    using bind.IH [of p "Suc i" "out @ performSubstitution L u (bindvalue (vars ! i))"] bind.prems bind.hyps c rest
      question_found [OF assms i rest(2)] i
    by (simp add: substituteAt_def Cons_nth_drop_Suc [symmetric] algebra_simps)
qed simp


definition all_delims :: delims where
  "all_delims = \<lparr>questionmark = True, colon = True, atsign = True, dollarsign = True\<rparr>"


section \<open>What the scan does not tell apart\<close>

text \<open>
  An operator may stand before a bind variable, but only white space, \<open>,);=<>!\<close> and \<open>:=\<close> end one: a
  variable with any other operator after it takes the rest of the query into its name. With one
  character for the format, the rest is lost.
\<close>

theorem operator_swallowed:
  "list_all (\<lambda>c. fst (translateBindVariables ascii_bind ''$1'' all_delims False 100 (''select ?'' @ c # ''?'')) = ''select $1'')
     ''+-*/%|&~^(''"
  by code_simp

text \<open>
  A named variable that is used twice gets two numbers, and the mapping keeps the second: no value
  is bound to the first.
\<close>

theorem repeated_name_unbound:
  "fst (translateBindVariables ascii_bind ''$1'' all_delims False 100 ''a=:v or b=:v'') = ''a=$1 or b=$2''"
  "snd (translateBindVariables ascii_bind ''$1'' all_delims False 100 ''a=:v or b=:v'') ''$v'' = Some ''$2''"
  by code_simp+

text \<open>
  The kind of marker that is replaced with null need not be the one that \<open>countBindVariables\<close> counts:
  a name of another kind can swallow markers in the count, but not in the replacement.
\<close>

theorem null_for_other_kind:
  "countBindVariables ascii_bind all_delims False ''a=:v+$1,$2'' \<noteq>
     fst (substituteNullForBindVariables ascii_bind all_delims False ''a=:v+$1,$2'')"
  by code_simp

end
