(* ===== verification/Query_Modules.thy ===== *)
theory Query_Modules
  imports Prelude
begin

text \<open>
  The chains of modules that a query passes through: filters (\<open>src/server/sqlrfilters.cpp\<close> and the
  filter \<open>src/filters/patterns.cpp\<close>), query translations (\<open>sqlrquerytranslations.cpp\<close>), directives,
  triggers and bind variable translations, and the chain of result set row block translations
  (\<open>sqlrresultsetrowblocktranslations.cpp\<close>).

  A module is what its operations do to a state \<open>'s\<close>, which is whatever the module can reach; a
  query tree is a value of the type \<open>'t\<close>. The parser is a module, too: what it makes of a text and
  how it writes a tree are the fields of \<open>parser\<close>.
\<close>

type_synonym qerror = "string \<times> int"

record 't parser =
  parse :: "string \<Rightarrow> 't option"
  write_tree :: "'t \<Rightarrow> string option"

section \<open>Filters\<close>

text \<open>A filter answers with the error that it gives, or with nothing when it accepts the query.\<close>

record ('s, 't) queryfilter =
  filterRequiresTree :: bool
  filterTree :: "'t \<Rightarrow> 's \<Rightarrow> qerror option \<times> 's"
  filterText :: "string \<Rightarrow> 's \<Rightarrow> qerror option \<times> 's"

text \<open>\<open>sqlrfilters::run\<close>: the tree is parsed once, when a filter needs it first.\<close>

fun runFilters ::
  "'t parser option \<Rightarrow> string \<Rightarrow> 't option \<Rightarrow> ('s, 't) queryfilter list \<Rightarrow> 's \<Rightarrow> qerror option \<times> 's" where
  "runFilters sqlrp query tree [] s = (None, s)"
| "runFilters sqlrp query tree (f # fs) s =
     (if filterRequiresTree f then
        (case sqlrp of
           None \<Rightarrow> (None, s)
         | Some p \<Rightarrow>
             (case (case tree of None \<Rightarrow> parse p query | Some t \<Rightarrow> Some t) of
                None \<Rightarrow> (None, s)
              | Some t \<Rightarrow>
                  (case filterTree f t s of
                     (Some e, s) \<Rightarrow> (Some e, s)
                   | (None, s) \<Rightarrow> runFilters sqlrp query (Some t) fs s)))
      else
        (case filterText f query s of
           (Some e, s) \<Rightarrow> (Some e, s)
         | (None, s) \<Rightarrow> runFilters sqlrp query tree fs s))"

text \<open>The filter \<open>patterns\<close>. What it uses of Rudiments is the record \<open>patternlib\<close>.\<close>

record 'r patternlib =
  match :: "'r \<Rightarrow> string \<Rightarrow> bool"
  contains :: "string \<Rightarrow> string \<Rightarrow> bool"
  lower :: "string \<Rightarrow> string"
  splitOnQuotes :: "string \<Rightarrow> string list"

datatype scope = SCOPE_QUERY | SCOPE_OUTSIDE_QUOTES | SCOPE_INSIDE_QUOTES

record 'r pattern =
  patterntext :: string
  re :: "'r option"
  ignorecase :: bool
  patternscope :: scope

definition allowPart :: "'r patternlib \<Rightarrow> 'r pattern \<Rightarrow> string \<Rightarrow> bool" where
  "allowPart P pc part =
     (if (case re pc of None \<Rightarrow> False | Some r \<Rightarrow> match P r part) then False
      else if ignorecase pc then \<not> contains P (lower P part) (lower P (patterntext pc))
      else \<not> contains P part (patterntext pc))"

text \<open>Every other part, from \<open>start\<close> on.\<close>

fun everyOther :: "'a list \<Rightarrow> 'a list" where
  "everyOther [] = []"
| "everyOther [x] = [x]"
| "everyOther (x # y # xs) = x # everyOther xs"

definition allowPattern :: "'r patternlib \<Rightarrow> string \<Rightarrow> string list \<Rightarrow> 'r pattern \<Rightarrow> bool" where
  "allowPattern P query parts pc =
     (if patternscope pc = SCOPE_QUERY then allowPart P pc query
      else list_all (allowPart P pc)
             (everyOther
                (drop (if patternscope pc = SCOPE_INSIDE_QUOTES \<and> take 1 query \<noteq> [CHR 0x27] then 1 else 0) parts)))"

definition runPatterns :: "'r patternlib \<Rightarrow> 'r pattern list \<Rightarrow> string \<Rightarrow> bool" where
  "runPatterns P ps query =
     (let parts = (if list_ex (\<lambda>pc. patternscope pc \<noteq> SCOPE_QUERY) ps then splitOnQuotes P query else [])
      in list_all (allowPattern P query parts) ps)"

section \<open>Query translations\<close>

text \<open>A translation answers with an error message or with its result.\<close>

record ('s, 't) querytranslation =
  translationRequiresTree :: bool
  translateTree :: "'t \<Rightarrow> 's \<Rightarrow> (string + 't) \<times> 's"
  translateText :: "string \<Rightarrow> nat \<Rightarrow> 's \<Rightarrow> (string + string) \<times> 's" \<comment> \<open>the query and its size\<close>

text \<open>
  The loop of \<open>sqlrquerytranslations::run\<close>, with the query, its size and the tree. When a tree is
  written for a translation of text, the size stays what it was. \<open>fail\<close> raises the event of a
  query that does not parse.
\<close>

fun translationLoop ::
  "'t parser option \<Rightarrow> (string \<Rightarrow> 's \<Rightarrow> 's) \<Rightarrow> ('s, 't) querytranslation list \<Rightarrow> string \<times> nat \<times> 't option \<Rightarrow>
   's \<Rightarrow> (string + string \<times> nat \<times> 't option) \<times> 's"
where
  "translationLoop sqlrp fail [] q s = (Inr q, s)"
| "translationLoop sqlrp fail (tr # trs) (query, querysize, tree) s =
     (if translationRequiresTree tr then
        (case sqlrp of
           None \<Rightarrow> (Inl ''query translation requires query tree but no parser available'', s)
         | Some p \<Rightarrow>
             (case (case tree of None \<Rightarrow> parse p query | Some t \<Rightarrow> Some t) of
                None \<Rightarrow> (Inl ''query translation requires query tree but query failed to parse'', fail query s)
              | Some t \<Rightarrow>
                  (case translateTree tr t s of
                     (Inl e, s) \<Rightarrow> (Inl e, s)
                   | (Inr t, s) \<Rightarrow> translationLoop sqlrp fail trs (query, querysize, Some t) s)))
      else
        (case (case tree of None \<Rightarrow> Some query | Some t \<Rightarrow> Option.bind sqlrp (\<lambda>p. write_tree p t)) of
           None \<Rightarrow> (Inl ''write-query failed'', s)
         | Some query \<Rightarrow>
             (case translateText tr query querysize s of
                (Inl e, s) \<Rightarrow> (Inl e, s)
              | (Inr new, s) \<Rightarrow> translationLoop sqlrp fail trs (new, length new, None) s)))"

text \<open>
  The translated query and its tree. A query that did not go through a tree is parsed at the end;
  that follows the pointer to the parser, and None is where there is none.
\<close>

definition runTranslations ::
  "'t parser option \<Rightarrow> (string \<Rightarrow> 's \<Rightarrow> 's) \<Rightarrow> ('s, 't) querytranslation list \<Rightarrow> string \<Rightarrow> 's \<Rightarrow>
   ((string + string \<times> 't option) \<times> 's) option"
where
  "runTranslations sqlrp fail trs query s =
     (case translationLoop sqlrp fail trs (query, length query, None) s of
        (Inl e, s) \<Rightarrow> Some (Inl e, s)
      | (Inr (query, querysize, Some t), s) \<Rightarrow>
          (case Option.bind sqlrp (\<lambda>p. write_tree p t) of
             None \<Rightarrow> Some (Inl ''final write-query failed'', s)
           | Some w \<Rightarrow> Some (Inr (w, Some t), s))
      | (Inr (query, querysize, None), s) \<Rightarrow>
          (case sqlrp of
             None \<Rightarrow> None
           | Some p \<Rightarrow>
               (let translated = take querysize query
                in Some (Inr (translated, parse p translated),
                     if parse p translated = None then fail translated s else s))))"

section \<open>Directives, bind variable translations and triggers\<close>

text \<open>Each of these chains runs until a module returns false.\<close>

primrec runChain :: "('s \<Rightarrow> bool \<times> 's) list \<Rightarrow> 's \<Rightarrow> bool \<times> 's" where
  "runChain [] s = (True, s)"
| "runChain (tr # trs) s = (case tr s of (False, s) \<Rightarrow> (False, s) | (True, s) \<Rightarrow> runChain trs s)"

text \<open>
  The lists of triggers, which share plugins, and the plugins that \<open>sqlrtriggers::endTransaction\<close> and
  \<open>sqlrtriggers::endSession\<close> tell, in their order.
\<close>

record 'p triggerlists =
  beforeexecute :: "'p list"
  afterexecute :: "'p list"
  beforeprepare :: "'p list"
  afterprepare :: "'p list"

definition toldOfEnd :: "'p triggerlists \<Rightarrow> 'p list" where
  "toldOfEnd T =
     filter (\<lambda>p. p \<notin> set (afterexecute T) \<and> p \<notin> set (beforeprepare T) \<and> p \<notin> set (afterprepare T)) (beforeexecute T) @
     filter (\<lambda>p. p \<notin> set (beforeprepare T) \<and> p \<notin> set (afterprepare T)) (afterexecute T) @
     filter (\<lambda>p. p \<notin> set (afterprepare T)) (beforeprepare T) @
     afterprepare T"

section \<open>Row block translations\<close>

text \<open>
  The modules of this chain collect the rows of a block, translate them and give them back one by
  one. The functions are the same for all, and each module is a state \<open>'m\<close> of its own, which says what it does.
\<close>

record ('m, 'row) rowblockmodule =
  mod_setRow :: "'row \<Rightarrow> 'm \<Rightarrow> bool \<times> 'm"
  mod_run :: "'m \<Rightarrow> bool \<times> 'm"
  mod_getRow :: "'m \<Rightarrow> 'row option \<times> 'm"

definition getRowBlockCount :: "nat \<Rightarrow> nat \<Rightarrow> nat" where
  "getRowBlockCount rowblockcount rowblocksize =
     (let n = (if rowblockcount \<noteq> 0 then rowblocksize else rowblockcount) in if n = 0 then 10 else n)"

definition setRow :: "('m, 'row) rowblockmodule \<Rightarrow> 'row \<Rightarrow> 'm list \<times> nat \<Rightarrow> bool \<times> 'm list \<times> nat" where
  "setRow M row st =
     (case st of
        ([], n) \<Rightarrow> (True, st)
      | (m # ms, n) \<Rightarrow>
          (case mod_setRow M row m of (ok, m) \<Rightarrow> (ok, m # ms, if ok then n + 1 else 0)))"

text \<open>The rows of a module are taken out of it and put back into it.\<close>

primrec handOver :: "('m, 'row) rowblockmodule \<Rightarrow> nat \<Rightarrow> 'm \<Rightarrow> bool \<times> 'm" where
  "handOver M 0 m = (True, m)"
| "handOver M (Suc n) m =
     (case mod_getRow M m of
        (None, m) \<Rightarrow> (False, m)
      | (Some row, m) \<Rightarrow> (case mod_setRow M row m of (False, m) \<Rightarrow> (False, m) | (True, m) \<Rightarrow> handOver M n m))"

fun blockLoop :: "('m, 'row) rowblockmodule \<Rightarrow> nat \<Rightarrow> 'm list \<Rightarrow> bool \<times> 'm list" where
  "blockLoop M n [] = (True, [])"
| "blockLoop M n [m] = (True, [m])"
| "blockLoop M n (m # ms) =
     (case handOver M n m of
        (False, m) \<Rightarrow> (False, m # ms)
      | (True, m) \<Rightarrow>
          (case mod_run M m of
             (False, m) \<Rightarrow> (False, m # ms)
           | (True, m) \<Rightarrow> (case blockLoop M n ms of (ok, ms) \<Rightarrow> (ok, m # ms))))"

definition run :: "('m, 'row) rowblockmodule \<Rightarrow> 'm list \<times> nat \<Rightarrow> bool \<times> 'm list \<times> nat" where
  "run M st =
     (case st of
        ([], n) \<Rightarrow> (True, st)
      | (m # ms, n) \<Rightarrow>
          (case mod_run M m of
             (False, m) \<Rightarrow> (False, m # ms, 0)
           | (True, m) \<Rightarrow> (case blockLoop M n (m # ms) of (ok, ms) \<Rightarrow> (ok, ms, if ok then n else 0))))"

end
