(* ===== verification/Query_Pipeline.thy ===== *)
theory Query_Pipeline
  imports Transactions Query_Text Bind_Scan Query_Modules
begin

text \<open>
  The way of a query through the controller: \<open>prepareQuery\<close> and \<open>executeQuery\<close> of
  \<open>src/server/sqlrservercontroller.cpp\<close> with the functions they are made of. The state is the
  transaction state of \<open>Transactions\<close>, whose field \<open>conn\<close> is the database and the driver, the cursor,
  the modules, and a log of what was done.

  The driver's operations and the modules are the fields of \<open>queryenv\<close>; the modules are functions on
  the whole state. The text of a query and its size are one list. Query times, the states that are
  shown in shared memory, and debug output are left out, and the arrays of column information that
  \<open>handleResultSetHeader\<close> fills are left to the field \<open>columns\<close>.
\<close>

section \<open>State\<close>

datatype querystatus = Status_Success | Status_Error | Status_Filter_Violation

text \<open>The members of \<open>sqlrservercursor\<close> that these functions use. \<open>([], 0)\<close> is no error.\<close>

record 't querycursor =
  querybuffer :: string
  qtype :: sqlrquerytype
  querystatus :: querystatus
  columninfoisvalid :: bool
  preprocessed :: bool
  prepared :: bool
  executed :: bool
  needsintercept :: bool
  wasintercepted_cur :: bool
  bindswerefaked :: bool
  fakeinputbindsforthisquery :: bool
  headerhandled :: bool
  querysuppressed :: bool
  translatebindsforthisquery :: bool
  requirebindtranslation :: bool
  inbinds :: "bindvar list"
  outbinds :: "bindvar list"
  inoutbinds :: "bindvar list"
  bindmappings :: "string \<rightharpoonup> string"
  querywithfakeinputbinds :: string
  querytree :: "'t option"
  cursorerror :: qerror
  totalrowsfetched :: nat

datatype queryevent =
  Query_Received | Query_Prepared | Query_Executed | Filter_Violation | Translation_Failure string
| Parse_Failure string | Result_Set_Closed | Db_Prepare string | Db_Execute string | Db_Bind bindvar
| Query_Counted sqlrquerytype | Error_Counted | Column_Caches_Cleared

record ('c, 't, 'm) querystate =
  tx :: "'c txst"
  cur :: "'t querycursor"
  mods :: 'm
  overrideaffectedrows :: bool
  affectedrows :: int
  columnscached :: bool
  querylog :: "queryevent list"

record ('c, 't, 'm) queryenv =
  dbc :: "'c dbconn"
  textlib :: bindlib
  delimiters :: delims
  backslashEscapesQuotes :: bool
  unicodestrings :: bool
  bindformat :: string
  maxquerysize :: u32
  maxerrorsize :: u32
  fakeinputbinds :: bool
  translatebinds :: bool
  noopQuery :: string
  beginTransactionQuery :: string
  useOriginalOnError :: bool
  supportsNativeBinds :: "string \<Rightarrow> bool"
  columnInfoAfterPrepare :: bool
  txErrorText :: "txerror \<Rightarrow> qerror"
  cursorids :: "u16 list"
  queryparser :: "'t parser"
  filters :: "((('c, 't, 'm) querystate, 't) queryfilter list \<times> (('c, 't, 'm) querystate, 't) queryfilter list) option"
  directives :: "(string \<Rightarrow> ('c, 't, 'm) querystate \<Rightarrow> bool \<times> ('c, 't, 'm) querystate) list option"
  querytranslations :: "(('c, 't, 'm) querystate, 't) querytranslation list option"
  bindtranslations :: "(('c, 't, 'm) querystate \<Rightarrow> bool \<times> ('c, 't, 'm) querystate) list option"
  bindTranslationError :: "('c, 't, 'm) querystate \<Rightarrow> string"
  triggers :: "(('c, 't, 'm) querystate \<Rightarrow> bool \<times> ('c, 't, 'm) querystate) triggerlists option"
  columns :: "('c, 't, 'm) querystate \<Rightarrow> bool \<times> ('c, 't, 'm) querystate"
  db_prepare :: "string \<Rightarrow> 'c \<Rightarrow> bool \<times> 'c"
  db_execute :: "string \<Rightarrow> 'c \<Rightarrow> bool \<times> 'c"
  db_inputBind :: "bindvar \<Rightarrow> 'c \<Rightarrow> bool \<times> 'c"
  db_outputBind :: "bindvar \<Rightarrow> 'c \<Rightarrow> bool \<times> 'c"
  db_inputOutputBind :: "bindvar \<Rightarrow> 'c \<Rightarrow> bool \<times> 'c"
  db_closeResultSet :: "'c \<Rightarrow> 'c"
  db_error :: "'c \<Rightarrow> qerror"
  db_affectedRows :: "'c \<Rightarrow> int"

text \<open>The four switches of \<open>prepareQuery\<close> and \<open>executeQuery\<close>.\<close>

record enables =
  enabledirectives :: bool
  enabletranslations :: bool
  enablefilters :: bool
  enabletriggers :: bool

abbreviation on_cursor :: "('t querycursor \<Rightarrow> 't querycursor) \<Rightarrow> ('c, 't, 'm) querystate \<Rightarrow> ('c, 't, 'm) querystate" where
  "on_cursor f s \<equiv> s\<lparr>cur := f (cur s)\<rparr>"

definition note_event :: "queryevent list \<Rightarrow> ('c, 't, 'm) querystate \<Rightarrow> ('c, 't, 'm) querystate" where
  "note_event es s = s\<lparr>querylog := querylog s @ es\<rparr>"

text \<open>An operation of the driver.\<close>

definition driver ::
  "('c \<Rightarrow> bool \<times> 'c) \<Rightarrow> ('c, 't, 'm) querystate \<Rightarrow> bool \<times> ('c, 't, 'm) querystate" where
  "driver op s = (case call op (tx s) of (ok, t) \<Rightarrow> (ok, s\<lparr>tx := t\<rparr>))"

section \<open>Errors and result sets\<close>

definition setCursorError ::
  "('c, 't, 'm) queryenv \<Rightarrow> qerror \<Rightarrow> ('c, 't, 'm) querystate \<Rightarrow> ('c, 't, 'm) querystate" where
  "setCursorError E e s = on_cursor (cursorerror_update (\<lambda>_. (take (unat (maxerrorsize E)) (fst e), snd e))) s"

definition clearError :: "('c, 't, 'm) queryenv \<Rightarrow> ('c, 't, 'm) querystate \<Rightarrow> ('c, 't, 'm) querystate" where
  "clearError E s = setCursorError E ([], 0) s"

definition saveError :: "('c, 't, 'm) queryenv \<Rightarrow> ('c, 't, 'm) querystate \<Rightarrow> ('c, 't, 'm) querystate" where
  "saveError E s =
     (if snd (cursorerror (cur s)) \<noteq> 0 \<or> fst (cursorerror (cur s)) \<noteq> [] then s
      else on_cursor (cursorerror_update (\<lambda>_. db_error E (conn (tx s)))) s)"

definition copyConnectionErrorToCursor ::
  "('c, 't, 'm) queryenv \<Rightarrow> ('c, 't, 'm) querystate \<Rightarrow> ('c, 't, 'm) querystate" where
  "copyConnectionErrorToCursor E s =
     setCursorError E (case connerror (tx s) of None \<Rightarrow> ([], 0) | Some e \<Rightarrow> txErrorText E e) s"

definition closeResultSet :: "('c, 't, 'm) queryenv \<Rightarrow> ('c, 't, 'm) querystate \<Rightarrow> ('c, 't, 'm) querystate" where
  "closeResultSet E s = note_event [Result_Set_Closed] (s\<lparr>tx := (tx s)\<lparr>conn := db_closeResultSet E (conn (tx s))\<rparr>\<rparr>)"

definition handleResultSetHeader ::
  "('c, 't, 'm) queryenv \<Rightarrow> ('c, 't, 'm) querystate \<Rightarrow> bool \<times> ('c, 't, 'm) querystate" where
  "handleResultSetHeader E s =
     (let s = on_cursor (columninfoisvalid_update (\<lambda>_. True)) s
      in if headerhandled (cur s) then (True, s) else columns E (on_cursor (headerhandled_update (\<lambda>_. True)) s))"

section \<open>Modules on a query\<close>

definition filterQuery ::
  "('c, 't, 'm) queryenv \<Rightarrow> (('c, 't, 'm) querystate, 't) queryfilter list \<Rightarrow> ('c, 't, 'm) querystate \<Rightarrow>
   bool \<times> ('c, 't, 'm) querystate" where
  "filterQuery E fs s =
     (case runFilters (Some (queryparser E)) (querybuffer (cur s)) None fs s of
        (None, s) \<Rightarrow> (True, s)
      | (Some e, s) \<Rightarrow> (False, note_event [Filter_Violation] (setCursorError E e s)))"

definition applyDirectives ::
  "(string \<Rightarrow> ('c, 't, 'm) querystate \<Rightarrow> bool \<times> ('c, 't, 'm) querystate) list \<Rightarrow>
   ('c, 't, 'm) querystate \<Rightarrow> bool \<times> ('c, 't, 'm) querystate" where
  "applyDirectives ds s = runChain (map (\<lambda>d. d (querybuffer (cur s))) ds) s"

definition translateQuery ::
  "('c, 't, 'm) queryenv \<Rightarrow> (('c, 't, 'm) querystate, 't) querytranslation list \<Rightarrow> ('c, 't, 'm) querystate \<Rightarrow>
   bool \<times> ('c, 't, 'm) querystate" where
  "translateQuery E trs s =
     (let query = querybuffer (cur s);
          s = on_cursor (querytree_update (\<lambda>_. None)) s
      in case runTranslations (Some (queryparser E)) (\<lambda>q. note_event [Parse_Failure q]) trs query s of
           None \<Rightarrow> (False, s)
         | Some (Inl e, s) \<Rightarrow>
             (let s = note_event [Translation_Failure query] s
              in if useOriginalOnError E then (True, s) else (False, setCursorError E (e, 900027) s))
         | Some (Inr (new, t), s) \<Rightarrow>
             (let s = on_cursor (querytree_update (\<lambda>_. t)) s
              in if unat (maxquerysize E) < length new then (False, s)
                 else (True, on_cursor (querybuffer_update (\<lambda>_. if new = [] then noopQuery E else new)) s)))"

definition translateBinds :: "('c, 't, 'm) queryenv \<Rightarrow> ('c, 't, 'm) querystate \<Rightarrow> ('c, 't, 'm) querystate" where
  "translateBinds E s =
     (case translateBindVariables (textlib E) (bindformat E) (delimiters E) (backslashEscapesQuotes E)
             (maxquerysize E) (querybuffer (cur s)) of
        (q, maps) \<Rightarrow> on_cursor (\<lambda>c. c\<lparr>querybuffer := q, bindmappings := maps\<rparr>) s)"

definition translateBeginTransaction :: "('c, 't, 'm) queryenv \<Rightarrow> ('c, 't, 'm) querystate \<Rightarrow> ('c, 't, 'm) querystate" where
  "translateBeginTransaction E s = on_cursor (querybuffer_update (\<lambda>_. beginTransactionQuery E)) s"

definition classifyQuery :: "('c, 't, 'm) queryenv \<Rightarrow> ('c, 't, 'm) querystate \<Rightarrow> ('c, 't, 'm) querystate" where
  "classifyQuery E s =
     on_cursor (\<lambda>c. c\<lparr>qtype := determineQueryType (charlib.truncate (textlib E)) (querybuffer c)\<rparr>) s"

section \<open>Preprocessing\<close>

text \<open>What the transaction code sees of the cursor.\<close>

definition txView :: "('c, 't, 'm) queryenv \<Rightarrow> 't querycursor \<Rightarrow> txcursor" where
  "txView E c =
     (let L = charlib.truncate (textlib E) in
      \<lparr>querytype = qtype c,
       isCommitOrRollback = queryIsCommitOrRollback L (querybuffer c),
       isNotSelect = queryIsNotSelect L (querybuffer c),
       isForUpdate = hasForUpdate L (querybuffer c),
       wasintercepted = wasintercepted_cur c,
       inbindcount = length (inbinds c), outbindcount = length (outbinds c), inoutbindcount = length (inoutbinds c),
       curerror = None\<rparr>)"

text \<open>A filter of the query; a violation ends the preprocessing.\<close>

definition filterStep ::
  "('c, 't, 'm) queryenv \<Rightarrow> enables \<Rightarrow> bool \<Rightarrow> queryevent list \<Rightarrow> ('c, 't, 'm) querystate \<Rightarrow>
   bool \<times> ('c, 't, 'm) querystate" where
  "filterStep E en before evs s =
     (case filters E of
        None \<Rightarrow> (True, s)
      | Some (bs, as) \<Rightarrow>
          (if \<not> enablefilters en then (True, s)
           else (case filterQuery E (if before then bs else as) s of
                   (True, s) \<Rightarrow> (True, s)
                 | (False, s) \<Rightarrow>
                     (False, on_cursor (querystatus_update (\<lambda>_. Status_Filter_Violation)) (note_event evs s)))))"

definition directiveStep ::
  "('c, 't, 'm) queryenv \<Rightarrow> enables \<Rightarrow> ('c, 't, 'm) querystate \<Rightarrow> bool \<times> ('c, 't, 'm) querystate" where
  "directiveStep E en s =
     (case directives E of
        None \<Rightarrow> (True, s)
      | Some ds \<Rightarrow> (True, if enabledirectives en then snd (applyDirectives ds s) else s))"

definition translateStep ::
  "('c, 't, 'm) queryenv \<Rightarrow> enables \<Rightarrow> queryevent list \<Rightarrow> ('c, 't, 'm) querystate \<Rightarrow> bool \<times> ('c, 't, 'm) querystate" where
  "translateStep E en evs s =
     (case querytranslations E of
        None \<Rightarrow> (True, s)
      | Some trs \<Rightarrow>
          (if \<not> enabletranslations en then (True, s)
           else (case translateQuery E trs s of
                   (True, s) \<Rightarrow> (True, classifyQuery E s)
                 | (False, s) \<Rightarrow> (False, note_event evs s))))"

definition bindStep :: "('c, 't, 'm) queryenv \<Rightarrow> ('c, 't, 'm) querystate \<Rightarrow> bool \<times> ('c, 't, 'm) querystate" where
  "bindStep E s =
     (True, if (translatebinds E \<or> requirebindtranslation (cur s)) \<and> translatebindsforthisquery (cur s)
            then translateBinds E s else s)"

definition beginStep :: "('c, 't, 'm) queryenv \<Rightarrow> ('c, 't, 'm) querystate \<Rightarrow> bool \<times> ('c, 't, 'm) querystate" where
  "beginStep E s =
     (True, if (supportsExplicitTransactions (dbc E) \<or> fakingExplicitTransactions (dbc E) (tx s)) \<and> qtype (cur s) = QT_Begin
            then translateBeginTransaction E s else s)"

text \<open>The flags that \<open>prepareQuery\<close> and \<open>executeQuery\<close> both set at the end.\<close>

definition flagStep :: "('c, 't, 'm) queryenv \<Rightarrow> ('c, 't, 'm) querystate \<Rightarrow> bool \<times> ('c, 't, 'm) querystate" where
  "flagStep E s =
     (True, on_cursor (\<lambda>c. c\<lparr>fakeinputbindsforthisquery :=
                              (if supportsNativeBinds E (querybuffer c) then fakeinputbindsforthisquery c else True),
                            preprocessed := True,
                            needsintercept := checkInterceptQuery (txView E c)\<rparr>) s)"

definition preprocess ::
  "('c, 't, 'm) queryenv \<Rightarrow> enables \<Rightarrow> queryevent list \<Rightarrow> ('c, 't, 'm) querystate \<Rightarrow> bool \<times> ('c, 't, 'm) querystate" where
  "preprocess E en evs s =
     runChain [filterStep E en True evs, directiveStep E en, translateStep E en evs, bindStep E, beginStep E,
               filterStep E en False evs, flagStep E]
       (on_cursor (bindmappings_update (\<lambda>_. Map.empty)) (classifyQuery E s))"

section \<open>Preparing\<close>

text \<open>The database prepares the query, with the triggers around it.\<close>

definition triggerChain ::
  "('c, 't, 'm) queryenv \<Rightarrow> enables \<Rightarrow>
   ((('c, 't, 'm) querystate \<Rightarrow> bool \<times> ('c, 't, 'm) querystate) triggerlists \<Rightarrow>
    (('c, 't, 'm) querystate \<Rightarrow> bool \<times> ('c, 't, 'm) querystate) list) \<Rightarrow>
   ('c, 't, 'm) querystate \<Rightarrow> bool \<times> ('c, 't, 'm) querystate" where
  "triggerChain E en which s =
     (case triggers E of None \<Rightarrow> (True, s) | Some T \<Rightarrow> if enabletriggers en then runChain (which T) s else (True, s))"

definition prepareOnDb ::
  "('c, 't, 'm) queryenv \<Rightarrow> enables \<Rightarrow> string \<Rightarrow> ('c, 't, 'm) querystate \<Rightarrow> bool \<times> ('c, 't, 'm) querystate" where
  "prepareOnDb E en query s =
     (let s = note_event [Query_Received] s;
          s = snd (triggerChain E en beforeprepare s)
      in case driver (db_prepare E query) (note_event [Db_Prepare query] s) of
           (success, s) \<Rightarrow>
             (let s = (if success then s else saveError E s)
              in case triggerChain E en afterprepare s of
                   (after, s) \<Rightarrow>
                     (let s = note_event [Query_Prepared] s
                      in if success \<and> after then (True, on_cursor (prepared_update (\<lambda>_. True)) s)
                         else (False, note_event [Query_Counted (qtype (cur s)), Error_Counted, Query_Executed] s))))"

definition resetForPrepare :: "('c, 't, 'm) queryenv \<Rightarrow> ('c, 't, 'm) querystate \<Rightarrow> ('c, 't, 'm) querystate" where
  "resetForPrepare E s =
     on_cursor (\<lambda>c. c\<lparr>columninfoisvalid := False, preprocessed := False, prepared := False, executed := False,
          needsintercept := False, wasintercepted_cur := False, bindswerefaked := False,
          fakeinputbindsforthisquery := fakeinputbinds E, querystatus := Status_Error, qtype := QT_Etc,
          headerhandled := False\<rparr>)
       (clearError E (closeResultSet E s))"

definition prepareQuery ::
  "('c, 't, 'm) queryenv \<Rightarrow> enables \<Rightarrow> string \<Rightarrow> ('c, 't, 'm) querystate \<Rightarrow> bool \<times> ('c, 't, 'm) querystate" where
  "prepareQuery E en query s =
     (let s = resetForPrepare E s;
          s = on_cursor (querybuffer_update (\<lambda>_. take (unat (maxquerysize E)) query)) s
      in if fakeinputbindsforthisquery (cur s) then (True, s)
         else (case preprocess E en [Query_Received, Query_Prepared, Query_Executed] s of
                 (False, s) \<Rightarrow> (False, s)
               | (True, s) \<Rightarrow>
                   (if needsintercept (cur s) then (True, s)
                    else if fakeinputbindsforthisquery (cur s) then (True, s)
                    else (case prepareOnDb E en (querybuffer (cur s)) s of
                            (False, s) \<Rightarrow> (False, s)
                          | (True, s) \<Rightarrow>
                              (if columnInfoAfterPrepare E then handleResultSetHeader E s else (True, s))))))"

section \<open>Binds\<close>

definition remap :: "(string \<rightharpoonup> string) \<Rightarrow> bindvar \<Rightarrow> bindvar" where
  "remap maps b = (case maps (variable b) of None \<Rightarrow> b | Some n \<Rightarrow> b\<lparr>variable := n\<rparr>)"

definition translateBindVariablesFromMappings :: "('c, 't, 'm) querystate \<Rightarrow> ('c, 't, 'm) querystate" where
  "translateBindVariablesFromMappings s =
     on_cursor (\<lambda>c. c\<lparr>inbinds := map (remap (bindmappings c)) (inbinds c),
                      outbinds := map (remap (bindmappings c)) (outbinds c),
                      inoutbinds := map (remap (bindmappings c)) (inoutbinds c)\<rparr>) s"

definition bindToDb ::
  "(bindvar \<Rightarrow> 'c \<Rightarrow> bool \<times> 'c) \<Rightarrow> bindvar \<Rightarrow> ('c, 't, 'm) querystate \<Rightarrow> bool \<times> ('c, 't, 'm) querystate" where
  "bindToDb op b s = driver (op b) (note_event [Db_Bind b] s)"

text \<open>The types that are bound; a variable of another type is passed over.\<close>

definition inputBind ::
  "('c, 't, 'm) queryenv \<Rightarrow> bindvar \<Rightarrow> ('c, 't, 'm) querystate \<Rightarrow> bool \<times> ('c, 't, 'm) querystate" where
  "inputBind E b s =
     (case bindvalue b of
        BV_Cursor cursorid \<Rightarrow> (True, s)
      | BV_Delimiter d \<Rightarrow> (True, s)
      | BV_Newline d \<Rightarrow> (True, s)
      | _ \<Rightarrow> bindToDb (db_inputBind E) b s)"

definition outputBind ::
  "('c, 't, 'm) queryenv \<Rightarrow> bindvar \<Rightarrow> ('c, 't, 'm) querystate \<Rightarrow> bool \<times> ('c, 't, 'm) querystate" where
  "outputBind E b s =
     (case bindvalue b of
        BV_String v \<Rightarrow> bindToDb (db_outputBind E) b s
      | BV_Integer v \<Rightarrow> bindToDb (db_outputBind E) b s
      | BV_Double v \<Rightarrow> bindToDb (db_outputBind E) b s
      | BV_Date v \<Rightarrow> bindToDb (db_outputBind E) b s
      | BV_Blob v \<Rightarrow> bindToDb (db_outputBind E) b s
      | BV_Clob v \<Rightarrow> bindToDb (db_outputBind E) b s
      | BV_Cursor cursorid \<Rightarrow>
          (if cursorid \<in> set (cursorids E) then bindToDb (db_outputBind E) b s else (False, s))
      | _ \<Rightarrow> (True, s))"

definition inputOutputBind ::
  "('c, 't, 'm) queryenv \<Rightarrow> bindvar \<Rightarrow> ('c, 't, 'm) querystate \<Rightarrow> bool \<times> ('c, 't, 'm) querystate" where
  "inputOutputBind E b s =
     (case bindvalue b of
        BV_String v \<Rightarrow> bindToDb (db_inputOutputBind E) b s
      | BV_Null \<Rightarrow> bindToDb (db_inputOutputBind E) b s
      | BV_Integer v \<Rightarrow> bindToDb (db_inputOutputBind E) b s
      | BV_Double v \<Rightarrow> bindToDb (db_inputOutputBind E) b s
      | BV_Date v \<Rightarrow> bindToDb (db_inputOutputBind E) b s
      | _ \<Rightarrow> (True, s))"

definition handleBinds ::
  "('c, 't, 'm) queryenv \<Rightarrow> ('c, 't, 'm) querystate \<Rightarrow> bool \<times> ('c, 't, 'm) querystate" where
  "handleBinds E s =
     (case (case bindtranslations E of
              None \<Rightarrow> (True, s)
            | Some bts \<Rightarrow> if inbinds (cur s) = [] then (True, s) else runChain bts s) of
        (False, s) \<Rightarrow> (False, setCursorError E (bindTranslationError E s, 900028) s)
      | (True, s) \<Rightarrow>
          runChain (map (inputBind E) (inbinds (cur s)) @ map (outputBind E) (outbinds (cur s)) @
                    map (inputOutputBind E) (inoutbinds (cur s))) s)"

end
