(* ===== verification/Query_Execute.thy ===== *)
theory Query_Execute
  imports Query_Pipeline
begin

text \<open>
  \<open>executeQuery\<close> of \<open>src/server/sqlrservercontroller.cpp\<close>, step by step: a re-execution, the
  preprocessing that a query still needs, the values in place of binds, the interception of
  transaction queries, the preparation that was put off, the binds, the execution, and what it means
  for the transaction.
\<close>

section \<open>Before the database\<close>

text \<open>The state of a new execution: affected rows, and the old result set of a query that was executed.\<close>

definition startExecute :: "('c, 't, 'm) queryenv \<Rightarrow> ('c, 't, 'm) querystate \<Rightarrow> ('c, 't, 'm) querystate" where
  "startExecute E s =
     (let s = s\<lparr>overrideaffectedrows := False, affectedrows := 0\<rparr>
      in if executed (cur s) then
           on_cursor (\<lambda>c. c\<lparr>columninfoisvalid := False, headerhandled := False,
                            prepared := prepared c \<and> \<not> fakeinputbindsforthisquery c\<rparr>)
             (clearError E (closeResultSet E s))
         else s)"

definition fakeBinds :: "('c, 't, 'm) queryenv \<Rightarrow> ('c, 't, 'm) querystate \<Rightarrow> ('c, 't, 'm) querystate" where
  "fakeBinds E s =
     (if fakeinputbindsforthisquery (cur s) then
        (case fakeInputBinds (textlib E) (unicodestrings E) (inbinds (cur s)) (delimiters E)
                (backslashEscapesQuotes E) (querybuffer (cur s)) of
           None \<Rightarrow> s
         | Some q \<Rightarrow> on_cursor (\<lambda>c. c\<lparr>querywithfakeinputbinds := q, bindswerefaked := True\<rparr>) s)
      else s)"

text \<open>
  \<open>interceptQuery\<close> on the cursor and the transaction state: the bind counts of an intercepted query are
  cleared, and an error is copied to the cursor.
\<close>

definition interceptStep ::
  "('c, 't, 'm) queryenv \<Rightarrow> ('c, 't, 'm) querystate \<Rightarrow> bool \<times> ('c, 't, 'm) querystate" where
  "interceptStep E s =
     (case interceptQuery (dbc E) (txView E (cur s)) (tx s) of
        (ok, v, t) \<Rightarrow>
          (let s = on_cursor (wasintercepted_cur_update (\<lambda>_. wasintercepted v)) (s\<lparr>tx := t\<rparr>)
           in if wasintercepted v then
                (let s = on_cursor (\<lambda>c. c\<lparr>inbinds := [], outbinds := [], inoutbinds := []\<rparr>) s
                 in (ok, if ok then s else copyConnectionErrorToCursor E s))
              else (ok, s)))"

text \<open>The text that goes to the database.\<close>

definition queryToRun :: "'t querycursor \<Rightarrow> string" where
  "queryToRun c = (if bindswerefaked c then querywithfakeinputbinds c else querybuffer c)"

section \<open>The execution\<close>

definition updateTransaction ::
  "('c, 't, 'm) queryenv \<Rightarrow> bool \<Rightarrow> ('c, 't, 'm) querystate \<Rightarrow> ('c, 't, 'm) querystate" where
  "updateTransaction E success s = s\<lparr>tx := afterExecute (dbc E) success (txView E (cur s)) (tx s)\<rparr>"

text \<open>What follows the query: errors, counts, caches, triggers, the transaction and the result set.\<close>

definition noError :: "'t querycursor \<Rightarrow> bool" where
  "noError c \<longleftrightarrow> snd (cursorerror c) = 0 \<and> fst (cursorerror c) = []"

definition afterQuery ::
  "('c, 't, 'm) queryenv \<Rightarrow> enables \<Rightarrow> bool \<Rightarrow> ('c, 't, 'm) querystate \<Rightarrow> bool \<times> ('c, 't, 'm) querystate" where
  "afterQuery E en success s =
     (let s = on_cursor (executed_update (\<lambda>_. True)) s;
          s = (if success then s else saveError E s);
          s = on_cursor (totalrowsfetched_update (\<lambda>_. 0)) s;
          s = note_event (Query_Counted (qtype (cur s)) # (if success then [] else [Error_Counted])) s;
          s = (if success \<and> columnscached s \<and> qtype (cur s) = QT_Drop
               then note_event [Column_Caches_Cleared] (s\<lparr>columnscached := False\<rparr>) else s)
      in case (if triggers E \<noteq> None \<and> enabletriggers en
               then (case triggerChain E en afterexecute s of (ok, s) \<Rightarrow> (ok \<and> noError (cur s), s))
               else (success, s)) of
           (success, s) \<Rightarrow>
             (let s = updateTransaction E success s;
                  s = (if success then
                         on_cursor (querystatus_update (\<lambda>_. Status_Success))
                           (if overrideaffectedrows s then s
                            else s\<lparr>affectedrows := db_affectedRows E (conn (tx s))\<rparr>)
                       else s);
                  s = note_event [Query_Executed] s
              in if success then handleResultSetHeader E s else (False, s)))"

text \<open>
  The execution of a prepared query. \<open>success\<close> is the value so far; the triggers before the
  execution replace it.
\<close>

definition runQuery ::
  "('c, 't, 'm) queryenv \<Rightarrow> enables \<Rightarrow> bool \<Rightarrow> string \<Rightarrow> ('c, 't, 'm) querystate \<Rightarrow> bool \<times> ('c, 't, 'm) querystate" where
  "runQuery E en success query s =
     (let s = on_cursor (querysuppressed_update (\<lambda>_. False)) s
      in case (if triggers E \<noteq> None \<and> enabletriggers en then triggerChain E en beforeexecute s else (success, s)) of
           (success, s) \<Rightarrow>
             (if success \<and> \<not> querysuppressed (cur s) then
                (case driver (db_execute E query) (note_event [Db_Execute query] s) of
                   (success, s) \<Rightarrow> afterQuery E en success s)
              else afterQuery E en success s))"

definition bindAndRun ::
  "('c, 't, 'm) queryenv \<Rightarrow> enables \<Rightarrow> bool \<Rightarrow> string \<Rightarrow> ('c, 't, 'm) querystate \<Rightarrow> bool \<times> ('c, 't, 'm) querystate" where
  "bindAndRun E en success query s =
     (let s = translateBindVariablesFromMappings s
      in case (if bindswerefaked (cur s) then (True, s) else handleBinds E s) of
           (False, s) \<Rightarrow>
             (False, note_event [Query_Executed]
                (saveError E (note_event [Query_Counted (qtype (cur s)), Error_Counted] s)))
         | (True, s) \<Rightarrow> runQuery E en success query s)"

text \<open>A query that is not prepared yet is prepared now.\<close>

definition prepareAndRun ::
  "('c, 't, 'm) queryenv \<Rightarrow> enables \<Rightarrow> bool \<Rightarrow> ('c, 't, 'm) querystate \<Rightarrow> bool \<times> ('c, 't, 'm) querystate" where
  "prepareAndRun E en success s =
     (let query = queryToRun (cur s)
      in if prepared (cur s) then bindAndRun E en success query s
         else (case prepareOnDb E en query s of
                 (False, s) \<Rightarrow> (False, s)
               | (True, s) \<Rightarrow> bindAndRun E en True query s))"

definition executeQuery ::
  "('c, 't, 'm) queryenv \<Rightarrow> enables \<Rightarrow> ('c, 't, 'm) querystate \<Rightarrow> bool \<times> ('c, 't, 'm) querystate" where
  "executeQuery E en s =
     (let s = startExecute E s
      in case (if preprocessed (cur s) then (True, s) else preprocess E en [Query_Executed] s) of
           (False, s) \<Rightarrow> (False, s)
         | (True, s) \<Rightarrow>
             (let s = fakeBinds E s
              in if needsintercept (cur s) then
                   (case interceptStep E s of
                      (success, s) \<Rightarrow>
                        (if wasintercepted_cur (cur s) then
                           (success, note_event [Query_Executed]
                              (if success then on_cursor (querystatus_update (\<lambda>_. Status_Success)) s else s))
                         else prepareAndRun E en success s))
                 else prepareAndRun E en True s))"

end
