(* ===== verification/Module_Rules.thy ===== *)
theory Module_Rules
  imports Query_Modules
begin

text \<open>
  What the chains of \<open>Query_Modules\<close> decide: which filters are asked, what a sequence of translations
  computes, who is told of the end of a transaction, and which row block translations take part.
\<close>

section \<open>Filters\<close>

text \<open>A filter can be asked if it needs no tree, or if there is a parser and the query parses.\<close>

definition askable :: "'t parser option \<Rightarrow> string \<Rightarrow> ('s, 't) queryfilter \<Rightarrow> bool" where
  "askable sqlrp query f \<longleftrightarrow> filterRequiresTree f \<longrightarrow> Option.bind sqlrp (\<lambda>p. parse p query) \<noteq> None"

definition ask :: "'t parser option \<Rightarrow> string \<Rightarrow> ('s, 't) queryfilter \<Rightarrow> 's \<Rightarrow> qerror option \<times> 's" where
  "ask sqlrp query f =
     (if filterRequiresTree f then filterTree f (the (Option.bind sqlrp (\<lambda>p. parse p query))) else filterText f query)"

text \<open>The first error, if there is one.\<close>

primrec judge :: "('s \<Rightarrow> 'e option \<times> 's) list \<Rightarrow> 's \<Rightarrow> 'e option \<times> 's" where
  "judge [] s = (None, s)"
| "judge (j # js) s = (case j s of (Some e, s) \<Rightarrow> (Some e, s) | (None, s) \<Rightarrow> judge js s)"

lemma runFilters_judge:
  "tree = None \<or> tree = Option.bind sqlrp (\<lambda>p. parse p query) \<Longrightarrow>
     runFilters sqlrp query tree fs s = judge (map (ask sqlrp query) (takeWhile (askable sqlrp query) fs)) s"
proof (induction sqlrp query tree fs s rule: runFilters.induct)
  case (2 sqlrp query tree f fs s)
  show ?case
  proof (cases "filterRequiresTree f")
    case False
    then show ?thesis using 2 by (auto simp: askable_def ask_def split: prod.splits option.splits)
  next
    case True
    show ?thesis
    proof (cases "Option.bind sqlrp (\<lambda>p. parse p query)")
      case None
      then show ?thesis using True 2(3) by (auto simp: askable_def split: option.splits Option.bind_splits)
    next
      case (Some t)
      then obtain p where p: "sqlrp = Some p" "parse p query = Some t" by (auto split: Option.bind_splits)
      have tree: "(case tree of None \<Rightarrow> parse p query | Some t \<Rightarrow> Some t) = Some t" using 2(3) p by auto
      show ?thesis
      proof (cases "filterTree f t s")
        case (Pair a s')
        then show ?thesis using True p tree 2(1) [OF True p(1) tree, of a s'] by (cases a) (auto simp: askable_def ask_def)
      qed
    qed
  qed
qed simp

text \<open>
  C23: a query is refused exactly when a filter refuses it, in the order of the configuration, and
  with the error of the first; but the filters are asked only up to the first one that needs the
  tree of a query that has none.
\<close>

theorem filters_decide:
  "runFilters sqlrp query None fs s = judge (map (ask sqlrp query) (takeWhile (askable sqlrp query) fs)) s"
  by (rule runFilters_judge) simp

text \<open>
  A query that does not parse is accepted by the first filter that needs its tree, and the
  filters behind that one, which may need nothing but the text, are not asked.
\<close>

theorem unparsed_query_skips_filters:
  assumes "filterRequiresTree f" and "parse p query = None"
  shows "runFilters (Some p) query None (f # fs) s = (None, s)"
  using assms by simp

definition deny_all :: "(unit, unit) queryfilter" where
  "deny_all = \<lparr>filterRequiresTree = False, filterTree = (\<lambda>t s. (None, s)), filterText = (\<lambda>q s. (Some (''denied'', 1), s))\<rparr>"

theorem unparsed_query_skips_filters_witness:
  "runFilters (Some \<lparr>parse = (\<lambda>q. None), write_tree = (\<lambda>t. None)\<rparr>) ''drop table t'' None
     [\<lparr>filterRequiresTree = True, filterTree = (\<lambda>t s. (None, s)), filterText = (\<lambda>q s. (None, s))\<rparr>, deny_all] () =
   (None, ())"
  by (rule unparsed_query_skips_filters) simp_all

section \<open>Patterns\<close>

fun splitQuotes :: "string \<Rightarrow> string list" where
  "splitQuotes [] = [[]]"
| "splitQuotes (c # r) = (if c = CHR 0x27 then [] # splitQuotes r else (c # hd (splitQuotes r)) # tl (splitQuotes r))"

text \<open>A library on texts without regular expressions.\<close>

primrec has :: "string \<Rightarrow> string \<Rightarrow> bool" where
  "has [] w = (w = [])"
| "has (c # s) w = (take (length w) (c # s) = w \<or> has s w)"

definition plain_patterns :: "string patternlib" where
  "plain_patterns = \<lparr>match = (\<lambda>r s. False), contains = has, lower = id, splitOnQuotes = splitQuotes\<rparr>"

text \<open>
  In a query that begins with a quote, a pattern for the text in quotes is looked for outside of
  them, and a pattern for the text outside of quotes is, too.
\<close>

theorem leading_quote_swaps_scope:
  "runPatterns plain_patterns [\<lparr>patterntext = ''x'', re = None, ignorecase = False, patternscope = SCOPE_INSIDE_QUOTES\<rparr>]
     ([CHR 0x27] @ ''x'' @ [CHR 0x27] @ '' y'')"
  "\<not> runPatterns plain_patterns [\<lparr>patterntext = ''y'', re = None, ignorecase = False, patternscope = SCOPE_INSIDE_QUOTES\<rparr>]
     ([CHR 0x27] @ ''x'' @ [CHR 0x27] @ '' y'')"
  by code_simp+

text \<open>A regular expression that does not match is looked for as a plain text.\<close>

theorem regex_looked_for_as_text:
  "\<not> match P r query \<Longrightarrow> contains P query (patterntext pc) \<Longrightarrow> re pc = Some r \<Longrightarrow> \<not> ignorecase pc \<Longrightarrow>
     patternscope pc = SCOPE_QUERY \<Longrightarrow> \<not> runPatterns P [pc] query"
  by (simp add: runPatterns_def allowPattern_def allowPart_def)

section \<open>Query translations\<close>

text \<open>
  What the chain is meant to compute: each translation gets the result of the one before, as a text
  with its size or as a tree.
\<close>

datatype 't form = Text string | Tree 't

primrec asTree :: "'t parser \<Rightarrow> 't form \<Rightarrow> 't option" where
  "asTree p (Text q) = parse p q"
| "asTree p (Tree t) = Some t"

primrec asText :: "'t parser \<Rightarrow> 't form \<Rightarrow> string option" where
  "asText p (Text q) = Some q"
| "asText p (Tree t) = write_tree p t"

fun translationChain ::
  "'t parser \<Rightarrow> (string \<Rightarrow> 's \<Rightarrow> 's) \<Rightarrow> ('s, 't) querytranslation list \<Rightarrow> 't form \<Rightarrow> 's \<Rightarrow> (string + 't form) \<times> 's" where
  "translationChain p fail [] q s = (Inr q, s)"
| "translationChain p fail (tr # trs) q s =
     (if translationRequiresTree tr then
        (case asTree p q of
           None \<Rightarrow> (Inl ''query translation requires query tree but query failed to parse'',
                    case q of Text q \<Rightarrow> fail q s | Tree t \<Rightarrow> s)
         | Some t \<Rightarrow>
             (case translateTree tr t s of (Inl e, s) \<Rightarrow> (Inl e, s) | (Inr t, s) \<Rightarrow> translationChain p fail trs (Tree t) s))
      else
        (case asText p q of
           None \<Rightarrow> (Inl ''write-query failed'', s)
         | Some q \<Rightarrow>
             (case translateText tr q (length q) s of
                (Inl e, s) \<Rightarrow> (Inl e, s)
              | (Inr q, s) \<Rightarrow> translationChain p fail trs (Text q) s)))"

text \<open>A translation that takes the text up to its terminator and does not look at the size.\<close>

definition size_blind :: "('s, 't) querytranslation \<Rightarrow> bool" where
  "size_blind tr \<longleftrightarrow> (\<forall>q n s. translateText tr q n s = translateText tr q (length q) s)"

fun form_of :: "string \<times> nat \<times> 't option \<Rightarrow> 't form" where
  "form_of (query, querysize, None) = Text query"
| "form_of (query, querysize, Some t) = Tree t"

fun sized :: "string \<times> nat \<times> 't option \<Rightarrow> bool" where
  "sized (query, querysize, tree) \<longleftrightarrow> tree = None \<longrightarrow> querysize = length query"

text \<open>Before the first tree, or with translations that do not look at the size, the loop is the chain.\<close>

lemma translationLoop_translations:
  assumes "sized q" and "list_all size_blind trs"
  shows "case translationLoop (Some p) fail trs q s of
      (Inl e, s') \<Rightarrow> translationChain p fail trs (form_of q) s = (Inl e, s')
    | (Inr q', s') \<Rightarrow> sized q' \<and> translationChain p fail trs (form_of q) s = (Inr (form_of q'), s')"
  using assms
proof (induction trs arbitrary: q s)
  case (Cons tr trs)
  obtain query n tree where q: "q = (query, n, tree)" by (cases q)
  have trs: "size_blind tr" "list_all size_blind trs" using Cons.prems(2) by simp_all
  note IH = Cons.IH [OF _ trs(2)]
  have blind: "translateText tr x m s = translateText tr x (length x) s" for x m s
    using trs(1) unfolding size_blind_def by blast
  show ?case
  proof (cases "translationRequiresTree tr")
    case True
    show ?thesis
    proof (cases "asTree p (form_of q)")
      case None
      then show ?thesis using True q by (cases tree) auto
    next
      case (Some t)
      obtain r s' where r: "translateTree tr t s = (r, s')" by (cases "translateTree tr t s")
      have t: "(case tree of None \<Rightarrow> parse p query | Some t \<Rightarrow> Some t) = Some t" using Some q by (cases tree) auto
      show ?thesis
      proof (cases r)
        case (Inl e)
        then show ?thesis using True Some t r q by simp
      next
        case (Inr b)
        then have "translationLoop (Some p) fail (tr # trs) q s = translationLoop (Some p) fail trs (query, n, Some b) s'"
          and "translationChain p fail (tr # trs) (form_of q) s = translationChain p fail trs (form_of (query, n, Some b)) s'"
          using True Some t r q by simp_all
        then show ?thesis using IH [of "(query, n, Some b)" s'] by (simp only: sized.simps) simp
      qed
    qed
  next
    case False
    show ?thesis
    proof (cases "asText p (form_of q)")
      case None
      then show ?thesis using False q by (cases tree) auto
    next
      case (Some x)
      obtain r s' where r: "translateText tr x (length x) s = (r, s')" by (cases "translateText tr x (length x) s")
      have x: "(case tree of None \<Rightarrow> Some query | Some t \<Rightarrow> Option.bind (Some p) (\<lambda>p. write_tree p t)) = Some x"
        using Some q by (cases tree) auto
      show ?thesis
      proof (cases r)
        case (Inl e)
        then show ?thesis using False Some x r q blind [of x n s] by simp
      next
        case (Inr b)
        then have "translationLoop (Some p) fail (tr # trs) q s = translationLoop (Some p) fail trs (b, length b, None) s'"
          and "translationChain p fail (tr # trs) (form_of q) s = translationChain p fail trs (form_of (b, length b, None)) s'"
          using False Some x r q blind [of x n s] by simp_all
        then show ?thesis using IH [of "(b, length b, None)" s'] by (simp only: sized.simps) simp
      qed
    qed
  qed
qed simp


text \<open>A translation of trees that adds to the query, and one of texts that copies it by its size.\<close>

definition add_limit :: "(unit, string) querytranslation" where
  "add_limit = \<lparr>translationRequiresTree = True, translateTree = (\<lambda>t s. (Inr (t @ '' limit 1''), s)),
     translateText = (\<lambda>q n s. (Inr q, s))\<rparr>"

definition copy_text :: "(unit, string) querytranslation" where
  "copy_text = \<lparr>translationRequiresTree = False, translateTree = (\<lambda>t s. (Inr t, s)),
     translateText = (\<lambda>q n s. (Inr (q @ '';''), s))\<rparr>"

definition copy_size :: "(unit, string) querytranslation" where
  "copy_size = copy_text\<lparr>translateText := (\<lambda>q n s. (Inr (take n q), s))\<rparr>"

definition text_parser :: "string parser" where
  "text_parser = \<lparr>parse = Some, write_tree = Some\<rparr>"


text \<open>
  A translation of texts behind a translation of trees is given the new text with the size of
  the old one: a translation that copies the text by its size cuts it off.
\<close>

theorem stale_size_after_tree:
  "runTranslations (Some text_parser) (\<lambda>q s. s) [add_limit, copy_size] ''select 1'' () =
     Some (Inr (''select 1'', Some ''select 1''), ())"
  by (simp add: runTranslations_def add_limit_def copy_size_def copy_text_def text_parser_def Let_def)

text \<open>With no parser, a translation of texts ends in a null pointer.\<close>

theorem no_parser_crashes:
  "runTranslations None fail [copy_text] query s = None"
  by (simp add: runTranslations_def copy_text_def)

section \<open>Triggers\<close>

text \<open>
  At the end of a transaction or session, each trigger is told exactly once, whatever lists it
  is on.
\<close>

theorem triggers_told_once:
  assumes "distinct (beforeexecute T)" and "distinct (afterexecute T)"
    and "distinct (beforeprepare T)" and "distinct (afterprepare T)"
  shows "distinct (toldOfEnd T) \<and>
    set (toldOfEnd T) =
      set (beforeexecute T) \<union> set (afterexecute T) \<union> set (beforeprepare T) \<union> set (afterprepare T)"
  using assms by (auto simp: toldOfEnd_def)

theorem triggers_told_once_witness:
  "distinct (toldOfEnd \<lparr>beforeexecute = [1::nat, 2], afterexecute = [2, 3], beforeprepare = [2], afterprepare = [1]\<rparr>) \<and>
   set (toldOfEnd \<lparr>beforeexecute = [1::nat, 2], afterexecute = [2, 3], beforeprepare = [2], afterprepare = [1]\<rparr>) = {1, 2, 3}"
  using triggers_told_once [of "\<lparr>beforeexecute = [1::nat, 2], afterexecute = [2, 3], beforeprepare = [2], afterprepare = [1]\<rparr>"]
  by auto

section \<open>Row block translations\<close>

lemma blockLoop_length: "length (snd (blockLoop M n ms)) = length ms"
proof (induction ms)
  case (Cons m ms)
  then show ?case by (cases ms) (auto split: prod.splits bool.splits)
qed simp

lemma blockLoop_last: "last (snd (blockLoop M n ms)) = last ms"
proof (induction ms)
  case (Cons m ms)
  have "snd (blockLoop M n ms) \<noteq> []" if "ms \<noteq> []" using blockLoop_length [of M n ms] that by auto
  then show ?case using Cons by (cases ms) (auto split: prod.splits bool.splits)
qed simp

lemma run_last: "2 \<le> length ms \<Longrightarrow> last (fst (snd (run M (ms, n)))) = last ms"
proof -
  assume "2 \<le> length ms"
  then obtain m rest where "ms = m # rest" "rest \<noteq> []" by (cases ms; cases "tl ms") auto
  moreover have "last x = last rest" if "blockLoop M n (m' # rest) = (b, x)" "rest \<noteq> []" for m' b x
    using blockLoop_last [of M n "m' # rest"] that by simp
  ultimately show ?thesis by (auto simp: run_def split: prod.split bool.split)
qed

text \<open>
  The last of two or more row block translations, the one whose rows are sent to the client, is
  given no row and is not run.
\<close>

theorem last_block_module_untouched:
  assumes "2 \<le> length ms"
  shows "last (fst (snd (setRow M row (ms, n)))) = last ms \<and> last (fst (snd (run M (ms, n)))) = last ms"
proof -
  obtain m m' rest where "ms = m # m' # rest" using assms by (metis Suc_le_length_iff numeral_2_eq_2)
  then show ?thesis using run_last [OF assms, of M n] by (simp add: setRow_def split: prod.split)
qed

theorem last_block_module_untouched_witness:
  "last (fst (snd (setRow \<lparr>mod_setRow = (\<lambda>r m. (True, m @ [r])), mod_run = (\<lambda>m. (True, rev m)),
       mod_getRow = (\<lambda>m. case m of [] \<Rightarrow> (None, []) | r # m \<Rightarrow> (Some r, m))\<rparr> (7::int) ([[1], [2]], 1)))) = [2] \<and>
   last (fst (snd (run \<lparr>mod_setRow = (\<lambda>r m. (True, m @ [r])), mod_run = (\<lambda>m. (True, rev m)),
       mod_getRow = (\<lambda>m. case m of [] \<Rightarrow> (None, []) | r # m \<Rightarrow> (Some r, m))\<rparr> ([[1::int], [2]], 1)))) = [2]"
  using last_block_module_untouched [of "[[1], [2::int]]"] by simp

text \<open>The number of rows of a block that the configuration asks for is never used.\<close>

theorem rowblockcount_ignored: "getRowBlockCount n 0 = 10 \<and> getRowBlockCount 0 m = 10"
  by (simp add: getRowBlockCount_def)

end
