(* ===== verification/Query_Guard.thy ===== *)
theory Query_Guard
  imports Query_Execute Module_Rules
begin

text \<open>
  Which texts reach the database. The filters behind the translations see every query before it is
  prepared; here this is an invariant of whatever a client does with a cursor, and a property of
  the log.
\<close>

section \<open>Modules that leave the query alone\<close>

fun sent_text :: "queryevent \<Rightarrow> string option" where
  "sent_text (Db_Prepare x) = Some x"
| "sent_text (Db_Execute x) = Some x"
| "sent_text e = None"

text \<open>What was logged in between sends nothing to the database.\<close>

definition silent :: "('c, 't, 'm) querystate \<Rightarrow> ('c, 't, 'm) querystate \<Rightarrow> bool" where
  "silent s s' \<longleftrightarrow> (\<exists>es. querylog s' = querylog s @ es \<and> list_all (\<lambda>e. sent_text e = None) es)"

definition still :: "('c, 't, 'm) querystate \<Rightarrow> ('c, 't, 'm) querystate \<Rightarrow> bool" where
  "still s s' \<longleftrightarrow> preprocessed (cur s') = preprocessed (cur s) \<and> bindswerefaked (cur s') = bindswerefaked (cur s) \<and>
     silent s s'"

definition same_query :: "('c, 't, 'm) querystate \<Rightarrow> ('c, 't, 'm) querystate \<Rightarrow> bool" where
  "same_query s s' \<longleftrightarrow> still s s' \<and> querybuffer (cur s') = querybuffer (cur s) \<and>
     querywithfakeinputbinds (cur s') = querywithfakeinputbinds (cur s)"

definition tame :: "(('c, 't, 'm) querystate \<Rightarrow> 'a \<times> ('c, 't, 'm) querystate) \<Rightarrow> bool" where
  "tame f \<longleftrightarrow> (\<forall>s. same_query s (snd (f s)))"

lemma silent_refl [simp]: "silent s s"
  by (simp add: silent_def)

lemma silent_trans: "silent s s' \<Longrightarrow> silent s' s'' \<Longrightarrow> silent s s''"
  by (auto simp: silent_def)

lemma still_refl [simp]: "still s s" and same_refl [simp]: "same_query s s"
  by (simp_all add: still_def same_query_def)

lemma still_trans: "still s s' \<Longrightarrow> still s' s'' \<Longrightarrow> still s s''"
  by (auto simp: still_def intro: silent_trans)

lemma same_trans: "same_query s s' \<Longrightarrow> same_query s' s'' \<Longrightarrow> same_query s s''"
  by (auto simp: same_query_def intro: still_trans)

lemma same_still: "same_query s s' \<Longrightarrow> still s s'"
  by (simp add: same_query_def)

lemma tame_pair: "tame f \<Longrightarrow> f s = (x, s') \<Longrightarrow> same_query s s'"
  by (metis tame_def snd_conv)

lemma same_log:
  "list_all (\<lambda>e. sent_text e = None) es \<Longrightarrow> querylog s' = querylog s @ es \<Longrightarrow> cur s' = cur s \<Longrightarrow> same_query s s'"
  by (auto simp: same_query_def still_def silent_def)

text \<open>All modules and the columns of a result set leave the query and the flags alone.\<close>

definition tame_env :: "('c, 't, 'm) queryenv \<Rightarrow> bool" where
  "tame_env E \<longleftrightarrow>
     (\<forall>bs as. filters E = Some (bs, as) \<longrightarrow>
        (\<forall>f \<in> set (bs @ as). (\<forall>t. tame (filterTree f t)) \<and> (\<forall>q. tame (filterText f q)))) \<and>
     (\<forall>ds. directives E = Some ds \<longrightarrow> (\<forall>d \<in> set ds. \<forall>q. tame (d q))) \<and>
     (\<forall>trs. querytranslations E = Some trs \<longrightarrow>
        (\<forall>tr \<in> set trs. (\<forall>t. tame (translateTree tr t)) \<and> (\<forall>q n. tame (translateText tr q n)))) \<and>
     (\<forall>bts. bindtranslations E = Some bts \<longrightarrow> (\<forall>b \<in> set bts. tame b)) \<and>
     (\<forall>T. triggers E = Some T \<longrightarrow>
        (\<forall>t \<in> set (beforeprepare T @ afterprepare T @ beforeexecute T @ afterexecute T). tame t)) \<and>
     tame (columns E)"

section \<open>Steps that leave the query alone\<close>

lemma tame_runChain: "\<forall>f \<in> set fs. tame f \<Longrightarrow> tame (runChain fs)"
proof (induction fs)
  case (Cons f fs)
  then have "same_query s (snd (runChain (f # fs) s))" for s
    using tame_pair [of f s] by (auto simp: tame_def split: prod.split bool.split intro: same_trans)
  then show ?case by (simp add: tame_def)
qed (simp add: tame_def)

lemma tame_runFilters:
  "\<forall>f \<in> set fs. (\<forall>t. tame (filterTree f t)) \<and> (\<forall>q. tame (filterText f q)) \<Longrightarrow>
     same_query s (snd (runFilters p query tree fs s))"
proof (induction fs arbitrary: s tree query p)
  case (Cons f fs)
  have f: "tame (filterTree f t)" "tame (filterText f q)" for t q using Cons.prems by simp_all
  note t = tame_pair [OF f(1)] and q = tame_pair [OF f(2)]
  have ih: "same_query s' s'' \<Longrightarrow> same_query s' (snd (runFilters p query tree fs s''))" for s' s'' tree query p
    using Cons.IH [where s = s'' and tree = tree and query = query and p = p] Cons.prems same_trans [of s' s''] by simp
  show ?case by (auto split: prod.split option.split intro: ih t q)
qed simp

lemma tame_translationLoop:
  "\<forall>tr \<in> set trs. (\<forall>t. tame (translateTree tr t)) \<and> (\<forall>q n. tame (translateText tr q n)) \<Longrightarrow>
   \<forall>q s. same_query s (fail q s) \<Longrightarrow> same_query s (snd (translationLoop p fail trs q s))"
proof (induction trs arbitrary: q s p)
  case (Cons tr trs)
  obtain x n tree where q: "q = (x, n, tree)" by (cases q)
  have tr: "tame (translateTree tr t)" "tame (translateText tr q n)" for t q n using Cons.prems(1) by simp_all
  note t = tame_pair [OF tr(1)] and u = tame_pair [OF tr(2)]
  have ih: "same_query s' s'' \<Longrightarrow> same_query s' (snd (translationLoop p fail trs q s''))" for s' s'' q p
    using Cons.IH [where s = s'' and q = q and p = p] Cons.prems same_trans [of s' s''] by simp
  show ?case using Cons.prems(2) by (auto simp: q split: prod.split option.split sum.split intro: ih t u)
qed simp

lemma same_note: "list_all (\<lambda>e. sent_text e = None) es \<Longrightarrow> same_query s (note_event es s)"
  by (rule same_log) (simp_all add: note_event_def)

lemma same_errors [simp]:
  "same_query s (setCursorError E e s)" "same_query s (clearError E s)" "same_query s (saveError E s)"
  "same_query s (copyConnectionErrorToCursor E s)"
  by (simp_all add: setCursorError_def clearError_def saveError_def copyConnectionErrorToCursor_def same_query_def
      still_def silent_def)

lemma same_driver: "driver op s = (ok, s') \<Longrightarrow> same_query s s'"
  by (auto simp: driver_def same_query_def still_def silent_def split: prod.splits)

lemma same_closeResultSet [simp]: "same_query s (closeResultSet E s)"
  by (simp add: closeResultSet_def note_event_def same_query_def still_def silent_def)

lemma tame_header: "tame_env E \<Longrightarrow> same_query s (snd (handleResultSetHeader E s))"
proof -
  assume "tame_env E"
  then have "same_query s' (snd (columns E s'))" for s' by (simp add: tame_env_def tame_def)
  moreover have "same_query s (on_cursor (columninfoisvalid_update (\<lambda>_. True)) s)"
    and "same_query s (on_cursor (headerhandled_update (\<lambda>_. True)) (on_cursor (columninfoisvalid_update (\<lambda>_. True)) s))"
    by (simp_all add: same_query_def still_def silent_def)
  ultimately show ?thesis by (auto simp: handleResultSetHeader_def Let_def intro: same_trans)
qed

lemma tame_trigger:
  assumes "tame_env E" and "\<forall>T. set (which T) \<subseteq> set (beforeprepare T @ afterprepare T @ beforeexecute T @ afterexecute T)"
  shows "same_query s (snd (triggerChain E en which s))"
proof (cases "triggers E")
  case (Some T)
  have "\<forall>t \<in> set (which T). tame t" using assms Some unfolding tame_env_def by blast
  then have "tame (runChain (which T))" by (rule tame_runChain)
  then show ?thesis using Some by (simp add: triggerChain_def tame_def)
qed (simp add: triggerChain_def)

section \<open>The invariant\<close>

text \<open>A text that the filters behind the translations accept, in some state of theirs.\<close>

definition accepted :: "('c, 't, 'm) queryenv \<Rightarrow> string \<Rightarrow> bool" where
  "accepted E q \<longleftrightarrow>
     (\<forall>bs as. filters E = Some (bs, as) \<longrightarrow> (\<exists>s. fst (runFilters (Some (queryparser E)) q None as s) = None))"

text \<open>An accepted text with values for its bind variables.\<close>

definition filled :: "('c, 't, 'm) queryenv \<Rightarrow> string \<Rightarrow> string \<Rightarrow> bool" where
  "filled E q x \<longleftrightarrow>
     (\<exists>vars. fakeInputBinds (textlib E) (unicodestrings E) vars (delimiters E) (backslashEscapesQuotes E) q = Some x)"

definition allowed_text :: "('c, 't, 'm) queryenv \<Rightarrow> string \<Rightarrow> bool" where
  "allowed_text E x \<longleftrightarrow> accepted E x \<or> (\<exists>q. accepted E q \<and> filled E q x)"

definition guarded :: "('c, 't, 'm) queryenv \<Rightarrow> ('c, 't, 'm) querystate \<Rightarrow> bool" where
  "guarded E s \<longleftrightarrow>
     (preprocessed (cur s) \<longrightarrow> accepted E (querybuffer (cur s))) \<and>
     (bindswerefaked (cur s) \<longrightarrow> preprocessed (cur s) \<and> filled E (querybuffer (cur s)) (querywithfakeinputbinds (cur s))) \<and>
     (\<forall>e \<in> set (querylog s). \<forall>x. sent_text e = Some x \<longrightarrow> allowed_text E x)"

lemma silent_texts:
  "silent s s' \<Longrightarrow> \<forall>e \<in> set (querylog s). \<forall>x. sent_text e = Some x \<longrightarrow> P x \<Longrightarrow>
     \<forall>e \<in> set (querylog s'). \<forall>x. sent_text e = Some x \<longrightarrow> P x"
  by (auto simp: silent_def list_all_iff)

lemma guarded_same: "guarded E s \<Longrightarrow> same_query s s' \<Longrightarrow> guarded E s'"
  using silent_texts [of s s' "allowed_text E"] by (auto simp: guarded_def same_query_def still_def)

lemma guarded_still: "guarded E s \<Longrightarrow> \<not> preprocessed (cur s) \<Longrightarrow> still s s' \<Longrightarrow> guarded E s' \<and> \<not> preprocessed (cur s')"
  using silent_texts [of s s' "allowed_text E"] by (auto simp: guarded_def still_def)

lemma guarded_event:
  "guarded E s \<Longrightarrow> \<forall>x. sent_text e = Some x \<longrightarrow> allowed_text E x \<Longrightarrow> guarded E (note_event [e] s)"
  by (auto simp: guarded_def note_event_def)

section \<open>Preprocessing\<close>

lemma runChain_append:
  "runChain (fs @ gs) s = (case runChain fs s of (False, s) \<Rightarrow> (False, s) | (True, s) \<Rightarrow> runChain gs s)"
  by (induction fs arbitrary: s) (auto split: prod.splits bool.splits)

lemma runChain_inv: "\<forall>f \<in> set fs. \<forall>s. P s \<longrightarrow> P (snd (f s)) \<Longrightarrow> P s \<Longrightarrow> P (snd (runChain fs s))"
proof (induction fs arbitrary: s)
  case (Cons f fs)
  have "P (snd (f s))" using Cons.prems by simp
  moreover have "P (snd (runChain fs s'))" if "P s'" for s' using Cons.IH [OF _ that] Cons.prems(1) by simp
  ultimately show ?case by (auto split: prod.split bool.split)
qed simp

abbreviation silent_events :: "queryevent list \<Rightarrow> bool" where
  "silent_events es \<equiv> list_all (\<lambda>e. sent_text e = None) es"

lemma same_filterQuery:
  assumes "\<forall>f \<in> set fs. (\<forall>t. tame (filterTree f t)) \<and> (\<forall>q. tame (filterText f q))"
  shows "same_query s (snd (filterQuery E fs s))"
proof -
  have "same_query s s'" if "runFilters p q t fs s = (r, s')" for p q t r s'
    using tame_runFilters [OF assms, of s p q t] that by simp
  moreover have "same_query s (note_event [Filter_Violation] (setCursorError E e s'))" if "same_query s s'" for e s'
    by (rule same_trans [OF same_trans [OF that same_errors(1)] same_note]) simp
  ultimately show ?thesis by (auto simp: filterQuery_def split: prod.split option.split)
qed

lemma same_filterStep:
  assumes "tame_env E" and "silent_events evs"
  shows "same_query s (snd (filterStep E en before evs s))"
proof (cases "filters E")
  case (Some fs)
  obtain bs as where fs: "fs = (bs, as)" by (cases fs)
  have "\<forall>f \<in> set (if before then bs else as). (\<forall>t. tame (filterTree f t)) \<and> (\<forall>q. tame (filterText f q))"
    using assms(1) Some fs unfolding tame_env_def by auto
  from same_filterQuery [OF this] have "same_query s s'"
    if "filterQuery E (if before then bs else as) s = (r, s')" for r s' using that by (metis snd_conv)
  moreover have "same_query s (on_cursor (querystatus_update (\<lambda>_. Status_Filter_Violation)) (note_event evs s'))"
    if "same_query s s'" for s'
    using same_trans [OF that same_note [OF assms(2)]] by (simp add: same_query_def still_def silent_def)
  ultimately show ?thesis by (auto simp: filterStep_def Some fs split: prod.split bool.split)
qed (simp add: filterStep_def)

lemma filterStep_accepts:
  "fst (filterStep E en False evs s) \<Longrightarrow> enablefilters en \<Longrightarrow> accepted E (querybuffer (cur s))"
  by (cases "filters E") (auto simp: filterStep_def filterQuery_def accepted_def split: prod.splits option.splits bool.splits
      intro: exI [of _ s])

lemma same_directiveStep: "tame_env E \<Longrightarrow> same_query s (snd (directiveStep E en s))"
proof (cases "directives E")
  case (Some ds)
  assume "tame_env E"
  then have "tame (runChain (map (\<lambda>d. d q) ds))" for q
    using Some by (intro tame_runChain) (auto simp: tame_env_def)
  then show ?thesis using Some by (simp add: directiveStep_def applyDirectives_def tame_def)
qed (simp add: directiveStep_def)

lemma still_updates:
  "still s s' \<Longrightarrow> still s (classifyQuery E s')"
  "still s s' \<Longrightarrow> still s (setCursorError E e s')"
  "still s s' \<Longrightarrow> still s (on_cursor (querytree_update f) s')"
  "still s s' \<Longrightarrow> still s (on_cursor (querybuffer_update g) s')"
  "still s s' \<Longrightarrow> still s (on_cursor (\<lambda>c. querybuffer_update g (querytree_update f c)) s')"
  "still s s' \<Longrightarrow> still s (on_cursor (\<lambda>c. bindmappings_update h (querybuffer_update g c)) s')"
  by (simp_all add: still_def silent_def classifyQuery_def setCursorError_def)

lemma still_note: "still s s' \<Longrightarrow> silent_events es \<Longrightarrow> still s (note_event es s')"
  using still_trans [OF _ same_still [OF same_note]] by blast

lemma still_translateQuery:
  assumes "\<forall>tr \<in> set trs. (\<forall>t. tame (translateTree tr t)) \<and> (\<forall>q n. tame (translateText tr q n))"
  shows "still s (snd (translateQuery E trs s))"
proof -
  let ?fail = "\<lambda>q. note_event [Parse_Failure q]"
  let ?s = "on_cursor (querytree_update (\<lambda>_. None)) s"
  have fail: "\<forall>q s. same_query s (?fail q s)" by (simp add: same_note)
  have "same_query ?s s'" if "runTranslations p ?fail trs q ?s = Some (r, s')" for p q r s'
  proof -
    obtain r0 s0 where l: "translationLoop p ?fail trs (q, length q, None) ?s = (r0, s0)"
      by (cases "translationLoop p ?fail trs (q, length q, None) ?s")
    have "same_query ?s s0" using tame_translationLoop [OF assms fail, of ?s p "(q, length q, None)"] l by simp
    moreover have "same_query s0 s'"
      using that l fail
      by (auto simp: runTranslations_def Let_def split: sum.splits option.splits prod.splits if_splits)
    ultimately show ?thesis by (rule same_trans)
  qed
  then have run: "still s s'" if "runTranslations p ?fail trs q ?s = Some (r, s')" for p q r s'
    using still_trans [OF still_updates(3) [OF still_refl] same_still] that by blast
  show ?thesis
    by (auto simp: translateQuery_def Let_def split: option.split sum.split prod.split
        intro!: still_updates still_note dest: run)
qed

lemma still_translateStep:
  assumes "tame_env E" and "silent_events evs"
  shows "still s (snd (translateStep E en evs s))"
proof (cases "querytranslations E")
  case (Some trs)
  then have "\<forall>tr \<in> set trs. (\<forall>t. tame (translateTree tr t)) \<and> (\<forall>q n. tame (translateText tr q n))"
    using assms(1) unfolding tame_env_def by auto
  from still_translateQuery [OF this] have "still s s'" if "translateQuery E trs s = (r, s')" for r s'
    using that by (metis snd_conv)
  then show ?thesis using Some assms(2)
    by (auto simp: translateStep_def split: prod.split bool.split intro!: still_updates still_note)
qed (simp add: translateStep_def)

lemma still_bindStep: "still s (snd (bindStep E s))" and still_beginStep: "still s (snd (beginStep E s))"
  by (auto simp: bindStep_def beginStep_def translateBinds_def translateBeginTransaction_def still_def silent_def
      split: prod.split)

lemma preprocess_guarded:
  assumes E: "tame_env E" "silent_events evs" "enablefilters en" and s: "guarded E s" "\<not> preprocessed (cur s)"
    and result: "preprocess E en evs s = (ok, s')"
  shows "guarded E s' \<and> (ok \<longrightarrow> preprocessed (cur s'))"
proof -
  let ?P = "\<lambda>s. guarded E s \<and> \<not> preprocessed (cur s)"
  let ?front = "[filterStep E en True evs, directiveStep E en, translateStep E en evs, bindStep E, beginStep E]"
  let ?s = "on_cursor (bindmappings_update (\<lambda>_. Map.empty)) (classifyQuery E s)"
  have P: "still x x' \<Longrightarrow> ?P x \<Longrightarrow> ?P x'" for x x' using guarded_still by blast
  have "still s ?s" by (simp add: classifyQuery_def still_def silent_def)
  then have s0: "?P ?s" using P s by blast
  have "still x (snd (f x))" if "f \<in> set ?front" for f x
    using that same_filterStep [OF E(1,2), of x en True] same_directiveStep [OF E(1), of x en]
      still_translateStep [OF E(1,2), of x en] still_bindStep [of x E] still_beginStep [of x E]
    by (auto dest: same_still)
  then have "\<forall>f \<in> set ?front. \<forall>s. ?P s \<longrightarrow> ?P (snd (f s))" using P by blast
  then have front: "?P (snd (runChain ?front ?s))" using s0 by (rule runChain_inv)
  obtain ok1 s1 where s1: "runChain ?front ?s = (ok1, s1)" by (cases "runChain ?front ?s")
  have P1: "?P s1" using front s1 by simp
  obtain ok2 s2 where s2: "filterStep E en False evs s1 = (ok2, s2)" by (cases "filterStep E en False evs s1")
  have same: "same_query s1 s2" using same_filterStep [OF E(1,2), of s1 en False] s2 by simp
  have P2: "?P s2" using P [OF same_still [OF same] P1] .
  have run: "preprocess E en evs s =
      (if ok1 then if ok2 then flagStep E s2 else (False, s2) else (False, s1))"
    using runChain_append [of ?front "[filterStep E en False evs, flagStep E]" ?s] s1 s2
    by (simp add: preprocess_def flagStep_def split: bool.split)
  have "guarded E (snd (flagStep E s2)) \<and> preprocessed (cur (snd (flagStep E s2)))" if ok2
  proof -
    have "accepted E (querybuffer (cur s2))"
      using filterStep_accepts [of E en evs s1] s2 E(3) that same by (simp add: same_query_def)
    then show ?thesis using P2 by (auto simp: flagStep_def guarded_def)
  qed
  then show ?thesis using run result P1 P2 by (auto simp: flagStep_def split: if_splits)
qed

section \<open>Preparing and executing\<close>

lemma guarded_prepareOnDb:
  assumes "tame_env E" and "guarded E s" and "allowed_text E query" and "prepareOnDb E en query s = (ok, s')"
  shows "guarded E s' \<and> (preprocessed (cur s) \<longrightarrow> preprocessed (cur s'))"
proof -
  let ?keeps = "\<lambda>s'. guarded E s' \<and> (preprocessed (cur s) \<longrightarrow> preprocessed (cur s'))"
  have keeps: "same_query x x' \<Longrightarrow> ?keeps x \<Longrightarrow> ?keeps x'" for x x'
    using guarded_same by (auto simp: same_query_def still_def)
  define s1 where "s1 = snd (triggerChain E en beforeprepare (note_event [Query_Received] s))"
  have "same_query s s1" unfolding s1_def
    by (rule same_trans [OF same_note tame_trigger]) (use assms(1) in auto)
  then have "?keeps s1" using keeps [of s] assms(2) by blast
  then have k2: "?keeps (note_event [Db_Prepare query] s1)"
    using guarded_event [of E s1 "Db_Prepare query"] assms(3) by (simp add: note_event_def)
  obtain b s3 where s3: "driver (db_prepare E query) (note_event [Db_Prepare query] s1) = (b, s3)"
    by (cases "driver (db_prepare E query) (note_event [Db_Prepare query] s1)")
  have k3: "?keeps s3" by (rule keeps [OF same_driver [OF s3] k2])
  define s4 where "s4 = (if b then s3 else saveError E s3)"
  have k4: "?keeps s4" using keeps [OF same_errors(3) k3] k3 by (simp add: s4_def)
  obtain a s5 where s5: "triggerChain E en afterprepare s4 = (a, s5)" by (cases "triggerChain E en afterprepare s4")
  have "same_query s4 s5" using tame_trigger [OF assms(1), of afterprepare s4 en] s5 by auto
  then have k5: "?keeps s5" using keeps k4 by blast
  have k6: "?keeps (note_event [Query_Prepared] s5)" by (rule keeps [OF same_note k5]) simp
  have "(ok, s') = (if b \<and> a then (True, on_cursor (prepared_update (\<lambda>_. True)) (note_event [Query_Prepared] s5))
      else (False, note_event [Query_Counted (qtype (cur (note_event [Query_Prepared] s5))), Error_Counted, Query_Executed]
        (note_event [Query_Prepared] s5)))"
    using assms(4) unfolding prepareOnDb_def Let_def s1_def [symmetric] s3 prod.case s4_def [symmetric] s5 by simp
  then have "same_query (note_event [Query_Prepared] s5) s'"
    by (auto simp: same_query_def still_def silent_def note_event_def split: if_splits)
  then show ?thesis using keeps k6 by blast
qed

end
