(* ===== verification/Query_Rules.thy ===== *)
theory Query_Rules
  imports Query_Guard
begin

text \<open>
  Clients that prepare, bind and execute queries on a cursor, in any order: only texts that the
  filters accept reach the database.
\<close>

section \<open>Binding and executing\<close>

lemma same_updates [simp]:
  "same_query s (on_cursor (executed_update f1) s)" "same_query s (on_cursor (totalrowsfetched_update f2) s)"
  "same_query s (on_cursor (querystatus_update f3) s)" "same_query s (s\<lparr>columnscached := b\<rparr>)"
  "same_query s (s\<lparr>affectedrows := n\<rparr>)" "same_query s (s\<lparr>tx := t\<rparr>)"
  "same_query s (on_cursor (querysuppressed_update f4) s)" "same_query s (translateBindVariablesFromMappings s)"
  "same_query s (on_cursor (wasintercepted_cur_update f5) s)"
  "same_query s (on_cursor (\<lambda>c. c\<lparr>inbinds := x, outbinds := y, inoutbinds := z\<rparr>) s)"
  by (simp_all add: same_query_def still_def silent_def translateBindVariablesFromMappings_def)

lemma same_afterQuery:
  assumes "tame_env E"
  shows "same_query s (snd (afterQuery E en success s))"
proof -
  have k: "same_query s x'" if "same_query s x" "same_query x x'" for x x' using same_trans that .
  define s1 where "s1 = on_cursor (executed_update (\<lambda>_. True)) s"
  define s2 where "s2 = (if success then s1 else saveError E s1)"
  define s3 where "s3 = on_cursor (totalrowsfetched_update (\<lambda>_. 0)) s2"
  define s4 where "s4 = note_event (Query_Counted (qtype (cur s3)) # (if success then [] else [Error_Counted])) s3"
  define s5 where "s5 = (if success \<and> columnscached s4 \<and> qtype (cur s4) = QT_Drop
     then note_event [Column_Caches_Cleared] (s4\<lparr>columnscached := False\<rparr>) else s4)"
  have k2: "same_query s s2" using k [OF same_updates(1) same_errors(3)] by (simp add: s1_def s2_def)
  have k4: "same_query s s4" unfolding s4_def s3_def by (rule k [OF k [OF k2 same_updates(2)] same_note]) simp
  have k5: "same_query s s5"
    using k4 k [OF k [OF k4 same_updates(4)] same_note [of "[Column_Caches_Cleared]"]] by (simp add: s5_def)
  obtain ok s6 where s6: "(if triggers E \<noteq> None \<and> enabletriggers en
      then (case triggerChain E en afterexecute s5 of (ok, s) \<Rightarrow> (ok \<and> noError (cur s), s)) else (success, s5)) = (ok, s6)"
    by fastforce
  have k6: "same_query s s6"
  proof (cases "triggers E \<noteq> None \<and> enabletriggers en")
    case True
    then have "s6 = snd (triggerChain E en afterexecute s5)" using s6 by (auto split: prod.splits)
    then show ?thesis using k [OF k5 tame_trigger [OF assms, of afterexecute s5 en]] by auto
  qed (use s6 k5 in auto)
  define s7 where "s7 = updateTransaction E ok s6"
  define s8 where "s8 = (if ok then on_cursor (querystatus_update (\<lambda>_. Status_Success))
      (if overrideaffectedrows s7 then s7 else s7\<lparr>affectedrows := db_affectedRows E (conn (tx s7))\<rparr>) else s7)"
  have k7: "same_query s s7" using k [OF k6 same_updates(6)] by (simp add: s7_def updateTransaction_def)
  have "same_query s (on_cursor (querystatus_update (\<lambda>_. Status_Success)) s7)"
    and "same_query s (on_cursor (querystatus_update (\<lambda>_. Status_Success))
      (s7\<lparr>affectedrows := db_affectedRows E (conn (tx s7))\<rparr>))"
    using k [OF k7 same_updates(3)] k [OF k [OF k7 same_updates(5)] same_updates(3)] by simp_all
  then have "same_query s s8" using k7 by (simp add: s8_def)
  then have k9: "same_query s (note_event [Query_Executed] s8)" by (rule k [OF _ same_note]) simp
  have "snd (afterQuery E en success s) =
      (if ok then snd (handleResultSetHeader E (note_event [Query_Executed] s8)) else note_event [Query_Executed] s8)"
    unfolding afterQuery_def Let_def s1_def [symmetric] s2_def [symmetric] s3_def [symmetric] s4_def [symmetric]
      s5_def [symmetric] s6 prod.case s7_def [symmetric] s8_def [symmetric] by simp
  then show ?thesis using k9 k [OF k9 tame_header [OF assms]] by simp
qed

lemma tame_handleBinds:
  assumes "tame_env E"
  shows "same_query s (snd (handleBinds E s))"
proof -
  have bind: "tame (bindToDb op b)" for op :: "bindvar \<Rightarrow> 'a \<Rightarrow> bool \<times> 'a" and b
    using same_trans [OF same_note [of "[Db_Bind b]"]] same_driver
    by (fastforce simp: tame_def bindToDb_def intro: prod.collapse [symmetric])
  have id: "tame (Pair x)" for x :: bool by (simp add: tame_def)
  have vars: "tame (inputBind E b)" "tame (outputBind E b)" "tame (inputOutputBind E b)" for b
    using bind id unfolding tame_def inputBind_def outputBind_def inputOutputBind_def
    by (auto split: bindvalue.split)
  have run: "same_query x (snd (runChain (map (inputBind E) i @ map (outputBind E) out @ map (inputOutputBind E) io) x))"
    for x i out io
  proof -
    have "tame (runChain (map (inputBind E) i @ map (outputBind E) out @ map (inputOutputBind E) io))"
      by (rule tame_runChain) (use vars in auto)
    then show ?thesis by (simp add: tame_def)
  qed
  have "same_query s (snd (case bindtranslations E of
            None \<Rightarrow> (True, s) | Some bts \<Rightarrow> if inbinds (cur s) = [] then (True, s) else runChain bts s))"
  proof (cases "bindtranslations E")
    case (Some bts)
    then have "tame (runChain bts)" using assms by (intro tame_runChain) (auto simp: tame_env_def)
    then show ?thesis using Some by (simp add: tame_def)
  qed simp
  then show ?thesis
    by (auto simp: handleBinds_def split: prod.split bool.split intro: same_trans [OF _ run] same_trans [OF _ same_errors(1)])
qed

lemma guarded_runQuery:
  assumes "tame_env E" and "guarded E s" and "allowed_text E query"
  shows "guarded E (snd (runQuery E en success query s))"
proof -
  let ?s = "on_cursor (querysuppressed_update (\<lambda>_. False)) s"
  obtain ok s1 where s1:
    "(if triggers E \<noteq> None \<and> enabletriggers en then triggerChain E en beforeexecute ?s else (success, ?s)) = (ok, s1)"
    by fastforce
  have "same_query ?s s1"
    using s1 tame_trigger [OF assms(1), of beforeexecute ?s en] by (auto split: if_splits)
  then have "same_query s s1" by (rule same_trans [OF same_updates(7)])
  then have g1: "guarded E s1" using guarded_same assms(2) by blast
  then have g2: "guarded E (note_event [Db_Execute query] s1)" by (rule guarded_event) (use assms(3) in simp)
  have after: "guarded E (snd (afterQuery E en b x))" if "guarded E x" for b x
    using guarded_same [OF that same_afterQuery [OF assms(1)]] .
  show ?thesis
    unfolding runQuery_def Let_def s1 prod.case
    using after [OF g1] after [OF guarded_same [OF g2 same_driver]] by (auto split: prod.split)
qed

lemma guarded_bindAndRun:
  assumes "tame_env E" and "guarded E s" and "allowed_text E query"
  shows "guarded E (snd (bindAndRun E en success query s))"
proof -
  let ?s = "translateBindVariablesFromMappings s"
  obtain ok s1 where s1: "(if bindswerefaked (cur ?s) then (True, ?s) else handleBinds E ?s) = (ok, s1)" by fastforce
  have "same_query ?s s1" using s1 tame_handleBinds [OF assms(1), of ?s] by (auto split: if_splits)
  then have g1: "guarded E s1" using guarded_same [OF assms(2) same_trans [OF same_updates(8)]] by blast
  have "guarded E (note_event [Query_Executed] (saveError E (note_event [Query_Counted (qtype (cur s1)), Error_Counted] s1)))"
    by (rule guarded_same [OF guarded_same [OF guarded_same [OF g1 same_note] same_errors(3)] same_note]) simp_all
  then show ?thesis
    unfolding bindAndRun_def Let_def s1 prod.case using guarded_runQuery [OF assms(1) g1 assms(3)] by (simp split: bool.split)
qed

lemma guarded_prepareAndRun:
  assumes "tame_env E" and "guarded E s" and "preprocessed (cur s)"
  shows "guarded E (snd (prepareAndRun E en success s))"
proof -
  have allowed: "allowed_text E (queryToRun (cur s))"
    using assms(2,3) by (auto simp: guarded_def queryToRun_def allowed_text_def)
  show ?thesis
    unfolding prepareAndRun_def Let_def
    using guarded_bindAndRun [OF assms(1,2) allowed] guarded_bindAndRun [OF assms(1) _ allowed]
      guarded_prepareOnDb [OF assms(1,2) allowed]
    by (auto split: prod.split bool.split)
qed

lemma guarded_executeQuery:
  assumes "tame_env E" and "enablefilters en" and "guarded E s"
  shows "guarded E (snd (executeQuery E en s))"
proof -
  have "same_query s (startExecute E s)"
    by (auto simp: startExecute_def Let_def closeResultSet_def clearError_def setCursorError_def note_event_def
        same_query_def still_def silent_def)
  then have g0: "guarded E (startExecute E s)" by (rule guarded_same [OF assms(3)])
  obtain ok s1 where s1: "(if preprocessed (cur (startExecute E s)) then (True, startExecute E s)
      else preprocess E en [Query_Executed] (startExecute E s)) = (ok, s1)" by fastforce
  have g1: "guarded E s1 \<and> (ok \<longrightarrow> preprocessed (cur s1))"
  proof (cases "preprocessed (cur (startExecute E s))")
    case True
    then show ?thesis using s1 g0 by simp
  next
    case False
    with s1 have "preprocess E en [Query_Executed] (startExecute E s) = (ok, s1)" by simp
    from preprocess_guarded [OF assms(1) _ assms(2) g0 False this] show ?thesis by simp
  qed
  define s2 where "s2 = fakeBinds E s1"
  have g2: "guarded E s2 \<and> preprocessed (cur s2)" if ok
    using g1 that by (auto simp: s2_def fakeBinds_def guarded_def filled_def split: option.split)
  obtain b s3 where s3: "interceptStep E s2 = (b, s3)" by (cases "interceptStep E s2")
  have "same_query s2 s3"
    using s3 by (auto simp: interceptStep_def Let_def copyConnectionErrorToCursor_def setCursorError_def same_query_def
        still_def silent_def split: prod.splits if_splits)
  then have g3: "guarded E s3 \<and> preprocessed (cur s3)" if ok
    using g2 that guarded_same by (auto simp: same_query_def still_def)
  have "same_query s3 (note_event [Query_Executed] (if b then on_cursor (querystatus_update (\<lambda>_. Status_Success)) s3 else s3))"
    by (rule same_trans [OF _ same_note]) simp_all
  then have g4: "guarded E (note_event [Query_Executed] (if b then on_cursor (querystatus_update (\<lambda>_. Status_Success)) s3 else s3))"
    if ok using g3 that guarded_same by blast
  show ?thesis
    unfolding executeQuery_def Let_def s1 prod.case s2_def [symmetric] s3
    using g1 g2 g3 g4 guarded_prepareAndRun [OF assms(1)] by (auto split: bool.split)
qed

lemma guarded_prepareQuery:
  assumes "tame_env E" and "enablefilters en" and "guarded E s"
  shows "guarded E (snd (prepareQuery E en query s))"
proof -
  define s1 where "s1 = on_cursor (querybuffer_update (\<lambda>_. take (unat (maxquerysize E)) query)) (resetForPrepare E s)"
  have g1: "guarded E s1" "\<not> preprocessed (cur s1)"
    using assms(3) by (auto simp: s1_def resetForPrepare_def clearError_def setCursorError_def closeResultSet_def
        note_event_def guarded_def)
  obtain ok s2 where s2: "preprocess E en [Query_Received, Query_Prepared, Query_Executed] s1 = (ok, s2)"
    by (cases "preprocess E en [Query_Received, Query_Prepared, Query_Executed] s1")
  have g2: "guarded E s2 \<and> (ok \<longrightarrow> preprocessed (cur s2))"
    by (rule preprocess_guarded [OF assms(1) _ assms(2) g1 s2]) simp
  obtain ok3 s3 where s3: "prepareOnDb E en (querybuffer (cur s2)) s2 = (ok3, s3)"
    by (cases "prepareOnDb E en (querybuffer (cur s2)) s2")
  have g3: "guarded E s3" if ok
    using guarded_prepareOnDb [OF assms(1) _ _ s3] g2 that by (auto simp: allowed_text_def guarded_def)
  then have "guarded E (snd (handleResultSetHeader E s3))" if ok
    using guarded_same [OF _ tame_header [OF assms(1)]] that by blast
  then show ?thesis
    unfolding prepareQuery_def Let_def s1_def [symmetric] s2 prod.case s3
    using g1 g2 g3 by (auto split: bool.split)
qed

section \<open>Clients\<close>

text \<open>What a client's requests do with a cursor: prepare a query, set binds, execute.\<close>

inductive client_run ::
  "('c, 't, 'm) queryenv \<Rightarrow> enables \<Rightarrow> ('c, 't, 'm) querystate \<Rightarrow> ('c, 't, 'm) querystate \<Rightarrow> bool" for E en where
  start: "client_run E en s s"
| prepare: "client_run E en s s' \<Longrightarrow> client_run E en s (snd (prepareQuery E en query s'))"
| bind: "client_run E en s s' \<Longrightarrow>
    client_run E en s (on_cursor (\<lambda>c. c\<lparr>inbinds := i, outbinds := out, inoutbinds := io\<rparr>) s')"
| execute: "client_run E en s s' \<Longrightarrow> client_run E en s (snd (executeQuery E en s'))"

text \<open>A cursor that no query was prepared on.\<close>

definition fresh_cursor :: "('c, 't, 'm) querystate \<Rightarrow> bool" where
  "fresh_cursor s \<longleftrightarrow> \<not> preprocessed (cur s) \<and> \<not> bindswerefaked (cur s) \<and> querylog s = []"

lemma guarded_client:
  "client_run E en s s' \<Longrightarrow> tame_env E \<Longrightarrow> enablefilters en \<Longrightarrow> fresh_cursor s \<Longrightarrow> guarded E s'"
proof (induction rule: client_run.induct)
  case (bind s s' i out io)
  then show ?case using guarded_same [OF _ same_updates(10)] by blast
next
  case (start s)
  then show ?case by (simp add: fresh_cursor_def guarded_def)
qed (auto intro: guarded_prepareQuery guarded_executeQuery)


end
