(* ===== verification/Query_Outcomes.thy ===== *)
theory Query_Outcomes
  imports Query_Rules Transaction_State Bind_Values
begin

text \<open>
  What comes of a query: a transaction query runs an operation of the controller and nothing in the
  database, any other query is prepared and executed once; and two cases of executing a query again.
\<close>

section \<open>Configurations\<close>

definition no_modules :: "('c, 't, 'm) queryenv \<Rightarrow> bool" where
  "no_modules E \<longleftrightarrow> filters E = None \<and> directives E = None \<and> querytranslations E = None"

definition no_triggers :: "('c, 't, 'm) queryenv \<Rightarrow> bool" where
  "no_triggers E \<longleftrightarrow> triggers E = None"

text \<open>A configuration without modules, with a driver that has binds of its own.\<close>

definition plain_env :: "('c, 't, 'm) queryenv \<Rightarrow> bool" where
  "plain_env E \<longleftrightarrow>
     no_modules E \<and> triggers E = None \<and> bindtranslations E = None \<and> \<not> fakeinputbinds E \<and> \<not> translatebinds E \<and>
     (\<forall>q. supportsNativeBinds E q) \<and> \<not> columnInfoAfterPrepare E \<and> (\<forall>s. columns E s = (True, s))"

text \<open>A database that does everything, behind the driver of the witnesses of \<open>Transaction_State\<close>.\<close>

definition demo_env ::
  "((((bool \<times> bool), string, unit) querystate, string) queryfilter list \<times>
    (((bool \<times> bool), string, unit) querystate, string) queryfilter list) option \<Rightarrow>
   ((bool \<times> bool), string, unit) queryenv" where
  "demo_env fs =
     \<lparr>dbc = flag_db TX_Explicit True, textlib = ascii_bind, delimiters = all_delims, backslashEscapesQuotes = False,
      unicodestrings = False, bindformat = ''?'', maxquerysize = 65536, maxerrorsize = 2048, fakeinputbinds = False,
      translatebinds = False, noopQuery = ''select 1'', beginTransactionQuery = ''begin'', useOriginalOnError = False,
      supportsNativeBinds = (\<lambda>q. True), columnInfoAfterPrepare = False, txErrorText = (\<lambda>e. (''error'', 1)),
      cursorids = [], queryparser = text_parser, filters = fs, directives = None, querytranslations = None,
      bindtranslations = None, bindTranslationError = (\<lambda>s. []), triggers = None, columns = Pair True,
      db_prepare = (\<lambda>q c. (True, c)), db_execute = (\<lambda>q c. (True, c)), db_inputBind = (\<lambda>b c. (True, c)),
      db_outputBind = (\<lambda>b c. (True, c)), db_inputOutputBind = (\<lambda>b c. (True, c)), db_closeResultSet = id,
      db_error = (\<lambda>c. ([], 0)), db_affectedRows = (\<lambda>c. 0)\<rparr>"

text \<open>A filter of the text \<open>drop\<close>.\<close>

definition no_drop :: "(((bool \<times> bool), string, unit) querystate, string) queryfilter" where
  "no_drop =
     \<lparr>filterRequiresTree = False, filterTree = (\<lambda>t s. (None, s)),
      filterText = (\<lambda>q s. (if has q ''drop'' then Some (''denied'', 100) else None, s))\<rparr>"

definition demo_state :: "((bool \<times> bool), string, unit) querystate" where
  "demo_state =
     \<lparr>tx = flag_session TX_Explicit True,
      cur = \<lparr>querybuffer = [], qtype = QT_Etc, querystatus = Status_Error, columninfoisvalid = False, preprocessed = False,
        prepared = False, executed = False, needsintercept = False, wasintercepted_cur = False, bindswerefaked = False,
        fakeinputbindsforthisquery = False, headerhandled = False, querysuppressed = False,
        translatebindsforthisquery = True, requirebindtranslation = False, inbinds = [], outbinds = [], inoutbinds = [],
        bindmappings = Map.empty, querywithfakeinputbinds = [], querytree = None, cursorerror = ([], 0),
        totalrowsfetched = 0\<rparr>,
      mods = (), overrideaffectedrows = False, affectedrows = 0, columnscached = False, querylog = []\<rparr>"

definition all_enabled :: enables where
  "all_enabled = \<lparr>enabledirectives = True, enabletranslations = True, enablefilters = True, enabletriggers = True\<rparr>"

lemma demo_tame: "tame_env (demo_env None)" "tame_env (demo_env (Some ([], [no_drop])))"
  by (simp_all add: tame_env_def demo_env_def no_drop_def tame_def)

lemma demo_plain: "plain_env (demo_env None)" "no_triggers (demo_env None)" "no_modules (demo_env None)"
  by (simp_all add: plain_env_def no_modules_def no_triggers_def demo_env_def)

lemma demo_textlib: "charlib.truncate (textlib (demo_env fs)) = ascii"
  by (simp add: demo_env_def ascii_bind_def charlib.defs)

section \<open>Transaction queries\<close>

definition txQueryTypes :: "sqlrquerytype set" where
  "txQueryTypes = {QT_Begin, QT_Commit, QT_Rollback, QT_Autocommit_On, QT_Autocommit_Off}"

text \<open>The operation of the controller that stands for a transaction query.\<close>

definition txOperation :: "'c dbconn \<Rightarrow> sqlrquerytype \<Rightarrow> 'c txst \<Rightarrow> bool \<times> 'c txst" where
  "txOperation D ty =
     (case ty of QT_Begin \<Rightarrow> begin_tx D | QT_Commit \<Rightarrow> commit D | QT_Rollback \<Rightarrow> rollback D
      | QT_Autocommit_On \<Rightarrow> setAutoCommitOn D | _ \<Rightarrow> setAutoCommitOff D)"

lemma preprocess_plain:
  assumes "no_modules E"
  shows "preprocess E en evs s =
    flagStep E (snd (beginStep E (snd (bindStep E (on_cursor (bindmappings_update (\<lambda>_. Map.empty)) (classifyQuery E s))))))"
  using assms
  by (simp add: preprocess_def no_modules_def filterStep_def directiveStep_def translateStep_def bindStep_def beginStep_def
      flagStep_def)

lemma preprocess_effect:
  assumes "no_modules E"
  obtains s' where "preprocess E en evs s = (True, s')" and "tx s' = tx s" and "querylog s' = querylog s"
    and "preprocessed (cur s')" and "qtype (cur s') = determineQueryType (charlib.truncate (textlib E)) (querybuffer (cur s))"
    and "needsintercept (cur s') = checkInterceptQuery (txView E (cur s'))"
    and "inbinds (cur s') = inbinds (cur s)" and "prepared (cur s') = prepared (cur s)"
proof
  show "preprocess E en evs s = (True, snd (preprocess E en evs s))"
    by (simp add: preprocess_plain [OF assms] flagStep_def)
qed (auto simp: preprocess_plain [OF assms] flagStep_def beginStep_def bindStep_def translateBinds_def
    translateBeginTransaction_def classifyQuery_def txView_def checkInterceptQuery_def Let_def split: prod.split)

lemma intercepted_result: "\<exists>v'. intercepted op v t = (fst (op t), v', snd (op t)) \<and> wasintercepted v'"
  by (cases "op t") (auto simp: intercepted_def Let_def split: bool.split)

lemma interceptQuery_result:
  assumes "querytype v \<in> txQueryTypes"
  shows "\<exists>v'. interceptQuery D v t =
    (fst (txOperation D (querytype v) t), v', snd (txOperation D (querytype v) t)) \<and> wasintercepted v'"
  using assms intercepted_result [of _ "v\<lparr>wasintercepted := False\<rparr>" t]
  by (auto simp: interceptQuery_def txQueryTypes_def txOperation_def)

lemma intercept_result:
  assumes "qtype (cur s) \<in> txQueryTypes"
  shows "\<exists>s'. interceptStep E s = (fst (txOperation (dbc E) (qtype (cur s)) (tx s)), s') \<and> wasintercepted_cur (cur s') \<and>
    tx s' = snd (txOperation (dbc E) (qtype (cur s)) (tx s)) \<and> querylog s' = querylog s"
proof -
  have "querytype (txView E (cur s)) = qtype (cur s)" by (simp add: txView_def Let_def)
  then obtain v' where "interceptQuery (dbc E) (txView E (cur s)) (tx s) =
      (fst (txOperation (dbc E) (qtype (cur s)) (tx s)), v', snd (txOperation (dbc E) (qtype (cur s)) (tx s)))"
    "wasintercepted v'"
    using interceptQuery_result [of "txView E (cur s)" "dbc E" "tx s"] assms by auto
  then show ?thesis by (simp add: interceptStep_def Let_def copyConnectionErrorToCursor_def setCursorError_def)
qed

lemma execute_intercepted:
  assumes s1: "(if preprocessed (cur (startExecute E s)) then (True, startExecute E s)
      else preprocess E en [Query_Executed] (startExecute E s)) = (True, s1)"
    and ty: "qtype (cur s1) = ty" "ty \<in> txQueryTypes" and needs: "needsintercept (cur s1)"
  shows "fst (executeQuery E en s) = fst (txOperation (dbc E) ty (tx s1)) \<and>
    tx (snd (executeQuery E en s)) = snd (txOperation (dbc E) ty (tx s1)) \<and>
    querylog (snd (executeQuery E en s)) = querylog s1 @ [Query_Executed]"
proof -
  have f: "tx (fakeBinds E s1) = tx s1" "qtype (cur (fakeBinds E s1)) = ty" "needsintercept (cur (fakeBinds E s1))"
    "querylog (fakeBinds E s1) = querylog s1"
    using ty needs by (auto simp: fakeBinds_def split: option.split)
  obtain s3 where s3: "interceptStep E (fakeBinds E s1) = (fst (txOperation (dbc E) ty (tx s1)), s3)"
    "wasintercepted_cur (cur s3)" "tx s3 = snd (txOperation (dbc E) ty (tx s1))" "querylog s3 = querylog s1"
    using intercept_result [of "fakeBinds E s1" E] ty(2) f by auto
  show ?thesis
    unfolding executeQuery_def Let_def s1 prod.case using f(3) s3 by (simp add: note_event_def)
qed

lemma startExecute_new: "\<not> executed (cur s) \<Longrightarrow> startExecute E s = s\<lparr>overrideaffectedrows := False, affectedrows := 0\<rparr>"
  by (simp add: startExecute_def Let_def)

text \<open>
  C10: a query that begins or ends a transaction or switches autocommit runs the operation of the
  controller, with its result, on the transaction state, and nothing is sent to the database as a
  query, also where the query's binds are replaced with values.
\<close>

theorem transaction_query_intercepted:
  assumes "no_modules E" and "length query \<le> unat (maxquerysize E)"
    and "determineQueryType (charlib.truncate (textlib E)) query = ty" and "ty \<in> txQueryTypes"
  shows "fst (prepareQuery E en query s) \<and>
    fst (executeQuery E en (snd (prepareQuery E en query s))) =
      fst (txOperation (dbc E) ty ((tx s)\<lparr>conn := db_closeResultSet E (conn (tx s))\<rparr>)) \<and>
    tx (snd (executeQuery E en (snd (prepareQuery E en query s)))) =
      snd (txOperation (dbc E) ty ((tx s)\<lparr>conn := db_closeResultSet E (conn (tx s))\<rparr>)) \<and>
    silent s (snd (executeQuery E en (snd (prepareQuery E en query s))))"
proof -
  let ?t = "(tx s)\<lparr>conn := db_closeResultSet E (conn (tx s))\<rparr>"
  define s1 where "s1 = on_cursor (querybuffer_update (\<lambda>_. take (unat (maxquerysize E)) query)) (resetForPrepare E s)"
  have s1: "tx s1 = ?t" "querylog s1 = querylog s @ [Result_Set_Closed]" "querybuffer (cur s1) = query"
    "\<not> preprocessed (cur s1)" "\<not> executed (cur s1)"
    using assms(2) by (simp_all add: s1_def resetForPrepare_def clearError_def setCursorError_def closeResultSet_def note_event_def)
  define p where "p = prepareQuery E en query s"
  have types: "checkInterceptQuery (txView E c)" if "qtype c = ty" for c :: "'b querycursor"
    using assms(4) that by (auto simp: checkInterceptQuery_def txView_def Let_def txQueryTypes_def)
  have "fst p \<and> (\<exists>s2. (if preprocessed (cur (startExecute E (snd p))) then (True, startExecute E (snd p))
      else preprocess E en [Query_Executed] (startExecute E (snd p))) = (True, s2) \<and>
      qtype (cur s2) = ty \<and> needsintercept (cur s2) \<and> tx s2 = ?t \<and> querylog s2 = querylog s @ [Result_Set_Closed])"
  proof (cases "fakeinputbindsforthisquery (cur s1)")
    case True
    then have p: "p = (True, s1)" unfolding p_def prepareQuery_def Let_def s1_def [symmetric] by simp
    show ?thesis
      by (rule preprocess_effect [OF assms(1), of en "[Query_Executed]" "startExecute E s1"])
        (use p s1 types assms(3) in \<open>auto simp: startExecute_new\<close>)
  next
    case False
    obtain s2 where s2: "preprocess E en [Query_Received, Query_Prepared, Query_Executed] s1 = (True, s2)"
      "tx s2 = ?t" "querylog s2 = querylog s @ [Result_Set_Closed]" "preprocessed (cur s2)" "qtype (cur s2) = ty"
      "needsintercept (cur s2)" and e: "executed (cur s2) \<or> True"
      by (rule preprocess_effect [OF assms(1), of en "[Query_Received, Query_Prepared, Query_Executed]" s1])
        (use s1 types assms(3) in auto)
    have p: "p = (True, s2)" using False s2 unfolding p_def prepareQuery_def Let_def s1_def [symmetric] by simp
    have "executed (cur s2) = executed (cur s1)"
      using s2(1) by (auto simp: preprocess_plain [OF assms(1)] flagStep_def beginStep_def bindStep_def translateBinds_def
          translateBeginTransaction_def classifyQuery_def split: prod.splits if_splits)
    then show ?thesis using p s2 s1 by (auto simp: startExecute_new)
  qed
  then obtain s2 where "fst p" and s2: "(if preprocessed (cur (startExecute E (snd p))) then (True, startExecute E (snd p))
      else preprocess E en [Query_Executed] (startExecute E (snd p))) = (True, s2)"
      "qtype (cur s2) = ty" "needsintercept (cur s2)" "tx s2 = ?t" "querylog s2 = querylog s @ [Result_Set_Closed]" by blast
  from execute_intercepted [OF s2(1,2) assms(4) s2(3)] s2 \<open>fst p\<close> show ?thesis
    by (auto simp: p_def silent_def)
qed

theorem transaction_query_intercepted_witness:
  "tx (snd (executeQuery (demo_env None) all_enabled (snd (prepareQuery (demo_env None) all_enabled '' Begin work '' demo_state)))) =
     snd (begin_tx (flag_db TX_Explicit True) (flag_session TX_Explicit True)) \<and>
   silent demo_state
     (snd (executeQuery (demo_env None) all_enabled (snd (prepareQuery (demo_env None) all_enabled '' Begin work '' demo_state))))"
proof -
  have "determineQueryType ascii '' Begin work '' = QT_Begin" by code_simp
  then have "determineQueryType (charlib.truncate (textlib (demo_env None))) '' Begin work '' = QT_Begin"
    by (simp add: demo_textlib)
  from transaction_query_intercepted [OF demo_plain(3) _ this, of all_enabled demo_state] show ?thesis
    by (simp add: txQueryTypes_def txOperation_def demo_env_def demo_state_def flag_session_def)
qed

section \<open>Other queries\<close>

lemma conn_afterExecute:
  "querytype v \<noteq> QT_Set_Including_Autocommit_On \<Longrightarrow> querytype v \<noteq> QT_Set_Including_Autocommit_Off \<Longrightarrow>
     afterExecute D True v t = commitOrRollback v t"
  by (simp add: afterExecute_def Let_def)



section \<open>Executing again\<close>

lemma prepareOnDb_log:
  "no_triggers E \<Longrightarrow> \<exists>es. querylog (snd (prepareOnDb E en query s)) = querylog s @ Query_Received # Db_Prepare query # es"
  by (auto simp: prepareOnDb_def no_triggers_def triggerChain_def Let_def note_event_def driver_def saveError_def
      split: prod.split)

lemma log_grows:
  "tame_env E \<Longrightarrow> no_triggers E \<Longrightarrow> \<exists>es. querylog (snd (bindAndRun E en b query s)) = querylog s @ es"
proof -
  assume E: "tame_env E" "no_triggers E"
  have same: "\<exists>es. querylog x' = querylog x @ es" if "same_query x x'" for x x'
    using that by (auto simp: same_query_def still_def silent_def)
  have more: "\<exists>es. querylog x'' = querylog x @ es" if "\<exists>es. querylog x' = querylog x @ es" "\<exists>es. querylog x'' = querylog x' @ es" for x x' x''
    using that by auto
  let ?s = "translateBindVariablesFromMappings s"
  obtain ok s1 where s1: "(if bindswerefaked (cur ?s) then (True, ?s) else handleBinds E ?s) = (ok, s1)" by fastforce
  have "same_query ?s s1" using s1 tame_handleBinds [OF E(1), of ?s] by (auto split: if_splits)
  then have l1: "\<exists>es. querylog s1 = querylog s @ es" using more [OF same same] same_updates(8) by blast
  have after: "\<exists>es. querylog (snd (afterQuery E en x y)) = querylog y @ es" for x y
    by (rule same [OF same_afterQuery [OF E(1)]])
  have d: "\<exists>es. querylog y = querylog z @ es" if "driver op z = (x, y)" for op x y z
    using same [OF same_driver [OF that]] .
  have run: "\<exists>es. querylog (snd (runQuery E en b query s1)) = querylog s1 @ es"
    using after [of b "on_cursor (querysuppressed_update (\<lambda>_. False)) s1"] E(2)
    by (auto simp: runQuery_def Let_def no_triggers_def note_event_def split: prod.split
        dest!: d intro: more [OF _ after])
  then have "\<exists>es. querylog (snd (runQuery E en b query s1)) = querylog s @ es" using more [OF l1] by blast
  then show ?thesis
    using l1 unfolding bindAndRun_def Let_def s1 prod.case
    by (auto simp: note_event_def saveError_def split: bool.split)
qed

text \<open>
  C39: a query whose binds were replaced with values, executed again with no binds, is run with the
  values of the execution before: the new text is not built, and the flag still says that it was.
\<close>

theorem old_values_sent_again:
  assumes "tame_env E" and "no_triggers E"
    and "preprocessed (cur s)" and "executed (cur s)" and "\<not> needsintercept (cur s)"
    and "fakeinputbindsforthisquery (cur s)" and "bindswerefaked (cur s)" and "inbinds (cur s) = []"
  shows "Db_Prepare (querywithfakeinputbinds (cur s)) \<in> set (querylog (snd (executeQuery E en s)))"
proof -
  define s1 where "s1 = startExecute E s"
  have s1: "preprocessed (cur s1)" "\<not> needsintercept (cur s1)" "\<not> prepared (cur s1)" "fakeBinds E s1 = s1"
    "queryToRun (cur s1) = querywithfakeinputbinds (cur s)"
    using assms(3-8) by (simp_all add: s1_def startExecute_def Let_def closeResultSet_def clearError_def setCursorError_def
        note_event_def fakeBinds_def fakeInputBinds_def queryToRun_def)
  have run: "executeQuery E en s = prepareAndRun E en True s1"
    unfolding executeQuery_def Let_def s1_def [symmetric] using s1 by simp
  obtain b s2 where s2: "prepareOnDb E en (querywithfakeinputbinds (cur s)) s1 = (b, s2)"
    by (cases "prepareOnDb E en (querywithfakeinputbinds (cur s)) s1")
  have "Db_Prepare (querywithfakeinputbinds (cur s)) \<in> set (querylog s2)"
    using prepareOnDb_log [OF assms(2), of en "querywithfakeinputbinds (cur s)" s1] s2 by auto
  then show ?thesis
    using log_grows [OF assms(1,2), of en True "querywithfakeinputbinds (cur s)" s2] s1 s2
    by (auto simp: run prepareAndRun_def Let_def split: bool.split)
qed

theorem old_values_sent_again_witness:
  "Db_Prepare ''select 1'' \<in> set (querylog (snd (executeQuery (demo_env None) all_enabled
     (on_cursor (\<lambda>c. c\<lparr>querybuffer := ''select ?'', preprocessed := True, executed := True, fakeinputbindsforthisquery := True,
       bindswerefaked := True, querywithfakeinputbinds := ''select 1''\<rparr>) demo_state))))"
  using old_values_sent_again [OF demo_tame(1) demo_plain(2), of "on_cursor (\<lambda>c. c\<lparr>querybuffer := ''select ?'',
      preprocessed := True, executed := True, fakeinputbindsforthisquery := True, bindswerefaked := True,
      querywithfakeinputbinds := ''select 1''\<rparr>) demo_state" all_enabled]
  by (simp add: demo_state_def)

text \<open>
  A \<open>set\<close> that includes autocommit is not run again: what \<open>interceptQuery\<close> returns for a query that
  it does not intercept counts as a failure of the execution.
\<close>

theorem set_autocommit_not_run_again:
  assumes "no_triggers E" and "preprocessed (cur s)" and "prepared (cur s)" and "executed (cur s)"
    and "\<not> fakeinputbindsforthisquery (cur s)" and "needsintercept (cur s)"
    and "qtype (cur s) \<in> {QT_Set_Including_Autocommit_On, QT_Set_Including_Autocommit_Off}"
    and "inbinds (cur s) = []" and "outbinds (cur s) = []" and "inoutbinds (cur s) = []" and "\<not> bindswerefaked (cur s)"
    and "bindtranslations E = None"
  shows "\<not> fst (executeQuery E en s) \<and> silent s (snd (executeQuery E en s))"
proof -
  define s1 where "s1 = startExecute E s"
  have s1: "preprocessed (cur s1)" "needsintercept (cur s1)" "prepared (cur s1)" "fakeBinds E s1 = s1"
    "inbinds (cur s1) = []" "outbinds (cur s1) = []" "inoutbinds (cur s1) = []" "\<not> bindswerefaked (cur s1)"
    "qtype (cur s1) \<in> {QT_Set_Including_Autocommit_On, QT_Set_Including_Autocommit_Off}" "silent s s1"
    using assms by (simp_all add: s1_def startExecute_def Let_def closeResultSet_def clearError_def setCursorError_def
        note_event_def fakeBinds_def silent_def)
  let ?s = "on_cursor (wasintercepted_cur_update (\<lambda>_. False)) s1"
  have i: "interceptStep E s1 = (False, ?s)"
    using s1(9) by (auto simp: interceptStep_def interceptQuery_def txView_def Let_def)
  have "executeQuery E en s = prepareAndRun E en False ?s"
    unfolding executeQuery_def Let_def s1_def [symmetric] using s1 i by simp
  also have "\<dots> = afterQuery E en False (on_cursor (querysuppressed_update (\<lambda>_. False)) (translateBindVariablesFromMappings ?s))"
    using s1 assms(1,12) by (simp add: prepareAndRun_def bindAndRun_def handleBinds_def translateBindVariablesFromMappings_def
        runQuery_def no_triggers_def Let_def)
  finally show ?thesis
    using assms(1) s1(10)
    by (auto simp: afterQuery_def no_triggers_def Let_def silent_def note_event_def saveError_def updateTransaction_def
        translateBindVariablesFromMappings_def)
qed

theorem set_autocommit_not_run_again_witness:
  "\<not> fst (executeQuery (demo_env None) all_enabled
     (on_cursor (\<lambda>c. c\<lparr>querybuffer := ''set autocommit=1, x=2'', qtype := QT_Set_Including_Autocommit_On, preprocessed := True,
       prepared := True, executed := True, needsintercept := True\<rparr>) demo_state))"
  using set_autocommit_not_run_again [OF demo_plain(2), of "on_cursor (\<lambda>c. c\<lparr>querybuffer := ''set autocommit=1, x=2'',
      qtype := QT_Set_Including_Autocommit_On, preprocessed := True, prepared := True, executed := True,
      needsintercept := True\<rparr>) demo_state" all_enabled]
  by (simp add: demo_state_def demo_env_def)


end
