(* ===== verification/Command_Loop.thy ===== *)
theory Command_Loop
  imports Result_Server
begin

text \<open>
  The commands of a client (\<open>clientSession\<close> of \<open>src/protocols/sqlrclient.cpp\<close>), from the
  authentication to the end of the session, and the loop of the connection daemon that serves one
  client after another (\<open>listen\<close> of \<open>src/server/sqlrservercontroller.cpp\<close>).

  The state of the controller is a parameter \<open>'k\<close>; its operations, and what the commands between
  the authentication and the end do, are the fields of \<open>commandenv\<close>. A handler is given the version
  of the protocol and what the client has sent, and gives what it writes, what it leaves unread, and
  the new state. Statistics, debug output, and times are left out.
\<close>

section \<open>Numbers of the protocol\<close>

abbreviation "SQLRCLIENT_PROTOCOL_VERSION \<equiv> 21331 :: u16"
abbreviation "SQLRCLIENT_PROTOCOL_VERSION_MIN \<equiv> 1 :: u16"
abbreviation "SQLRCLIENT_PROTOCOL_VERSION_MAX \<equiv> 3 :: u16"
abbreviation "MAX_COMMAND \<equiv> 57 :: u16"
abbreviation "NEW_QUERY \<equiv> 0 :: u16"
abbreviation "ABORT_RESULT_SET \<equiv> 2 :: u16"
abbreviation "SUSPEND_RESULT_SET \<equiv> 3 :: u16"
abbreviation "SUSPEND_SESSION \<equiv> 5 :: u16"
abbreviation "END_SESSION \<equiv> 6 :: u16"
abbreviation "PING \<equiv> 7 :: u16"
abbreviation "IDENTIFY \<equiv> 8 :: u16"
abbreviation "AUTH \<equiv> 11 :: u16"
abbreviation "NEED_NEW_CURSOR \<equiv> 0 :: u16"
abbreviation "DONT_NEED_NEW_CURSOR \<equiv> 1 :: u16"

text \<open>
  The commands that are handled without a cursor, with \<open>PING\<close> and \<open>IDENTIFY\<close> first: autocommit
  and transactions, formats and versions, database, catalog and schema, the host, isolation levels,
  transaction models, and features.
\<close>

definition connectionCommands :: "u16 list" where
  "connectionCommands =
     [7, 8, 12, 45, 24, 9, 10, 56, 15, 16, 40, 17, 21, 22, 49, 47, 48, 41, 37, 52, 23, 27, 28, 42, 43, 51,
      53, 54, 55, 44]"

text \<open>The commands that need a cursor.\<close>

definition cursorCommands :: "u16 list" where
  "cursorCommands =
     [0, 13, 14, 1, 2, 3, 4, 50, 18, 32, 19, 39, 33, 20, 34, 35, 30, 31, 36, 46, 25, 29, 38, 57]"

text \<open>Those among them whose cursor may be a new one.\<close>

definition newCursorCommands :: "u16 list" where
  "newCursorCommands = [0, 50, 18, 32, 19, 39, 33, 20, 34, 35, 30, 31, 36, 46, 2, 25, 29, 57]"

section \<open>State\<close>

datatype credentials = Gss_Credentials bytes | Tls_Credentials "bytes list" bytes | User_Password bytes bytes

datatype cmdevent =
  Client_Connected bool \<comment> \<open>whether it resumes a suspended session\<close>
| Authenticated "credentials option" | Session_Begun
| Connection_Command u16 | Cursor_Command u16 u16
| Security_Refused | Version_Refused | Not_Authenticated | Auth_Refused
| Session_Suspended | Session_Ended | Session_Expired

datatype exitstatus = Exit_Error | Exit_Ended | Exit_Suspended

record 'k daemon =
  clientversion :: u16
  authenticated :: bool
  userbuffer :: bytes
  passwordbuffer :: bytes
  suspendedsession :: bool
  resumedsession :: bool
  received :: bytes
  sent :: bytes
  controller :: 'k
  cmdlog :: "cmdevent list"

record 'k commandenv =
  wire :: sockcodec
  maxima :: "u64 \<times> u32 \<times> u16 \<times> u16" \<comment> \<open>client info, query, bind variables, their names\<close>
  usesKrb :: bool
  usesTls :: bool
  gssInitiator :: "bytes option"
  tlsPeer :: "(bytes list \<times> bytes) option"
  secures :: "'k \<Rightarrow> bool"
  instanceDisabled :: "'k \<Rightarrow> bool"
  authorize :: "credentials option \<Rightarrow> 'k \<Rightarrow> bool \<times> 'k"
  startSession :: "'k \<Rightarrow> 'k"
  endsSession :: "'k \<Rightarrow> 'k"
  suspendsSession :: "'k \<Rightarrow> bytes \<times> u16 \<times> 'k"
  connectionCommand :: "u16 \<Rightarrow> u16 \<Rightarrow> bytes \<Rightarrow> 'k \<Rightarrow> bytes \<times> bytes \<times> 'k"
  cursorCommand :: "u16 \<Rightarrow> u16 \<Rightarrow> u16 \<Rightarrow> bytes \<Rightarrow> 'k \<Rightarrow> bool \<times> bytes \<times> bytes \<times> 'k"
  cursorById :: "u16 \<Rightarrow> 'k \<Rightarrow> u16 option \<times> 'k"
  newCursorFor :: "'k \<Rightarrow> u16 option \<times> 'k"
  absorbed :: "u32 \<Rightarrow> bytes \<Rightarrow> bytes" \<comment> \<open>what a read without waiting leaves\<close>
  releaseCursors :: "'k \<Rightarrow> 'k"
  rollsBack :: "'k \<Rightarrow> 'k"

definition noteCmd :: "cmdevent list \<Rightarrow> 'k daemon \<Rightarrow> 'k daemon" where
  "noteCmd es s = s\<lparr>cmdlog := cmdlog s @ es\<rparr>"

definition reply :: "bytes \<Rightarrow> 'k daemon \<Rightarrow> 'k daemon" where
  "reply out s = s\<lparr>sent := sent s @ out\<rparr>"

section \<open>Errors\<close>

definition asciiBytes :: "string \<Rightarrow> bytes" where
  "asciiBytes s = map of_char s"

text \<open>An error status, an error number and an error string, as every error is sent.\<close>

definition sendError :: "sockcodec \<Rightarrow> u16 \<Rightarrow> u64 \<Rightarrow> string \<Rightarrow> bytes" where
  "sendError C status number message =
     put16 C status @ put64 C number @ put16 C (of_nat (length message)) @ asciiBytes message"

definition sendNotAuthenticatedError :: "sockcodec \<Rightarrow> u16 \<Rightarrow> bytes" where
  "sendNotAuthenticatedError C version =
     sendError C ERROR_OCCURRED_DISCONNECT 900035 ''Not authenticated.'' @ sendSqlState C version []"

definition sendUnsupportedProtocolError :: "sockcodec \<Rightarrow> bytes" where
  "sendUnsupportedProtocolError C = sendError C ERROR_OCCURRED_DISCONNECT 900037 ''Unsupported protocol''"

text \<open>
  The bytes that a client without a cursor is expected to have sent: client info, query, three
  lists of bind variables, the request for column information, and two numbers of rows.
\<close>

definition absorbSize :: "'k commandenv \<Rightarrow> u32" where
  "absorbSize E =
     (case maxima E of (info, query, binds, names) \<Rightarrow>
        8 + ucast info + 4 + query + 2 + ucast binds * (4 + ucast names) + 2 + ucast binds * (4 + ucast names) +
        2 + ucast binds * (4 + ucast names) + 2 + 8)"

definition noAvailableCursors :: "'k commandenv \<Rightarrow> 'k daemon \<Rightarrow> 'k daemon" where
  "noAvailableCursors E s =
     reply (sendError (wire E) ERROR_OCCURRED 900000 ''No server-side cursors were available to process the query.'' @
            sendSqlState (wire E) (clientversion s) [])
       (s\<lparr>received := absorbed E (absorbSize E) (received s)\<rparr>)"

section \<open>Authentication\<close>

text \<open>\<open>sizeof(userbuffer)\<close>, which is also that of the password.\<close>

abbreviation USERSIZE :: u32 where
  "USERSIZE \<equiv> 128"

definition getUserFromClient :: "sockcodec \<Rightarrow> bytes \<Rightarrow> (bytes \<times> bytes) option" where
  "getUserFromClient C s =
     (case get32 C s of
        None \<Rightarrow> None
      | Some (n, s) \<Rightarrow> if USERSIZE \<le> n then None else getBytes n s)"

definition getPasswordFromClient :: "sockcodec \<Rightarrow> bytes \<Rightarrow> (bytes \<times> bytes) option" where
  "getPasswordFromClient C s =
     (case get32 C s of
        None \<Rightarrow> None
      | Some (n, s) \<Rightarrow> if USERSIZE \<le> n then None else getBytes n s)"

text \<open>What a C string in a buffer is: the bytes before the first zero.\<close>

definition cstring :: "bytes \<Rightarrow> bytes" where
  "cstring bs = takeWhile (\<lambda>b. b \<noteq> 0) bs"

definition buildCredentials :: "'k commandenv \<Rightarrow> bytes \<Rightarrow> bytes \<Rightarrow> credentials option" where
  "buildCredentials E user password =
     (if usesKrb E then map_option Gss_Credentials (gssInitiator E)
      else if usesTls E \<and> cstring user = [] then
        map_option (\<lambda>(names, common). Tls_Credentials names common) (tlsPeer E)
      else Some (User_Password (cstring user) (cstring password)))"

definition authCommand :: "'k commandenv \<Rightarrow> 'k daemon \<Rightarrow> bool \<times> 'k daemon" where
  "authCommand E s =
     (case getUserFromClient (wire E) (received s) of
        None \<Rightarrow> (False, noteCmd [Auth_Refused] s)
      | Some (user, r) \<Rightarrow>
          (case getPasswordFromClient (wire E) r of
             None \<Rightarrow> (False, noteCmd [Auth_Refused] (s\<lparr>userbuffer := user, received := r\<rparr>))
           | Some (password, r) \<Rightarrow>
               (let s = s\<lparr>userbuffer := user, passwordbuffer := password, received := r\<rparr>;
                    cred = buildCredentials E user password
                in case authorize E cred (controller s) of
                     (True, k) \<Rightarrow> (True, noteCmd [Authenticated cred] (s\<lparr>controller := k\<rparr>))
                   | (False, k) \<Rightarrow>
                       (False, noteCmd [Auth_Refused]
                          (reply (sendError (wire E) ERROR_OCCURRED_DISCONNECT 900012 ''Authentication Error.'' @
                                  sendSqlState (wire E) (clientversion s) [])
                            (s\<lparr>controller := k\<rparr>))))))"

section \<open>Cursors\<close>

text \<open>The cursor that the client asks for: one that it has, or a free one.\<close>

definition getCursor :: "'k commandenv \<Rightarrow> u16 \<Rightarrow> 'k daemon \<Rightarrow> u16 option \<times> 'k daemon" where
  "getCursor E command s =
     (case (if command \<in> set newCursorCommands then get16 (wire E) (received s)
            else Some (DONT_NEED_NEW_CURSOR, received s)) of
        None \<Rightarrow> (None, s)
      | Some (neednewcursor, r) \<Rightarrow>
          (let s = s\<lparr>received := r\<rparr>
           in if neednewcursor = DONT_NEED_NEW_CURSOR then
                (case get16 (wire E) (received s) of
                   None \<Rightarrow> (None, s)
                 | Some (i, r) \<Rightarrow>
                     (case cursorById E i (controller s) of (c, k) \<Rightarrow> (c, s\<lparr>received := r, controller := k\<rparr>)))
              else (case newCursorFor E (controller s) of (c, k) \<Rightarrow> (c, s\<lparr>controller := k\<rparr>))))"

section \<open>The session of a client\<close>

definition suspendSessionCommand :: "'k commandenv \<Rightarrow> 'k daemon \<Rightarrow> 'k daemon" where
  "suspendSessionCommand E s =
     (case suspendsSession E (controller s) of
        (socket, port, k) \<Rightarrow>
          (let n = of_nat (length socket) :: u16
           in noteCmd [Session_Suspended]
                (reply (put16 (wire E) NO_ERROR_OCCURRED @ put16 (wire E) n @
                        (if n \<noteq> 0 then take (unat n) socket else []) @ put16 (wire E) port)
                  (s\<lparr>controller := k, suspendedsession := True\<rparr>))))"

definition runConnectionCommand :: "'k commandenv \<Rightarrow> u16 \<Rightarrow> 'k daemon \<Rightarrow> 'k daemon" where
  "runConnectionCommand E command s =
     (case connectionCommand E command (clientversion s) (received s) (controller s) of
        (out, r, k) \<Rightarrow> noteCmd [Connection_Command command] (reply out (s\<lparr>received := r, controller := k\<rparr>)))"

definition runCursorCommand :: "'k commandenv \<Rightarrow> u16 \<Rightarrow> u16 \<Rightarrow> 'k daemon \<Rightarrow> bool \<times> 'k daemon" where
  "runCursorCommand E command c s =
     (if command \<in> set cursorCommands then
        (case cursorCommand E command (clientversion s) c (received s) (controller s) of
           (loop, out, r, k) \<Rightarrow>
             (loop \<or> command = ABORT_RESULT_SET \<or> command = SUSPEND_RESULT_SET,
              noteCmd [Cursor_Command command c] (reply out (s\<lparr>received := r, controller := k\<rparr>))))
      else (False, s))"

text \<open>
  A round of the loop goes on, or leaves the loop with the exit status, and whether the session is to
  be ended. First the announcement of the protocol's version, then the commands behind it.
\<close>

definition protocolVersionCommand ::
  "'k commandenv \<Rightarrow> 'k daemon \<Rightarrow> 'k daemon + (exitstatus \<times> bool \<times> 'k daemon)" where
  "protocolVersionCommand E s =
     (case get16 (wire E) (received s) of
        None \<Rightarrow> Inr (Exit_Error, False, noteCmd [Version_Refused] s)
      | Some (v, r) \<Rightarrow>
          (let s = s\<lparr>clientversion := v, received := r\<rparr>
           in if v < SQLRCLIENT_PROTOCOL_VERSION_MIN \<or> SQLRCLIENT_PROTOCOL_VERSION_MAX < v then
                Inr (Exit_Error, False, noteCmd [Version_Refused] (reply (sendUnsupportedProtocolError (wire E)) s))
              else Inl s))"

definition dispatch ::
  "'k commandenv \<Rightarrow> u16 \<Rightarrow> 'k daemon \<Rightarrow> 'k daemon + (exitstatus \<times> bool \<times> 'k daemon)" where
  "dispatch E command s =
     (if MAX_COMMAND < command then Inr (Exit_Error, True, s)
      else if \<not> authenticated s \<and> command \<noteq> AUTH \<and> command \<noteq> PING \<and> command \<noteq> IDENTIFY \<and>
              command \<noteq> END_SESSION then
        Inr (Exit_Error, False,
             noteCmd [Not_Authenticated] (reply (sendNotAuthenticatedError (wire E) (clientversion s)) s))
      else if command = AUTH then
        (if clientversion s < SQLRCLIENT_PROTOCOL_VERSION_MIN then
           Inr (Exit_Error, False, noteCmd [Version_Refused] (reply (sendUnsupportedProtocolError (wire E)) s))
         else (case authCommand E s of
                 (True, s) \<Rightarrow>
                   Inl (noteCmd [Session_Begun] (s\<lparr>authenticated := True, controller := startSession E (controller s)\<rparr>))
               | (False, s) \<Rightarrow> Inr (Exit_Error, False, s)))
      else if command = SUSPEND_SESSION then Inr (Exit_Suspended, False, suspendSessionCommand E s)
      else if command = END_SESSION then Inr (Exit_Ended, True, s)
      else if command \<in> set connectionCommands then Inl (runConnectionCommand E command s)
      else (case getCursor E command s of
              (None, s) \<Rightarrow> Inl (if command \<noteq> ABORT_RESULT_SET then noAvailableCursors E s else s)
            | (Some c, s) \<Rightarrow>
                (case runCursorCommand E command c s of
                   (True, s) \<Rightarrow> Inl s
                 | (False, s) \<Rightarrow> Inr (Exit_Error, True, s))))"

definition commandStep ::
  "'k commandenv \<Rightarrow> 'k daemon \<Rightarrow> ('k daemon + (exitstatus \<times> bool \<times> 'k daemon)) option" where
  "commandStep E s =
     Some (if instanceDisabled E (controller s) then Inr (Exit_Error, True, s)
      else case get16 (wire E) (received s) of
        None \<Rightarrow> Inr (Exit_Error, True, s)
      | Some (command, r) \<Rightarrow>
          (let s = s\<lparr>received := r\<rparr>
           in if command = SQLRCLIENT_PROTOCOL_VERSION then protocolVersionCommand E s
              else dispatch E command s))"

definition endClientSession :: "'k commandenv \<Rightarrow> 'k daemon \<Rightarrow> 'k daemon" where
  "endClientSession E s =
     noteCmd [Session_Ended] (s\<lparr>suspendedsession := False, controller := endsSession E (controller s)\<rparr>)"

definition clientSession :: "'k commandenv \<Rightarrow> 'k daemon \<Rightarrow> (exitstatus \<times> 'k daemon) option" where
  "clientSession E s =
     (let s = (if resumedsession s then s else s\<lparr>authenticated := False\<rparr>)
      in if \<not> secures E (controller s) then Some (Exit_Error, noteCmd [Security_Refused] s)
         else map_option
                (\<lambda>(status, endsession, s).
                   let s = s\<lparr>received := []\<rparr>
                   in (status, if endsession then endClientSession E s else s))
                (iterate (commandStep E) s))"

section \<open>One client after another\<close>

text \<open>
  The loop of the daemon: a new client starts with \<open>initSession\<close>; a client that comes while
  the session is suspended resumes it; and a suspended session that nobody resumes is rolled back.
\<close>

definition initSession :: "'k commandenv \<Rightarrow> 'k daemon \<Rightarrow> 'k daemon" where
  "initSession E s =
     s\<lparr>suspendedsession := False, resumedsession := False, controller := releaseCursors E (controller s)\<rparr>"

definition serveClient :: "'k commandenv \<Rightarrow> bytes \<Rightarrow> 'k daemon \<Rightarrow> (exitstatus \<times> 'k daemon) option" where
  "serveClient E input s =
     clientSession E
       (noteCmd [Client_Connected (suspendedsession s)]
         (s\<lparr>resumedsession := suspendedsession s, suspendedsession := False, received := input, sent := []\<rparr>))"

definition expireSession :: "'k commandenv \<Rightarrow> 'k daemon \<Rightarrow> 'k daemon" where
  "expireSession E s = noteCmd [Session_Expired] (s\<lparr>suspendedsession := False, controller := rollsBack E (controller s)\<rparr>)"

inductive daemon_run :: "'k commandenv \<Rightarrow> 'k daemon \<Rightarrow> 'k daemon \<Rightarrow> bool" for E s0 where
  start: "daemon_run E s0 s0"
| new_client: "daemon_run E s0 s \<Longrightarrow> \<not> suspendedsession s \<Longrightarrow>
    serveClient E input (initSession E s) = Some (status, s') \<Longrightarrow> daemon_run E s0 s'"
| resumed: "daemon_run E s0 s \<Longrightarrow> suspendedsession s \<Longrightarrow>
    serveClient E input s = Some (status, s') \<Longrightarrow> daemon_run E s0 s'"
| expired: "daemon_run E s0 s \<Longrightarrow> suspendedsession s \<Longrightarrow> daemon_run E s0 (expireSession E s)"

end
