(* ===== verification/Command_Rules.thy ===== *)
theory Command_Rules
  imports Command_Loop
begin

text \<open>
  What the command loop guarantees: no command of a client runs before the client has
  authenticated, the loop ends, and a session that was begun is ended before the next client comes,
  but for the ways out that leave it open.
\<close>

section \<open>Traces\<close>

text \<open>Commands that need no authentication are the health checks.\<close>

fun needs_auth :: "cmdevent \<Rightarrow> bool" where
  "needs_auth (Connection_Command c) = (c \<noteq> PING \<and> c \<noteq> IDENTIFY)"
| "needs_auth (Cursor_Command c i) = True"
| "needs_auth Session_Suspended = True"
| "needs_auth _ = False"

text \<open>
  Whether a client counts as authenticated after a trace, and whether no command in it ran before.
  A client that resumes a suspended session counts as the one that suspended it.
\<close>

fun auth_after :: "bool \<Rightarrow> cmdevent list \<Rightarrow> bool" where
  "auth_after a [] = a"
| "auth_after a (Client_Connected resumes # es) = auth_after (a \<and> resumes) es"
| "auth_after a (Authenticated cred # es) = auth_after True es"
| "auth_after a (e # es) = auth_after a es"

fun permitted :: "bool \<Rightarrow> cmdevent list \<Rightarrow> bool" where
  "permitted a [] = True"
| "permitted a (e # es) = ((needs_auth e \<longrightarrow> a) \<and> permitted (auth_after a [e]) es)"

lemma auth_after_append [simp]: "auth_after a (xs @ ys) = auth_after (auth_after a xs) ys"
proof (induction xs arbitrary: a)
  case (Cons e xs)
  then show ?case by (cases e) auto
qed simp

lemma permitted_append [simp]: "permitted a (xs @ ys) \<longleftrightarrow> permitted a xs \<and> permitted (auth_after a xs) ys"
proof (induction xs arbitrary: a)
  case (Cons e xs)
  then show ?case by (cases e) auto
qed simp

section \<open>Invariants of the loop\<close>

lemma log_simps [simp]:
  "cmdlog (noteCmd es s) = cmdlog s @ es" "authenticated (noteCmd es s) = authenticated s"
  "suspendedsession (noteCmd es s) = suspendedsession s" "resumedsession (noteCmd es s) = resumedsession s"
  "received (noteCmd es s) = received s" "controller (noteCmd es s) = controller s"
  "clientversion (noteCmd es s) = clientversion s"
  by (simp_all add: noteCmd_def)

lemma reply_simps [simp]:
  "cmdlog (reply out s) = cmdlog s" "authenticated (reply out s) = authenticated s"
  "suspendedsession (reply out s) = suspendedsession s" "resumedsession (reply out s) = resumedsession s"
  "received (reply out s) = received s" "controller (reply out s) = controller s"
  "clientversion (reply out s) = clientversion s"
  by (simp_all add: reply_def)

text \<open>What the steps do to the parts of the state that the invariants speak of.\<close>

definition quiet :: "cmdevent list \<Rightarrow> 'k daemon \<Rightarrow> 'k daemon \<Rightarrow> bool" where
  "quiet es s t \<longleftrightarrow> cmdlog t = cmdlog s @ es \<and> authenticated t = authenticated s \<and>
     suspendedsession t = suspendedsession s \<and> resumedsession t = resumedsession s"

lemma quietD:
  assumes "quiet es s t"
  shows "cmdlog t = cmdlog s @ es" and "authenticated t = authenticated s"
    and "suspendedsession t = suspendedsession s" and "resumedsession t = resumedsession s"
  using assms by (simp_all add: quiet_def)

lemma authCommand_accepted:
  assumes "authCommand E s = (True, t)"
  shows "\<exists>cred k. quiet [Authenticated cred] s t \<and> fst (authorize E cred k)"
  using assms unfolding quiet_def
  by (auto simp: authCommand_def Let_def split: option.splits prod.splits bool.splits) (metis fst_conv)+

lemma authCommand_refused:
  assumes "authCommand E s = (False, t)"
  shows "quiet [Auth_Refused] s t"
  using assms unfolding quiet_def
  by (auto simp: authCommand_def Let_def split: option.splits prod.splits bool.splits)

lemma getCursor_quiet:
  assumes "getCursor E command s = (c, t)"
  shows "quiet [] s t"
  using assms unfolding quiet_def
  by (auto simp: getCursor_def Let_def split: option.splits prod.splits if_splits)

lemma noAvailableCursors_quiet: "quiet [] s (noAvailableCursors E s)"
  by (simp add: quiet_def noAvailableCursors_def reply_def)

lemma runConnectionCommand_quiet: "quiet [Connection_Command command] s (runConnectionCommand E command s)"
  by (simp add: quiet_def runConnectionCommand_def split: prod.splits)

lemma runCursorCommand_quiet:
  assumes "runCursorCommand E command c s = (loop, t)"
  shows "quiet [Cursor_Command command c] s t \<or> quiet [] s t \<and> \<not> loop"
  using assms unfolding quiet_def
  by (auto simp: runCursorCommand_def split: prod.splits if_splits)

section \<open>What a round does\<close>

text \<open>
  The rounds of the loop by what they leave in the log and in the state. The exits that give the
  session up without ending it are the refused ones.
\<close>

inductive round_effect ::
  "'k commandenv \<Rightarrow> 'k daemon \<Rightarrow> ('k daemon + (exitstatus \<times> bool \<times> 'k daemon)) \<Rightarrow> bool" for E s where
  passes: "quiet [] s t \<Longrightarrow> round_effect E s (Inl t)"
| leaves: "quiet [] s t \<Longrightarrow> status \<noteq> Exit_Suspended \<Longrightarrow> round_effect E s (Inr (status, True, t))"
| refused: "quiet [e] s t \<Longrightarrow> e \<in> {Version_Refused, Auth_Refused} \<Longrightarrow> round_effect E s (Inr (Exit_Error, False, t))"
| unknown: "quiet [Not_Authenticated] s t \<Longrightarrow> \<not> authenticated s \<Longrightarrow> round_effect E s (Inr (Exit_Error, False, t))"
| begins: "cmdlog t = cmdlog s @ [Authenticated cred, Session_Begun] \<Longrightarrow> fst (authorize E cred k) \<Longrightarrow>
    authenticated t \<Longrightarrow> suspendedsession t = suspendedsession s \<Longrightarrow> resumedsession t = resumedsession s \<Longrightarrow>
    round_effect E s (Inl t)"
| suspends: "cmdlog t = cmdlog s @ [Session_Suspended] \<Longrightarrow> authenticated s \<Longrightarrow> authenticated t \<Longrightarrow>
    suspendedsession t \<Longrightarrow> resumedsession t = resumedsession s \<Longrightarrow> round_effect E s (Inr (Exit_Suspended, False, t))"
| health: "quiet [Connection_Command c] s t \<Longrightarrow> authenticated s \<or> c = PING \<or> c = IDENTIFY \<Longrightarrow>
    round_effect E s (Inl t)"
| runs: "quiet [Cursor_Command c i] s t \<Longrightarrow> authenticated s \<Longrightarrow> round_effect E s (Inl t)"
| fails: "quiet [Cursor_Command c i] s t \<Longrightarrow> authenticated s \<Longrightarrow> round_effect E s (Inr (Exit_Error, True, t))"

lemma quiet_simps:
  "quiet es (s\<lparr>received := r\<rparr>) t = quiet es s t" "quiet es (s\<lparr>clientversion := v, received := r\<rparr>) t = quiet es s t"
  "quiet es s (noteCmd fs t) \<longleftrightarrow> cmdlog t @ fs = cmdlog s @ es \<and> authenticated t = authenticated s \<and>
     suspendedsession t = suspendedsession s \<and> resumedsession t = resumedsession s"
  "quiet es s (reply out t) = quiet es s t"
  by (auto simp: quiet_def)

text \<open>The commands that need a cursor.\<close>

lemma cursor_round:
  assumes "authenticated s"
  shows "round_effect E s
    (case getCursor E command s of
       (None, s) \<Rightarrow> Inl (if command \<noteq> ABORT_RESULT_SET then noAvailableCursors E s else s)
     | (Some c, s) \<Rightarrow>
         (case runCursorCommand E command c s of (True, s) \<Rightarrow> Inl s | (False, s) \<Rightarrow> Inr (Exit_Error, True, s)))"
proof -
  obtain c t where g: "getCursor E command s = (c, t)" by fastforce
  then have t: "quiet [] s t" by (rule getCursor_quiet)
  show ?thesis
  proof (cases c)
    case None
    have "quiet [] s (if command \<noteq> ABORT_RESULT_SET then noAvailableCursors E t else t)"
      using t noAvailableCursors_quiet [of t E] by (auto simp: quiet_def)
    then show ?thesis using g None by (simp add: round_effect.passes)
  next
    case (Some i)
    obtain loop u where r: "runCursorCommand E command i t = (loop, u)" by fastforce
    have "quiet [Cursor_Command command i] s u \<or> quiet [] s u \<and> \<not> loop"
      using runCursorCommand_quiet [OF r] t by (auto simp: quiet_def)
    then show ?thesis
      using g Some r assms by (cases loop) (auto intro: round_effect.intros)
  qed
qed

lemma auth_round:
  "round_effect E s
    (case authCommand E s of
       (True, s) \<Rightarrow> Inl (noteCmd [Session_Begun] (s\<lparr>authenticated := True, controller := startSession E (controller s)\<rparr>))
     | (False, s) \<Rightarrow> Inr (Exit_Error, False, s))"
proof (cases "authCommand E s")
  case (Pair ok t)
  show ?thesis
  proof (cases ok)
    case True
    then obtain cred k where "quiet [Authenticated cred] s t" "fst (authorize E cred k)"
      using authCommand_accepted [of E s t] Pair by auto
    then show ?thesis using Pair True by (auto simp: quiet_def intro: round_effect.begins)
  next
    case False
    then show ?thesis using authCommand_refused Pair by (auto intro: round_effect.refused)
  qed
qed

lemma suspend_round:
  "authenticated s \<Longrightarrow> round_effect E s (Inr (Exit_Suspended, False, suspendSessionCommand E s))"
  by (rule round_effect.suspends) (auto simp: suspendSessionCommand_def Let_def split: prod.splits)

lemma dispatch_effect: "round_effect E s (dispatch E command s)"
proof -
  have self: "quiet [] s s" by (simp add: quiet_def)
  have conn: "round_effect E s (Inl (runConnectionCommand E c s))" if "authenticated s \<or> c = PING \<or> c = IDENTIFY" for c
    using runConnectionCommand_quiet [of c s E] that by (rule round_effect.health)
  have health: "PING \<in> set connectionCommands" "IDENTIFY \<in> set connectionCommands"
    by (simp_all add: connectionCommands_def)
  have refuse: "round_effect E s (Inr (Exit_Error, False, noteCmd [e] (reply out s)))"
    if "e \<in> {Version_Refused, Auth_Refused}" for e out
    by (rule round_effect.refused [of e]) (use that in \<open>auto simp: quiet_def\<close>)
  have unknown: "round_effect E s (Inr (Exit_Error, False, noteCmd [Not_Authenticated] (reply out s)))"
    if "\<not> authenticated s" for out
    by (rule round_effect.unknown) (use that in \<open>auto simp: quiet_def\<close>)
  show ?thesis
    using self conn health refuse unknown cursor_round [of s E command] auth_round [of E s] suspend_round [of s E]
    unfolding dispatch_def by (simp add: round_effect.leaves)
qed

lemma protocolVersion_effect: "round_effect E s (protocolVersionCommand E s)"
proof -
  have "round_effect E s (Inr (Exit_Error, False, t))" if "quiet [Version_Refused] s t" for t
    using that by (auto intro: round_effect.refused)
  then show ?thesis
    by (auto simp: protocolVersionCommand_def quiet_def Let_def intro!: round_effect.passes split: option.splits prod.splits)
qed

lemma round_effect_received: "round_effect E (s\<lparr>received := r\<rparr>) z = round_effect E s z"
  by (simp add: round_effect.simps quiet_simps)

lemma commandStep_effect:
  assumes "commandStep E s = Some z"
  shows "round_effect E s z"
proof -
  have self: "quiet [] s s" by (simp add: quiet_def)
  show ?thesis
  proof (cases "instanceDisabled E (controller s) \<or> get16 (wire E) (received s) = None")
    case True
    then show ?thesis
      using assms self by (auto simp: commandStep_def intro: round_effect.leaves split: if_splits)
  next
    case False
    then obtain command r where r: "get16 (wire E) (received s) = Some (command, r)" "\<not> instanceDisabled E (controller s)"
      by auto
    have "round_effect E (s\<lparr>received := r\<rparr>) z"
      using assms r dispatch_effect protocolVersion_effect by (auto simp: commandStep_def Let_def split: if_splits)
    then show ?thesis by (simp add: round_effect_received)
  qed
qed

section \<open>No command before the authentication\<close>

definition accepted :: "'k commandenv \<Rightarrow> cmdevent \<Rightarrow> bool" where
  "accepted E e = (\<forall>cred. e = Authenticated cred \<longrightarrow> (\<exists>k. fst (authorize E cred k)))"

definition lawful :: "'k commandenv \<Rightarrow> 'k daemon \<Rightarrow> 'k daemon \<Rightarrow> bool" where
  "lawful E s t \<longleftrightarrow> (\<exists>es. cmdlog t = cmdlog s @ es \<and> permitted (authenticated s) es \<and>
     auth_after (authenticated s) es = authenticated t \<and> list_all (accepted E) es)"

lemma lawful_refl: "lawful E s s"
  by (auto simp: lawful_def)

lemma lawful_trans:
  assumes "lawful E s t" and "lawful E t u"
  shows "lawful E s u"
proof -
  obtain es fs where "cmdlog t = cmdlog s @ es" "cmdlog u = cmdlog t @ fs" "permitted (authenticated s) es"
    "permitted (authenticated t) fs" "auth_after (authenticated s) es = authenticated t"
    "auth_after (authenticated t) fs = authenticated u" "list_all (accepted E) es" "list_all (accepted E) fs"
    using assms unfolding lawful_def by blast
  then show ?thesis unfolding lawful_def by (intro exI [of _ "es @ fs"]) simp
qed

lemma lawful_event:
  assumes "quiet es s t" and "permitted (authenticated s) es" and "auth_after (authenticated s) es = authenticated s"
    and "list_all (accepted E) es"
  shows "lawful E s t"
  using assms unfolding lawful_def quiet_def by auto

lemma lawful_quiet: "quiet [] s t \<Longrightarrow> lawful E s t"
  by (rule lawful_event) auto

lemma lawful_same:
  assumes "cmdlog t = cmdlog s" and "authenticated t = authenticated s"
  shows "lawful E s t"
  using assms by (simp add: lawful_def)


lemma round_lawful:
  assumes "round_effect E s z"
  shows "case z of Inl t \<Rightarrow> lawful E s t | Inr (status, ends, t) \<Rightarrow> lawful E s t"
  using assms
proof cases
  case (begins t cred k)
  then have "lawful E s t"
    unfolding lawful_def by (intro exI [of _ "[Authenticated cred, Session_Begun]"]) (auto simp: accepted_def)
  then show ?thesis using begins by simp
next
  case (suspends t)
  then have "lawful E s t" unfolding lawful_def by (intro exI [of _ "[Session_Suspended]"]) (auto simp: accepted_def)
  then show ?thesis using suspends by simp
qed (auto intro!: lawful_event simp: accepted_def)

lemma loop_lawful:
  assumes "iterate (commandStep E) s = Some (status, ends, t)"
  shows "lawful E s t"
proof -
  have "case z of (status, ends, t) \<Rightarrow> lawful E s t" if "iterate (commandStep E) s = Some z" for z
    using that lawful_refl
  proof (rule iterate_leaves [where I = "lawful E s"])
    show "lawful E s t" if "lawful E s u" "commandStep E u = Some (Inl t)" for u t
      using round_lawful [OF commandStep_effect [OF that(2)]] that(1) lawful_trans by fastforce
    show "case z of (status, ends, t) \<Rightarrow> lawful E s t" if "lawful E s u" "commandStep E u = Some (Inr z)" for u z
      using round_lawful [OF commandStep_effect [OF that(2)]] that(1) lawful_trans by fastforce
  qed
  then show ?thesis using assms by fastforce
qed

lemma end_lawful: "lawful E s (endClientSession E s)"
  unfolding lawful_def endClientSession_def by (intro exI [of _ "[Session_Ended]"]) (simp add: accepted_def)

lemma clientSession_lawful:
  assumes "clientSession E s = Some (status, t)"
  shows "lawful E (s\<lparr>authenticated := authenticated s \<and> resumedsession s\<rparr>) t"
proof -
  define s1 where "s1 = s\<lparr>authenticated := authenticated s \<and> resumedsession s\<rparr>"
  have s1: "(if resumedsession s then s else s\<lparr>authenticated := False\<rparr>) = s1" by (simp add: s1_def)
  note run = assms [unfolded clientSession_def s1 Let_def]
  show ?thesis
  proof (cases "secures E (controller s1)")
    case False
    have "lawful E s1 (noteCmd [Security_Refused] s1)"
      by (rule lawful_event [of "[Security_Refused]"]) (auto simp: quiet_def accepted_def)
    then show ?thesis using run False s1_def by simp
  next
    case True
    then obtain ends u where u: "iterate (commandStep E) s1 = Some (status, ends, u)"
      and t: "t = (if ends then endClientSession E (u\<lparr>received := []\<rparr>) else u\<lparr>received := []\<rparr>)"
      using run by auto
    have "lawful E s1 u" by (rule loop_lawful [OF u])
    moreover have "lawful E u (u\<lparr>received := []\<rparr>)" by (rule lawful_same) simp_all
    ultimately have "lawful E s1 t" using t end_lawful lawful_trans by metis
    then show ?thesis by (simp add: s1_def)
  qed
qed

text \<open>What a client leaves in the log starts from what it counts as when it connects.\<close>

lemma serveClient_lawful:
  assumes "serveClient E input s = Some (status, t)"
    and "suspendedsession s \<longrightarrow> (authenticated s \<longleftrightarrow> auth_after False (cmdlog s))"
    and "permitted False (cmdlog s)" and "list_all (accepted E) (cmdlog s)"
  shows "(authenticated t \<longleftrightarrow> auth_after False (cmdlog t)) \<and> permitted False (cmdlog t) \<and> list_all (accepted E) (cmdlog t)"
proof -
  obtain es where "cmdlog t = cmdlog s @ Client_Connected (suspendedsession s) # es"
    "permitted (authenticated s \<and> suspendedsession s) es"
    "auth_after (authenticated s \<and> suspendedsession s) es = authenticated t" "list_all (accepted E) es"
    using clientSession_lawful [OF assms(1) [unfolded serveClient_def]] by (auto simp: lawful_def)
  moreover have "(authenticated s \<and> suspendedsession s) = auth_after False (cmdlog s @ [Client_Connected (suspendedsession s)])"
    using assms(2) by auto
  ultimately show ?thesis using assms(3,4) by (auto simp: accepted_def)
qed

lemma daemon_run_lawful:
  assumes "daemon_run E s0 s" and "cmdlog s0 = []" and "\<not> suspendedsession s0"
  shows "(suspendedsession s \<longrightarrow> (authenticated s \<longleftrightarrow> auth_after False (cmdlog s))) \<and>
    permitted False (cmdlog s) \<and> list_all (accepted E) (cmdlog s)"
  using assms
proof (induction rule: daemon_run.induct)
  case (new_client s input status s')
  then show ?case
    using serveClient_lawful [OF new_client.hyps(3)] by (auto simp: initSession_def)
next
  case (resumed s input status s')
  then show ?case using serveClient_lawful [OF resumed.hyps(3)] by auto
next
  case (expired s)
  then show ?case by (auto simp: expireSession_def accepted_def)
qed simp

section \<open>Sessions are ended\<close>

text \<open>
  Whether a session is open after a trace; whether a client that does not resume a session finds one
  open; and whether an open session is given up without being ended: by a refused security context,
  version or authentication, or because nobody resumes it.
\<close>

fun open_after :: "bool \<Rightarrow> cmdevent list \<Rightarrow> bool" where
  "open_after b [] = b"
| "open_after b (Session_Begun # es) = open_after True es"
| "open_after b (Session_Ended # es) = open_after False es"
| "open_after b (e # es) = open_after b es"

fun inherits :: "bool \<Rightarrow> cmdevent list \<Rightarrow> bool" where
  "inherits b [] = False"
| "inherits b (e # es) = (e = Client_Connected False \<and> b \<or> inherits (open_after b [e]) es)"

fun abandons :: "bool \<Rightarrow> cmdevent list \<Rightarrow> bool" where
  "abandons b [] = False"
| "abandons b (e # es) =
     (e \<in> {Security_Refused, Version_Refused, Auth_Refused, Session_Expired} \<and> b \<or> abandons (open_after b [e]) es)"

lemma open_after_append [simp]: "open_after b (xs @ ys) = open_after (open_after b xs) ys"
proof (induction xs arbitrary: b)
  case (Cons e xs)
  then show ?case by (cases e) auto
qed simp

lemma inherits_append [simp]: "inherits b (xs @ ys) \<longleftrightarrow> inherits b xs \<or> inherits (open_after b xs) ys"
proof (induction xs arbitrary: b)
  case (Cons e xs)
  then show ?case by (cases e) auto
qed simp

lemma abandons_append [simp]: "abandons b (xs @ ys) \<longleftrightarrow> abandons b xs \<or> abandons (open_after b xs) ys"
proof (induction xs arbitrary: b)
  case (Cons e xs)
  then show ?case by (cases e) auto
qed simp

text \<open>
  As long as no session has been given up: an open session is that of an authenticated client, and no
  client has found one open.
\<close>

definition orderly :: "'k daemon \<Rightarrow> bool" where
  "orderly s \<longleftrightarrow> abandons False (cmdlog s) \<or>
     (open_after False (cmdlog s) \<longrightarrow> authenticated s) \<and> \<not> inherits False (cmdlog s)"

definition left :: "'k daemon \<Rightarrow> bool" where
  "left s \<longleftrightarrow> orderly s \<and> (abandons False (cmdlog s) \<or> (open_after False (cmdlog s) \<longrightarrow> suspendedsession s))"

lemma orderly_quiet: "quiet [] s t \<Longrightarrow> orderly s \<Longrightarrow> orderly t"
  by (simp add: orderly_def quiet_def)

lemma endClientSession_left: "orderly s \<Longrightarrow> left (endClientSession E s)"
  by (auto simp: left_def orderly_def endClientSession_def)

lemma round_orderly:
  assumes "round_effect E s z" and "orderly s"
  shows "case z of Inl t \<Rightarrow> orderly t
    | Inr (status, ends, t) \<Rightarrow> orderly t \<and> (\<not> ends \<longrightarrow> left t)"
  using assms
proof cases
  case (refused e t)
  then show ?thesis using assms(2) by (auto simp: quiet_def orderly_def left_def)
next
  case (unknown t)
  then show ?thesis using assms(2) by (auto simp: quiet_def orderly_def left_def)
qed (use assms(2) in \<open>auto simp: quiet_def orderly_def left_def\<close>)

lemma loop_orderly:
  assumes "iterate (commandStep E) s = Some (status, ends, t)" and "orderly s"
  shows "orderly t \<and> (\<not> ends \<longrightarrow> left t)"
proof -
  have "case z of (status, ends, t) \<Rightarrow> orderly t \<and> (\<not> ends \<longrightarrow> left t)"
    if "iterate (commandStep E) s = Some z" for z
    using that assms(2)
  proof (rule iterate_leaves [where I = orderly])
    show "orderly t" if "orderly u" "commandStep E u = Some (Inl t)" for u t
      using round_orderly [OF commandStep_effect [OF that(2)] that(1)] by simp
    show "case z of (status, ends, t) \<Rightarrow> orderly t \<and> (\<not> ends \<longrightarrow> left t)"
      if "orderly u" "commandStep E u = Some (Inr z)" for u z
      using round_orderly [OF commandStep_effect [OF that(2)] that(1)] by simp
  qed
  then show ?thesis using assms(1) by fastforce
qed

lemma clientSession_left:
  assumes "clientSession E s = Some (status, t)"
    and "orderly (s\<lparr>authenticated := authenticated s \<and> resumedsession s\<rparr>)"
  shows "left t"
proof -
  define s1 where "s1 = s\<lparr>authenticated := authenticated s \<and> resumedsession s\<rparr>"
  have s1: "(if resumedsession s then s else s\<lparr>authenticated := False\<rparr>) = s1" by (simp add: s1_def)
  note run = assms(1) [unfolded clientSession_def s1 Let_def]
  show ?thesis
  proof (cases "secures E (controller s1)")
    case False
    then show ?thesis using run assms(2) by (auto simp: s1_def [symmetric] left_def orderly_def)
  next
    case True
    then obtain ends u where u: "iterate (commandStep E) s1 = Some (status, ends, u)"
      and t: "t = (if ends then endClientSession E (u\<lparr>received := []\<rparr>) else u\<lparr>received := []\<rparr>)"
      using run by auto
    have "orderly u \<and> (\<not> ends \<longrightarrow> left u)" by (rule loop_orderly [OF u]) (use assms(2) s1_def in simp)
    then have "orderly (u\<lparr>received := []\<rparr>) \<and> (\<not> ends \<longrightarrow> left (u\<lparr>received := []\<rparr>))"
      by (simp add: orderly_def left_def)
    then show ?thesis using t endClientSession_left by auto
  qed
qed

lemma serveClient_left:
  assumes "serveClient E input s = Some (status, t)" and "left s"
  shows "left t"
  by (rule clientSession_left [OF assms(1) [unfolded serveClient_def]])
    (use assms(2) in \<open>auto simp: left_def orderly_def\<close>)

lemma daemon_run_left:
  assumes "daemon_run E s0 s" and "cmdlog s0 = []"
  shows "left s"
  using assms
proof (induction rule: daemon_run.induct)
  case (new_client s input status s')
  then have "left (initSession E s)" by (auto simp: initSession_def left_def orderly_def)
  then show ?case by (rule serveClient_left [OF new_client.hyps(3)])
next
  case (resumed s input status s')
  then show ?case using serveClient_left by blast
next
  case (expired s)
  then show ?case by (auto simp: expireSession_def left_def orderly_def)
qed (simp add: left_def orderly_def)

section \<open>Properties\<close>

text \<open>
  C2: whatever clients come and send, none of their commands, the health checks apart, runs before
  the client has authenticated, and it authenticates with credentials that were accepted. A client
  that resumes a suspended session is taken for the one that suspended it.
\<close>

theorem commands_need_authentication:
  assumes "daemon_run E s0 s" and "cmdlog s0 = []" and "\<not> suspendedsession s0"
  shows "permitted False (cmdlog s) \<and> list_all (accepted E) (cmdlog s)"
  using daemon_run_lawful [OF assms] by simp

text \<open>
  C13: as long as no session has been given up, no client finds the session of another one open:
  before a new client is served, every session that was begun has been ended.
\<close>

theorem sessions_are_ended:
  assumes "daemon_run E s0 s" and "cmdlog s0 = []" and "\<not> abandons False (cmdlog s)"
  shows "\<not> inherits False (cmdlog s)"
  using daemon_run_left [OF assms(1,2)] assms(3) by (auto simp: left_def orderly_def)

end
