(* ===== verification/Command_Ends.thy ===== *)
theory Command_Ends
  imports Command_Rules
begin

text \<open>
  The command loop on what clients send: it ends as long as the handlers read no more than there is, and
  runs of it with a concrete controller.
\<close>

section \<open>The loop ends\<close>

text \<open>Every round reads a command; the handlers do not put anything back.\<close>

definition reads :: "'k commandenv \<Rightarrow> bool" where
  "reads E \<longleftrightarrow> (\<forall>s x r. get16 (wire E) s = Some (x, r) \<longrightarrow> length r < length s) \<and>
     (\<forall>s x r. get32 (wire E) s = Some (x, r) \<longrightarrow> length r \<le> length s) \<and>
     (\<forall>c v s k. length (fst (snd (connectionCommand E c v s k))) \<le> length s) \<and>
     (\<forall>c v i s k. length (fst (snd (snd (cursorCommand E c v i s k)))) \<le> length s) \<and>
     (\<forall>n s. length (absorbed E n s) \<le> length s)"

lemma readsD:
  assumes "reads E"
  shows "get16 (wire E) s = Some (x, r) \<Longrightarrow> length r < length s"
    and "get32 (wire E) s = Some (y, r) \<Longrightarrow> length r \<le> length s"
    and "connectionCommand E c v s k = (out, r, k') \<Longrightarrow> length r \<le> length s"
    and "cursorCommand E c v i s k = (loop, out, r, k') \<Longrightarrow> length r \<le> length s"
    and "length (absorbed E n s) \<le> length s"
  using assms unfolding reads_def by (metis fst_conv snd_conv)+

lemma getBytes_shorter: "getBytes n s = Some (bs, r) \<Longrightarrow> length r \<le> length s"
  by (auto simp: getBytes_def split: if_splits)

lemma sized_shorter:
  assumes "reads E"
    and "(case get32 (wire E) s of None \<Rightarrow> None | Some (n, s) \<Rightarrow> if USERSIZE \<le> n then None else getBytes n s) = Some (bs, r)"
  shows "length r \<le> length s"
proof -
  obtain n r1 where "get32 (wire E) s = Some (n, r1)" "getBytes n r1 = Some (bs, r)"
    using assms(2) by (auto split: option.splits if_splits prod.splits)
  then show ?thesis using readsD(2) [OF assms(1)] getBytes_shorter le_trans by blast
qed

lemma authCommand_shorter:
  assumes "reads E" and "authCommand E s = (True, t)"
  shows "length (received t) \<le> length (received s)"
proof -
  obtain user r password q where u: "getUserFromClient (wire E) (received s) = Some (user, r)"
    "getPasswordFromClient (wire E) r = Some (password, q)"
    using assms(2) by (auto simp: authCommand_def split: option.splits prod.splits)
  then have "received t = q" using assms(2) by (auto simp: authCommand_def Let_def split: prod.splits bool.splits)
  then show ?thesis
    using sized_shorter [OF assms(1) u(1) [unfolded getUserFromClient_def]]
      sized_shorter [OF assms(1) u(2) [unfolded getPasswordFromClient_def]] by simp
qed

lemma getCursor_shorter:
  assumes "reads E" and "getCursor E command s = (c, t)"
  shows "length (received t) \<le> length (received s)"
proof (cases "if command \<in> set newCursorCommands then get16 (wire E) (received s)
            else Some (DONT_NEED_NEW_CURSOR, received s)")
  case None
  then show ?thesis using assms(2) by (simp add: getCursor_def)
next
  case (Some p)
  obtain n r where p: "p = (n, r)" by fastforce
  have r: "length r \<le> length (received s)"
    using Some p readsD(1) [OF assms(1)] by (fastforce split: if_splits)
  have "length (received t) \<le> length r"
    using assms(2) Some p readsD(1) [OF assms(1)]
    by (auto simp: getCursor_def Let_def less_imp_le split: option.splits prod.splits if_splits)
  then show ?thesis using r by simp
qed

lemma connection_shorter: "reads E \<Longrightarrow> length (received (runConnectionCommand E c s)) \<le> length (received s)"
  using readsD(3) by (auto simp: runConnectionCommand_def split: prod.splits)

lemma cursor_shorter:
  assumes "reads E" and "runCursorCommand E command c s = (loop, t)"
  shows "length (received t) \<le> length (received s)"
  using assms(2) readsD(4) [OF assms(1)] by (auto simp: runCursorCommand_def split: prod.splits if_splits)

lemma dispatch_shorter:
  assumes "reads E" and "dispatch E command s = Inl t"
  shows "length (received t) \<le> length (received s)"
proof -
  consider (auth) u where "authCommand E s = (True, u)" "received t = received u"
    | (conn) "t = runConnectionCommand E command s"
    | (none) u where "getCursor E command s = (None, u)" "t = u \<or> t = noAvailableCursors E u"
    | (some) c u where "getCursor E command s = (Some c, u)" "runCursorCommand E command c u = (True, t)"
    using assms(2) by (auto simp: dispatch_def split: if_splits prod.splits bool.splits option.splits)
  then show ?thesis
  proof cases
    case (none u)
    then show ?thesis
      using getCursor_shorter [OF assms(1) none(1)] le_trans [OF readsD(5) [OF assms(1)]]
      by (auto simp: noAvailableCursors_def)
  next
    case (some c u)
    then show ?thesis using getCursor_shorter [OF assms(1) some(1)] cursor_shorter [OF assms(1) some(2)] by simp
  qed (use authCommand_shorter [OF assms(1)] connection_shorter [OF assms(1)] in auto)
qed

lemma commandStep_shorter:
  assumes "reads E" and "commandStep E s = Some (Inl t)"
  shows "length (received t) < length (received s)"
proof -
  obtain command r where r: "get16 (wire E) (received s) = Some (command, r)" "\<not> instanceDisabled E (controller s)"
    using assms(2) by (auto simp: commandStep_def split: if_splits option.splits)
  have "length (received t) \<le> length r"
  proof (cases "command = SQLRCLIENT_PROTOCOL_VERSION")
    case True
    then obtain v q where "get16 (wire E) r = Some (v, q)" "received t = q"
      using assms(2) r by (auto simp: commandStep_def protocolVersionCommand_def Let_def split: if_splits option.splits)
    then show ?thesis using readsD(1) [OF assms(1)] by (simp add: less_imp_le)
  next
    case False
    then have "dispatch E command (s\<lparr>received := r\<rparr>) = Inl t" using assms(2) r by (simp add: commandStep_def)
    then show ?thesis using dispatch_shorter [OF assms(1)] by fastforce
  qed
  then show ?thesis using readsD(1) [OF assms(1) r(1)] by simp
qed

lemma loop_returns:
  assumes "reads E"
  shows "\<exists>z. iterate (commandStep E) s = Some z"
proof (induction "length (received s)" arbitrary: s rule: less_induct)
  case less
  obtain z where z: "commandStep E s = Some z" by (auto simp: commandStep_def)
  show ?case
  proof (cases z)
    case (Inl t)
    then show ?thesis using less commandStep_shorter [OF assms] z by (simp add: iterate_Inl)
  next
    case (Inr y)
    then show ?thesis using z by (cases y) (simp add: iterate_Inr)
  qed
qed


section \<open>Sessions left open\<close>

text \<open>The request to authenticate with a user and a password.\<close>

definition auth_request :: "sockcodec \<Rightarrow> bytes \<Rightarrow> bytes \<Rightarrow> bytes" where
  "auth_request C user password =
     put16 C AUTH @ put32 C (of_nat (length user)) @ user @ put32 C (of_nat (length password)) @ password"

definition nameable :: "bytes \<Rightarrow> bool" where
  "nameable bs \<longleftrightarrow> length bs < 128 \<and> 0 \<notin> set bs"

lemma nameable_word: "nameable bs \<Longrightarrow> \<not> USERSIZE \<le> of_nat (length bs)"
  by (simp add: nameable_def word_le_nat_alt unat_of_nat)

lemma cstring_nameable: "nameable bs \<Longrightarrow> cstring bs = bs"
  by (auto simp: nameable_def cstring_def takeWhile_eq_all_conv)

lemma getUser_sent:
  assumes "sock_ok C" and "nameable user"
  shows "getUserFromClient C (put32 C (of_nat (length user)) @ user @ r) = Some (user, r)"
    and "getPasswordFromClient C (put32 C (of_nat (length user)) @ user @ r) = Some (user, r)"
  using nameable_word [OF assms(2)] assms(2)
  by (simp_all add: getUserFromClient_def getPasswordFromClient_def sock_okD [OF assms(1)] nameable_def)

lemma auth_sent:
  assumes "sock_ok (wire E)" and "nameable user" and "nameable password" and "\<not> usesKrb E"
    and "usesTls E \<longrightarrow> user \<noteq> []" and "received s = put32 (wire E) (of_nat (length user)) @ user @
      put32 (wire E) (of_nat (length password)) @ password @ r"
  shows "authCommand E s =
    (let cred = Some (User_Password user password);
         u = s\<lparr>userbuffer := user, passwordbuffer := password, received := r, controller := snd (authorize E cred (controller s))\<rparr>
     in if fst (authorize E cred (controller s)) then (True, noteCmd [Authenticated cred] u)
        else (False, noteCmd [Auth_Refused]
                (reply (sendError (wire E) ERROR_OCCURRED_DISCONNECT 900012 ''Authentication Error.'' @
                        sendSqlState (wire E) (clientversion s) []) u)))"
proof -
  have "buildCredentials E user password = Some (User_Password user password)"
    using assms(4,5) by (simp add: buildCredentials_def cstring_nameable assms(2,3))
  then show ?thesis
    by (simp add: authCommand_def assms(6) getUser_sent [OF assms(1,2)] getUser_sent [OF assms(1,3)] Let_def
        split: prod.splits bool.splits)
qed

text \<open>One round for each of the requests.\<close>

lemma version_round:
  assumes "sock_ok (wire E)" and "\<not> instanceDisabled E (controller s)" and "1 \<le> v" and "v \<le> 3"
    and "received s = put16 (wire E) SQLRCLIENT_PROTOCOL_VERSION @ put16 (wire E) v @ r"
  shows "commandStep E s = Some (Inl (s\<lparr>received := r, clientversion := v\<rparr>))"
proof -
  have "\<not> (v < 1 \<or> 3 < v)" using assms(3,4) by auto
  then show ?thesis
    by (simp add: commandStep_def protocolVersionCommand_def assms(2,5) sock_okD [OF assms(1)] Let_def)
qed

lemma auth_round_sent:
  assumes "sock_ok (wire E)" and "nameable user" and "nameable password" and "\<not> usesKrb E" and "\<not> usesTls E"
    and "\<not> instanceDisabled E (controller s)" and "1 \<le> clientversion s"
    and "received s = auth_request (wire E) user password @ r"
  shows "commandStep E s =
    (let cred = Some (User_Password user password);
         u = s\<lparr>userbuffer := user, passwordbuffer := password, received := r, controller := snd (authorize E cred (controller s))\<rparr>
     in if fst (authorize E cred (controller s)) then
          Some (Inl (noteCmd [Authenticated cred, Session_Begun]
                       (u\<lparr>authenticated := True, controller := startSession E (controller u)\<rparr>)))
        else Some (Inr (Exit_Error, False, noteCmd [Auth_Refused]
                (reply (sendError (wire E) ERROR_OCCURRED_DISCONNECT 900012 ''Authentication Error.'' @
                        sendSqlState (wire E) (clientversion s) []) u))))"
proof -
  have v: "clientversion s \<noteq> 0" using assms(7) by auto
  have "authCommand E (s\<lparr>received := put32 (wire E) (of_nat (length user)) @ user @
      put32 (wire E) (of_nat (length password)) @ password @ r\<rparr>) =
    (let cred = Some (User_Password user password);
         u = s\<lparr>userbuffer := user, passwordbuffer := password, received := r, controller := snd (authorize E cred (controller s))\<rparr>
     in if fst (authorize E cred (controller s)) then (True, noteCmd [Authenticated cred] u)
        else (False, noteCmd [Auth_Refused]
                (reply (sendError (wire E) ERROR_OCCURRED_DISCONNECT 900012 ''Authentication Error.'' @
                        sendSqlState (wire E) (clientversion s) []) u)))"
    by (rule trans [OF auth_sent [OF assms(1-4), where r = r]]) (use assms(5) in \<open>simp_all add: Let_def\<close>)
  then show ?thesis
    using v assms(6,8)
    by (simp add: commandStep_def dispatch_def auth_request_def sock_okD [OF assms(1)] Let_def noteCmd_def)
qed

text \<open>
  C40: a client that authenticates a second time and is refused leaves its session open: the session
  is not ended, and whatever it has left behind is there for the next client.
\<close>

theorem second_authentication_leaves_session:
  assumes "sock_ok (wire E)" and "nameable user" and "nameable password" and "nameable user'" and "nameable password'"
    and "\<not> usesKrb E" and "\<not> usesTls E" and "\<And>k. \<not> instanceDisabled E k" and "\<And>k. secures E k"
    and "1 \<le> v" and "v \<le> 3"
    and "authorize E (Some (User_Password user password)) (releaseCursors E (controller s)) = (True, k)"
    and "authorize E (Some (User_Password user' password')) (startSession E k) = (False, k')"
  shows "\<exists>t. serveClient E (put16 (wire E) SQLRCLIENT_PROTOCOL_VERSION @ put16 (wire E) v @
          auth_request (wire E) user password @ auth_request (wire E) user' password') (initSession E s) =
        Some (Exit_Error, t) \<and> controller t = k' \<and> \<not> suspendedsession t \<and> open_after b (cmdlog t)"
proof -
  define input where "input = put16 (wire E) SQLRCLIENT_PROTOCOL_VERSION @ put16 (wire E) v @
    auth_request (wire E) user password @ auth_request (wire E) user' password'"
  define s1 where "s1 = (noteCmd [Client_Connected False] ((initSession E s)\<lparr>resumedsession := False, suspendedsession := False, received := input, sent := []\<rparr>))
    \<lparr>authenticated := False\<rparr>"
  have k: "controller s1 = releaseCursors E (controller s)" by (simp add: s1_def initSession_def)
  have 1: "commandStep E s1 = Some (Inl (s1\<lparr>received := auth_request (wire E) user password @
      auth_request (wire E) user' password', clientversion := v\<rparr>))"
    by (rule version_round [OF assms(1,8,10,11)]) (simp add: s1_def input_def)
  define s2 where "s2 = s1\<lparr>received := auth_request (wire E) user password @
      auth_request (wire E) user' password', clientversion := v\<rparr>"
  define s3 where "s3 = noteCmd [Authenticated (Some (User_Password user password)), Session_Begun]
    (s2\<lparr>userbuffer := user, passwordbuffer := password, received := auth_request (wire E) user' password',
       authenticated := True, controller := startSession E k\<rparr>)"
  have 2: "commandStep E s2 = Some (Inl s3)"
    by (subst auth_round_sent [OF assms(1-3,6-8), where r = "auth_request (wire E) user' password'"])
      (use k assms(10,12) in \<open>simp_all add: s2_def s3_def Let_def noteCmd_def\<close>)
  have 3: "\<exists>t. commandStep E s3 = Some (Inr (Exit_Error, False, t)) \<and> controller t = k' \<and>
      cmdlog t = cmdlog s3 @ [Auth_Refused] \<and> suspendedsession t = suspendedsession s3"
    by (subst auth_round_sent [OF assms(1,4,5,6-8), where r = "[]"])
      (use assms(10,13) in \<open>simp_all add: s3_def s2_def Let_def\<close>)
  then obtain t where t: "commandStep E s3 = Some (Inr (Exit_Error, False, t))" "controller t = k'"
    "cmdlog t = cmdlog s3 @ [Auth_Refused]" "suspendedsession t = suspendedsession s3" by blast
  have "iterate (commandStep E) s1 = Some (Exit_Error, False, t)"
    using 1 2 t(1) unfolding s2_def [symmetric] by (simp add: iterate_Inl iterate_Inr)
  then have "serveClient E input (initSession E s) = Some (Exit_Error, t\<lparr>received := []\<rparr>)"
    using assms(9) by (simp add: serveClient_def clientSession_def initSession_def s1_def noteCmd_def Let_def)
  then show ?thesis
    unfolding input_def using t by (simp add: s3_def s2_def s1_def initSession_def)
qed

section \<open>A controller\<close>

text \<open>A controller that keeps a list of what it did, and knows one password.\<close>

definition demo_commands :: "string list commandenv" where
  "demo_commands =
     \<lparr>wire = be_sock, maxima = (1024, 65536, 256, 64), usesKrb = False, usesTls = False, gssInitiator = None,
      tlsPeer = None, secures = (\<lambda>k. True), instanceDisabled = (\<lambda>k. False),
      authorize = (\<lambda>cred k. (cred = Some (User_Password [1] [2]), k @ [''auth''])),
      startSession = (\<lambda>k. k @ [''begin'']), endsSession = (\<lambda>k. k @ [''end'']),
      suspendsSession = (\<lambda>k. ([], 0, k)),
      connectionCommand = (\<lambda>c v s k. (put16 be_sock NO_ERROR_OCCURRED, s, k @ [''command''])),
      cursorCommand = (\<lambda>c v i s k. (True, [], s, k @ [''query''])), cursorById = (\<lambda>i k. (Some i, k)),
      newCursorFor = (\<lambda>k. (Some 0, k)), absorbed = (\<lambda>n s. drop (unat n) s), releaseCursors = (\<lambda>k. k),
      rollsBack = (\<lambda>k. k @ [''rollback''])\<rparr>"

definition demo_daemon :: "string list daemon" where
  "demo_daemon =
     \<lparr>clientversion = 0, authenticated = False, userbuffer = [], passwordbuffer = [], suspendedsession = False,
      resumedsession = False, received = [], sent = [], controller = [], cmdlog = []\<rparr>"

lemma be_get_shorter: "be_get n s = Some (x, r) \<Longrightarrow> 0 < n \<Longrightarrow> length r < length s"
  by (auto simp: be_get_def split: if_splits)

lemma demo_reads: "reads demo_commands"
  by (auto simp: reads_def demo_commands_def be_sock_def dest: be_get_shorter)


text \<open>A client that authenticates, commits, and ends its session.\<close>

definition demo_request :: bytes where
  "demo_request = put16 be_sock SQLRCLIENT_PROTOCOL_VERSION @ put16 be_sock 3 @ auth_request be_sock [1] [2] @
     put16 be_sock 9 @ put16 be_sock END_SESSION"

abbreviation "demo_log \<equiv>
  [Client_Connected False, Authenticated (Some (User_Password [1] [2])), Session_Begun, Connection_Command 9, Session_Ended]"

lemma demo_served:
  "\<exists>t. serveClient demo_commands demo_request (initSession demo_commands demo_daemon) = Some (Exit_Ended, t) \<and>
     cmdlog t = demo_log"
proof -
  let ?E = demo_commands
  define s1 where "s1 = (noteCmd [Client_Connected False] ((initSession ?E demo_daemon)
    \<lparr>resumedsession := False, suspendedsession := False, received := demo_request, sent := []\<rparr>))\<lparr>authenticated := False\<rparr>"
  define rest where "rest = put16 be_sock 9 @ put16 be_sock END_SESSION"
  have e: "sock_ok (wire ?E)" "nameable [1]" "nameable [2]" "\<not> usesKrb ?E" "\<not> usesTls ?E" "\<And>k. \<not> instanceDisabled ?E k"
    by (simp_all add: demo_commands_def be_sock_ok nameable_def)
  define s2 where "s2 = s1\<lparr>received := auth_request be_sock [1] [2] @ rest, clientversion := 3\<rparr>"
  have 1: "commandStep ?E s1 = Some (Inl s2)"
    unfolding s2_def by (rule version_round [OF e(1,6)]) (simp_all add: s1_def demo_request_def rest_def demo_commands_def)
  have 2: "\<exists>s3. commandStep ?E s2 = Some (Inl s3) \<and> authenticated s3 \<and> received s3 = rest \<and>
      cmdlog s3 = [Client_Connected False, Authenticated (Some (User_Password [1] [2])), Session_Begun]"
    by (subst auth_round_sent [OF e(1,2,3,4,5,6), where r = rest])
      (simp_all add: s2_def s1_def demo_commands_def initSession_def demo_daemon_def Let_def)
  then obtain s3 where s3: "commandStep ?E s2 = Some (Inl s3)" "authenticated s3" "received s3 = rest"
    "cmdlog s3 = [Client_Connected False, Authenticated (Some (User_Password [1] [2])), Session_Begun]" by blast
  define s4 where "s4 = runConnectionCommand ?E 9 (s3\<lparr>received := put16 be_sock END_SESSION\<rparr>)"
  have 3: "commandStep ?E s3 = Some (Inl s4)" "received s4 = put16 be_sock END_SESSION" "authenticated s4"
    "cmdlog s4 = cmdlog s3 @ [Connection_Command 9]"
    using s3 by (simp_all add: commandStep_def dispatch_def rest_def sock_okD [OF be_sock_ok] s4_def
        runConnectionCommand_def connectionCommands_def demo_commands_def)
  have 4: "commandStep ?E s4 = Some (Inr (Exit_Ended, True, s4\<lparr>received := []\<rparr>))"
    using 3 sock_okD(1) [OF be_sock_ok, of END_SESSION "[]"] by (simp add: commandStep_def dispatch_def demo_commands_def)
  have "iterate (commandStep ?E) s1 = Some (Exit_Ended, True, s4\<lparr>received := []\<rparr>)"
    using 1 s3(1) 3(1) 4 by (simp add: iterate_Inl iterate_Inr)
  then have "serveClient ?E demo_request (initSession ?E demo_daemon) =
      Some (Exit_Ended, endClientSession ?E (s4\<lparr>received := []\<rparr>))"
    by (simp add: serveClient_def clientSession_def initSession_def s1_def noteCmd_def Let_def demo_commands_def)
  then show ?thesis using 3(4) s3(4) by (simp add: endClientSession_def)
qed

lemma demo_daemon_run: "\<exists>t. daemon_run demo_commands demo_daemon t \<and> cmdlog t = demo_log"
  using demo_served daemon_run.new_client [OF daemon_run.start [of demo_commands demo_daemon]]
  by (metis (no_types, lifting) daemon.select_convs(5) demo_daemon_def)

theorem commands_need_authentication_witness:
  "permitted False demo_log \<and> list_all (accepted demo_commands) demo_log"
proof -
  obtain t where t: "daemon_run demo_commands demo_daemon t" "cmdlog t = demo_log" using demo_daemon_run by blast
  have "permitted False (cmdlog t) \<and> list_all (accepted demo_commands) (cmdlog t)"
    by (rule commands_need_authentication [OF t(1)]) (simp_all add: demo_daemon_def)
  then show ?thesis using t(2) by simp
qed

theorem sessions_are_ended_witness: "\<not> inherits False demo_log"
proof -
  obtain t where t: "daemon_run demo_commands demo_daemon t" "cmdlog t = demo_log" using demo_daemon_run by blast
  have "\<not> inherits False (cmdlog t)"
    by (rule sessions_are_ended [OF t(1)]) (simp_all add: demo_daemon_def t(2))
  then show ?thesis using t(2) by simp
qed

theorem second_authentication_leaves_session_witness:
  "\<exists>t. serveClient demo_commands (put16 be_sock SQLRCLIENT_PROTOCOL_VERSION @ put16 be_sock 3 @
          auth_request be_sock [1] [2] @ auth_request be_sock [1] [3]) (initSession demo_commands demo_daemon) =
        Some (Exit_Error, t) \<and> controller t = [''auth'', ''begin'', ''auth''] \<and> \<not> suspendedsession t \<and>
        open_after False (cmdlog t)"
  using second_authentication_leaves_session [of demo_commands "[1]" "[2]" "[1]" "[3]" 3 demo_daemon "[''auth'']"
      "[''auth'', ''begin'', ''auth'']" False]
  by (simp add: demo_commands_def be_sock_ok nameable_def demo_daemon_def)

end
