(* ===== verification/Request_Wire.thy ===== *)
theory Request_Wire
  imports Result_Wire
begin

text \<open>
  What client and server share about bind variables: how they travel, and the numbers of their types.

  Rudiments' socket writes and reads booleans and doubles as \<open>bindcodec\<close> says, a double being a value
  of the parameter \<open>'d\<close>; \<open>copyString\<close> is \<open>charstring::copy\<close> into a buffer of the given size.
\<close>

section \<open>The socket\<close>

record 'd bindcodec =
  sockc :: sockcodec
  putBool :: "bool \<Rightarrow> bytes"
  getBool :: "bytes \<Rightarrow> (bool \<times> bytes) option"
  putDouble :: "'d \<Rightarrow> bytes"
  getDouble :: "bytes \<Rightarrow> ('d \<times> bytes) option"
  copyString :: "nat \<Rightarrow> bytes \<Rightarrow> bytes"

definition bind_sock_ok :: "'d bindcodec \<Rightarrow> bool" where
  "bind_sock_ok B \<longleftrightarrow> sock_ok (sockc B) \<and> (\<forall>x r. getBool B (putBool B x @ r) = Some (x, r)) \<and>
     (\<forall>x r. getDouble B (putDouble B x @ r) = Some (x, r)) \<and> (\<forall>n s. length (copyString B n s) = n)"

section \<open>Types of bind variables\<close>

text \<open>
  The numbers of \<open>sqlrclientbindvartype_t\<close>, which are those of \<open>sqlrserverbindvartype_t\<close>.
\<close>

abbreviation "BIND_NULL \<equiv> 0 :: u16"
abbreviation "BIND_STRING \<equiv> 1 :: u16"
abbreviation "BIND_INTEGER \<equiv> 2 :: u16"
abbreviation "BIND_DOUBLE \<equiv> 3 :: u16"
abbreviation "BIND_BLOB \<equiv> 4 :: u16"
abbreviation "BIND_CLOB \<equiv> 5 :: u16"
abbreviation "BIND_CURSOR \<equiv> 6 :: u16"
abbreviation "BIND_DATE \<equiv> 7 :: u16"
abbreviation "BIND_ARRAY \<equiv> 10 :: u16"
abbreviation "BIND_NULLBLOB \<equiv> 11 :: u16"
abbreviation "BIND_NULLCLOB \<equiv> 12 :: u16"

text \<open>What announces a value that comes back, beside the numbers of \<open>Result_Wire\<close>.\<close>

abbreviation "CURSOR_DATA \<equiv> 4 :: u16"
abbreviation "INTEGER_DATA \<equiv> 5 :: u16"
abbreviation "DOUBLE_DATA \<equiv> 6 :: u16"
abbreviation "DATE_DATA \<equiv> 7 :: u16"
abbreviation "END_BIND_VARS \<equiv> 8 :: u16"

section \<open>Dates\<close>

text \<open>The time zone is a C string, without its terminating zero, or a null pointer.\<close>

record datevalue =
  d_year :: u16
  d_month :: u16
  d_day :: u16
  d_hour :: u16
  d_minute :: u16
  d_second :: u16
  d_microsecond :: u32
  d_tz :: "bytes option"
  d_isnegative :: bool

text \<open>A date before it has a value.\<close>

abbreviation "no_date \<equiv> \<lparr>d_year = 0, d_month = 0, d_day = 0, d_hour = 0, d_minute = 0, d_second = 0, d_microsecond = 0,
  d_tz = None, d_isnegative = False\<rparr>"

end
