(* ===== verification/Request_Client.thy ===== *)
theory Request_Client
  imports Request_Wire
begin

text \<open>
  What a client keeps of the bind variables of a query, and the request that it sends
  (\<open>src/api/c++/sqlrcursor.cpp\<close>): the query, or the number of the cursor whose query is to be run
  again, with the input, output, and input/output bind variables.

  Memory that a value points to is the list of the bytes that may be read there; the name of a variable
  is a C string without its terminating zero. A definition is \<open>None\<close> where the code reads beyond the
  memory, or where a loop does not end. Debug output and the freeing of memory are left out.
\<close>

section \<open>Variables\<close>

text \<open>The type of a variable with the member of the union that goes with it.\<close>

datatype 'd clientvalue =
  C_Null | C_String bytes | C_Integer u64 | C_Double 'd u32 u32 | C_Blob bytes | C_Clob bytes | C_Cursor
| C_Date datevalue | C_Array bytes | C_NullBlob | C_NullClob

record 'd clientvar =
  cv_variable :: bytes
  cv_value :: "'d clientvalue"
  cv_size :: u32
  cv_send :: bool

primrec bindtype :: "'d clientvalue \<Rightarrow> u16" where
  "bindtype C_Null = BIND_NULL"
| "bindtype (C_String s) = BIND_STRING"
| "bindtype (C_Integer n) = BIND_INTEGER"
| "bindtype (C_Double d p s) = BIND_DOUBLE"
| "bindtype (C_Blob s) = BIND_BLOB"
| "bindtype (C_Clob s) = BIND_CLOB"
| "bindtype C_Cursor = BIND_CURSOR"
| "bindtype (C_Date d) = BIND_DATE"
| "bindtype (C_Array s) = BIND_ARRAY"
| "bindtype C_NullBlob = BIND_NULLBLOB"
| "bindtype C_NullClob = BIND_NULLCLOB"

text \<open>
  The index of the loop is 16 bits wide, the number of variables is not: with 65536 variables or more,
  the loop over them ends only where it finds the name.
\<close>

definition findVar :: "bytes \<Rightarrow> 'd clientvar list \<Rightarrow> nat option option" where
  "findVar variable vars =
     (case find (\<lambda>i. cv_variable (vars ! i) = variable) [0..<min (length vars) 65536] of
        Some i \<Rightarrow> Some (Some i)
      | None \<Rightarrow> if length vars < 65536 then Some None else None)"

text \<open>A variable of the name, or a new one behind the others, with a new value.\<close>

definition setVar :: "bytes \<Rightarrow> ('d clientvar \<Rightarrow> 'd clientvar) \<Rightarrow> 'd clientvar list \<Rightarrow> 'd clientvar list option" where
  "setVar variable f vars =
     (if variable = [] then Some vars
      else map_option
        (\<lambda>found. case found of
           Some i \<Rightarrow> vars[i := (f (vars ! i))\<lparr>cv_variable := variable, cv_send := True\<rparr>]
         | None \<Rightarrow> vars @ [(f \<lparr>cv_variable = [], cv_value = C_Null, cv_size = 0, cv_send = False\<rparr>)
                            \<lparr>cv_variable := variable, cv_send := True\<rparr>])
        (findVar variable vars))"

section \<open>Input bind variables\<close>

text \<open>A C string: the bytes before the first zero.\<close>

definition cstr :: "bytes \<Rightarrow> bytes" where
  "cstr bs = takeWhile (\<lambda>b. b \<noteq> 0) bs"

text \<open>
  With \<open>copyrefs\<close>, the memory is a copy: of a string up to its terminating zero, of a large object with
  the size that was given.
\<close>

definition stringVar :: "bool \<Rightarrow> bytes option \<Rightarrow> u32 \<Rightarrow> 'd clientvar \<Rightarrow> 'd clientvar" where
  "stringVar copyrefs value len v =
     (case value of
        Some s \<Rightarrow> v\<lparr>cv_value := C_String (if copyrefs then cstr s @ [0] else s), cv_size := len\<rparr>
      | None \<Rightarrow> v\<lparr>cv_value := C_Null\<rparr>)"

definition stringVar_length :: "bool \<Rightarrow> bytes option \<Rightarrow> 'd clientvar \<Rightarrow> 'd clientvar" where
  "stringVar_length copyrefs value v =
     stringVar copyrefs value (case value of Some s \<Rightarrow> of_nat (length (cstr s)) | None \<Rightarrow> 0) v"

definition integerVar :: "u64 \<Rightarrow> 'd clientvar \<Rightarrow> 'd clientvar" where
  "integerVar value v = v\<lparr>cv_value := C_Integer value\<rparr>"

definition doubleVar :: "'d \<Rightarrow> u32 \<Rightarrow> u32 \<Rightarrow> 'd clientvar \<Rightarrow> 'd clientvar" where
  "doubleVar value precision scale v = v\<lparr>cv_value := C_Double value precision scale\<rparr>"

definition dateVar :: "datevalue \<Rightarrow> 'd clientvar \<Rightarrow> 'd clientvar" where
  "dateVar value v = v\<lparr>cv_value := C_Date value\<rparr>"

definition lobVar :: "bool \<Rightarrow> bytes option \<Rightarrow> u32 \<Rightarrow> u16 \<Rightarrow> 'd clientvar \<Rightarrow> 'd clientvar" where
  "lobVar copyrefs value len type v =
     (case value of
        Some s \<Rightarrow>
          (let memory = (if copyrefs then take (unat len) s else s)
           in v\<lparr>cv_value := (if type = BIND_BLOB then C_Blob memory else if type = BIND_CLOB then C_Clob memory
                             else C_Array memory), cv_size := len\<rparr>)
      | None \<Rightarrow>
          v\<lparr>cv_value := (if type = BIND_BLOB then C_NullBlob else if type = BIND_CLOB then C_NullClob else C_Null),
            cv_size := 0\<rparr>)"

definition inputBind_string ::
  "bool \<Rightarrow> bytes \<Rightarrow> bytes option \<Rightarrow> 'd clientvar list \<Rightarrow> 'd clientvar list option" where
  "inputBind_string copyrefs variable value vars = setVar variable (stringVar_length copyrefs value) vars"

definition inputBind_sized ::
  "bool \<Rightarrow> bytes \<Rightarrow> bytes option \<Rightarrow> u32 \<Rightarrow> 'd clientvar list \<Rightarrow> 'd clientvar list option" where
  "inputBind_sized copyrefs variable value valuesize vars = setVar variable (stringVar copyrefs value valuesize) vars"

definition inputBind_integer :: "bytes \<Rightarrow> u64 \<Rightarrow> 'd clientvar list \<Rightarrow> 'd clientvar list option" where
  "inputBind_integer variable value vars = setVar variable (integerVar value) vars"

definition inputBind_double :: "bytes \<Rightarrow> 'd \<Rightarrow> u32 \<Rightarrow> u32 \<Rightarrow> 'd clientvar list \<Rightarrow> 'd clientvar list option" where
  "inputBind_double variable value precision scale vars = setVar variable (doubleVar value precision scale) vars"

definition inputBind_date :: "bytes \<Rightarrow> datevalue \<Rightarrow> 'd clientvar list \<Rightarrow> 'd clientvar list option" where
  "inputBind_date variable value vars = setVar variable (dateVar value) vars"

definition inputBindBlob ::
  "bool \<Rightarrow> bytes \<Rightarrow> bytes option \<Rightarrow> u32 \<Rightarrow> 'd clientvar list \<Rightarrow> 'd clientvar list option" where
  "inputBindBlob copyrefs variable value len vars = setVar variable (lobVar copyrefs value len BIND_BLOB) vars"

definition inputBindClob ::
  "bool \<Rightarrow> bytes \<Rightarrow> bytes option \<Rightarrow> u32 \<Rightarrow> 'd clientvar list \<Rightarrow> 'd clientvar list option" where
  "inputBindClob copyrefs variable value len vars = setVar variable (lobVar copyrefs value len BIND_CLOB) vars"

definition inputBindArray ::
  "bool \<Rightarrow> bytes \<Rightarrow> bytes option \<Rightarrow> u32 \<Rightarrow> 'd clientvar list \<Rightarrow> 'd clientvar list option" where
  "inputBindArray copyrefs variable value len vars = setVar variable (lobVar copyrefs value len BIND_ARRAY) vars"

section \<open>Output and input/output bind variables\<close>

text \<open>An output variable has a type and a size; the value comes from the server.\<close>

definition defineOutputBindGeneric ::
  "bytes \<Rightarrow> 'd clientvalue \<Rightarrow> u32 \<Rightarrow> 'd clientvar list \<Rightarrow> 'd clientvar list option" where
  "defineOutputBindGeneric variable value valuesize vars =
     setVar variable (\<lambda>v. v\<lparr>cv_value := value, cv_size := valuesize\<rparr>) vars"

text \<open>What an output variable may be, with the sizes that the functions give to \<open>defineOutputBindGeneric\<close>.\<close>

datatype outputkind = Out_String u32 | Out_Integer | Out_Double | Out_Date | Out_Blob | Out_Clob | Out_Cursor

definition defineOutputBind :: "'d \<Rightarrow> bytes \<Rightarrow> outputkind \<Rightarrow> 'd clientvar list \<Rightarrow> 'd clientvar list option" where
  "defineOutputBind zero variable kind vars =
     (case kind of
        Out_String n \<Rightarrow> defineOutputBindGeneric variable (C_String []) n vars
      | Out_Integer \<Rightarrow> defineOutputBindGeneric variable (C_Integer 0) 8 vars
      | Out_Double \<Rightarrow> defineOutputBindGeneric variable (C_Double zero 0 0) 8 vars
      | Out_Date \<Rightarrow> defineOutputBindGeneric variable (C_Date no_date) 0 vars
      | Out_Blob \<Rightarrow> defineOutputBindGeneric variable (C_Blob []) 0 vars
      | Out_Clob \<Rightarrow> defineOutputBindGeneric variable (C_Clob []) 0 vars
      | Out_Cursor \<Rightarrow> defineOutputBindGeneric variable C_Cursor 0 vars)"

definition defineInputOutputBindGeneric ::
  "bytes \<Rightarrow> 'd clientvalue \<Rightarrow> u32 \<Rightarrow> 'd clientvar list \<Rightarrow> 'd clientvar list option" where
  "defineInputOutputBindGeneric variable value valuesize vars =
     setVar variable (\<lambda>v. v\<lparr>cv_value := value, cv_size := valuesize\<rparr>) vars"

text \<open>The buffer of a string has one byte more than its size.\<close>

definition defineInputOutputBindString ::
  "'d bindcodec \<Rightarrow> bytes \<Rightarrow> bytes option \<Rightarrow> u32 \<Rightarrow> 'd clientvar list \<Rightarrow> 'd clientvar list option" where
  "defineInputOutputBindString B variable value len vars =
     defineInputOutputBindGeneric variable
       (case value of Some s \<Rightarrow> C_String (copyString B (unat len) s) | None \<Rightarrow> C_Null) len vars"

definition defineInputOutputBindInteger :: "bytes \<Rightarrow> u64 \<Rightarrow> 'd clientvar list \<Rightarrow> 'd clientvar list option" where
  "defineInputOutputBindInteger variable value vars = defineInputOutputBindGeneric variable (C_Integer value) 8 vars"

definition defineInputOutputBindDouble ::
  "bytes \<Rightarrow> 'd \<Rightarrow> u32 \<Rightarrow> u32 \<Rightarrow> 'd clientvar list \<Rightarrow> 'd clientvar list option" where
  "defineInputOutputBindDouble variable value precision scale vars =
     defineInputOutputBindGeneric variable (C_Double value precision scale) 8 vars"

text \<open>The call gives the minute where the hour is expected, and the hour where the minute is.\<close>

definition defineInputOutputBindDate :: "bytes \<Rightarrow> datevalue \<Rightarrow> 'd clientvar list \<Rightarrow> 'd clientvar list option" where
  "defineInputOutputBindDate variable value vars =
     defineInputOutputBindGeneric variable
       (C_Date (value\<lparr>d_hour := d_minute value, d_minute := d_hour value\<rparr>)) 0 vars"

section \<open>The request\<close>

text \<open>\<open>n\<close> bytes of the memory of a value; writing none of them reads none.\<close>

definition memoryBytes :: "u32 \<Rightarrow> bytes \<Rightarrow> bytes option" where
  "memoryBytes n memory = (if unat n \<le> length memory then Some (take (unat n) memory) else None)"

definition sendDate :: "'d bindcodec \<Rightarrow> datevalue \<Rightarrow> bytes" where
  "sendDate B d =
     (let C = sockc B; tz = (case d_tz d of Some s \<Rightarrow> s | None \<Rightarrow> [])
      in put16 C (d_year d) @ put16 C (d_month d) @ put16 C (d_day d) @ put16 C (d_hour d) @ put16 C (d_minute d) @
         put16 C (d_second d) @ put32 C (d_microsecond d) @ put16 C (of_nat (length tz)) @ tz @
         putBool B (d_isnegative d))"

text \<open>The name and the type, which every variable starts with.\<close>

definition sendName :: "sockcodec \<Rightarrow> 'd clientvar \<Rightarrow> bytes" where
  "sendName C v =
     (let n = of_nat (length (cv_variable v)) :: u16
      in put16 C n @ take (unat n) (cv_variable v) @ put16 C (bindtype (cv_value v)))"

definition sendInputBind :: "'d bindcodec \<Rightarrow> 'd clientvar \<Rightarrow> bytes option" where
  "sendInputBind B v =
     (let C = sockc B; sized = (\<lambda>memory. map_option (\<lambda>bs. put32 C (cv_size v) @ bs) (memoryBytes (cv_size v) memory))
      in map_option (\<lambda>bs. sendName C v @ bs)
        (case cv_value v of
           C_Null \<Rightarrow> Some [] | C_NullBlob \<Rightarrow> Some [] | C_NullClob \<Rightarrow> Some []
         | C_String s \<Rightarrow> sized s
         | C_Integer n \<Rightarrow> Some (put64 C n)
         | C_Double d p s \<Rightarrow> Some (putDouble B d @ put32 C p @ put32 C s)
         | C_Date d \<Rightarrow> Some (sendDate B d)
         | C_Blob s \<Rightarrow> sized s | C_Clob s \<Rightarrow> sized s | C_Array s \<Rightarrow> sized s
         | C_Cursor \<Rightarrow> Some []))"

definition sendOutputBind :: "'d bindcodec \<Rightarrow> 'd clientvar \<Rightarrow> bytes option" where
  "sendOutputBind B v =
     (let C = sockc B
      in Some (sendName C v @
        (case cv_value v of
           C_String s \<Rightarrow> put32 C (cv_size v) | C_Blob s \<Rightarrow> put32 C (cv_size v) | C_Clob s \<Rightarrow> put32 C (cv_size v)
         | C_Null \<Rightarrow> put32 C (cv_size v) | _ \<Rightarrow> [])))"

definition sendInputOutputBind :: "'d bindcodec \<Rightarrow> 'd clientvar \<Rightarrow> bytes option" where
  "sendInputOutputBind B v =
     (let C = sockc B; sized = (\<lambda>memory. map_option (\<lambda>bs. put32 C (cv_size v) @ bs) (memoryBytes (cv_size v) memory))
      in map_option (\<lambda>bs. sendName C v @ bs)
        (case cv_value v of
           C_Null \<Rightarrow> Some (put32 C (cv_size v))
         | C_String s \<Rightarrow> sized s | C_Blob s \<Rightarrow> sized s | C_Clob s \<Rightarrow> sized s
         | C_Integer n \<Rightarrow> Some (put64 C n)
         | C_Double d p s \<Rightarrow> Some (putDouble B d @ put32 C p @ put32 C s)
         | C_Date d \<Rightarrow> Some (sendDate B d)
         | _ \<Rightarrow> Some []))"

text \<open>
  The count and the variables, as each of the three functions sends them: those whose \<open>send\<close> flag is on,
  as far as 16 bits count them.
\<close>

definition sendBinds :: "'d bindcodec \<Rightarrow> ('d clientvar \<Rightarrow> bytes option) \<Rightarrow> 'd clientvar list \<Rightarrow> bytes option" where
  "sendBinds B one vars =
     (let total = of_nat (length vars) :: u16;
          counted = take (unat total) vars;
          count = total - of_nat (length (filter (\<lambda>v. \<not> cv_send v) counted))
      in map_option (\<lambda>bss. put16 (sockc B) count @ concat bss) (those (map one (filter cv_send counted))))"

definition sendInputBinds :: "'d bindcodec \<Rightarrow> 'd clientvar list \<Rightarrow> bytes option" where
  "sendInputBinds B vars = sendBinds B (sendInputBind B) vars"

definition sendOutputBinds :: "'d bindcodec \<Rightarrow> 'd clientvar list \<Rightarrow> bytes option" where
  "sendOutputBinds B vars = sendBinds B (sendOutputBind B) vars"

definition sendInputOutputBinds :: "'d bindcodec \<Rightarrow> 'd clientvar list \<Rightarrow> bytes option" where
  "sendInputOutputBinds B vars = sendBinds B (sendInputOutputBind B) vars"

text \<open>The part of the client's cursor that makes up a request.\<close>

record 'd clientrequest =
  rq_reexecute :: bool
  rq_havecursorid :: bool
  rq_cursorid :: u16
  rq_clientinfo :: bytes
  rq_query :: bytes
  rq_sendcolumninfo :: u16
  rq_lazyfetch :: bool
  rq_rsbuffersize :: u64
  rq_inbinds :: "'d clientvar list"
  rq_outbinds :: "'d clientvar list"
  rq_inoutbinds :: "'d clientvar list"

definition sendCursorStatus :: "sockcodec \<Rightarrow> 'd clientrequest \<Rightarrow> bytes" where
  "sendCursorStatus C q = (if rq_havecursorid q then put16 C 1 @ put16 C (rq_cursorid q) else put16 C 0)"

text \<open>What \<open>sendQueryInternal\<close> writes to the socket.\<close>

definition sendQueryInternal :: "sockcodec \<Rightarrow> 'd clientrequest \<Rightarrow> bytes" where
  "sendQueryInternal C q =
     (if \<not> rq_reexecute q then
        put16 C 0 @ sendCursorStatus C q @ put64 C (of_nat (length (rq_clientinfo q))) @ rq_clientinfo q @
        put32 C (of_nat (length (rq_query q))) @ rq_query q
      else put16 C 13 @ put16 C (rq_cursorid q))"

definition sendGetColumnInfo :: "sockcodec \<Rightarrow> 'd clientrequest \<Rightarrow> bytes" where
  "sendGetColumnInfo C q =
     (if rq_sendcolumninfo q = SEND_COLUMN_INFO then put16 C SEND_COLUMN_INFO else put16 C DONT_SEND_COLUMN_INFO)"

definition initialSkipAndFetch :: "sockcodec \<Rightarrow> 'd clientrequest \<Rightarrow> bytes" where
  "initialSkipAndFetch C q = put64 C (if rq_lazyfetch q then 1 else 0) @ put64 C (rq_rsbuffersize q)"

definition runQuery :: "'d bindcodec \<Rightarrow> 'd clientrequest \<Rightarrow> bytes option" where
  "runQuery B q =
     Option.bind (sendInputBinds B (rq_inbinds q)) (\<lambda>inbinds.
       Option.bind (sendOutputBinds B (rq_outbinds q)) (\<lambda>outbinds.
         map_option (\<lambda>inoutbinds.
           sendQueryInternal (sockc B) q @ inbinds @ outbinds @ inoutbinds @ sendGetColumnInfo (sockc B) q @
           initialSkipAndFetch (sockc B) q) (sendInputOutputBinds B (rq_inoutbinds q))))"

end
