(* ===== verification/Request_Server.thy ===== *)
theory Request_Server
  imports Request_Wire Result_Server
begin

text \<open>
  How the server reads a request (\<open>src/protocols/sqlrclient.cpp\<close>): client info, the query, and the
  bind variables, each checked against the limits of the configuration, and what it answers.

  A definition gives what it has read and the rest of the input; or it fails, with the error that it
  set, if it set one. What a failed read leaves behind in the variables is not modelled: the session
  of the client ends with it. Events, statistics and debug output are left out.
\<close>

section \<open>Limits and errors\<close>

record limits =
  maxclientinfosize :: u64
  maxquerysize :: u32
  maxbindcount :: u16
  maxbindnamesize :: u16
  maxstringbindvaluesize :: u32
  maxlobbindvaluesize :: u32

text \<open>What exceeded its limit, and the limit.\<close>

datatype reqerror =
  Max_Client_Info_Size nat nat | Max_Query_Size nat nat | Max_Bind_Count nat nat | Max_Bind_Name_Size nat nat
| Max_String_Bind_Value_Size nat nat | Max_Lob_Bind_Value_Size nat nat

fun natText :: "nat \<Rightarrow> string" where
  "natText n = (if n < 10 then [] else natText (n div 10)) @ [char_of (48 + n mod 10)]"

definition limitText :: "string \<Rightarrow> nat \<Rightarrow> nat \<Rightarrow> string" where
  "limitText message n limit = message @ '' ('' @ natText n @ ''>'' @ natText limit @ '')''"

primrec errorText :: "reqerror \<Rightarrow> string" where
  "errorText (Max_Client_Info_Size n l) = limitText ''Maximum client info size exceeded.'' n l"
| "errorText (Max_Query_Size n l) = limitText ''Maximum query size exceeded.'' n l"
| "errorText (Max_Bind_Count n l) = limitText ''Maximum bind variable count exceeded.'' n l"
| "errorText (Max_Bind_Name_Size n l) = limitText ''Maximum bind variable name size exceeded.'' n l"
| "errorText (Max_String_Bind_Value_Size n l) = limitText ''Maximum string bind value size exceeded.'' n l"
| "errorText (Max_Lob_Bind_Value_Size n l) = limitText ''Maximum lob bind value size exceeded.'' n l"

primrec errorNumber :: "reqerror \<Rightarrow> u64" where
  "errorNumber (Max_Client_Info_Size n l) = 900001"
| "errorNumber (Max_Query_Size n l) = 900002"
| "errorNumber (Max_Bind_Count n l) = 900003"
| "errorNumber (Max_Bind_Name_Size n l) = 900004"
| "errorNumber (Max_String_Bind_Value_Size n l) = 900005"
| "errorNumber (Max_Lob_Bind_Value_Size n l) = 900006"

type_synonym 'a request = "reqerror option + ('a \<times> bytes)"

text \<open>One read after another.\<close>

definition andThen :: "'a request \<Rightarrow> ('a \<Rightarrow> bytes \<Rightarrow> 'b request) \<Rightarrow> 'b request" where
  "andThen m f = (case m of Inl e \<Rightarrow> Inl e | Inr (x, r) \<Rightarrow> f x r)"

text \<open>A read that comes short fails without an error.\<close>

definition need :: "('a \<times> bytes) option \<Rightarrow> 'a request" where
  "need m = (case m of None \<Rightarrow> Inl None | Some x \<Rightarrow> Inr x)"

section \<open>Client info and query\<close>

definition getClientInfo :: "sockcodec \<Rightarrow> limits \<Rightarrow> bytes \<Rightarrow> bytes request" where
  "getClientInfo C L s =
     andThen (need (get64 C s)) (\<lambda>n s.
       if maxclientinfosize L < n then Inl (Some (Max_Client_Info_Size (unat n) (unat (maxclientinfosize L))))
       else need (if unat n \<le> length s then Some (take (unat n) s, drop (unat n) s) else None))"

definition getQuery :: "sockcodec \<Rightarrow> limits \<Rightarrow> bytes \<Rightarrow> bytes request" where
  "getQuery C L s =
     andThen (need (get32 C s)) (\<lambda>n s.
       if maxquerysize L < n then Inl (Some (Max_Query_Size (unat n) (unat (maxquerysize L))))
       else need (getBytes n s))"

section \<open>Bind variables\<close>

text \<open>The members of the union \<open>value\<close>; a variable that has none yet is \<open>S_None\<close>.\<close>

datatype 'd serverval =
  S_None | S_String bytes | S_Integer u64 | S_Double 'd u32 u32 | S_Date datevalue | S_Cursor u16

record 'd serverbind =
  sb_variable :: bytes
  sb_type :: u16
  sb_size :: u32
  sb_value :: "'d serverval"
  sb_isnull :: bool

definition getBindVarCount :: "sockcodec \<Rightarrow> limits \<Rightarrow> bytes \<Rightarrow> u16 request" where
  "getBindVarCount C L s =
     andThen (need (get16 C s)) (\<lambda>n s.
       if maxbindcount L < n then Inl (Some (Max_Bind_Count (unat n) (unat (maxbindcount L)))) else Inr (n, s))"

text \<open>The name of a variable gets the first character of the database's bind format in front.\<close>

definition getBindVarName ::
  "sockcodec \<Rightarrow> limits \<Rightarrow> byte \<Rightarrow> 'd serverbind \<Rightarrow> bytes \<Rightarrow> 'd serverbind request" where
  "getBindVarName C L format bv s =
     andThen (need (get16 C s)) (\<lambda>n s.
       if maxbindnamesize L < n then Inl (Some (Max_Bind_Name_Size (unat n) (unat (maxbindnamesize L))))
       else andThen (need (getBytes (ucast n) s)) (\<lambda>name s. Inr (bv\<lparr>sb_variable := format # name\<rparr>, s)))"

definition getBindVarType :: "sockcodec \<Rightarrow> 'd serverbind \<Rightarrow> bytes \<Rightarrow> 'd serverbind request" where
  "getBindVarType C bv s = andThen (need (get16 C s)) (\<lambda>t s. Inr (bv\<lparr>sb_type := t\<rparr>, s))"

definition getNameAndType ::
  "sockcodec \<Rightarrow> limits \<Rightarrow> byte \<Rightarrow> 'd serverbind \<Rightarrow> bytes \<Rightarrow> 'd serverbind request" where
  "getNameAndType C L format bv s = andThen (getBindVarName C L format bv s) (getBindVarType C)"

definition getBindSize :: "sockcodec \<Rightarrow> limits \<Rightarrow> bool \<Rightarrow> 'd serverbind \<Rightarrow> bytes \<Rightarrow> 'd serverbind request" where
  "getBindSize C L lob bv s =
     andThen (need (get32 C s)) (\<lambda>n s.
       if (if lob then maxlobbindvaluesize L else maxstringbindvaluesize L) < n then
         Inl (Some (if lob then Max_Lob_Bind_Value_Size (unat n) (unat (maxlobbindvaluesize L))
                    else Max_String_Bind_Value_Size (unat n) (unat (maxstringbindvaluesize L))))
       else Inr (bv\<lparr>sb_size := n\<rparr>, s))"

definition getNullBind :: "'d serverbind \<Rightarrow> 'd serverbind" where
  "getNullBind bv = bv\<lparr>sb_value := S_String [], sb_size := 0, sb_isnull := True\<rparr>"

text \<open>A size and that many bytes; the same for strings and for large objects.\<close>

definition getSizedBind :: "sockcodec \<Rightarrow> limits \<Rightarrow> bool \<Rightarrow> 'd serverbind \<Rightarrow> bytes \<Rightarrow> 'd serverbind request" where
  "getSizedBind C L lob bv s =
     andThen (getBindSize C L lob bv s) (\<lambda>bv s.
       andThen (need (getBytes (sb_size bv) s)) (\<lambda>v s. Inr (bv\<lparr>sb_value := S_String v, sb_isnull := False\<rparr>, s)))"

definition getStringBind :: "sockcodec \<Rightarrow> limits \<Rightarrow> 'd serverbind \<Rightarrow> bytes \<Rightarrow> 'd serverbind request" where
  "getStringBind C L bv s = getSizedBind C L False bv s"

definition getLobBind :: "sockcodec \<Rightarrow> limits \<Rightarrow> 'd serverbind \<Rightarrow> bytes \<Rightarrow> 'd serverbind request" where
  "getLobBind C L bv s = getSizedBind C L True bv s"

text \<open>Integers and doubles leave the null indicator as it was.\<close>

definition getIntegerBind :: "sockcodec \<Rightarrow> 'd serverbind \<Rightarrow> bytes \<Rightarrow> 'd serverbind request" where
  "getIntegerBind C bv s = andThen (need (get64 C s)) (\<lambda>n s. Inr (bv\<lparr>sb_value := S_Integer n\<rparr>, s))"

definition getDoubleBind :: "'d bindcodec \<Rightarrow> 'd serverbind \<Rightarrow> bytes \<Rightarrow> 'd serverbind request" where
  "getDoubleBind B bv s =
     andThen (need (getDouble B s)) (\<lambda>d s.
       andThen (need (get32 (sockc B) s)) (\<lambda>precision s.
         andThen (need (get32 (sockc B) s)) (\<lambda>scale s. Inr (bv\<lparr>sb_value := S_Double d precision scale\<rparr>, s))))"

definition getDate :: "'d bindcodec \<Rightarrow> bytes \<Rightarrow> datevalue request" where
  "getDate B s =
     (let C = sockc B in
      andThen (need (get16 C s)) (\<lambda>year s. andThen (need (get16 C s)) (\<lambda>month s.
      andThen (need (get16 C s)) (\<lambda>day s. andThen (need (get16 C s)) (\<lambda>hour s.
      andThen (need (get16 C s)) (\<lambda>minute s. andThen (need (get16 C s)) (\<lambda>second s.
      andThen (need (get32 C s)) (\<lambda>microsecond s. andThen (need (get16 C s)) (\<lambda>n s.
      andThen (need (getBytes (ucast n) s)) (\<lambda>tz s. andThen (need (getBool B s)) (\<lambda>negative s.
        Inr (\<lparr>d_year = year, d_month = month, d_day = day, d_hour = hour, d_minute = minute, d_second = second,
              d_microsecond = microsecond, d_tz = Some tz, d_isnegative = negative\<rparr>, s))))))))))))"

definition getDateBind :: "'d bindcodec \<Rightarrow> 'd serverbind \<Rightarrow> bytes \<Rightarrow> 'd serverbind request" where
  "getDateBind B bv s = andThen (getDate B s) (\<lambda>d s. Inr (bv\<lparr>sb_value := S_Date d, sb_isnull := False\<rparr>, s))"

text \<open>Types that none of the branches names have no value.\<close>

definition getInputBind ::
  "'d bindcodec \<Rightarrow> limits \<Rightarrow> byte \<Rightarrow> 'd serverbind \<Rightarrow> bytes \<Rightarrow> 'd serverbind request" where
  "getInputBind B L format bv s =
     (let C = sockc B in
      andThen (getNameAndType C L format bv s) (\<lambda>bv s.
        if sb_type bv = BIND_NULL \<or> sb_type bv = BIND_NULLBLOB \<or> sb_type bv = BIND_NULLCLOB then Inr (getNullBind bv, s)
        else if sb_type bv = BIND_STRING then getStringBind C L bv s
        else if sb_type bv = BIND_INTEGER then getIntegerBind C bv s
        else if sb_type bv = BIND_DOUBLE then getDoubleBind B bv s
        else if sb_type bv = BIND_DATE then getDateBind B bv s
        else if sb_type bv = BIND_BLOB then getLobBind C L bv s
        else if sb_type bv = BIND_CLOB then getLobBind C L bv s
        else if sb_type bv = BIND_ARRAY then getStringBind C L bv s
        else Inr (bv, s)))"

text \<open>
  An output variable: its type, and a buffer of zeros for a string; a double is what the memory happens
  to hold (\<open>garbage\<close>). A cursor is taken from the controller, whose state is \<open>'k\<close>, if it has one.
\<close>

definition getOutputBind ::
  "'d bindcodec \<Rightarrow> limits \<Rightarrow> byte \<Rightarrow> 'd \<Rightarrow> ('k \<Rightarrow> u16 option \<times> 'k) \<Rightarrow> 'd serverbind \<Rightarrow> 'k \<Rightarrow> bytes \<Rightarrow>
   ('d serverbind \<times> 'k) request" where
  "getOutputBind B L format garbage newcursor bv k s =
     (let C = sockc B in
      andThen (getNameAndType C L format bv s) (\<lambda>bv s.
        andThen
          (if sb_type bv = BIND_STRING then
             andThen (getBindSize C L False bv s) (\<lambda>bv s.
               Inr ((bv\<lparr>sb_value := S_String (replicate (unat (sb_size bv)) 0)\<rparr>, k), s))
           else if sb_type bv = BIND_DOUBLE then
             Inr ((bv\<lparr>sb_value := S_Double garbage 0 0\<rparr>, k), s)
           else if sb_type bv = BIND_DATE then Inr ((bv\<lparr>sb_value := S_Date no_date\<rparr>, k), s)
           else if sb_type bv = BIND_BLOB \<or> sb_type bv = BIND_CLOB then
             andThen (getBindSize C L True bv s) (\<lambda>bv s. Inr ((bv, k), s))
           else if sb_type bv = BIND_CURSOR then
             (case newcursor k of
                (None, k) \<Rightarrow> Inl None
              | (Some i, k) \<Rightarrow> Inr ((bv\<lparr>sb_value := S_Cursor i\<rparr>, k), s))
           else Inr ((bv, k), s))
          (\<lambda>(bv, k) s. Inr ((bv\<lparr>sb_isnull := False\<rparr>, k), s))))"

definition getInputOutputBind ::
  "'d bindcodec \<Rightarrow> limits \<Rightarrow> byte \<Rightarrow> 'd serverbind \<Rightarrow> bytes \<Rightarrow> 'd serverbind request" where
  "getInputOutputBind B L format bv s =
     (let C = sockc B in
      andThen (getNameAndType C L format bv s) (\<lambda>bv s.
        if sb_type bv = BIND_NULL then
          andThen (getBindSize C L False (bv\<lparr>sb_type := BIND_STRING\<rparr>) s) (\<lambda>bv s.
            Inr (bv\<lparr>sb_value := S_String (replicate (unat (sb_size bv)) 0), sb_isnull := True\<rparr>, s))
        else if sb_type bv = BIND_STRING then getStringBind C L bv s
        else if sb_type bv = BIND_INTEGER then
          andThen (getIntegerBind C bv s) (\<lambda>bv s. Inr (bv\<lparr>sb_isnull := False\<rparr>, s))
        else if sb_type bv = BIND_DOUBLE then
          andThen (getDoubleBind B bv s) (\<lambda>bv s. Inr (bv\<lparr>sb_isnull := False\<rparr>, s))
        else if sb_type bv = BIND_DATE then getDateBind B bv s
        else Inr (bv, s)))"

text \<open>
  The loop over the variables of a request: slot after slot of the array, as many as the count says;
  the slots behind are left as they are. \<open>'x\<close> is what the loop carries along.
\<close>

fun fillSlots ::
  "('d serverbind \<Rightarrow> 'x \<Rightarrow> bytes \<Rightarrow> ('d serverbind \<times> 'x) request) \<Rightarrow> nat \<Rightarrow> 'd serverbind list \<Rightarrow> 'x \<Rightarrow> bytes \<Rightarrow>
   ('d serverbind list \<times> 'x) request" where
  "fillSlots one 0 slots x s = Inr ((slots, x), s)"
| "fillSlots one (Suc n) [] x s = Inr (([], x), s)"
| "fillSlots one (Suc n) (bv # slots) x s =
     andThen (one bv x s) (\<lambda>(bv, x) s.
       andThen (fillSlots one n slots x s) (\<lambda>(slots, x) s. Inr ((bv # slots, x), s)))"

record 'd serverrequest =
  sr_clientinfo :: bytes
  sr_query :: bytes
  sr_incount :: u16
  sr_inbinds :: "'d serverbind list"
  sr_outcount :: u16
  sr_outbinds :: "'d serverbind list"
  sr_inoutcount :: u16
  sr_inoutbinds :: "'d serverbind list"
  sr_sendcolumninfo :: bool

definition withUnit :: "('d serverbind \<Rightarrow> bytes \<Rightarrow> 'd serverbind request) \<Rightarrow> 'd serverbind \<Rightarrow> unit \<Rightarrow> bytes \<Rightarrow>
    ('d serverbind \<times> unit) request" where
  "withUnit one bv u s = andThen (one bv s) (\<lambda>bv s. Inr ((bv, ()), s))"

text \<open>The slots of an array are as many as \<open>maxbindcount\<close>.\<close>

definition getInputBinds ::
  "'d bindcodec \<Rightarrow> limits \<Rightarrow> byte \<Rightarrow> 'd serverrequest \<Rightarrow> bytes \<Rightarrow> 'd serverrequest request" where
  "getInputBinds B L format q s =
     andThen (getBindVarCount (sockc B) L s) (\<lambda>n s.
       andThen (fillSlots (withUnit (getInputBind B L format)) (unat n) (sr_inbinds q) () s) (\<lambda>(slots, u) s.
         Inr (q\<lparr>sr_incount := n, sr_inbinds := slots\<rparr>, s)))"

definition getOutputBinds ::
  "'d bindcodec \<Rightarrow> limits \<Rightarrow> byte \<Rightarrow> 'd \<Rightarrow> ('k \<Rightarrow> u16 option \<times> 'k) \<Rightarrow> 'd serverrequest \<times> 'k \<Rightarrow> bytes \<Rightarrow>
   ('d serverrequest \<times> 'k) request" where
  "getOutputBinds B L format garbage newcursor qk s =
     (case qk of (q, k) \<Rightarrow>
        andThen (getBindVarCount (sockc B) L s) (\<lambda>n s.
          andThen (fillSlots (getOutputBind B L format garbage newcursor) (unat n) (sr_outbinds q) k s) (\<lambda>(slots, k) s.
            Inr ((q\<lparr>sr_outcount := n, sr_outbinds := slots\<rparr>, k), s))))"

text \<open>A client of the first version of the protocol has no such variables, and their count is left.\<close>

definition getInputOutputBinds ::
  "'d bindcodec \<Rightarrow> limits \<Rightarrow> byte \<Rightarrow> u16 \<Rightarrow> 'd serverrequest \<Rightarrow> bytes \<Rightarrow> 'd serverrequest request" where
  "getInputOutputBinds B L format version q s =
     (if version < 2 then Inr (q, s)
      else andThen (getBindVarCount (sockc B) L s) (\<lambda>n s.
        andThen (fillSlots (withUnit (getInputOutputBind B L format)) (unat n) (sr_inoutbinds q) () s) (\<lambda>(slots, u) s.
          Inr (q\<lparr>sr_inoutcount := n, sr_inoutbinds := slots\<rparr>, s))))"

definition getSendColumnInfo :: "sockcodec \<Rightarrow> 'd serverrequest \<Rightarrow> bytes \<Rightarrow> 'd serverrequest request" where
  "getSendColumnInfo C q s =
     andThen (need (get16 C s)) (\<lambda>n s. Inr (q\<lparr>sr_sendcolumninfo := (n = SEND_COLUMN_INFO)\<rparr>, s))"

end
