(* ===== verification/Request_Command.thy ===== *)
theory Request_Command
  imports Request_Server
begin

text \<open>
  The commands that run a query (\<open>src/protocols/sqlrclient.cpp\<close>): the request is read, the query is
  prepared and executed, again and again while the database is down if the configuration says so, and the
  client is sent the header and the rows, or the error.

  What runs the query, and the state of the controller \<open>'k\<close>, are the fields of \<open>requestenv\<close>; so are the
  header of the result set and its rows, which \<open>Result_Server\<close> models. Custom query cursors are left
  out. The loop is \<open>None\<close> where the database never comes back.
\<close>

abbreviation "NO_SUSPENDED_RESULT_SET \<equiv> 0 :: u16"

record ('d, 'k) requestenv =
  re_codec :: "'d bindcodec"
  re_limits :: limits
  re_format :: byte
  re_garbage :: 'd
  re_newcursor :: "'k \<Rightarrow> u16 option \<times> 'k"
  re_waitfordowndb :: bool
  re_cursorid :: u16
  re_prepareAndExecute :: "'d serverrequest \<Rightarrow> 'k \<Rightarrow> bool \<times> 'k"
  re_executeAgain :: "'d serverrequest \<Rightarrow> 'k \<Rightarrow> bool \<times> 'k"
  re_fetchFromBindCursor :: "'k \<Rightarrow> bool \<times> 'k"
  re_live :: "'k \<Rightarrow> bool"
  re_error :: "'k \<Rightarrow> servererror"
  re_shutdown :: "'k \<Rightarrow> bool"
  re_relogin :: "'k \<Rightarrow> 'k"
  re_header :: "u16 \<Rightarrow> bool \<Rightarrow> 'd serverrequest \<Rightarrow> 'k \<Rightarrow> (bytes \<times> 'k) option"
  re_data :: "sessionstate \<Rightarrow> 'k \<Rightarrow> (bool \<times> bytes \<times> sessionstate \<times> 'k) option"

section \<open>Errors\<close>

text \<open>
  \<open>returnError\<close> for a cursor: the error, and the number of the cursor; the two numbers that the client
  sends behind its request are read, whatever comes of it.
\<close>

definition cursorError :: "sockcodec \<Rightarrow> u16 \<Rightarrow> bool \<Rightarrow> servererror \<Rightarrow> u16 \<Rightarrow> bytes" where
  "cursorError C version forcedisconnect e i =
     put16 C (if forcedisconnect \<or> \<not> err_live e then ERROR_OCCURRED_DISCONNECT else ERROR_OCCURRED) @
     put64 C (err_number e) @ put16 C (of_nat (length (err_string e))) @ err_string e @
     sendSqlState C version (err_sqlstate e) @ put16 C i"

definition dropNumber :: "sockcodec \<Rightarrow> bytes \<Rightarrow> bytes" where
  "dropNumber C s = (case get64 C s of Some (x, r) \<Rightarrow> r | None \<Rightarrow> s)"

definition returnError ::
  "('d, 'k) requestenv \<Rightarrow> u16 \<Rightarrow> bool \<Rightarrow> servererror \<Rightarrow> bytes \<Rightarrow> bytes \<times> bytes" where
  "returnError E version forcedisconnect e s =
     (let C = sockc (re_codec E)
      in (cursorError C version forcedisconnect e (re_cursorid E), dropNumber C (dropNumber C s)))"

section \<open>Running a query\<close>

datatype runmode = Run_New | Run_Again | Run_Bind_Cursor

definition runOnce :: "('d, 'k) requestenv \<Rightarrow> runmode \<Rightarrow> 'd serverrequest \<Rightarrow> 'k \<Rightarrow> bool \<times> 'k" where
  "runOnce E mode q k =
     (case mode of
        Run_Bind_Cursor \<Rightarrow> re_fetchFromBindCursor E k
      | Run_Again \<Rightarrow> re_executeAgain E q k
      | Run_New \<Rightarrow> re_prepareAndExecute E q k)"

text \<open>What the command returns, what it writes, what it leaves unread, and the states.\<close>

type_synonym 'k answer = "bool \<times> bytes \<times> bytes \<times> sessionstate \<times> 'k"

definition answerRows ::
  "('d, 'k) requestenv \<Rightarrow> runmode \<Rightarrow> 'd serverrequest \<Rightarrow> bytes \<Rightarrow> bytes \<Rightarrow> sessionstate \<Rightarrow> 'k \<Rightarrow> 'k answer option" where
  "answerRows E mode q out s cs k =
     (let C = sockc (re_codec E);
          out = out @ put16 C NO_ERROR_OCCURRED @ put16 C (re_cursorid E) @ put16 C NO_SUSPENDED_RESULT_SET
      in Option.bind (re_header E (protocolversion cs) (mode \<noteq> Run_Bind_Cursor) q k) (\<lambda>(header, k).
           map_option (\<lambda>(loop, rows, cs, k). (loop, out @ header @ rows, s, cs, k)) (re_data E cs k)))"

partial_function (option) processQueryOrBindCursor ::
  "('d, 'k) requestenv \<Rightarrow> runmode \<Rightarrow> 'd serverrequest \<Rightarrow> bytes \<Rightarrow> bytes \<Rightarrow> sessionstate \<Rightarrow> 'k \<Rightarrow> 'k answer option" where
  "processQueryOrBindCursor E mode q out s cs k =
     (let C = sockc (re_codec E);
          ran = runOnce E mode q k;
          k = snd ran;
          request = (if fst ran then getSkipAndFetch C True s cs else None)
      in case request of
           Some (cs, s) \<Rightarrow> answerRows E mode q out s cs k
         | None \<Rightarrow>
             (let dbup = re_live E k;
                  told = (if dbup \<or> \<not> re_waitfordowndb E then returnError E (protocolversion cs) False (re_error E k) s
                          else ([], s))
              in if dbup then Some (True, out @ fst told, snd told, cs, k)
                 else if re_waitfordowndb E \<and> re_shutdown E k then Some (False, out @ fst told, snd told, cs, k)
                 else if re_waitfordowndb E then
                   processQueryOrBindCursor E mode q (out @ fst told) (snd told) cs (re_relogin E k)
                 else Some (True, out @ fst told, snd told, cs, re_relogin E k)))"

section \<open>The commands\<close>

text \<open>Binds and the wish for column information, which both ways to run a query read.\<close>

definition getBinds ::
  "('d, 'k) requestenv \<Rightarrow> u16 \<Rightarrow> 'd serverrequest \<times> 'k \<Rightarrow> bytes \<Rightarrow> ('d serverrequest \<times> 'k) request" where
  "getBinds E version qk s =
     (case qk of (q, k) \<Rightarrow>
        (let B = re_codec E; L = re_limits E; f = re_format E in
         andThen (getInputBinds B L f q s) (\<lambda>q s.
           andThen (getOutputBinds B L f (re_garbage E) (re_newcursor E) (q, k) s) (\<lambda>(q, k) s.
             andThen (getInputOutputBinds B L f version q s) (\<lambda>q s.
               andThen (getSendColumnInfo (sockc B) q s) (\<lambda>q s. Inr ((q, k), s)))))))"

definition getNewQuery ::
  "('d, 'k) requestenv \<Rightarrow> u16 \<Rightarrow> 'd serverrequest \<times> 'k \<Rightarrow> bytes \<Rightarrow> ('d serverrequest \<times> 'k) request" where
  "getNewQuery E version qk s =
     (case qk of (q, k) \<Rightarrow>
        (let C = sockc (re_codec E); L = re_limits E in
         andThen (getClientInfo C L s) (\<lambda>info s.
           andThen (getQuery C L s) (\<lambda>query s.
             getBinds E version (q\<lparr>sr_clientinfo := info, sr_query := query\<rparr>, k) s))))"

text \<open>
  A request that cannot be read ends the session of the client, who is told the error, if the cursor has
  one: the one that was set while the request was read, or the last one of the cursor.
\<close>

definition refuseRequest ::
  "('d, 'k) requestenv \<Rightarrow> reqerror option \<Rightarrow> bytes \<Rightarrow> sessionstate \<Rightarrow> 'k \<Rightarrow> 'k answer" where
  "refuseRequest E e s cs k =
     (let old = re_error E k;
          e = (case e of
                 Some e \<Rightarrow> \<lparr>err_number = errorNumber e, err_string = map of_char (errorText e), err_live = True,
                            err_sqlstate = []\<rparr>
               | None \<Rightarrow> old)
      in if err_number e \<noteq> 0 then
           (case returnError E (protocolversion cs) True e s of (out, s) \<Rightarrow> (False, out, s, cs, k))
         else (False, [], s, cs, k))"

text \<open>
  The same becomes of a query that is given up, after what it has written. What is left of the input of
  a request that could not be read is not followed: the session ends, and the rest is thrown away.
\<close>

definition orRefused :: "('d, 'k) requestenv \<Rightarrow> 'k answer option \<Rightarrow> 'k answer option" where
  "orRefused E answer =
     map_option
       (\<lambda>(loop, out, s, cs, k).
          if loop then (True, out, s, cs, k)
          else (case refuseRequest E None s cs k of (loop, told, s, cs, k) \<Rightarrow> (loop, out @ told, s, cs, k))) answer"

definition newQueryCommand ::
  "('d, 'k) requestenv \<Rightarrow> 'd serverrequest \<Rightarrow> bytes \<Rightarrow> sessionstate \<Rightarrow> 'k \<Rightarrow> 'k answer option" where
  "newQueryCommand E q s cs k =
     (case getNewQuery E (protocolversion cs) (q, k) s of
        Inl e \<Rightarrow> Some (refuseRequest E e [] cs k)
      | Inr ((q, k), s) \<Rightarrow> orRefused E (processQueryOrBindCursor E Run_New q [] s cs k))"

definition reExecuteQueryCommand ::
  "('d, 'k) requestenv \<Rightarrow> 'd serverrequest \<Rightarrow> bytes \<Rightarrow> sessionstate \<Rightarrow> 'k \<Rightarrow> 'k answer option" where
  "reExecuteQueryCommand E q s cs k =
     (case getBinds E (protocolversion cs) (q, k) s of
        Inl e \<Rightarrow> Some (refuseRequest E e [] cs k)
      | Inr ((q, k), s) \<Rightarrow> orRefused E (processQueryOrBindCursor E Run_Again q [] s cs k))"

definition fetchFromBindCursorCommand ::
  "('d, 'k) requestenv \<Rightarrow> 'd serverrequest \<Rightarrow> bytes \<Rightarrow> sessionstate \<Rightarrow> 'k \<Rightarrow> 'k answer option" where
  "fetchFromBindCursorCommand E q s cs k =
     (case getSendColumnInfo (sockc (re_codec E)) q s of
        Inl e \<Rightarrow> Some (refuseRequest E e [] cs k)
      | Inr (q, s) \<Rightarrow> orRefused E (processQueryOrBindCursor E Run_Bind_Cursor q [] s cs k))"

end
