(* ===== verification/Request_Rules.thy ===== *)
theory Request_Rules
  imports Request_Client Request_Command Result_Client
begin

text \<open>
  Requests from the client to the server: the query and the bind variables arrive as they were sent. The
  three sorts of variables are instances of one locale, whose contract is that the server reads a
  variable that the client has sent.
\<close>

section \<open>Reading\<close>

lemma andThen_simps [simp]:
  "andThen (Inr (x, r)) f = f x r" "andThen (Inl e) f = Inl e" "need (Some p) = Inr p" "need None = Inl None"
  by (simp_all add: andThen_def need_def)

lemma bind_sock_okD:
  assumes "bind_sock_ok B"
  shows "get16 (sockc B) (put16 (sockc B) x @ r) = Some (x, r)" and "get32 (sockc B) (put32 (sockc B) y @ r) = Some (y, r)"
    and "get64 (sockc B) (put64 (sockc B) z @ r) = Some (z, r)" and "getBool B (putBool B b @ r) = Some (b, r)"
    and "getDouble B (putDouble B d @ r) = Some (d, r)" and "length (copyString B n s) = n"
  using assms by (simp_all add: bind_sock_ok_def sock_okD)

lemma getBytes_u16:
  assumes "length z < 65536"
  shows "getBytes (ucast (of_nat (length z) :: u16)) (z @ s) = Some (z, s)"
proof (rule getBytes_append)
  have "unat (of_nat (length z) :: u16) = length z" using assms by (simp add: unat_of_nat)
  then show "unat (ucast (of_nat (length z) :: u16) :: u32) = length z"
    using assms by (simp add: unsigned_ucast_eq take_bit_nat_eq_self)
qed (use assms in simp)

text \<open>What a value is to the server: a text of the given size, or the value itself.\<close>

definition arrived_date :: "datevalue \<Rightarrow> datevalue" where
  "arrived_date d = d\<lparr>d_tz := Some (case d_tz d of Some z \<Rightarrow> z | None \<Rightarrow> [])\<rparr>"

text \<open>What the server has room for.\<close>

definition date_fits :: "datevalue \<Rightarrow> bool" where
  "date_fits d \<longleftrightarrow> (case d_tz d of Some z \<Rightarrow> length z < 65536 | None \<Rightarrow> True)"

definition size_fits :: "u32 \<Rightarrow> u32 \<Rightarrow> bool" where
  "size_fits limit n \<longleftrightarrow> n \<le> limit \<and> unat n < 2 ^ 31"

definition name_fits :: "limits \<Rightarrow> 'd clientvar \<Rightarrow> bool" where
  "name_fits L v \<longleftrightarrow> length (cv_variable v) \<le> unat (maxbindnamesize L)"

text \<open>A text of a size, as both strings and large objects are sent.\<close>

lemma memoryBytes_length: "memoryBytes n s = Some bs \<Longrightarrow> length bs = unat n \<and> bs = take (unat n) s"
  by (auto simp: memoryBytes_def split: if_splits)

lemma getName_sent:
  assumes "bind_sock_ok B" and "name_fits L v"
  shows "getNameAndType (sockc B) L f bv (sendName (sockc B) v @ r) =
    Inr (bv\<lparr>sb_variable := f # cv_variable v, sb_type := bindtype (cv_value v)\<rparr>, r)"
proof -
  let ?n = "of_nat (length (cv_variable v)) :: u16"
  have len: "length (cv_variable v) < 65536"
    using assms(2) unsigned_less [of "maxbindnamesize L", where 'a = nat] by (simp add: name_fits_def)
  then have n: "unat ?n = length (cv_variable v)" by (simp add: unat_of_nat)
  then have "\<not> maxbindnamesize L < ?n" using assms(2) by (simp add: name_fits_def word_less_nat_alt)
  moreover have "getBytes (ucast ?n) (cv_variable v @ s) = Some (cv_variable v, s)" for s
    by (rule getBytes_u16 [OF len])
  ultimately show ?thesis
    by (simp add: getNameAndType_def getBindVarName_def getBindVarType_def sendName_def bind_sock_okD [OF assms(1)] n Let_def)
qed

lemma getSizedBind_sent:
  assumes "bind_sock_ok B" and "size_fits (if lob then maxlobbindvaluesize L else maxstringbindvaluesize L) n"
    and "memoryBytes n s = Some bs"
  shows "getSizedBind (sockc B) L lob bv (put32 (sockc B) n @ bs @ r) =
    Inr (bv\<lparr>sb_size := n, sb_value := S_String bs, sb_isnull := False\<rparr>, r)"
proof -
  have "unat n = length bs" using memoryBytes_length [OF assms(3)] by (elim conjE) (rule sym)
  then have "getBytes n (bs @ r) = Some (bs, r)"
    by (rule getBytes_append) (use \<open>unat n = length bs\<close> assms(2) in \<open>simp add: size_fits_def\<close>)
  moreover have "\<not> (if lob then maxlobbindvaluesize L else maxstringbindvaluesize L) < n"
    using assms(2) by (auto simp: size_fits_def)
  ultimately show ?thesis
    by (simp add: getSizedBind_def getBindSize_def bind_sock_okD [OF assms(1)])
qed

lemma getDate_sent:
  assumes "bind_sock_ok B" and "date_fits d"
  shows "getDate B (sendDate B d @ r) = Inr (arrived_date d, r)"
proof -
  define z where "z = (case d_tz d of Some z \<Rightarrow> z | None \<Rightarrow> [])"
  have z: "length z < 65536" using assms(2) by (auto simp: z_def date_fits_def split: option.splits)
  then have "getBytes (ucast (of_nat (length z) :: u16)) (z @ s) = Some (z, s)" for s
    by (rule getBytes_u16)
  then show ?thesis
    by (simp add: getDate_def sendDate_def z_def [symmetric] bind_sock_okD [OF assms(1)] Let_def arrived_date_def)
qed

section \<open>Variables arrive\<close>

definition arrives_in :: "byte \<Rightarrow> 'd clientvar \<Rightarrow> 'd serverbind \<Rightarrow> bool" where
  "arrives_in f v bv \<longleftrightarrow> sb_variable bv = f # cv_variable v \<and> sb_type bv = bindtype (cv_value v) \<and>
     (let text = (\<lambda>s. sb_value bv = S_String (take (unat (cv_size v)) s) \<and> sb_size bv = cv_size v \<and> \<not> sb_isnull bv) in
      case cv_value v of
        C_Null \<Rightarrow> sb_isnull bv | C_NullBlob \<Rightarrow> sb_isnull bv | C_NullClob \<Rightarrow> sb_isnull bv
      | C_String s \<Rightarrow> text s | C_Array s \<Rightarrow> text s | C_Blob s \<Rightarrow> text s | C_Clob s \<Rightarrow> text s
      | C_Integer n \<Rightarrow> sb_value bv = S_Integer n
      | C_Double d p c \<Rightarrow> sb_value bv = S_Double d p c
      | C_Date d \<Rightarrow> sb_value bv = S_Date (arrived_date d) \<and> \<not> sb_isnull bv
      | C_Cursor \<Rightarrow> True)"

definition fits_in :: "limits \<Rightarrow> 'd clientvar \<Rightarrow> bool" where
  "fits_in L v \<longleftrightarrow> name_fits L v \<and>
     (case cv_value v of
        C_String s \<Rightarrow> size_fits (maxstringbindvaluesize L) (cv_size v)
      | C_Array s \<Rightarrow> size_fits (maxstringbindvaluesize L) (cv_size v)
      | C_Blob s \<Rightarrow> size_fits (maxlobbindvaluesize L) (cv_size v)
      | C_Clob s \<Rightarrow> size_fits (maxlobbindvaluesize L) (cv_size v)
      | C_Date d \<Rightarrow> date_fits d
      | _ \<Rightarrow> True)"

definition arrives_out :: "byte \<Rightarrow> 'd clientvar \<Rightarrow> 'd serverbind \<Rightarrow> bool" where
  "arrives_out f v bv \<longleftrightarrow> sb_variable bv = f # cv_variable v \<and> sb_type bv = bindtype (cv_value v) \<and> \<not> sb_isnull bv \<and>
     (case cv_value v of
        C_String s \<Rightarrow> sb_value bv = S_String (replicate (unat (cv_size v)) 0) \<and> sb_size bv = cv_size v
      | C_Blob s \<Rightarrow> sb_size bv = cv_size v | C_Clob s \<Rightarrow> sb_size bv = cv_size v
      | C_Date d \<Rightarrow> sb_value bv = S_Date no_date
      | C_Cursor \<Rightarrow> (\<exists>i. sb_value bv = S_Cursor i)
      | _ \<Rightarrow> True)"

text \<open>An output variable without a type is not one that the client's functions make.\<close>

definition fits_out :: "limits \<Rightarrow> 'd clientvar \<Rightarrow> bool" where
  "fits_out L v \<longleftrightarrow> name_fits L v \<and>
     (case cv_value v of
        C_String s \<Rightarrow> cv_size v \<le> maxstringbindvaluesize L
      | C_Blob s \<Rightarrow> cv_size v \<le> maxlobbindvaluesize L | C_Clob s \<Rightarrow> cv_size v \<le> maxlobbindvaluesize L
      | C_Null \<Rightarrow> False
      | _ \<Rightarrow> True)"

definition arrives_inout :: "byte \<Rightarrow> 'd clientvar \<Rightarrow> 'd serverbind \<Rightarrow> bool" where
  "arrives_inout f v bv \<longleftrightarrow> sb_variable bv = f # cv_variable v \<and>
     sb_type bv = (if cv_value v = C_Null then BIND_STRING else bindtype (cv_value v)) \<and>
     (case cv_value v of
        C_Null \<Rightarrow> sb_isnull bv \<and> sb_value bv = S_String (replicate (unat (cv_size v)) 0) \<and> sb_size bv = cv_size v
      | C_String s \<Rightarrow> \<not> sb_isnull bv \<and> sb_value bv = S_String (take (unat (cv_size v)) s) \<and> sb_size bv = cv_size v
      | C_Integer n \<Rightarrow> \<not> sb_isnull bv \<and> sb_value bv = S_Integer n
      | C_Double d p c \<Rightarrow> \<not> sb_isnull bv \<and> sb_value bv = S_Double d p c
      | C_Date d \<Rightarrow> \<not> sb_isnull bv \<and> sb_value bv = S_Date (arrived_date d)
      | _ \<Rightarrow> True)"

text \<open>Large objects are sent by the client, but not read by the server.\<close>

definition fits_inout :: "limits \<Rightarrow> 'd clientvar \<Rightarrow> bool" where
  "fits_inout L v \<longleftrightarrow> name_fits L v \<and>
     (case cv_value v of
        C_Null \<Rightarrow> cv_size v \<le> maxstringbindvaluesize L
      | C_String s \<Rightarrow> size_fits (maxstringbindvaluesize L) (cv_size v)
      | C_Date d \<Rightarrow> date_fits d
      | C_Blob s \<Rightarrow> False | C_Clob s \<Rightarrow> False
      | _ \<Rightarrow> True)"

lemma getInputBind_sent:
  assumes "bind_sock_ok B" and "fits_in L v" and "sendInputBind B v = Some bs"
  shows "\<exists>bv'. getInputBind B L f bv (bs @ r) = Inr (bv', r) \<and> arrives_in f v bv'"
proof -
  have name: "name_fits L v" using assms(2) by (simp add: fits_in_def)
  show ?thesis
  proof (cases "cv_value v")
    case (C_Double d p c)
    then show ?thesis
      using assms by (auto simp: sendInputBind_def getInputBind_def getName_sent [OF assms(1) name] getDoubleBind_def
          arrives_in_def bind_sock_okD [OF assms(1)] Let_def)
  next
    case (C_Date d)
    then show ?thesis
      using assms by (auto simp: sendInputBind_def getInputBind_def getName_sent [OF assms(1) name] getDateBind_def
          getDate_sent [OF assms(1)] fits_in_def arrives_in_def Let_def)
  qed (use assms in \<open>auto simp: sendInputBind_def getInputBind_def getName_sent [OF assms(1) name] getStringBind_def
      getLobBind_def getIntegerBind_def getNullBind_def getSizedBind_sent [OF assms(1)] fits_in_def arrives_in_def
      bind_sock_okD [OF assms(1)] Let_def dest: memoryBytes_length\<close>)
qed

lemma getOutputBind_sent:
  assumes "bind_sock_ok B" and "fits_out L v" and "sendOutputBind B v = Some bs" and "cv_value v = C_Cursor \<longrightarrow> (\<exists>i k'. newcursor k = (Some i, k'))"
  shows "\<exists>bv' k'. getOutputBind B L f g newcursor bv k (bs @ r) = Inr ((bv', k'), r) \<and> arrives_out f v bv'"
proof -
  have name: "name_fits L v" using assms(2) by (simp add: fits_out_def)
  show ?thesis
    using assms(2-4) by (cases "cv_value v") (auto simp: sendOutputBind_def getOutputBind_def getName_sent [OF assms(1) name]
        getBindSize_def fits_out_def arrives_out_def bind_sock_okD [OF assms(1)] Let_def)
qed

lemma getInputOutputBind_sent:
  assumes "bind_sock_ok B" and "fits_inout L v" and "sendInputOutputBind B v = Some bs"
  shows "\<exists>bv'. getInputOutputBind B L f bv (bs @ r) = Inr (bv', r) \<and> arrives_inout f v bv'"
proof -
  have name: "name_fits L v" using assms(2) by (simp add: fits_inout_def)
  show ?thesis
  proof (cases "cv_value v")
    case (C_Date d)
    then show ?thesis
      using assms by (auto simp: sendInputOutputBind_def getInputOutputBind_def getName_sent [OF assms(1) name]
          getDateBind_def getDate_sent [OF assms(1)] fits_inout_def arrives_inout_def Let_def)
  qed (use assms in \<open>auto simp: sendInputOutputBind_def getInputOutputBind_def getName_sent [OF assms(1) name]
      getStringBind_def getIntegerBind_def getDoubleBind_def getBindSize_def getSizedBind_sent [OF assms(1)]
      fits_inout_def arrives_inout_def bind_sock_okD [OF assms(1)] Let_def dest: memoryBytes_length\<close>)
qed

section \<open>Lists of variables\<close>

text \<open>
  What the three lists of a request have in common: the server reads a variable that the client has sent
  and that fits, and nothing behind it. \<open>inv\<close> is what the reading carries along.
\<close>

locale variable_reader =
  fixes send :: "'d clientvar \<Rightarrow> bytes option"
    and one :: "'d serverbind \<Rightarrow> 'x \<Rightarrow> bytes \<Rightarrow> ('d serverbind \<times> 'x) request"
    and fits :: "'d clientvar \<Rightarrow> bool"
    and arrives :: "'d clientvar \<Rightarrow> 'd serverbind \<Rightarrow> bool"
  assumes reads_sent: "fits v \<Longrightarrow> send v = Some bs \<Longrightarrow>
    \<exists>bv' x'. one bv x (bs @ r) = Inr ((bv', x'), r) \<and> arrives v bv'"
begin

lemma fill_sent:
  assumes "those (map send vs) = Some bss" and "list_all fits vs" and "length vs \<le> length slots"
  shows "\<exists>new x'. fillSlots one (length vs) slots x (concat bss @ r) = Inr ((new @ drop (length vs) slots, x'), r) \<and>
    list_all2 arrives vs new"
  using assms
proof (induction vs arbitrary: bss slots x)
  case Nil
  then show ?case by simp
next
  case (Cons v vs)
  obtain bv rest where slots: "slots = bv # rest" using Cons.prems(3) by (cases slots) auto
  obtain bs bss' where bss: "send v = Some bs" "those (map send vs) = Some bss'" "bss = bs # bss'"
    using Cons.prems(1) by (auto split: option.splits)
  obtain bv' x' where one: "one bv x (bs @ concat bss' @ r) = Inr ((bv', x'), concat bss' @ r)" "arrives v bv'"
    using reads_sent [of v bs bv x "concat bss' @ r"] Cons.prems(2) bss(1) by auto
  obtain new x'' where "fillSlots one (length vs) rest x' (concat bss' @ r) = Inr ((new @ drop (length vs) rest, x''), r)"
    "list_all2 arrives vs new"
    using Cons.IH [OF bss(2), of rest x'] Cons.prems(2,3) slots by auto
  then show ?case
    using one by (intro exI [of _ "bv' # new"] exI [of _ x'']) (simp add: slots bss(3))
qed

lemma list_sent:
  assumes "those (map send vs) = Some bss" and "list_all fits vs" and "length vs \<le> length slots" and "unat n = length vs"
  shows "\<exists>new x'. fillSlots one (unat n) slots x (concat bss @ r) = Inr ((new, x'), r) \<and> length new = length slots \<and>
    list_all2 arrives vs (take (unat n) new) \<and> drop (unat n) new = drop (unat n) slots"
proof -
  obtain new x' where new: "fillSlots one (length vs) slots x (concat bss @ r) = Inr ((new @ drop (length vs) slots, x'), r)"
    "list_all2 arrives vs new" using fill_sent [OF assms(1-3)] by blast
  have "length new = length vs" using new(2) by (simp add: list_all2_lengthD)
  then show ?thesis using new assms(3,4) by (intro exI [of _ "new @ drop (length vs) slots"] exI [of _ x']) simp
qed

end

interpretation input_reader: variable_reader "sendInputBind B" "withUnit (getInputBind B L f)"
  "\<lambda>v. bind_sock_ok B \<and> fits_in L v" "arrives_in f" for B L f
proof unfold_locales
  fix v bs bv r and x :: unit
  assume "bind_sock_ok B \<and> fits_in L v" and "sendInputBind B v = Some bs"
  then show "\<exists>bv' x'. withUnit (getInputBind B L f) bv x (bs @ r) = Inr ((bv', x'), r) \<and> arrives_in f v bv'"
    using getInputBind_sent [of B L v bs f bv r] by (auto simp: withUnit_def)
qed

interpretation output_reader: variable_reader "sendOutputBind B" "getOutputBind B L f g newcursor"
  "\<lambda>v. bind_sock_ok B \<and> fits_out L v \<and> (cv_value v = C_Cursor \<longrightarrow> (\<forall>k. \<exists>i k'. newcursor k = (Some i, k')))"
  "arrives_out f" for B L f g newcursor
proof unfold_locales
  fix v bs bv x r
  assume "bind_sock_ok B \<and> fits_out L v \<and> (cv_value v = C_Cursor \<longrightarrow> (\<forall>k. \<exists>i k'. newcursor k = (Some i, k')))"
    and "sendOutputBind B v = Some bs"
  then have "\<exists>bv' k'. getOutputBind B L f g newcursor bv x (bs @ r) = Inr ((bv', k'), r) \<and> arrives_out f v bv'"
    by (intro getOutputBind_sent) auto
  then show "\<exists>bv' x'. getOutputBind B L f g newcursor bv x (bs @ r) = Inr ((bv', x'), r) \<and> arrives_out f v bv'" .
qed

interpretation inout_reader: variable_reader "sendInputOutputBind B" "withUnit (getInputOutputBind B L f)"
  "\<lambda>v. bind_sock_ok B \<and> fits_inout L v" "arrives_inout f" for B L f
proof unfold_locales
  fix v bs bv r and x :: unit
  assume "bind_sock_ok B \<and> fits_inout L v" and "sendInputOutputBind B v = Some bs"
  then show "\<exists>bv' x'. withUnit (getInputOutputBind B L f) bv x (bs @ r) = Inr ((bv', x'), r) \<and> arrives_inout f v bv'"
    using getInputOutputBind_sent [of B L v bs f bv r] by (auto simp: withUnit_def)
qed

section \<open>The whole request\<close>

text \<open>The variables that are sent.\<close>

abbreviation "to_send vars \<equiv> filter cv_send vars"

lemma sendBinds_sent:
  assumes "sendBinds B one vars = Some bs" and "length vars < 65536"
  shows "\<exists>bss. those (map one (to_send vars)) = Some bss \<and> unat (of_nat (length (to_send vars)) :: u16) = length (to_send vars) \<and>
    bs = put16 (sockc B) (of_nat (length (to_send vars))) @ concat bss"
proof -
  have n: "unat (of_nat (length vars) :: u16) = length vars" using assms(2) by (simp add: unat_of_nat)
  have "length vars = length (to_send vars) + length (filter (\<lambda>v. \<not> cv_send v) vars)"
    by (induction vars) auto
  then have "(of_nat (length vars) :: u16) - of_nat (length (filter (\<lambda>v. \<not> cv_send v) vars)) = of_nat (length (to_send vars))"
    by (metis add_diff_cancel_right' of_nat_add)
  moreover have "length (to_send vars) < 65536" by (rule le_less_trans [OF length_filter_le assms(2)])
  ultimately show ?thesis using assms by (auto simp: sendBinds_def Let_def n unat_of_nat)
qed

text \<open>The slots of an array and what comes into them.\<close>

definition filled :: "('d clientvar \<Rightarrow> 'd serverbind \<Rightarrow> bool) \<Rightarrow> 'd clientvar list \<Rightarrow> u16 \<Rightarrow> 'd serverbind list \<Rightarrow>
    'd serverbind list \<Rightarrow> bool" where
  "filled arrives vars n old new \<longleftrightarrow> unat n = length (to_send vars) \<and> length new = length old \<and>
     list_all2 arrives (to_send vars) (take (unat n) new) \<and> drop (unat n) new = drop (unat n) old"

text \<open>What the server has room for, and cursors for.\<close>

definition request_fits :: "('d, 'k) requestenv \<Rightarrow> 'd clientrequest \<Rightarrow> bool" where
  "request_fits E q \<longleftrightarrow>
     length (rq_clientinfo q) \<le> unat (maxclientinfosize (re_limits E)) \<and>
     length (rq_query q) \<le> unat (maxquerysize (re_limits E)) \<and> length (rq_query q) < 2 ^ 31 \<and>
     (\<forall>vars \<in> {rq_inbinds q, rq_outbinds q, rq_inoutbinds q}.
        length vars < 65536 \<and> length (to_send vars) \<le> unat (maxbindcount (re_limits E))) \<and>
     list_all (fits_in (re_limits E)) (to_send (rq_inbinds q)) \<and>
     list_all (\<lambda>v. fits_out (re_limits E) v \<and>
       (cv_value v = C_Cursor \<longrightarrow> (\<forall>k. \<exists>i k'. re_newcursor E k = (Some i, k')))) (to_send (rq_outbinds q)) \<and>
     list_all (fits_inout (re_limits E)) (to_send (rq_inoutbinds q))"

text \<open>The arrays of the server's cursor have \<open>maxbindcount\<close> slots.\<close>

definition has_slots :: "('d, 'k) requestenv \<Rightarrow> 'd serverrequest \<Rightarrow> bool" where
  "has_slots E q \<longleftrightarrow> (\<forall>slots \<in> {sr_inbinds q, sr_outbinds q, sr_inoutbinds q}. length slots = unat (maxbindcount (re_limits E)))"

text \<open>The bind variables of a request, which a query that is run again has as well.\<close>

definition binds_arrive :: "('d, 'k) requestenv \<Rightarrow> 'd clientrequest \<Rightarrow> 'd serverrequest \<Rightarrow> 'd serverrequest \<Rightarrow> bool" where
  "binds_arrive E q old new \<longleftrightarrow>
     filled (arrives_in (re_format E)) (rq_inbinds q) (sr_incount new) (sr_inbinds old) (sr_inbinds new) \<and>
     filled (arrives_out (re_format E)) (rq_outbinds q) (sr_outcount new) (sr_outbinds old) (sr_outbinds new) \<and>
     filled (arrives_inout (re_format E)) (rq_inoutbinds q) (sr_inoutcount new) (sr_inoutbinds old) (sr_inoutbinds new) \<and>
     (sr_sendcolumninfo new \<longleftrightarrow> rq_sendcolumninfo q = SEND_COLUMN_INFO)"

lemma getBindVarCount_sent:
  assumes "bind_sock_ok B" and "unat n \<le> unat (maxbindcount L)"
  shows "getBindVarCount (sockc B) L (put16 (sockc B) n @ r) = Inr (n, r)"
  using assms by (simp add: getBindVarCount_def bind_sock_okD word_less_nat_alt)

lemma getBinds_sent:
  assumes "bind_sock_ok (re_codec E)" and "request_fits E q" and "has_slots E sr" and "2 \<le> version"
    and "sendInputBinds (re_codec E) (rq_inbinds q) = Some ins" and "sendOutputBinds (re_codec E) (rq_outbinds q) = Some outs"
    and "sendInputOutputBinds (re_codec E) (rq_inoutbinds q) = Some inouts"
  shows "\<exists>new k'. getBinds E version (sr, k)
      (ins @ outs @ inouts @ sendGetColumnInfo (sockc (re_codec E)) q @ r) = Inr ((new, k'), r) \<and>
    binds_arrive E q sr new \<and> sr_clientinfo new = sr_clientinfo sr \<and> sr_query new = sr_query sr"
proof -
  let ?B = "re_codec E" and ?L = "re_limits E" and ?f = "re_format E"
  note ok = assms(1) and fits = assms(2) [unfolded request_fits_def]
  define tail where "tail = sendGetColumnInfo (sockc ?B) q @ r"
  obtain iss where i: "those (map (sendInputBind ?B) (to_send (rq_inbinds q))) = Some iss"
    "unat (of_nat (length (to_send (rq_inbinds q))) :: u16) = length (to_send (rq_inbinds q))"
    "ins = put16 (sockc ?B) (of_nat (length (to_send (rq_inbinds q)))) @ concat iss"
    using sendBinds_sent [of ?B "sendInputBind ?B" "rq_inbinds q" ins] assms(5) fits by (auto simp: sendInputBinds_def)
  obtain oss where o: "those (map (sendOutputBind ?B) (to_send (rq_outbinds q))) = Some oss"
    "unat (of_nat (length (to_send (rq_outbinds q))) :: u16) = length (to_send (rq_outbinds q))"
    "outs = put16 (sockc ?B) (of_nat (length (to_send (rq_outbinds q)))) @ concat oss"
    using sendBinds_sent [of ?B "sendOutputBind ?B" "rq_outbinds q" outs] assms(6) fits by (auto simp: sendOutputBinds_def)
  obtain bss where b: "those (map (sendInputOutputBind ?B) (to_send (rq_inoutbinds q))) = Some bss"
    "unat (of_nat (length (to_send (rq_inoutbinds q))) :: u16) = length (to_send (rq_inoutbinds q))"
    "inouts = put16 (sockc ?B) (of_nat (length (to_send (rq_inoutbinds q)))) @ concat bss"
    using sendBinds_sent [of ?B "sendInputOutputBind ?B" "rq_inoutbinds q" inouts] assms(7) fits
    by (auto simp: sendInputOutputBinds_def)
  let ?ni = "of_nat (length (to_send (rq_inbinds q))) :: u16" and ?no = "of_nat (length (to_send (rq_outbinds q))) :: u16"
    and ?nb = "of_nat (length (to_send (rq_inoutbinds q))) :: u16"
  obtain slots1 where s1: "fillSlots (withUnit (getInputBind ?B ?L ?f)) (unat ?ni) (sr_inbinds sr) () (concat iss @ outs @ inouts @ tail) =
      Inr ((slots1, ()), outs @ inouts @ tail)"
    "length slots1 = length (sr_inbinds sr)" "list_all2 (arrives_in ?f) (to_send (rq_inbinds q)) (take (unat ?ni) slots1)"
    "drop (unat ?ni) slots1 = drop (unat ?ni) (sr_inbinds sr)"
    using input_reader.list_sent [where B = ?B and L = ?L and f = ?f, OF i(1), of "sr_inbinds sr" ?ni "()" "outs @ inouts @ tail"]
      i(2) ok fits assms(3) by (auto simp: has_slots_def list_all_iff)
  obtain slots2 k' where s2: "fillSlots (getOutputBind ?B ?L ?f (re_garbage E) (re_newcursor E)) (unat ?no) (sr_outbinds sr) k
      (concat oss @ inouts @ tail) = Inr ((slots2, k'), inouts @ tail)"
    "length slots2 = length (sr_outbinds sr)" "list_all2 (arrives_out ?f) (to_send (rq_outbinds q)) (take (unat ?no) slots2)"
    "drop (unat ?no) slots2 = drop (unat ?no) (sr_outbinds sr)"
    using output_reader.list_sent [where B = ?B and L = ?L and f = ?f, OF o(1), of "re_newcursor E" "sr_outbinds sr" ?no
        "re_garbage E" k "inouts @ tail"] o(2) ok fits assms(3) by (auto simp: has_slots_def list_all_iff)
  obtain slots3 where s3: "fillSlots (withUnit (getInputOutputBind ?B ?L ?f)) (unat ?nb) (sr_inoutbinds sr) () (concat bss @ tail) =
      Inr ((slots3, ()), tail)"
    "length slots3 = length (sr_inoutbinds sr)" "list_all2 (arrives_inout ?f) (to_send (rq_inoutbinds q)) (take (unat ?nb) slots3)"
    "drop (unat ?nb) slots3 = drop (unat ?nb) (sr_inoutbinds sr)"
    using inout_reader.list_sent [where B = ?B and L = ?L and f = ?f, OF b(1), of "sr_inoutbinds sr" ?nb "()" tail]
      b(2) ok fits assms(3) by (auto simp: has_slots_def list_all_iff)
  have counts: "unat ?ni \<le> unat (maxbindcount ?L)" "unat ?no \<le> unat (maxbindcount ?L)" "unat ?nb \<le> unat (maxbindcount ?L)"
    using i(2) o(2) b(2) fits by auto
  have v: "\<not> version < 2" using assms(4) by simp
  define new where "new = sr\<lparr>sr_incount := ?ni, sr_inbinds := slots1, sr_outcount := ?no, sr_outbinds := slots2,
    sr_inoutcount := ?nb, sr_inoutbinds := slots3, sr_sendcolumninfo := (rq_sendcolumninfo q = SEND_COLUMN_INFO)\<rparr>"
  have "getBinds E version (sr, k) (ins @ outs @ inouts @ tail) = Inr ((new, k'), r)"
    using v s1(1) s2(1) s3(1)
    by (simp add: getBinds_def getInputBinds_def getOutputBinds_def getInputOutputBinds_def getSendColumnInfo_def
        i(3) o(3) b(3) getBindVarCount_sent [OF ok counts(1)] getBindVarCount_sent [OF ok counts(2)]
        getBindVarCount_sent [OF ok counts(3)] tail_def sendGetColumnInfo_def bind_sock_okD [OF ok] new_def Let_def)
  moreover have "binds_arrive E q sr new"
    using s1 s2 s3 i(2) o(2) b(2) by (simp add: binds_arrive_def filled_def new_def)
  ultimately show ?thesis unfolding tail_def by (intro exI [of _ new] exI [of _ k']) (simp add: new_def)
qed

text \<open>
  C6: a query that a client sends, with its bind variables, arrives at the server as it was sent: client
  info and query are the same, the variables are in the first slots in their order, with the names in
  the format of the database and their values, the other slots are untouched, and what follows in the
  input are the numbers for the first block of rows.
\<close>

theorem request_received:
  assumes "bind_sock_ok (re_codec E)" and "request_fits E q" and "has_slots E sr" and "2 \<le> version"
    and "\<not> rq_reexecute q" and "runQuery (re_codec E) q = Some request"
  shows "\<exists>body new k'. request = put16 (sockc (re_codec E)) 0 @ sendCursorStatus (sockc (re_codec E)) q @ body \<and>
    getNewQuery E version (sr, k) (body @ r) = Inr ((new, k'), initialSkipAndFetch (sockc (re_codec E)) q @ r) \<and>
    sr_clientinfo new = rq_clientinfo q \<and> sr_query new = rq_query q \<and> binds_arrive E q sr new"
proof -
  let ?B = "re_codec E" and ?C = "sockc (re_codec E)"
  note ok = assms(1) and fits = assms(2) [unfolded request_fits_def]
  obtain ins outs inouts where sent: "sendInputBinds ?B (rq_inbinds q) = Some ins"
    "sendOutputBinds ?B (rq_outbinds q) = Some outs" "sendInputOutputBinds ?B (rq_inoutbinds q) = Some inouts"
    and request: "request = sendQueryInternal ?C q @ ins @ outs @ inouts @ sendGetColumnInfo ?C q @ initialSkipAndFetch ?C q"
    using assms(6) by (auto simp: runQuery_def bind_eq_Some_conv)
  let ?i = "of_nat (length (rq_clientinfo q)) :: u64" and ?n = "of_nat (length (rq_query q)) :: u32"
  define tail where "tail = ins @ outs @ inouts @ sendGetColumnInfo ?C q @ initialSkipAndFetch ?C q"
  define body where "body = put64 ?C ?i @ rq_clientinfo q @ put32 ?C ?n @ rq_query q @ tail"
  have i: "unat ?i = length (rq_clientinfo q)"
    using fits unsigned_less [of "maxclientinfosize (re_limits E)", where 'a = nat] by (intro unat_u64) simp
  have n: "unat ?n = length (rq_query q)" using fits by (intro unat_u32) simp
  have info: "getClientInfo ?C (re_limits E) (put64 ?C ?i @ rq_clientinfo q @ s) = Inr (rq_clientinfo q, s)" for s
    using fits i by (simp add: getClientInfo_def bind_sock_okD [OF ok] word_less_nat_alt)
  have query: "getQuery ?C (re_limits E) (put32 ?C ?n @ rq_query q @ s) = Inr (rq_query q, s)" for s
    using fits n by (simp add: getQuery_def bind_sock_okD [OF ok] word_less_nat_alt)
  define sr' where "sr' = sr\<lparr>sr_clientinfo := rq_clientinfo q, sr_query := rq_query q\<rparr>"
  have "has_slots E sr'" using assms(3) by (simp add: has_slots_def sr'_def)
  from getBinds_sent [OF ok assms(2) this assms(4) sent, of k "initialSkipAndFetch ?C q @ r"]
  obtain new k' where new: "getBinds E version (sr', k) (tail @ r) = Inr ((new, k'), initialSkipAndFetch ?C q @ r)"
    "binds_arrive E q sr' new" "sr_clientinfo new = rq_clientinfo q" "sr_query new = rq_query q"
    by (auto simp: tail_def sr'_def)
  have "getNewQuery E version (sr, k) (body @ r) = Inr ((new, k'), initialSkipAndFetch ?C q @ r)"
    using new(1) by (simp add: getNewQuery_def body_def info query Let_def sr'_def)
  moreover have "binds_arrive E q sr new" using new(2) by (simp add: binds_arrive_def sr'_def)
  moreover have "request = put16 ?C 0 @ sendCursorStatus ?C q @ body"
    using assms(5) by (simp add: request sendQueryInternal_def body_def tail_def)
  ultimately show ?thesis using new(3,4) by blast
qed

end
