(* ===== verification/Request_Outcomes.thy ===== *)
theory Request_Outcomes
  imports Request_Rules Result_Errors
begin

text \<open>
  What becomes of requests: a request beyond the limits is refused and the client is told why, a query
  waits for a database that is down, and some values do not arrive as the client gave them. A concrete
  socket, client and server run in the witnesses.
\<close>

section \<open>Refused requests\<close>

text \<open>An error that the server finds itself has no state; the client reads an empty one.\<close>

lemma noSqlState_sent:
  assumes "sock_ok C" and "3 \<le> version"
  shows "getSqlState C (sendSqlState C version [] @ r) = ([], r)"
  using leD [OF assms(2)] by (simp add: getSqlState_def sendSqlState_def Let_def sock_okD [OF assms(1)])

lemma cursorError_told:
  assumes "sock_ok C" and "3 \<le> version" and "length (err_string e) < 2 ^ 16" and "err_sqlstate e = []"
  shows "\<exists>r'. getErrorStatus C cl (cursorError C version forced e i) =
      (if forced \<or> \<not> err_live e then ERROR_OCCURRED_DISCONNECT else ERROR_OCCURRED, cl, r') \<and>
    getErrorFromServer C cl r' =
      (cl\<lparr>errorno := err_number e, clienterror := Some (Server_Error (err_string e)), sqlstate := [],
          endofresultset := True\<rparr>, put16 C i)"
proof -
  define status where "status = (if forced \<or> \<not> err_live e then ERROR_OCCURRED_DISCONNECT else ERROR_OCCURRED)"
  define report where "report = put64 C (err_number e) @ put16 C (of_nat (length (err_string e))) @ err_string e @
    sendSqlState C version [] @ put16 C i"
  have "getErrorStatus C cl (put16 C status @ report) = (status, cl, report)"
    by (simp add: getErrorStatus_def sock_okD [OF assms(1)])
  moreover have "getErrorFromServer C cl report =
      (cl\<lparr>errorno := err_number e, clienterror := Some (Server_Error (err_string e)), sqlstate := [],
          endofresultset := True\<rparr>, put16 C i)"
    using unat_u16 [OF assms(3)] noSqlState_sent [OF assms(1,2)]
    by (simp add: report_def getErrorFromServer_def sock_okD [OF assms(1)])
  ultimately show ?thesis
    using assms(4) by (simp add: cursorError_def status_def [symmetric] report_def)
qed

text \<open>The error text of a limit is short.\<close>

lemma natText_digits: "n < 10 ^ Suc k \<Longrightarrow> length (natText n) \<le> Suc k"
proof (induction k arbitrary: n)
  case 0
  then show ?case by (subst natText.simps) (simp del: natText.simps)
next
  case (Suc k)
  then have "length (natText (n div 10)) \<le> Suc k" by (intro Suc.IH) (simp add: less_mult_imp_div_less)
  then show ?case by (subst natText.simps) (simp del: natText.simps)
qed

lemma natText_u32: "length (natText (unat (n :: u32))) \<le> 10"
  using natText_digits [of "unat n" 9] unsigned_less [of n, where 'a = nat] by simp

lemma limitText_short: "length (limitText message (unat (n :: u32)) (unat (l :: u32))) \<le> length message + 24"
  using natText_u32 [of n] natText_u32 [of l] by (simp add: limitText_def del: natText.simps)

text \<open>Whatever the limit: the session ends, and the client has the number and the text of the error.\<close>

lemma refused_told:
  assumes "sock_ok (sockc (re_codec E))" and "3 \<le> protocolversion cs" and "length (errorText e) < 2 ^ 16"
  shows "\<exists>out s' r'. refuseRequest E (Some e) s cs k = (False, out, s', cs, k) \<and>
    getErrorStatus (sockc (re_codec E)) cl out = (ERROR_OCCURRED_DISCONNECT, cl, r') \<and>
    getErrorFromServer (sockc (re_codec E)) cl r' =
      (cl\<lparr>errorno := errorNumber e, clienterror := Some (Server_Error (map of_char (errorText e))), sqlstate := [],
          endofresultset := True\<rparr>, put16 (sockc (re_codec E)) (re_cursorid E))"
proof -
  let ?C = "sockc (re_codec E)"
  define err where "err = \<lparr>err_number = errorNumber e, err_string = map of_char (errorText e), err_live = True,
    err_sqlstate = []\<rparr>"
  have err: "err_number err \<noteq> 0" by (cases e) (simp_all add: err_def)
  have "refuseRequest E (Some e) s cs k = (False, cursorError ?C (protocolversion cs) True err (re_cursorid E),
      dropNumber ?C (dropNumber ?C s), cs, k)"
    using err by (simp add: refuseRequest_def returnError_def Let_def err_def [symmetric])
  moreover have "length (err_string err) < 2 ^ 16" "err_sqlstate err = []" using assms(3) by (simp_all add: err_def)
  ultimately show ?thesis
    using cursorError_told [OF assms(1,2), of err cl True "re_cursorid E"] by (auto simp: err_def)
qed

text \<open>
  C22: a query that is longer than the server allows is not run: the session of the client ends, and the
  client gets the number and the text of the error, and the number of the cursor behind it.
\<close>

theorem long_query_refused:
  assumes "bind_sock_ok (re_codec E)" and "3 \<le> protocolversion cs" and "\<not> rq_reexecute q"
    and "runQuery (re_codec E) q = Some request"
    and "length (rq_clientinfo q) \<le> unat (maxclientinfosize (re_limits E))"
    and "unat (maxquerysize (re_limits E)) < length (rq_query q)" and "length (rq_query q) < 2 ^ 32"
  shows "\<exists>body out s' r'.
    request = put16 (sockc (re_codec E)) 0 @ sendCursorStatus (sockc (re_codec E)) q @ body \<and>
    newQueryCommand E sr (body @ r) cs k = Some (False, out, s', cs, k) \<and>
    getErrorStatus (sockc (re_codec E)) cl out = (ERROR_OCCURRED_DISCONNECT, cl, r') \<and>
    getErrorFromServer (sockc (re_codec E)) cl r' =
      (cl\<lparr>errorno := 900002, clienterror := Some (Server_Error (map of_char
             (limitText ''Maximum query size exceeded.'' (length (rq_query q)) (unat (maxquerysize (re_limits E)))))),
          sqlstate := [], endofresultset := True\<rparr>, put16 (sockc (re_codec E)) (re_cursorid E))"
proof -
  let ?B = "re_codec E" and ?C = "sockc (re_codec E)"
  let ?i = "of_nat (length (rq_clientinfo q)) :: u64" and ?n = "of_nat (length (rq_query q)) :: u32"
  note ok = assms(1)
  obtain tail where request: "request = sendQueryInternal ?C q @ tail"
    using assms(4) by (auto simp: runQuery_def bind_eq_Some_conv)
  define body where "body = put64 ?C ?i @ rq_clientinfo q @ put32 ?C ?n @ rq_query q @ tail"
  have i: "unat ?i = length (rq_clientinfo q)"
    using assms(5) unsigned_less [of "maxclientinfosize (re_limits E)", where 'a = nat] by (intro unat_u64) simp
  have n: "unat ?n = length (rq_query q)" using assms(7) by (intro unat_u32)
  let ?e = "Max_Query_Size (unat ?n) (unat (maxquerysize (re_limits E)))"
  have "getClientInfo ?C (re_limits E) (body @ r) = Inr (rq_clientinfo q, put32 ?C ?n @ rq_query q @ tail @ r)"
    using assms(5) i by (simp add: getClientInfo_def body_def bind_sock_okD [OF ok] word_less_nat_alt)
  moreover have "getQuery ?C (re_limits E) (put32 ?C ?n @ rq_query q @ tail @ r) = Inl (Some ?e)"
    using assms(6) n by (simp add: getQuery_def bind_sock_okD [OF ok] word_less_nat_alt)
  ultimately have "newQueryCommand E sr (body @ r) cs k = Some (refuseRequest E (Some ?e) [] cs k)"
    by (simp add: newQueryCommand_def getNewQuery_def Let_def)
  moreover have "length (errorText ?e) < 2 ^ 16"
    using limitText_short [of "''Maximum query size exceeded.''" ?n "maxquerysize (re_limits E)"] by simp
  moreover have "sock_ok ?C" using ok by (simp add: bind_sock_ok_def)
  moreover have "request = put16 ?C 0 @ sendCursorStatus ?C q @ body"
    using assms(3) by (simp add: request sendQueryInternal_def body_def)
  ultimately show ?thesis
    using refused_told [of E cs ?e "[]" k cl] assms(2) n by auto
qed

section \<open>A database that is down\<close>

text \<open>One attempt, after which the server logs in again.\<close>

definition nextAttempt :: "('d, 'k) requestenv \<Rightarrow> runmode \<Rightarrow> 'd serverrequest \<Rightarrow> 'k \<Rightarrow> 'k" where
  "nextAttempt E mode q k = re_relogin E (snd (runOnce E mode q k))"

definition attempt_lost :: "('d, 'k) requestenv \<Rightarrow> runmode \<Rightarrow> 'd serverrequest \<Rightarrow> 'k \<Rightarrow> bool" where
  "attempt_lost E mode q k \<longleftrightarrow> (case runOnce E mode q k of (ok, k) \<Rightarrow> \<not> ok \<and> \<not> re_live E k \<and> \<not> re_shutdown E k)"

text \<open>
  C14: where the configuration says to wait for a database that is down, a query is run again until the
  database is back: after any number of attempts that find it down, the client gets the result set of
  the attempt that succeeds, and nothing of those before.
\<close>

theorem down_database_waited_for:
  assumes "re_waitfordowndb E" and "\<forall>i<n. attempt_lost E mode q ((nextAttempt E mode q ^^ i) k)"
    and "runOnce E mode q ((nextAttempt E mode q ^^ n) k) = (True, k')"
    and "getSkipAndFetch (sockc (re_codec E)) True s cs = Some (cs', s')"
  shows "processQueryOrBindCursor E mode q out s cs k = answerRows E mode q out s' cs' k'"
  using assms(2,3)
proof (induction n arbitrary: k)
  case 0
  then show ?case using assms(4) by (subst processQueryOrBindCursor.simps) simp
next
  case (Suc n)
  have "attempt_lost E mode q k" using Suc.prems(1) by force
  then have "processQueryOrBindCursor E mode q out s cs k =
      processQueryOrBindCursor E mode q out s cs (nextAttempt E mode q k)"
    using assms(1)
    by (subst processQueryOrBindCursor.simps) (auto simp: attempt_lost_def nextAttempt_def Let_def split: prod.splits)
  also have "\<dots> = answerRows E mode q out s' cs' k'"
  proof (rule Suc.IH)
    show "\<forall>i<n. attempt_lost E mode q ((nextAttempt E mode q ^^ i) (nextAttempt E mode q k))"
      using Suc.prems(1) by (metis Suc_less_eq comp_apply funpow_Suc_right)
    show "runOnce E mode q ((nextAttempt E mode q ^^ n) (nextAttempt E mode q k)) = (True, k')"
      using Suc.prems(2) by (metis comp_apply funpow_Suc_right)
  qed
  finally show ?case .
qed

section \<open>Values that change on the way\<close>

text \<open>
  The date of an input/output variable arrives with its hour and its minute exchanged.
\<close>

theorem inout_date_exchanged:
  assumes "bind_sock_ok B" and "defineInputOutputBindDate variable d [] = Some [v]" and "name_fits L v" and "date_fits d"
    and "sendInputOutputBind B v = Some bs" and "variable \<noteq> []"
  shows "\<exists>bv'. getInputOutputBind B L f bv (bs @ r) = Inr (bv', r) \<and>
    sb_value bv' = S_Date (arrived_date (d\<lparr>d_hour := d_minute d, d_minute := d_hour d\<rparr>))"
proof -
  have v: "cv_value v = C_Date (d\<lparr>d_hour := d_minute d, d_minute := d_hour d\<rparr>)"
    using assms(2,6) by (auto simp: defineInputOutputBindDate_def defineInputOutputBindGeneric_def setVar_def findVar_def)
  then have "fits_inout L v" using assms(3,4) by (simp add: fits_inout_def date_fits_def)
  then show ?thesis using getInputOutputBind_sent [OF assms(1) _ assms(5), of L f bv r] v by (auto simp: arrives_inout_def)
qed

text \<open>
  A string that is copied for the client, and given with a size beyond its end, makes the request read
  memory behind the copy; the same string without the copy is sent.
\<close>

theorem copied_string_read_beyond:
  assumes "inputBind_sized copyrefs variable (Some s) n [] = Some [v]" and "variable \<noteq> []"
    and "length (cstr s) + 1 < unat n" and "unat n \<le> length s"
  shows "sendInputBind B v = None \<longleftrightarrow> copyrefs"
  using assms
  by (auto simp: inputBind_sized_def stringVar_def setVar_def findVar_def sendInputBind_def memoryBytes_def Let_def
      split: if_splits)

text \<open>
  A client that resumes a result set sends the flags of a query; the server takes them for rows to skip,
  and keeps the lazy fetch of the cursor as it was.
\<close>

theorem resume_flags_read_as_rows:
  assumes "sock_ok C"
  shows "getSkipAndFetch C False (initialSkipAndFetch C q @ r) cs =
    Some (cs\<lparr>skip := (if rq_lazyfetch q then 1 else 0), fetch := rq_rsbuffersize q\<rparr>, r)"
  by (simp add: getSkipAndFetch_def initialSkipAndFetch_def sock_okD [OF assms])

end
