(* ===== verification/Request_Samples.thy ===== *)
theory Request_Samples
  imports Request_Outcomes
begin

text \<open>A concrete socket, client and server, on which the theorems about requests apply.\<close>

section \<open>The sample\<close>

text \<open>A double is its 64 bits.\<close>

definition be_bind :: "u64 bindcodec" where
  "be_bind = \<lparr>sockc = be_sock, putBool = (\<lambda>b. [if b then 1 else 0]),
     getBool = (\<lambda>s. case s of [] \<Rightarrow> None | b # r \<Rightarrow> Some (b \<noteq> 0, r)), putDouble = be_bytes 8, getDouble = be_get 8,
     copyString = (\<lambda>n s. take n (s @ replicate n 0))\<rparr>"

lemma be_bind_ok: "bind_sock_ok be_bind"
  by (simp add: bind_sock_ok_def be_bind_def be_sock_ok be_get_put min_def)

text \<open>The state of the controller is the number of attempts for which the database stays down.\<close>

definition sample_env :: "(u64, nat) requestenv" where
  "sample_env = \<lparr>re_codec = be_bind, re_limits = \<lparr>maxclientinfosize = 512, maxquerysize = 16, maxbindcount = 2,
       maxbindnamesize = 8, maxstringbindvaluesize = 100, maxlobbindvaluesize = 100\<rparr>,
     re_format = 58, re_garbage = 0, re_newcursor = (\<lambda>k. (Some 4, k)), re_waitfordowndb = True, re_cursorid = 3,
     re_prepareAndExecute = (\<lambda>q k. (k = 0, k)), re_executeAgain = (\<lambda>q k. (k = 0, k)),
     re_fetchFromBindCursor = (\<lambda>k. (k = 0, k)), re_live = (\<lambda>k. k = 0),
     re_error = (\<lambda>k. \<lparr>err_number = 1, err_string = [], err_live = k = 0, err_sqlstate = []\<rparr>),
     re_shutdown = (\<lambda>k. False), re_relogin = (\<lambda>k. k - 1), re_header = (\<lambda>version info q k. Some ([], k)),
     re_data = (\<lambda>cs k. Some (True, [], cs, k))\<rparr>"

text \<open>A string, a date, a number that comes back, and a result.\<close>

abbreviation "sample_date \<equiv> \<lparr>d_year = 2024, d_month = 2, d_day = 29, d_hour = 23, d_minute = 59, d_second = 58,
  d_microsecond = 7, d_tz = Some [71, 77, 84], d_isnegative = False\<rparr>"

definition sample_query :: "u64 clientrequest" where
  "sample_query = \<lparr>rq_reexecute = False, rq_havecursorid = False, rq_cursorid = 0, rq_clientinfo = [105],
     rq_query = [115, 101, 108], rq_sendcolumninfo = 1, rq_lazyfetch = False, rq_rsbuffersize = 10,
     rq_inbinds = [\<lparr>cv_variable = [97], cv_value = C_String [104, 105, 0], cv_size = 2, cv_send = True\<rparr>,
                   \<lparr>cv_variable = [98], cv_value = C_Null, cv_size = 0, cv_send = False\<rparr>,
                   \<lparr>cv_variable = [99], cv_value = C_Date sample_date, cv_size = 0, cv_send = True\<rparr>],
     rq_outbinds = [\<lparr>cv_variable = [100], cv_value = C_String [], cv_size = 50, cv_send = True\<rparr>,
                    \<lparr>cv_variable = [101], cv_value = C_Cursor, cv_size = 0, cv_send = True\<rparr>],
     rq_inoutbinds = [\<lparr>cv_variable = [102], cv_value = C_Integer 5, cv_size = 8, cv_send = True\<rparr>]\<rparr>"

abbreviation empty_slot :: "u64 serverbind" where
  "empty_slot \<equiv> \<lparr>sb_variable = [], sb_type = 0, sb_size = 0, sb_value = S_None, sb_isnull = False\<rparr>"

definition empty_request :: "u64 serverrequest" where
  "empty_request = \<lparr>sr_clientinfo = [], sr_query = [], sr_incount = 0, sr_inbinds = replicate 2 empty_slot,
     sr_outcount = 0, sr_outbinds = replicate 2 empty_slot, sr_inoutcount = 0, sr_inoutbinds = replicate 2 empty_slot,
     sr_sendcolumninfo = False\<rparr>"

lemma sample_sent: "\<exists>request. runQuery be_bind sample_query = Some request"
  by (simp add: runQuery_def sample_query_def sendInputBinds_def sendOutputBinds_def sendInputOutputBinds_def sendBinds_def
      sendInputBind_def sendOutputBind_def sendInputOutputBind_def memoryBytes_def Let_def)

lemma sample_fits: "request_fits sample_env sample_query" "has_slots sample_env empty_request"
  by (simp_all add: request_fits_def sample_env_def sample_query_def fits_in_def fits_out_def fits_inout_def name_fits_def
      size_fits_def date_fits_def has_slots_def empty_request_def word_le_nat_alt)

section \<open>The theorems on the sample\<close>

theorem request_received_witness:
  "\<exists>request body new. runQuery be_bind sample_query = Some request \<and>
    request = put16 be_sock 0 @ sendCursorStatus be_sock sample_query @ body \<and>
    getNewQuery sample_env 2 (empty_request, 0) body = Inr (new, initialSkipAndFetch be_sock sample_query) \<and>
    sr_query (fst new) = [115, 101, 108] \<and> binds_arrive sample_env sample_query empty_request (fst new)"
proof -
  obtain request where request: "runQuery be_bind sample_query = Some request" using sample_sent by blast
  have env: "re_codec sample_env = be_bind" "sockc be_bind = be_sock" by (simp_all add: sample_env_def be_bind_def)
  have "\<not> rq_reexecute sample_query" "rq_query sample_query = [115, 101, 108]" by (simp_all add: sample_query_def)
  then show ?thesis
    using request_received [of sample_env sample_query empty_request 2 request 0 "[]"] request sample_fits be_bind_ok
    by (simp add: env) blast
qed

theorem long_query_refused_witness:
  "\<exists>body out s' r' cl'. newQueryCommand sample_env empty_request body sample_session 0 =
      Some (False, out, s', sample_session, 0) \<and>
    getErrorStatus be_sock sample_client out = (ERROR_OCCURRED_DISCONNECT, sample_client, r') \<and>
    getErrorFromServer be_sock sample_client r' = (cl', put16 be_sock 3) \<and> errorno cl' = 900002"
proof -
  let ?q = "sample_query\<lparr>rq_query := replicate 17 97\<rparr>"
  have env: "re_codec sample_env = be_bind" "sockc be_bind = be_sock" "re_cursorid sample_env = 3"
    by (simp_all add: sample_env_def be_bind_def)
  obtain request where "runQuery be_bind ?q = Some request"
    using sample_sent by (auto simp: runQuery_def bind_eq_Some_conv)
  moreover have "\<not> rq_reexecute ?q" "length (rq_query ?q) = 17" "length (rq_clientinfo ?q) = 1"
    "maxclientinfosize (re_limits sample_env) = 512" "maxquerysize (re_limits sample_env) = 16"
    by (simp_all add: sample_env_def sample_query_def)
  ultimately obtain body out s' r' where
    "newQueryCommand sample_env empty_request (body @ []) sample_session 0 = Some (False, out, s', sample_session, 0)"
    "getErrorStatus be_sock sample_client out = (ERROR_OCCURRED_DISCONNECT, sample_client, r')"
    "getErrorFromServer be_sock sample_client r' =
      (sample_client\<lparr>errorno := 900002, clienterror := Some (Server_Error (map of_char
         (limitText ''Maximum query size exceeded.'' 17 16))), sqlstate := [], endofresultset := True\<rparr>, put16 be_sock 3)"
    using long_query_refused [of sample_env sample_session ?q request empty_request "[]" 0 sample_client] be_bind_ok
    by (auto simp: env simp del: natText.simps)
  then show ?thesis
    by (intro exI [of _ "body @ []"] exI [of _ out] exI [of _ s'] exI [of _ r'] exI conjI) (assumption | simp)+
qed

theorem down_database_waited_for_witness:
  "processQueryOrBindCursor sample_env Run_New empty_request [] (put64 be_sock 0 @ put64 be_sock 10) sample_session 3 =
    answerRows sample_env Run_New empty_request [] [] (sample_session\<lparr>fetch := 10\<rparr>) 0"
proof -
  have env: "re_codec sample_env = be_bind" "sockc be_bind = be_sock" by (simp_all add: sample_env_def be_bind_def)
  have run: "runOnce sample_env Run_New empty_request k = (k = 0, k)" for k by (simp add: runOnce_def sample_env_def)
  have attempt: "nextAttempt sample_env Run_New empty_request k = k - 1" for k
    by (simp add: nextAttempt_def run) (simp add: sample_env_def)
  have state: "(nextAttempt sample_env Run_New empty_request ^^ i) 3 = 3 - i" for i
    by (induction i) (simp_all add: attempt)
  have lost: "\<forall>i<3. attempt_lost sample_env Run_New empty_request ((nextAttempt sample_env Run_New empty_request ^^ i) 3)"
    by (simp add: state attempt_lost_def run) (simp add: sample_env_def)
  have "getSkipAndFetch be_sock True (put64 be_sock 0 @ put64 be_sock 10) sample_session =
      Some (sample_session\<lparr>fetch := 10\<rparr>, [])"
    using sock_okD(3) [OF be_sock_ok, of 0 "put64 be_sock 10"] sock_okD(3) [OF be_sock_ok, of 10 "[]"]
    by (simp add: getSkipAndFetch_def)
  then show ?thesis
    using down_database_waited_for [OF _ lost, of 0] by (simp add: state run env) (simp add: sample_env_def)
qed

end
