(* ===== verification/Return_Server.thy ===== *)
theory Return_Server
  imports Request_Client Request_Command
begin

text \<open>
  How the server sends the values of bind variables back to the client, behind the columns of a result
  set (\<open>src/protocols/sqlrclient.cpp\<close>).

  Large objects are read through the driver, whose state is part of the controller's, \<open>'k\<close>. A
  definition is \<open>None\<close> where a large object never ends, or where the member of the union that belongs
  to the type of a variable has not been set. Debug output is left out.
\<close>

section \<open>Large objects\<close>

record 'k outlobs =
  ob_length :: "'k \<Rightarrow> nat \<Rightarrow> u64 option"
  ob_segment :: "'k \<Rightarrow> nat \<Rightarrow> u64 \<Rightarrow> (bytes \<times> u64) option"
    \<comment> \<open>variable and offset; the contents of the segment buffer, and \<open>charsread\<close>\<close>
  ob_close :: "'k \<Rightarrow> nat \<Rightarrow> 'k"

partial_function (option) outLobLoop ::
  "sockcodec \<Rightarrow> (u64 \<Rightarrow> (bytes \<times> u64) option) \<Rightarrow> u64 \<Rightarrow> u64 \<Rightarrow> bool \<Rightarrow> bytes \<Rightarrow> bytes option" where
  "outLobLoop C segment loblength offset start out =
     (let seg = segment offset
      in if seg = None \<or> snd (the seg) = 0 then
           Some (out @ (if start then sendNullField C else endSendingLong C))
         else
           (let out = out @ (if start then startSendingLong C loblength else []);
                charsread = snd (the seg);
                charsread = (if lobbuffersize < charsread then lobbuffersize else charsread)
            in outLobLoop C segment loblength (offset + charsread) False
                 (out @ sendLongSegment C (fst (the seg)) (ucast charsread))))"

definition sendLobOutputBind :: "sockcodec \<Rightarrow> 'k outlobs \<Rightarrow> 'k \<Rightarrow> nat \<Rightarrow> bytes option" where
  "sendLobOutputBind C L k i =
     (case ob_length L k i of
        None \<Rightarrow> Some (sendNullField C)
      | Some loblength \<Rightarrow>
          if loblength = 0 then Some (startSendingLong C 0 @ sendLongSegment C [] 0 @ endSendingLong C)
          else outLobLoop C (ob_segment L k i) loblength 0 True [])"

text \<open>\<open>returnOutputBindBlob\<close> and \<open>returnOutputBindClob\<close>, which are the same.\<close>

definition returnOutputBindLob :: "sockcodec \<Rightarrow> 'k outlobs \<Rightarrow> 'k \<Rightarrow> nat \<Rightarrow> (bytes \<times> 'k) option" where
  "returnOutputBindLob C L k i = map_option (\<lambda>out. (out, ob_close L k i)) (sendLobOutputBind C L k i)"

section \<open>Values\<close>

definition sendStringValue :: "sockcodec \<Rightarrow> u32 \<Rightarrow> bytes \<Rightarrow> bytes" where
  "sendStringValue C n s = put16 C STRING_DATA @ put32 C n @ take (unat n) (cstr s)"

definition sendDateValue :: "'d bindcodec \<Rightarrow> datevalue \<Rightarrow> bytes" where
  "sendDateValue B d =
     (let C = sockc B; tz = (case d_tz d of Some s \<Rightarrow> s | None \<Rightarrow> []); n = of_nat (length tz) :: u16
      in put16 C DATE_DATA @ put16 C (d_year d) @ put16 C (d_month d) @ put16 C (d_day d) @ put16 C (d_hour d) @
         put16 C (d_minute d) @ put16 C (d_second d) @ put32 C (d_microsecond d) @ put16 C n @ take (unat n) tz @
         putBool B (d_isnegative d))"

text \<open>The types that both sorts of variables may have.\<close>

definition returnPlainValue :: "'d bindcodec \<Rightarrow> 'd serverbind \<Rightarrow> (bytes \<times> 'd serverbind) option" where
  "returnPlainValue B bv =
     (let C = sockc B in
      if sb_type bv = BIND_STRING then
        (case sb_value bv of
           S_String s \<Rightarrow>
             (let n = of_nat (length (cstr s)) in Some (sendStringValue C n s, bv\<lparr>sb_size := n\<rparr>))
         | _ \<Rightarrow> None)
      else if sb_type bv = BIND_INTEGER then
        (case sb_value bv of S_Integer n \<Rightarrow> Some (put16 C INTEGER_DATA @ put64 C n, bv) | _ \<Rightarrow> None)
      else if sb_type bv = BIND_DOUBLE then
        (case sb_value bv of
           S_Double d p c \<Rightarrow> Some (put16 C DOUBLE_DATA @ putDouble B d @ put32 C p @ put32 C c, bv)
         | _ \<Rightarrow> None)
      else if sb_type bv = BIND_DATE then
        (case sb_value bv of S_Date d \<Rightarrow> Some (sendDateValue B d, bv) | _ \<Rightarrow> None)
      else Some ([], bv))"

definition returnOutputBindValue ::
  "'d bindcodec \<Rightarrow> 'k outlobs \<Rightarrow> nat \<Rightarrow> 'd serverbind \<Rightarrow> 'k \<Rightarrow> (bytes \<times> 'd serverbind \<times> 'k) option" where
  "returnOutputBindValue B L i bv k =
     (let C = sockc B in
      if sb_isnull bv then Some (put16 C NULL_DATA, bv, k)
      else if sb_type bv = BIND_BLOB \<or> sb_type bv = BIND_CLOB then
        map_option (\<lambda>(out, k). (out, bv, k)) (returnOutputBindLob C L k i)
      else if sb_type bv = BIND_CURSOR then
        (case sb_value bv of S_Cursor c \<Rightarrow> Some (put16 C CURSOR_DATA @ put16 C c, bv, k) | _ \<Rightarrow> None)
      else map_option (\<lambda>(out, bv). (out, bv, k)) (returnPlainValue B bv))"

definition returnInputOutputBindValue ::
  "'d bindcodec \<Rightarrow> nat \<Rightarrow> 'd serverbind \<Rightarrow> 'k \<Rightarrow> (bytes \<times> 'd serverbind \<times> 'k) option" where
  "returnInputOutputBindValue B i bv k =
     (if sb_isnull bv then Some (put16 (sockc B) NULL_DATA, bv, k)
      else map_option (\<lambda>(out, bv). (out, bv, k)) (returnPlainValue B bv))"

section \<open>Lists of variables\<close>

fun returnValues ::
  "(nat \<Rightarrow> 'd serverbind \<Rightarrow> 'k \<Rightarrow> (bytes \<times> 'd serverbind \<times> 'k) option) \<Rightarrow> nat \<Rightarrow> 'd serverbind list \<Rightarrow> 'k \<Rightarrow>
   (bytes \<times> 'd serverbind list \<times> 'k) option" where
  "returnValues one i [] k = Some ([], [], k)"
| "returnValues one i (bv # bvs) k =
     Option.bind (one i bv k) (\<lambda>(out, bv, k).
       map_option (\<lambda>(outs, bvs, k). (out @ outs, bv # bvs, k)) (returnValues one (Suc i) bvs k))"

text \<open>Values that are left over from an earlier command are not sent.\<close>

definition returnOutputBindValues ::
  "'d bindcodec \<Rightarrow> 'k outlobs \<Rightarrow> bool \<Rightarrow> 'd serverrequest \<Rightarrow> 'k \<Rightarrow> (bytes \<times> 'd serverrequest \<times> 'k) option" where
  "returnOutputBindValues B L sendbindvalues q k =
     (let bindcount = (if sendbindvalues then unat (sr_outcount q) else 0)
      in map_option
           (\<lambda>(out, bvs, k).
              (out @ put16 (sockc B) END_BIND_VARS, q\<lparr>sr_outbinds := bvs @ drop bindcount (sr_outbinds q)\<rparr>, k))
           (returnValues (returnOutputBindValue B L) 0 (take bindcount (sr_outbinds q)) k))"

definition returnInputOutputBindValues ::
  "'d bindcodec \<Rightarrow> u16 \<Rightarrow> bool \<Rightarrow> 'd serverrequest \<Rightarrow> 'k \<Rightarrow> (bytes \<times> 'd serverrequest \<times> 'k) option" where
  "returnInputOutputBindValues B version sendbindvalues q k =
     (if version < 2 then Some ([], q, k)
      else
        (let bindcount = (if sendbindvalues then unat (sr_inoutcount q) else 0)
         in map_option
              (\<lambda>(out, bvs, k).
                 (out @ put16 (sockc B) END_BIND_VARS, q\<lparr>sr_inoutbinds := bvs @ drop bindcount (sr_inoutbinds q)\<rparr>, k))
              (returnValues (returnInputOutputBindValue B) 0 (take bindcount (sr_inoutbinds q)) k)))"

section \<open>The whole header\<close>

text \<open>\<open>returnResultSetHeader\<close>: the part that \<open>Result_Server\<close> has, and the values behind it.\<close>

definition returnHeader ::
  "'d bindcodec \<Rightarrow> 'k outlobs \<Rightarrow> u16 \<Rightarrow> u64 option \<times> u64 option \<times> u16 \<times> column list \<Rightarrow> bool \<Rightarrow> 'd serverrequest \<Rightarrow> 'k \<Rightarrow>
   (bytes \<times> 'd serverrequest \<times> 'k) option" where
  "returnHeader B L version info sendbindvalues q k =
     (case info of (actual, affected, format, cs) \<Rightarrow>
        Option.bind (returnOutputBindValues B L sendbindvalues q k) (\<lambda>(outs, q, k).
          map_option
            (\<lambda>(inouts, q, k).
               (returnResultSetHeader (sockc B) version actual affected (sr_sendcolumninfo q) format cs @ outs @ inouts, q, k))
            (returnInputOutputBindValues B version sendbindvalues q k)))"

text \<open>
  The commands that run a query, with this header and the rows of a source \<open>D\<close> whose states are the
  controller's; \<open>R\<close> gives the row counts, the format of types and the columns.
\<close>

definition resultEnv ::
  "'k rowsource \<Rightarrow> 'k outlobs \<Rightarrow> ('k \<Rightarrow> u64 option \<times> u64 option \<times> u16 \<times> column list) \<Rightarrow> ('d, 'k) requestenv \<Rightarrow>
   ('d, 'k) requestenv" where
  "resultEnv D L R E =
     E\<lparr>re_header := (\<lambda>version sendbindvalues q k.
         map_option (\<lambda>(out, q, k). (out, k)) (returnHeader (re_codec E) L version (R k) sendbindvalues q k)),
       re_data := returnResultSetData (sockc (re_codec E)) D False False []\<rparr>"

end
