(* ===== verification/Return_Client.thy ===== *)
theory Return_Client
  imports Request_Client Result_Client
begin

text \<open>
  How the client takes the values of bind variables that come back with a result set
  (\<open>src/api/c++/sqlrcursor.cpp\<close>).

  A variable is the type that the client has given it, and the member of the union that was written
  last, with the memory that it points to. Freeing a pointer that is not the member written last, and
  writing beyond a buffer, has no defined behaviour (\<open>Undefined_Reading\<close>). Debug output, reading from and
  writing to a cache file are left out.
\<close>

section \<open>Variables\<close>

datatype 'd member =
  M_String "bytes option" | M_Integer u64 | M_Double 'd u32 u32 | M_Date datevalue
| M_Lob "byte option list option" | M_Cursor u16

record 'd outvar =
  ov_variable :: bytes
  ov_type :: u16
  ov_member :: "'d member"
  ov_size :: u32
  ov_resultsize :: u32

text \<open>
  Before a query: a string, a large object or the time zone of a date is a null pointer in an output
  variable, other members have no value, for which the one of the request stands.
\<close>

definition outVar :: "'d clientvar \<Rightarrow> 'd outvar" where
  "outVar v =
     \<lparr>ov_variable = cv_variable v, ov_type = bindtype (cv_value v),
      ov_member =
        (case cv_value v of
           C_Integer n \<Rightarrow> M_Integer n | C_Double d p c \<Rightarrow> M_Double d p c | C_Date d \<Rightarrow> M_Date (d\<lparr>d_tz := None\<rparr>)
         | C_Blob s \<Rightarrow> M_Lob None | C_Clob s \<Rightarrow> M_Lob None | C_Cursor \<Rightarrow> M_Cursor 0 | _ \<Rightarrow> M_String None),
      ov_size = cv_size v, ov_resultsize = 0\<rparr>"

text \<open>The memory of an input/output string is one byte longer than its size.\<close>

definition inoutVar :: "'d clientvar \<Rightarrow> 'd outvar" where
  "inoutVar v =
     \<lparr>ov_variable = cv_variable v, ov_type = bindtype (cv_value v),
      ov_member =
        (case cv_value v of
           C_String s \<Rightarrow> M_String (Some s) | C_Null \<Rightarrow> M_String (Some [])
         | C_Integer n \<Rightarrow> M_Integer n | C_Double d p c \<Rightarrow> M_Double d p c | C_Date d \<Rightarrow> M_Date d
         | C_Cursor \<Rightarrow> M_Cursor 0 | _ \<Rightarrow> M_Lob None),
      ov_size = cv_size v, ov_resultsize = 0\<rparr>"

section \<open>Reading\<close>

text \<open>A read that comes short, with the first line of the message.\<close>

definition orBroken :: "string \<Rightarrow> ('a \<times> bytes) option \<Rightarrow> ('a \<Rightarrow> bytes \<Rightarrow> 'b reading) \<Rightarrow> 'b reading" where
  "orBroken err m f = (case m of None \<Rightarrow> Broken err | Some (x, s) \<Rightarrow> f x s)"

section \<open>Values that are thrown away\<close>

text \<open>The buffer \<open>discardbuffer\<close> has 1024 bytes.\<close>

function discardBytes :: "nat \<Rightarrow> bytes \<Rightarrow> bytes option" where
  "discardBytes n s =
     (if n = 0 then Some s
      else (let tocopy = min n 1024
            in if length s < tocopy then None else discardBytes (n - tocopy) (drop tocopy s)))"
  by auto
termination by (relation "measure fst") auto

definition discardChunk :: "sockcodec \<Rightarrow> bytes \<Rightarrow> (bytes + bytes reading) option" where
  "discardChunk C s =
     Some (case get16 C s of
        None \<Rightarrow> Inr (Broken ''Failed to get chunk type.'')
      | Some (chunktype, s) \<Rightarrow>
          if chunktype = END_LONG_DATA then Inr (Got s)
          else (case get32 C s of
             None \<Rightarrow> Inr (Broken ''Failed to get chunk length.'')
           | Some (n, s) \<Rightarrow>
               (case discardBytes (unat n) s of
                  None \<Rightarrow> Inr (Broken ''Failed to get chunk data.'')
                | Some s \<Rightarrow> Inl s)))"

definition discardDate :: "'d bindcodec \<Rightarrow> bytes \<Rightarrow> bytes reading" where
  "discardDate B s =
     (let C = sockc B; short = orBroken ''Failed to get long value.'' in
      short (get16 C s) (\<lambda>_ s. short (get16 C s) (\<lambda>_ s. short (get16 C s) (\<lambda>_ s. short (get16 C s) (\<lambda>_ s.
      short (get16 C s) (\<lambda>_ s. short (get16 C s) (\<lambda>_ s.
      orBroken ''Failed to get long value.'' (get32 C s) (\<lambda>_ s.
      orBroken ''Failed to get timezone length.'' (get16 C s) (\<lambda>n s.
      case discardBytes (unat n) s of
        None \<Rightarrow> Broken ''Failed to get timezone.''
      | Some s \<Rightarrow> orBroken ''Failed to get bool value.'' (getBool B s) (\<lambda>_ s. Got s))))))))))"

definition discardBindValue :: "'d bindcodec \<Rightarrow> u16 \<Rightarrow> bytes \<Rightarrow> bytes reading option" where
  "discardBindValue B type s =
     (let C = sockc B in
      if type = NULL_DATA then Some (Got s)
      else if type = STRING_DATA then
        Some (orBroken ''Failed to get string value length.'' (get32 C s) (\<lambda>n s.
          case discardBytes (unat n) s of None \<Rightarrow> Broken ''Failed to get string value.'' | Some s \<Rightarrow> Got s))
      else if type = INTEGER_DATA then Some (orBroken ''Failed to get integer value.'' (get64 C s) (\<lambda>_ s. Got s))
      else if type = DOUBLE_DATA then
        Some (orBroken ''Failed to get double value.'' (getDouble B s) (\<lambda>_ s.
          orBroken ''Failed to get double value.'' (get32 C s) (\<lambda>_ s.
            orBroken ''Failed to get double value.'' (get32 C s) (\<lambda>_ s. Got s))))
      else if type = DATE_DATA then Some (discardDate B s)
      else if type = CURSOR_DATA then Some (orBroken ''Failed to get cursor id.'' (get16 C s) (\<lambda>_ s. Got s))
      else (case get64 C s of
              None \<Rightarrow> Some (Broken ''Failed to get total length.'')
            | Some (totallength, s) \<Rightarrow> iterate (discardChunk C) s))"

section \<open>Large objects\<close>

text \<open>
  The chunks go into a buffer of the announced length and one byte more. The code does not compare the
  chunks with it.
\<close>

record lobchunks =
  lb_buffer :: "byte option list"
  lb_offset :: u64
  lb_input :: bytes

definition lobChunkStep :: "sockcodec \<Rightarrow> lobchunks \<Rightarrow> (lobchunks + lobchunks reading) option" where
  "lobChunkStep C st =
     Some (case get16 C (lb_input st) of
       None \<Rightarrow> Inr (Broken ''Failed to get chunk type.'')
     | Some (type, s) \<Rightarrow>
         if type = END_LONG_DATA then Inr (Got (st\<lparr>lb_input := s\<rparr>))
         else (case get32 C s of
           None \<Rightarrow> Inr (Broken ''Failed to get chunk length.'')
         | Some (n, s) \<Rightarrow>
             if length (lb_buffer st) < unat (lb_offset st) + unat n then Inr Undefined_Reading
             else (case getBytes n s of
               None \<Rightarrow> Inr (Broken ''Failed to get chunk data.'')
             | Some (data, s) \<Rightarrow>
                 Inl (st\<lparr>lb_buffer := take (unat (lb_offset st)) (lb_buffer st) @ map Some data @
                                      drop (unat (lb_offset st) + unat n) (lb_buffer st),
                         lb_offset := lb_offset st + ucast n, lb_input := s\<rparr>))))"

definition getLobResult :: "sockcodec \<Rightarrow> 'd outvar \<Rightarrow> bytes \<Rightarrow> ('d outvar \<times> bytes) reading option" where
  "getLobResult C v s =
     (case get64 C s of
        None \<Rightarrow> Some (Broken ''Failed to get total length.'')
      | Some (totallength, s) \<Rightarrow>
          map_option
            (\<lambda>r. case r of
               Broken err \<Rightarrow> Broken err
             | Undefined_Reading \<Rightarrow> Undefined_Reading
             | Got st \<Rightarrow>
                 if length (lb_buffer st) \<le> unat totallength \<or>
                    (ov_type v = BIND_BLOB \<or> ov_type v = BIND_CLOB) \<and> (\<forall>m. ov_member v \<noteq> M_Lob m) then Undefined_Reading
                 else Got (v\<lparr>ov_member := M_Lob (Some (take (unat totallength) (lb_buffer st))),
                             ov_resultsize := ucast totallength\<rparr>, lb_input st))
            (iterate (lobChunkStep C)
               \<lparr>lb_buffer = replicate (unat (totallength + 1)) None, lb_offset = 0, lb_input = s\<rparr>))"

section \<open>Values\<close>

text \<open>Whether the member that was written last is the one that the type says.\<close>

primrec is_string :: "'d member \<Rightarrow> bool" where
  "is_string (M_String s) = True" | "is_string (M_Integer n) = False" | "is_string (M_Double d p c) = False"
| "is_string (M_Date d) = False" | "is_string (M_Lob s) = False" | "is_string (M_Cursor i) = False"

primrec is_date :: "'d member \<Rightarrow> bool" where
  "is_date (M_String s) = False" | "is_date (M_Integer n) = False" | "is_date (M_Double d p c) = False"
| "is_date (M_Date d) = True" | "is_date (M_Lob s) = False" | "is_date (M_Cursor i) = False"

primrec negative_of :: "'d member \<Rightarrow> bool" where
  "negative_of (M_Date d) = d_isnegative d" | "negative_of (M_String s) = False" | "negative_of (M_Integer n) = False"
| "negative_of (M_Double d p c) = False" | "negative_of (M_Lob s) = False" | "negative_of (M_Cursor i) = False"

text \<open>What a null value leaves in a date: its sign, and no time zone or an empty one.\<close>

definition nullDate :: "bytes option \<Rightarrow> 'd outvar \<Rightarrow> 'd outvar" where
  "nullDate tz v = v\<lparr>ov_member := M_Date (no_date\<lparr>d_tz := tz, d_isnegative := negative_of (ov_member v)\<rparr>)\<rparr>"

definition nullOutput :: "'d \<Rightarrow> bool \<Rightarrow> 'd outvar \<Rightarrow> 'd outvar reading" where
  "nullOutput zero nulls v =
     (let v = v\<lparr>ov_resultsize := 0\<rparr>; empty = (if nulls then None else Some []) in
      if ov_type v = BIND_STRING then
        (if is_string (ov_member v) then Got (v\<lparr>ov_member := M_String empty\<rparr>) else Undefined_Reading)
      else if ov_type v = BIND_INTEGER then Got (v\<lparr>ov_member := M_Integer 0\<rparr>)
      else if ov_type v = BIND_DOUBLE then Got (v\<lparr>ov_member := M_Double zero 0 0\<rparr>)
      else if ov_type v = BIND_DATE then
        (if is_date (ov_member v) then Got (nullDate empty v) else Undefined_Reading)
      else Got v)"

text \<open>
  In an input/output variable, an empty string is written to the memory that is there, and a variable
  without a type becomes a string.
\<close>

definition nullInputOutput :: "'d \<Rightarrow> bool \<Rightarrow> 'd outvar \<Rightarrow> 'd outvar reading" where
  "nullInputOutput zero nulls v =
     (let v = v\<lparr>ov_resultsize := 0, ov_type := (if ov_type v = BIND_NULL then BIND_STRING else ov_type v)\<rparr> in
      if ov_type v = BIND_STRING then
        (if nulls then
           (if is_string (ov_member v) then Got (v\<lparr>ov_member := M_String None\<rparr>) else Undefined_Reading)
         else if \<exists>s. ov_member v = M_String (Some s) then Got (v\<lparr>ov_member := M_String (Some [])\<rparr>)
         else Undefined_Reading)
      else if ov_type v = BIND_INTEGER then Got (v\<lparr>ov_member := M_Integer 0\<rparr>)
      else if ov_type v = BIND_DOUBLE then Got (v\<lparr>ov_member := M_Double zero 0 0\<rparr>)
      else if ov_type v = BIND_DATE then
        (if is_date (ov_member v) then Got (nullDate (Some []) v) else Undefined_Reading)
      else Got v)"

definition getStringResult :: "sockcodec \<Rightarrow> 'd outvar \<Rightarrow> bytes \<Rightarrow> ('d outvar \<times> bytes) reading" where
  "getStringResult C v s =
     orBroken ''Failed to get string value length.'' (get32 C s) (\<lambda>n s.
       if ov_type v = BIND_STRING \<and> \<not> is_string (ov_member v) then Undefined_Reading
       else orBroken ''Failed to get string value.'' (getBytes n s) (\<lambda>data s.
         Got (v\<lparr>ov_resultsize := n, ov_member := M_String (Some data)\<rparr>, s)))"

text \<open>An input/output string is written to the memory that is there, whose size is not looked at.\<close>

definition getStringInto :: "sockcodec \<Rightarrow> 'd outvar \<Rightarrow> bytes \<Rightarrow> ('d outvar \<times> bytes) reading" where
  "getStringInto C v s =
     orBroken ''Failed to get string value length.'' (get32 C s) (\<lambda>n s.
       if (\<exists>s. ov_member v = M_String (Some s)) \<and> n \<le> ov_size v then
         orBroken ''Failed to get string value.'' (getBytes n s) (\<lambda>data s.
           Got (v\<lparr>ov_resultsize := n, ov_member := M_String (Some data)\<rparr>, s))
       else Undefined_Reading)"

definition getDateResult :: "'d bindcodec \<Rightarrow> 'd outvar \<Rightarrow> bytes \<Rightarrow> ('d outvar \<times> bytes) reading" where
  "getDateResult B v s =
     (let C = sockc B; short = orBroken ''Failed to get long value.'' in
      short (get16 C s) (\<lambda>year s. short (get16 C s) (\<lambda>month s. short (get16 C s) (\<lambda>day s.
      short (get16 C s) (\<lambda>hour s. short (get16 C s) (\<lambda>minute s. short (get16 C s) (\<lambda>second s.
      orBroken ''Failed to get long value.'' (get32 C s) (\<lambda>microsecond s.
      orBroken ''Failed to get timezone length.'' (get16 C s) (\<lambda>n s.
      if ov_type v = BIND_DATE \<and> \<not> is_date (ov_member v) then Undefined_Reading
      else orBroken ''Failed to get timezone.'' (getBytes (ucast n) s) (\<lambda>tz s.
        orBroken ''Failed to get bool value.'' (getBool B s) (\<lambda>negative s.
          Got (v\<lparr>ov_member := M_Date \<lparr>d_year = year, d_month = month, d_day = day, d_hour = hour, d_minute = minute,
                   d_second = second, d_microsecond = microsecond, d_tz = Some tz, d_isnegative = negative\<rparr>\<rparr>, s))))))))))))"

definition getIntegerResult :: "sockcodec \<Rightarrow> 'd outvar \<Rightarrow> bytes \<Rightarrow> ('d outvar \<times> bytes) reading" where
  "getIntegerResult C v s =
     orBroken ''Failed to get integer value.'' (get64 C s) (\<lambda>n s. Got (v\<lparr>ov_member := M_Integer n\<rparr>, s))"

definition getDoubleResult :: "'d bindcodec \<Rightarrow> 'd outvar \<Rightarrow> bytes \<Rightarrow> ('d outvar \<times> bytes) reading" where
  "getDoubleResult B v s =
     orBroken ''Failed to get double value.'' (getDouble B s) (\<lambda>d s.
       orBroken ''Failed to get precision.'' (get32 (sockc B) s) (\<lambda>p s.
         orBroken ''Failed to get scale.'' (get32 (sockc B) s) (\<lambda>c s.
           Got (v\<lparr>ov_member := M_Double d p c\<rparr>, s))))"

definition withRest :: "bytes \<Rightarrow> 'a reading \<Rightarrow> ('a \<times> bytes) reading" where
  "withRest s r = (case r of Got v \<Rightarrow> Got (v, s) | Broken err \<Rightarrow> Broken err | Undefined_Reading \<Rightarrow> Undefined_Reading)"

definition getOutputResult ::
  "'d bindcodec \<Rightarrow> 'd \<Rightarrow> bool \<Rightarrow> u16 \<Rightarrow> 'd outvar \<Rightarrow> bytes \<Rightarrow> ('d outvar \<times> bytes) reading option" where
  "getOutputResult B zero nulls type v s =
     (let C = sockc B in
      if type = NULL_DATA then Some (withRest s (nullOutput zero nulls v))
      else if type = STRING_DATA then Some (getStringResult C v s)
      else if type = INTEGER_DATA then Some (getIntegerResult C v s)
      else if type = DOUBLE_DATA then Some (getDoubleResult B v s)
      else if type = DATE_DATA then Some (getDateResult B v s)
      else if type = CURSOR_DATA then
        Some (orBroken ''Failed to get cursor id.'' (get16 C s) (\<lambda>i s. Got (v\<lparr>ov_member := M_Cursor i\<rparr>, s)))
      else getLobResult C v s)"

definition getInputOutputResult ::
  "'d bindcodec \<Rightarrow> 'd \<Rightarrow> bool \<Rightarrow> u16 \<Rightarrow> 'd outvar \<Rightarrow> bytes \<Rightarrow> ('d outvar \<times> bytes) reading option" where
  "getInputOutputResult B zero nulls type v s =
     (let C = sockc B in
      if type = NULL_DATA then Some (withRest s (nullInputOutput zero nulls v))
      else if type = STRING_DATA then Some (getStringInto C v s)
      else if type = INTEGER_DATA then Some (getIntegerResult C v s)
      else if type = DOUBLE_DATA then Some (getDoubleResult B v s)
      else if type = DATE_DATA then Some (getDateResult B v s)
      else getLobResult C v s)"

section \<open>The lists\<close>

text \<open>
  One value after another: it goes to the next variable of the client's list, and the values behind the
  last one are thrown away. The counter is 16 bits wide.
\<close>

record 'd parsebinds =
  pb_vars :: "'d outvar list"
  pb_count :: u16
  pb_input :: bytes

definition parseBindStep ::
  "'d bindcodec \<Rightarrow> (u16 \<Rightarrow> 'd outvar \<Rightarrow> bytes \<Rightarrow> ('d outvar \<times> bytes) reading option) \<Rightarrow> 'd parsebinds \<Rightarrow>
   ('d parsebinds + ('d outvar list \<times> bytes) reading) option" where
  "parseBindStep B one st =
     (case get16 (sockc B) (pb_input st) of
        None \<Rightarrow> Some (Inr (Broken ''Failed to get data type.''))
      | Some (type, s) \<Rightarrow>
          if type = END_BIND_VARS then Some (Inr (Got (pb_vars st, s)))
          else if length (pb_vars st) \<le> unat (pb_count st) then
            map_option
              (\<lambda>r. case r of
                 Got s \<Rightarrow> Inl (st\<lparr>pb_count := pb_count st + 1, pb_input := s\<rparr>)
               | Broken err \<Rightarrow> Inr (Broken err)
               | Undefined_Reading \<Rightarrow> Inr Undefined_Reading) (discardBindValue B type s)
          else
            map_option
              (\<lambda>r. case r of
                 Got (v, s) \<Rightarrow>
                   Inl (st\<lparr>pb_vars := (pb_vars st)[unat (pb_count st) := v], pb_count := pb_count st + 1, pb_input := s\<rparr>)
               | Broken err \<Rightarrow> Inr (Broken err)
               | Undefined_Reading \<Rightarrow> Inr Undefined_Reading) (one type (pb_vars st ! unat (pb_count st)) s))"

definition parseOutputBinds ::
  "'d bindcodec \<Rightarrow> 'd \<Rightarrow> bool \<Rightarrow> 'd outvar list \<Rightarrow> bytes \<Rightarrow> ('d outvar list \<times> bytes) reading option" where
  "parseOutputBinds B zero nulls vars s =
     iterate (parseBindStep B (getOutputResult B zero nulls)) \<lparr>pb_vars = vars, pb_count = 0, pb_input = s\<rparr>"

definition parseInputOutputBinds ::
  "'d bindcodec \<Rightarrow> 'd \<Rightarrow> bool \<Rightarrow> 'd outvar list \<Rightarrow> bytes \<Rightarrow> ('d outvar list \<times> bytes) reading option" where
  "parseInputOutputBinds B zero nulls vars s =
     iterate (parseBindStep B (getInputOutputResult B zero nulls)) \<lparr>pb_vars = vars, pb_count = 0, pb_input = s\<rparr>"

end
