(* ===== verification/Return_Rules.thy ===== *)
theory Return_Rules
  imports Return_Server Return_Client Request_Rules
begin

text \<open>
  The values of bind variables on their way back: each arrives in the variable of the client that was
  sent for it. The two sorts of variables are instances of one locale, whose contract is that the client
  reads a value that the server has sent.
\<close>

section \<open>Large objects\<close>

fun segments_from :: "(u64 \<Rightarrow> (bytes \<times> u64) option) \<Rightarrow> u64 \<Rightarrow> bytes list \<Rightarrow> bool" where
  "segments_from segment offset [] = (case segment offset of None \<Rightarrow> True | Some seg \<Rightarrow> snd seg = 0)"
| "segments_from segment offset (d # ds) =
     (case segment offset of
        None \<Rightarrow> False
      | Some (buffer, charsread) \<Rightarrow>
          charsread \<noteq> 0 \<and> charsread \<le> lobbuffersize \<and> d = take (unat charsread) buffer \<and>
          length d = unat charsread \<and> segments_from segment (offset + charsread) ds)"

text \<open>A chunk on the wire.\<close>

abbreviation chunk :: "sockcodec \<Rightarrow> bytes \<Rightarrow> bytes" where
  "chunk C d \<equiv> put16 C STRING_DATA @ put32 C (of_nat (length d)) @ d"

lemma outLobLoop_end:
  "segments_from segment offset [] \<Longrightarrow>
     outLobLoop C segment n offset start out = Some (out @ (if start then sendNullField C else endSendingLong C))"
  by (subst outLobLoop.simps) (auto simp: Let_def split: option.splits)

lemma outLobLoop_segment:
  assumes "segments_from segment offset (d # ds)"
  shows "\<exists>k. segments_from segment (offset + k) ds \<and> length d < 2 ^ 31 \<and>
    outLobLoop C segment n offset start out =
      outLobLoop C segment n (offset + k) False (out @ (if start then startSendingLong C n else []) @ chunk C d)"
proof -
  obtain buffer k where k: "segment offset = Some (buffer, k)" "k \<noteq> 0" "k \<le> lobbuffersize"
    "d = take (unat k) buffer" "length d = unat k" "segments_from segment (offset + k) ds"
    using assms by (auto split: option.splits)
  have small: "unat k \<le> 32768" using k(3) by (simp add: word_le_nat_alt)
  have u: "unat (ucast k :: u32) = length d"
    using small k(5) by (simp add: unsigned_ucast_eq take_bit_nat_eq_self)
  moreover have "(ucast k :: u32) = of_nat (length d)"
    using small k(5) u by (intro unat_inj) (simp add: unat_u32)
  moreover have "take (length d) buffer = d" by (simp only: k(5) k(4) [symmetric])
  ultimately have "sendLongSegment C buffer (ucast k) = chunk C d" by (simp add: sendLongSegment_def)
  moreover have "outLobLoop C segment n offset start out = outLobLoop C segment n (offset + k) False
      ((out @ (if start then startSendingLong C n else [])) @ sendLongSegment C buffer (ucast k))"
    using k(1-3) by (subst outLobLoop.simps) (simp add: Let_def leD)
  ultimately show ?thesis using k(5,6) small by (intro exI [of _ k]) simp
qed

lemma outLobLoop_segments:
  "segments_from segment offset ds \<Longrightarrow>
     outLobLoop C segment n offset False out = Some (out @ concat (map (chunk C) ds) @ endSendingLong C) \<and>
     list_all (\<lambda>d. length d < 2 ^ 31) ds"
proof (induction ds arbitrary: offset out)
  case (Cons d ds)
  obtain k where k: "segments_from segment (offset + k) ds" "length d < 2 ^ 31"
    "outLobLoop C segment n offset False out = outLobLoop C segment n (offset + k) False (out @ chunk C d)"
    using outLobLoop_segment [OF Cons.prems, of C n False out] by auto
  then show ?case using Cons.IH [OF k(1), of "out @ chunk C d"] by simp
qed (simp add: outLobLoop_end)

text \<open>The client's buffer while the chunks come.\<close>

definition lob_state :: "bytes \<Rightarrow> nat \<Rightarrow> bytes \<Rightarrow> lobchunks" where
  "lob_state done n s =
     \<lparr>lb_buffer = map Some done @ replicate (n - length done) None, lb_offset = of_nat (length done), lb_input = s\<rparr>"

lemma lobChunks_read:
  assumes "sock_ok C" and "n \<le> 2 ^ 64"
  shows "list_all (\<lambda>d. length d < 2 ^ 31) ds \<Longrightarrow> length done + length (concat ds) < n \<Longrightarrow>
    iterate (lobChunkStep C) (lob_state done n (concat (map (chunk C) ds) @ endSendingLong C @ r)) =
    Some (Got (lob_state (done @ concat ds) n r))"
proof (induction ds arbitrary: "done")
  case Nil
  then show ?case
    by (simp add: iterate_Inr lobChunkStep_def endSendingLong_def sock_okD [OF assms(1)] lob_state_def)
next
  case (Cons d ds)
  have len: "length d < 2 ^ 31" using Cons.prems(1) by simp
  have small: "length done < 2 ^ 64" "length done + length d < 2 ^ 64" "length done + length d \<le> n"
    using Cons.prems(2) assms(2) by simp_all
  have u: "unat (of_nat (length d) :: u32) = length d" using len by (intro unat_u32) simp
  have o: "unat (of_nat (length done) :: u64) = length done" using small(1) by (intro unat_u64)
  have "(ucast (of_nat (length d) :: u32) :: u64) = of_nat (length d)"
    using len u by (intro unat_inj) (simp add: unsigned_ucast_eq take_bit_nat_eq_self unat_u64)
  then have e: "of_nat (length done) + (ucast (of_nat (length d) :: u32) :: u64) = of_nat (length (done @ d))" by simp
  let ?s = "concat (map (chunk C) ds) @ endSendingLong C @ r"
  have "lobChunkStep C (lob_state done n (chunk C d @ ?s)) = Some (Inl (lob_state (done @ d) n ?s))"
    using small(3) len u o e
    by (simp add: lobChunkStep_def lob_state_def sock_okD [OF assms(1)])
  then show ?case using Cons.IH [of "done @ d"] Cons.prems iterate_Inl [of "lobChunkStep C"] by simp
qed

section \<open>One value\<close>

text \<open>
  What the driver has for the large objects of the variables: nothing, or a length and segments which
  do not exceed it. The length is a number of bytes.
\<close>

type_synonym lobcontent = "nat \<Rightarrow> (u64 \<times> bytes list) option"

definition lobs_ok :: "'k outlobs \<Rightarrow> ('k \<Rightarrow> bool) \<Rightarrow> lobcontent \<Rightarrow> bool" where
  "lobs_ok L ready content \<longleftrightarrow> (\<forall>k i. ready k \<longrightarrow> ready (ob_close L k i) \<and>
     (case content i of
        None \<Rightarrow> (case ob_length L k i of None \<Rightarrow> True | Some n \<Rightarrow> n \<noteq> 0 \<and> segments_from (ob_segment L k i) 0 [])
      | Some (n, segments) \<Rightarrow>
          ob_length L k i = Some n \<and> n \<noteq> - 1 \<and> length (concat segments) \<le> unat n \<and>
          (if n = 0 then segments = [[]] else segments \<noteq> [] \<and> segments_from (ob_segment L k i) 0 segments)))"

text \<open>A variable whose member is the one of its type.\<close>

definition typed :: "'d outvar \<Rightarrow> bool" where
  "typed v \<longleftrightarrow>
     (ov_type v = BIND_STRING \<longrightarrow> is_string (ov_member v)) \<and> (ov_type v = BIND_DATE \<longrightarrow> is_date (ov_member v)) \<and>
     (ov_type v = BIND_BLOB \<or> ov_type v = BIND_CLOB \<longrightarrow> (\<exists>m. ov_member v = M_Lob m))"

text \<open>A value of the type that the variable has, of those that are sent for both sorts of variables.\<close>

definition plain_value :: "'d serverbind \<Rightarrow> bool" where
  "plain_value bv \<longleftrightarrow>
     sb_type bv = BIND_STRING \<and> (\<exists>s. sb_value bv = S_String s \<and> length (cstr s) < 2 ^ 31) \<or>
     sb_type bv = BIND_INTEGER \<and> (\<exists>n. sb_value bv = S_Integer n) \<or>
     sb_type bv = BIND_DOUBLE \<and> (\<exists>d p c. sb_value bv = S_Double d p c) \<or>
     sb_type bv = BIND_DATE \<and> (\<exists>d. sb_value bv = S_Date d \<and> date_fits d)"

text \<open>What the client has after it: the member, and the length.\<close>

definition plain_result :: "'d serverbind \<Rightarrow> 'd outvar \<Rightarrow> 'd outvar" where
  "plain_result bv v =
     (case sb_value bv of
        S_String s \<Rightarrow> v\<lparr>ov_resultsize := of_nat (length (cstr s)), ov_member := M_String (Some (cstr s))\<rparr>
      | S_Integer n \<Rightarrow> v\<lparr>ov_member := M_Integer n\<rparr>
      | S_Double d p c \<Rightarrow> v\<lparr>ov_member := M_Double d p c\<rparr>
      | S_Date d \<Rightarrow> v\<lparr>ov_member := M_Date (arrived_date d)\<rparr>
      | _ \<Rightarrow> v)"

lemma unat_length16: "length s < 65536 \<Longrightarrow> unat (of_nat (length s) :: u16) = length s"
  by (simp add: unat_of_nat)

lemma getDateResult_sent:
  assumes "bind_sock_ok B" and "date_fits d" and "typed v"
  shows "\<exists>s. get16 (sockc B) (sendDateValue B d @ r) = Some (DATE_DATA, s) \<and>
    getDateResult B v s = Got (v\<lparr>ov_member := M_Date (arrived_date d)\<rparr>, r)"
proof -
  define z where "z = (case d_tz d of Some z \<Rightarrow> z | None \<Rightarrow> [])"
  have z: "length z < 65536" using assms(2) by (auto simp: z_def date_fits_def split: option.splits)
  then have "getBytes (ucast (of_nat (length z) :: u16)) (z @ s) = Some (z, s)" for s
    by (rule getBytes_u16)
  moreover have "\<not> (ov_type v = BIND_DATE \<and> \<not> is_date (ov_member v))" using assms(3) by (simp add: typed_def)
  ultimately show ?thesis
    using unat_length16 [OF z]
    by (simp add: getDateResult_def sendDateValue_def z_def [symmetric] bind_sock_okD [OF assms(1)] orBroken_def
        arrived_date_def Let_def)
qed

lemma getString_sent:
  assumes "bind_sock_ok B" and "length (cstr s) < 2 ^ 31"
  shows "\<exists>t. get16 (sockc B) (sendStringValue (sockc B) (of_nat (length (cstr s))) s @ r) = Some (STRING_DATA, t) \<and>
    get32 (sockc B) t = Some (of_nat (length (cstr s)), cstr s @ r) \<and>
    getBytes (of_nat (length (cstr s))) (cstr s @ r) = Some (cstr s, r)"
proof -
  have u: "unat (of_nat (length (cstr s)) :: u32) = length (cstr s)" using assms(2) by (intro unat_u32) simp
  then show ?thesis using assms(2) by (simp add: sendStringValue_def bind_sock_okD [OF assms(1)])
qed

text \<open>A plain value is sent, and read by any reader that agrees with the client on strings.\<close>

definition reads_plain :: "'d bindcodec \<Rightarrow> (u16 \<Rightarrow> 'd outvar \<Rightarrow> bytes \<Rightarrow> ('d outvar \<times> bytes) reading option) \<Rightarrow> bool" where
  "reads_plain B one \<longleftrightarrow> (\<forall>v s. one INTEGER_DATA v s = Some (getIntegerResult (sockc B) v s) \<and>
     one DOUBLE_DATA v s = Some (getDoubleResult B v s) \<and> one DATE_DATA v s = Some (getDateResult B v s))"

lemma plain_sent:
  assumes "bind_sock_ok B" and "reads_plain B one" and "plain_value bv" and "typed v"
    and "\<And>s t r. sb_type bv = BIND_STRING \<Longrightarrow> sb_value bv = S_String s \<Longrightarrow>
      get32 (sockc B) t = Some (of_nat (length (cstr s)), cstr s @ r) \<Longrightarrow>
      getBytes (of_nat (length (cstr s))) (cstr s @ r) = Some (cstr s, r) \<Longrightarrow>
      one STRING_DATA v t = Some (Got (plain_result bv v, r))"
  shows "\<exists>bs bv' type. returnPlainValue B bv = Some (bs, bv') \<and> type \<noteq> END_BIND_VARS \<and>
    (\<forall>r. \<exists>s. get16 (sockc B) (bs @ r) = Some (type, s) \<and> one type v s = Some (Got (plain_result bv v, r)))"
proof -
  note one = assms(2) [unfolded reads_plain_def, rule_format]
  consider (string) s where "sb_type bv = BIND_STRING" "sb_value bv = S_String s" "length (cstr s) < 2 ^ 31"
    | (integer) n where "sb_type bv = BIND_INTEGER" "sb_value bv = S_Integer n"
    | (double) d p c where "sb_type bv = BIND_DOUBLE" "sb_value bv = S_Double d p c"
    | (date) d where "sb_type bv = BIND_DATE" "sb_value bv = S_Date d" "date_fits d"
    using assms(3) unfolding plain_value_def by blast
  then show ?thesis
  proof cases
    case string
    have "\<exists>t. get16 (sockc B) (sendStringValue (sockc B) (of_nat (length (cstr s))) s @ r) = Some (STRING_DATA, t) \<and>
        one STRING_DATA v t = Some (Got (plain_result bv v, r))" for r
      using getString_sent [OF assms(1) string(3), of r] assms(5) [OF string(1,2)] by blast
    then show ?thesis
      using string
      by (intro exI [of _ "sendStringValue (sockc B) (of_nat (length (cstr s))) s"]
          exI [of _ "bv\<lparr>sb_size := of_nat (length (cstr s))\<rparr>"] exI [of _ STRING_DATA])
        (simp add: returnPlainValue_def Let_def)
  next
    case integer
    then show ?thesis
      using one by (auto simp: returnPlainValue_def plain_result_def getIntegerResult_def orBroken_def
          bind_sock_okD [OF assms(1)] Let_def)
  next
    case double
    then show ?thesis
      using one by (auto simp: returnPlainValue_def plain_result_def getDoubleResult_def orBroken_def
          bind_sock_okD [OF assms(1)] Let_def)
  next
    case date
    then show ?thesis
      using one getDateResult_sent [OF assms(1) date(3) assms(4)]
      by (intro exI [of _ "sendDateValue B d"] exI [of _ bv] exI [of _ DATE_DATA])
        (auto simp: returnPlainValue_def plain_result_def Let_def)
  qed
qed

section \<open>Lists of values\<close>

text \<open>
  What both sorts of variables have in common: the server sends a value that \<open>matches\<close> the client's
  variable, and the client makes of it what is \<open>received\<close>, and reads nothing behind it. \<open>ready\<close> says that
  the driver has the large objects.
\<close>

locale value_reader =
  fixes B :: "'d bindcodec"
    and sendOne :: "nat \<Rightarrow> 'd serverbind \<Rightarrow> 'k \<Rightarrow> (bytes \<times> 'd serverbind \<times> 'k) option"
    and getOne :: "u16 \<Rightarrow> 'd outvar \<Rightarrow> bytes \<Rightarrow> ('d outvar \<times> bytes) reading option"
    and ready :: "'k \<Rightarrow> bool"
    and matches :: "nat \<Rightarrow> 'd serverbind \<Rightarrow> 'd outvar \<Rightarrow> bool"
    and received :: "nat \<Rightarrow> 'd serverbind \<Rightarrow> 'd outvar \<Rightarrow> 'd outvar"
  assumes sent_read: "bind_sock_ok B \<Longrightarrow> ready k \<Longrightarrow> matches i bv v \<Longrightarrow>
    \<exists>bs bv' k' type. sendOne i bv k = Some (bs, bv', k') \<and> ready k' \<and> type \<noteq> END_BIND_VARS \<and>
      (\<forall>r. \<exists>s. get16 (sockc B) (bs @ r) = Some (type, s) \<and> getOne type v s = Some (Got (received i bv v, r)))"
begin

lemma values_read:
  assumes "bind_sock_ok B"
  shows "ready k \<Longrightarrow> length vs = length bvs \<Longrightarrow> length done + length bvs < 65536 \<Longrightarrow>
    \<forall>j<length bvs. matches (length done + j) (bvs ! j) (vs ! j) \<Longrightarrow>
    \<exists>out bvs' k'. returnValues sendOne (length done) bvs k = Some (out, bvs', k') \<and> ready k' \<and>
      length bvs' = length bvs \<and>
      (\<forall>r. iterate (parseBindStep B getOne)
          \<lparr>pb_vars = done @ vs @ rest, pb_count = of_nat (length done), pb_input = out @ put16 (sockc B) END_BIND_VARS @ r\<rparr> =
        Some (Got (done @ map (\<lambda>j. received (length done + j) (bvs ! j) (vs ! j)) [0..<length bvs] @ rest, r)))"
proof (induction bvs arbitrary: vs k "done")
  case Nil
  then show ?case
    by (simp add: iterate_Inr parseBindStep_def bind_sock_okD [OF assms])
next
  case (Cons bv bvs)
  obtain v vs' where vs: "vs = v # vs'" "length vs' = length bvs" using Cons.prems(2) by (cases vs) auto
  have "matches (length done) bv v" using Cons.prems(4) vs(1) by fastforce
  then obtain bs bv' k' type where one: "sendOne (length done) bv k = Some (bs, bv', k')" "ready k'" "type \<noteq> END_BIND_VARS"
    "\<And>r. \<exists>s. get16 (sockc B) (bs @ r) = Some (type, s) \<and>
      getOne type v s = Some (Got (received (length done) bv v, r))"
    using sent_read [OF assms Cons.prems(1)] by blast
  let ?v = "received (length done) bv v"
  let ?new = "\<lambda>j. received (length done + j) ((bv # bvs) ! j) ((v # vs') ! j)"
  have "\<forall>j<length bvs. matches (length (done @ [?v]) + j) (bvs ! j) (vs' ! j)"
    using Cons.prems(4) vs(1) by fastforce
  then obtain out bvs' k'' where rest: "returnValues sendOne (length (done @ [?v])) bvs k' = Some (out, bvs', k'')"
    "ready k''" "length bvs' = length bvs"
    "\<And>r. iterate (parseBindStep B getOne) \<lparr>pb_vars = (done @ [?v]) @ vs' @ rest, pb_count = of_nat (length (done @ [?v])),
        pb_input = out @ put16 (sockc B) END_BIND_VARS @ r\<rparr> =
      Some (Got ((done @ [?v]) @ map (\<lambda>j. received (length (done @ [?v]) + j) (bvs ! j) (vs' ! j)) [0..<length bvs] @ rest, r))"
    using Cons.IH [OF one(2) vs(2), of "done @ [?v]"] Cons.prems(3) by auto
  have new: "map ?new [0..<Suc (length bvs)] =
      ?v # map (\<lambda>j. received (Suc (length done + j)) (bvs ! j) (vs' ! j)) [0..<length bvs]"
    by (simp add: map_upt_Suc del: upt_Suc)
  have step: "parseBindStep B getOne \<lparr>pb_vars = done @ vs @ rest, pb_count = of_nat (length done), pb_input = bs @ s\<rparr> =
      Some (Inl \<lparr>pb_vars = (done @ [?v]) @ vs' @ rest, pb_count = of_nat (length (done @ [?v])), pb_input = s\<rparr>)" for s
  proof -
    have "unat (of_nat (length done) :: u16) = length done" using Cons.prems(3) by (simp add: unat_of_nat)
    moreover obtain t where "get16 (sockc B) (bs @ s) = Some (type, t)" "getOne type v t = Some (Got (?v, s))"
      using one(4) by blast
    ultimately show ?thesis using one(3) vs(1) by (simp add: parseBindStep_def nth_append)
  qed
  show ?case
    using one(1) rest step iterate_Inl [of "parseBindStep B getOne"] vs(1)
    by (intro exI [of _ "bs @ out"] exI [of _ "bv' # bvs'"] exI [of _ k'']) (simp add: new del: upt_Suc)
qed

text \<open>All of them, from the first variable of the client on.\<close>

lemma list_read:
  assumes "bind_sock_ok B" and "ready k" and "length vs = length bvs" and "length bvs < 65536"
    and "\<forall>j<length bvs. matches j (bvs ! j) (vs ! j)"
  shows "\<exists>out bvs' k'. returnValues sendOne 0 bvs k = Some (out, bvs', k') \<and> ready k' \<and> length bvs' = length bvs \<and>
    (\<forall>r. iterate (parseBindStep B getOne) \<lparr>pb_vars = vs @ rest, pb_count = 0, pb_input = out @ put16 (sockc B) END_BIND_VARS @ r\<rparr> =
      Some (Got (map (\<lambda>j. received j (bvs ! j) (vs ! j)) [0..<length bvs] @ rest, r)))"
  using values_read [of k vs bvs "[]" rest] assms by simp

end

section \<open>Output variables\<close>

definition matches_out :: "lobcontent \<Rightarrow> nat \<Rightarrow> 'd serverbind \<Rightarrow> 'd outvar \<Rightarrow> bool" where
  "matches_out content i bv v \<longleftrightarrow> ov_type v = sb_type bv \<and> typed v \<and>
     (sb_isnull bv \<or> plain_value bv \<or> sb_type bv = BIND_BLOB \<or> sb_type bv = BIND_CLOB \<or>
      sb_type bv = BIND_CURSOR \<and> (\<exists>c. sb_value bv = S_Cursor c))"

text \<open>What a null value leaves: nothing of a string, zero, a date of zeros, or the value of before.\<close>

definition null_result :: "'d \<Rightarrow> bytes option \<Rightarrow> 'd outvar \<Rightarrow> 'd outvar" where
  "null_result zero blank v =
     v\<lparr>ov_resultsize := 0,
       ov_member :=
         (if ov_type v = BIND_STRING then M_String blank
          else if ov_type v = BIND_INTEGER then M_Integer 0
          else if ov_type v = BIND_DOUBLE then M_Double zero 0 0
          else if ov_type v = BIND_DATE then M_Date (no_date\<lparr>d_tz := blank, d_isnegative := negative_of (ov_member v)\<rparr>)
          else ov_member v)\<rparr>"

definition received_out :: "'d \<Rightarrow> bool \<Rightarrow> lobcontent \<Rightarrow> nat \<Rightarrow> 'd serverbind \<Rightarrow> 'd outvar \<Rightarrow> 'd outvar" where
  "received_out zero nulls content i bv v =
     (if sb_isnull bv \<or> (sb_type bv = BIND_BLOB \<or> sb_type bv = BIND_CLOB) \<and> content i = None then
        null_result zero (if nulls then None else Some []) v
      else if sb_type bv = BIND_BLOB \<or> sb_type bv = BIND_CLOB then
        (case the (content i) of (n, segments) \<Rightarrow>
           v\<lparr>ov_member := M_Lob (Some (map Some (concat segments) @ replicate (unat n - length (concat segments)) None)),
             ov_resultsize := ucast n\<rparr>)
      else if sb_type bv = BIND_CURSOR then
        (case sb_value bv of S_Cursor c \<Rightarrow> v\<lparr>ov_member := M_Cursor c\<rparr> | _ \<Rightarrow> v)
      else plain_result bv v)"

lemma nullOutput_typed:
  "typed v \<Longrightarrow> nullOutput zero nulls v = Got (null_result zero (if nulls then None else Some []) v)"
  by (simp add: nullOutput_def null_result_def nullDate_def typed_def Let_def)

lemma sendNull_out:
  assumes "bind_sock_ok B" and "typed v"
  shows "\<exists>type. type \<noteq> END_BIND_VARS \<and> (\<forall>r. \<exists>s. get16 (sockc B) (sendNullField (sockc B) @ r) = Some (type, s) \<and>
    getOutputResult B zero nulls type v s = Some (Got (null_result zero (if nulls then None else Some []) v, r)))"
  by (intro exI [of _ NULL_DATA])
    (simp add: sendNullField_def bind_sock_okD [OF assms(1)] getOutputResult_def nullOutput_typed [OF assms(2)] withRest_def)

text \<open>A large object that the driver has.\<close>

lemma lob_result:
  assumes "bind_sock_ok B" and "n \<noteq> - 1" and "length (concat segments) \<le> unat n"
    and "list_all (\<lambda>d. length d < 2 ^ 31) segments" and "ov_member v = M_Lob m"
  shows "getLobResult (sockc B) v (put64 (sockc B) n @ concat (map (chunk (sockc B)) segments) @ endSendingLong (sockc B) @ r) =
    Some (Got (v\<lparr>ov_member := M_Lob (Some (map Some (concat segments) @ replicate (unat n - length (concat segments)) None)),
                 ov_resultsize := ucast n\<rparr>, r))"
proof -
  have ok: "sock_ok (sockc B)" using assms(1) by (simp add: bind_sock_ok_def)
  have "unat n \<noteq> unat (- 1 :: u64)" using assms(2) unat_inj by blast
  moreover have "unat (- 1 :: u64) = 2 ^ 64 - 1" by (simp add: unsigned_minus_1_eq_mask mask_eq_exp_minus_1)
  ultimately have "unat n + 1 < 2 ^ 64" using unsigned_less [of n, where 'a = nat] by simp
  then have size: "unat (n + 1) = Suc (unat n)" by (simp add: unat_word_ariths)
  have "unat (n + 1) \<le> 2 ^ 64" using unsigned_less [of "n + 1", where 'a = nat] by simp
  then have "Suc (unat n) \<le> 2 ^ 64" using size by simp
  moreover have "take j (None # replicate j None) = replicate j (None :: byte option)" for j
    by (simp add: take_replicate flip: replicate_Suc)
  ultimately show ?thesis
    using lobChunks_read [OF ok _ assms(4), of "Suc (unat n)" "[]" r] assms(3,5) size
    by (simp add: getLobResult_def sock_okD [OF ok] lob_state_def Suc_diff_le)
qed

lemma output_value_read:
  assumes "bind_sock_ok B" and "lobs_ok L ready content" and "ready k" and "matches_out content i bv v"
  shows "\<exists>bs bv' k' type. returnOutputBindValue B L i bv k = Some (bs, bv', k') \<and> ready k' \<and> type \<noteq> END_BIND_VARS \<and>
    (\<forall>r. \<exists>s. get16 (sockc B) (bs @ r) = Some (type, s) \<and>
      getOutputResult B zero nulls type v s = Some (Got (received_out zero nulls content i bv v, r)))"
proof -
  let ?C = "sockc B" and ?lob = "sb_type bv = BIND_BLOB \<or> sb_type bv = BIND_CLOB"
  note m = assms(4) [unfolded matches_out_def]
  note law = assms(2) [unfolded lobs_ok_def, rule_format, OF assms(3), of i, THEN conjunct2]
  have typed: "typed v" using m by blast
  show ?thesis
  proof (cases "sb_isnull bv")
    case True
    then show ?thesis
      using sendNull_out [OF assms(1) typed, of zero nulls] assms(3)
      by (simp add: returnOutputBindValue_def received_out_def sendNullField_def Let_def)
  next
    case notnull: False
    show ?thesis
    proof (cases ?lob)
      case lob: True
      then obtain member where member: "ov_member v = M_Lob member" using m by (auto simp: typed_def)
      have closed: "ready (ob_close L k i)" using assms(2,3) by (simp add: lobs_ok_def)
      have returned: "returnOutputBindValue B L i bv k =
          map_option (\<lambda>out. (out, bv, ob_close L k i)) (sendLobOutputBind ?C L k i)"
        using notnull lob by (simp add: returnOutputBindValue_def returnOutputBindLob_def option.map_comp comp_def Let_def)
      show ?thesis
      proof (cases "content i")
        case None
        then have none: "case ob_length L k i of None \<Rightarrow> True | Some n \<Rightarrow> n \<noteq> 0 \<and> segments_from (ob_segment L k i) 0 []"
          using law by simp
        have "sendLobOutputBind ?C L k i = Some (sendNullField ?C)"
        proof (cases "ob_length L k i")
          case (Some n)
          then have "outLobLoop ?C (ob_segment L k i) n 0 True [] = Some (sendNullField ?C)"
            using none outLobLoop_end [of "ob_segment L k i" 0 ?C n True "[]"] by simp
          then show ?thesis using Some none by (simp add: sendLobOutputBind_def)
        qed (simp add: sendLobOutputBind_def)
        then show ?thesis
          using sendNull_out [OF assms(1) typed, of zero nulls] returned closed lob None by (simp add: received_out_def)
      next
        case (Some c)
        obtain n segments where c: "c = (n, segments)" by (cases c)
        then have content: "ob_length L k i = Some n" "n \<noteq> - 1" "length (concat segments) \<le> unat n"
          "if n = 0 then segments = [[]] else segments \<noteq> [] \<and> segments_from (ob_segment L k i) 0 segments"
          using law Some by simp_all
        let ?bs = "startSendingLong ?C n @ concat (map (chunk ?C) segments) @ endSendingLong ?C"
        have "sendLobOutputBind ?C L k i = Some ?bs \<and> list_all (\<lambda>d. length d < 2 ^ 31) segments"
        proof (cases "n = 0")
          case True
          then show ?thesis using content by (simp add: sendLobOutputBind_def sendLongSegment_def)
        next
          case False
          then obtain d ds where ds: "segments = d # ds" "segments_from (ob_segment L k i) 0 (d # ds)"
            using content(4) by (cases segments) auto
          obtain o1 where o1: "segments_from (ob_segment L k i) (0 + o1) ds" "length d < 2 ^ 31"
            "outLobLoop ?C (ob_segment L k i) n 0 True [] =
             outLobLoop ?C (ob_segment L k i) n (0 + o1) False ([] @ (if True then startSendingLong ?C n else []) @ chunk ?C d)"
            using outLobLoop_segment [OF ds(2), of ?C n True "[]"] by blast
          then show ?thesis
            using outLobLoop_segments [OF o1(1), of ?C n] False content(1) ds(1) by (simp add: sendLobOutputBind_def)
        qed
        moreover have "get16 ?C (?bs @ r) = Some (START_LONG_DATA, put64 ?C n @ concat (map (chunk ?C) segments) @ endSendingLong ?C @ r)" for r
          by (simp add: startSendingLong_def bind_sock_okD [OF assms(1)])
        ultimately show ?thesis
          using lob_result [OF assms(1) content(2,3) _ member] returned closed notnull lob Some c
          by (intro exI [of _ ?bs] exI [of _ bv] exI [of _ "ob_close L k i"] exI [of _ START_LONG_DATA])
            (auto simp: received_out_def getOutputResult_def Let_def)
      qed
    next
      case notlob: False
      show ?thesis
      proof (cases "sb_type bv = BIND_CURSOR \<and> (\<exists>c. sb_value bv = S_Cursor c)")
        case True
        then show ?thesis
          using notnull assms(1,3)
          by (auto simp: returnOutputBindValue_def received_out_def getOutputResult_def orBroken_def bind_sock_okD [OF assms(1)] Let_def)
      next
        case False
        then have plain: "plain_value bv" using m notnull notlob by blast
        then have "sb_type bv \<noteq> BIND_CURSOR" by (auto simp: plain_value_def)
        moreover have "reads_plain B (getOutputResult B zero nulls)"
          by (simp add: reads_plain_def getOutputResult_def Let_def)
        moreover have "getOutputResult B zero nulls STRING_DATA v t = Some (Got (plain_result bv v, r))"
          if "sb_value bv = S_String s" "get32 ?C t = Some (of_nat (length (cstr s)), cstr s @ r)"
            "getBytes (of_nat (length (cstr s))) (cstr s @ r) = Some (cstr s, r)" for s t r
          using that typed
          by (simp add: getOutputResult_def getStringResult_def orBroken_def plain_result_def typed_def Let_def)
        ultimately obtain bs bv' type where "returnPlainValue B bv = Some (bs, bv')" "type \<noteq> END_BIND_VARS"
          "\<And>r. \<exists>s. get16 ?C (bs @ r) = Some (type, s) \<and>
            getOutputResult B zero nulls type v s = Some (Got (plain_result bv v, r))" "sb_type bv \<noteq> BIND_CURSOR"
          using plain_sent [OF assms(1) _ plain typed, of "getOutputResult B zero nulls"] by blast
        then show ?thesis
          using notnull notlob assms(3)
          by (intro exI [of _ bs] exI [of _ bv'] exI [of _ k] exI [of _ type])
            (simp add: returnOutputBindValue_def received_out_def Let_def)
      qed
    qed
  qed
qed

section \<open>Input/output variables\<close>

text \<open>The memory of a string is there, and it is large enough for the value.\<close>

definition matches_inout :: "nat \<Rightarrow> 'd serverbind \<Rightarrow> 'd outvar \<Rightarrow> bool" where
  "matches_inout i bv v \<longleftrightarrow> typed v \<and> sb_type bv \<noteq> BIND_NULL \<and>
     (sb_type bv = BIND_STRING \<longrightarrow> (ov_type v = BIND_STRING \<or> ov_type v = BIND_NULL) \<and>
        (\<exists>s. ov_member v = M_String (Some s))) \<and>
     (sb_type bv \<noteq> BIND_STRING \<longrightarrow> ov_type v = sb_type bv) \<and>
     (\<forall>s. sb_type bv = BIND_STRING \<longrightarrow> \<not> sb_isnull bv \<longrightarrow> sb_value bv = S_String s \<longrightarrow> length (cstr s) \<le> unat (ov_size v)) \<and>
     (sb_isnull bv \<or> plain_value bv)"

definition received_inout :: "'d \<Rightarrow> bool \<Rightarrow> nat \<Rightarrow> 'd serverbind \<Rightarrow> 'd outvar \<Rightarrow> 'd outvar" where
  "received_inout zero nulls i bv v =
     (if sb_isnull bv then
        (let v = v\<lparr>ov_type := (if ov_type v = BIND_NULL then BIND_STRING else ov_type v)\<rparr>
         in null_result zero (if nulls \<and> ov_type v = BIND_STRING then None else Some []) v)
      else plain_result bv v)"

lemma inout_value_read:
  assumes "bind_sock_ok B" and "ready k" and "matches_inout i bv v"
  shows "\<exists>bs bv' k' type. returnInputOutputBindValue B i bv k = Some (bs, bv', k') \<and> ready k' \<and> type \<noteq> END_BIND_VARS \<and>
    (\<forall>r. \<exists>s. get16 (sockc B) (bs @ r) = Some (type, s) \<and>
      getInputOutputResult B zero nulls type v s = Some (Got (received_inout zero nulls i bv v, r)))"
proof (cases "sb_isnull bv")
  case True
  have "nullInputOutput zero nulls v = Got (received_inout zero nulls i bv v)"
    using assms(3) True
    by (cases "sb_type bv = BIND_STRING")
      (auto simp: matches_inout_def nullInputOutput_def received_inout_def null_result_def nullDate_def typed_def Let_def)
  then show ?thesis
    using True assms(2)
    by (intro exI [of _ "put16 (sockc B) NULL_DATA"] exI [of _ bv] exI [of _ k] exI [of _ NULL_DATA])
      (simp add: returnInputOutputBindValue_def getInputOutputResult_def withRest_def bind_sock_okD [OF assms(1)])
next
  case False
  note m = assms(3) [unfolded matches_inout_def]
  have plain: "plain_value bv" and typed: "typed v" using m False by blast+
  have "reads_plain B (getInputOutputResult B zero nulls)"
    by (simp add: reads_plain_def getInputOutputResult_def Let_def)
  moreover have "getInputOutputResult B zero nulls STRING_DATA v t = Some (Got (plain_result bv v, r))"
    if "sb_type bv = BIND_STRING" "sb_value bv = S_String s" "get32 (sockc B) t = Some (of_nat (length (cstr s)), cstr s @ r)"
      "getBytes (of_nat (length (cstr s))) (cstr s @ r) = Some (cstr s, r)" for s t r
  proof -
    have "length (cstr s) \<le> unat (ov_size v)" using m False that(1,2) by blast
    moreover from this have "unat (of_nat (length (cstr s)) :: u32) = length (cstr s)"
      using unsigned_less [of "ov_size v", where 'a = nat] by (intro unat_u32) simp
    ultimately have "(of_nat (length (cstr s)) :: u32) \<le> ov_size v" by (simp add: word_le_nat_alt)
    then show ?thesis
      using that m
      by (auto simp: getInputOutputResult_def getStringInto_def orBroken_def plain_result_def simp del: getBytes_append)
  qed
  ultimately obtain bs bv' type where "returnPlainValue B bv = Some (bs, bv')" "type \<noteq> END_BIND_VARS"
    "\<And>r. \<exists>s. get16 (sockc B) (bs @ r) = Some (type, s) \<and>
      getInputOutputResult B zero nulls type v s = Some (Got (plain_result bv v, r))"
    using plain_sent [OF assms(1) _ plain typed, of "getInputOutputResult B zero nulls"] by blast
  then show ?thesis
    using False assms(2)
    by (intro exI [of _ bs] exI [of _ bv'] exI [of _ k] exI [of _ type])
      (simp add: returnInputOutputBindValue_def received_inout_def)
qed

lemma output_value_law:
  assumes "bind_sock_ok B" and "lobs_ok L ready content \<and> ready k" and "matches_out content i bv v"
  shows "\<exists>bs bv' k' type. returnOutputBindValue B L i bv k = Some (bs, bv', k') \<and> (lobs_ok L ready content \<and> ready k') \<and>
    type \<noteq> END_BIND_VARS \<and> (\<forall>r. \<exists>s. get16 (sockc B) (bs @ r) = Some (type, s) \<and>
      getOutputResult B zero nulls type v s = Some (Got (received_out zero nulls content i bv v, r)))"
  using output_value_read [of B L ready content k i bv v zero nulls] assms by simp

interpretation output_values: value_reader B "returnOutputBindValue B L" "getOutputResult B zero nulls"
  "\<lambda>k. lobs_ok L ready content \<and> ready k" "matches_out content" "received_out zero nulls content"
  for B L zero nulls ready content
  by unfold_locales (rule output_value_law)

interpretation inout_values: value_reader B "returnInputOutputBindValue B" "getInputOutputResult B zero nulls"
  ready matches_inout "received_inout zero nulls" for B zero nulls and ready :: "'k \<Rightarrow> bool"
  by unfold_locales (rule inout_value_read)

section \<open>The values of a query\<close>

text \<open>The variables that a query fills in, and what the client has of them.\<close>

definition outputs_match :: "lobcontent \<Rightarrow> 'd serverrequest \<Rightarrow> 'd outvar list \<Rightarrow> bool" where
  "outputs_match content q vars \<longleftrightarrow> length vars = unat (sr_outcount q) \<and> length vars \<le> length (sr_outbinds q) \<and>
     (\<forall>j<length vars. matches_out content j (sr_outbinds q ! j) (vars ! j))"

definition inouts_match :: "'d serverrequest \<Rightarrow> 'd outvar list \<Rightarrow> bool" where
  "inouts_match q vars \<longleftrightarrow> length vars = unat (sr_inoutcount q) \<and> length vars \<le> length (sr_inoutbinds q) \<and>
     (\<forall>j<length vars. matches_inout j (sr_inoutbinds q ! j) (vars ! j))"

definition output_results :: "'d \<Rightarrow> bool \<Rightarrow> lobcontent \<Rightarrow> 'd serverrequest \<Rightarrow> 'd outvar list \<Rightarrow> 'd outvar list" where
  "output_results zero nulls content q vars =
     map (\<lambda>j. received_out zero nulls content j (sr_outbinds q ! j) (vars ! j)) [0..<length vars]"

definition inout_results :: "'d \<Rightarrow> bool \<Rightarrow> 'd serverrequest \<Rightarrow> 'd outvar list \<Rightarrow> 'd outvar list" where
  "inout_results zero nulls q vars =
     map (\<lambda>j. received_inout zero nulls j (sr_inoutbinds q ! j) (vars ! j)) [0..<length vars]"

lemma outputs_read:
  assumes "bind_sock_ok B" and "lobs_ok L ready content" and "ready k" and "2 \<le> version"
    and "outputs_match content q outs" and "inouts_match q inouts"
  shows "\<exists>bytes1 bytes2 q1 q2 k1 k2.
    returnOutputBindValues B L True q k = Some (bytes1, q1, k1) \<and>
    returnInputOutputBindValues B version True q1 k1 = Some (bytes2, q2, k2) \<and>
    ready k2 \<and>
    (\<forall>r. parseOutputBinds B zero nulls outs (bytes1 @ bytes2 @ r) =
        Some (Got (output_results zero nulls content q outs, bytes2 @ r)) \<and>
      parseInputOutputBinds B zero nulls inouts (bytes2 @ r) = Some (Got (inout_results zero nulls q inouts, r)))"
proof -
  let ?n = "unat (sr_outcount q)" and ?m = "unat (sr_inoutcount q)"
  note o = assms(5) [unfolded outputs_match_def] and io = assms(6) [unfolded inouts_match_def]
  have less: "unat n < 65536" for n :: u16 using unsigned_less [of n, where 'a = nat] by simp
  have ol: "length (take ?n (sr_outbinds q)) = length outs" "length (take ?m (sr_inoutbinds q)) = length inouts"
    using o io by simp_all
  have few: "length outs < 65536" "length inouts < 65536" using o io less by simp_all
  have "\<forall>j<length (take ?n (sr_outbinds q)). matches_out content j (take ?n (sr_outbinds q) ! j) (outs ! j)"
    using o ol by simp
  then obtain out1 bvs1 k1 where out1: "returnValues (returnOutputBindValue B L) 0 (take ?n (sr_outbinds q)) k = Some (out1, bvs1, k1)" "ready k1"
    "\<And>r. iterate (parseBindStep B (getOutputResult B zero nulls)) \<lparr>pb_vars = outs @ [], pb_count = 0,
        pb_input = out1 @ put16 (sockc B) END_BIND_VARS @ r\<rparr> =
      Some (Got (map (\<lambda>j. received_out zero nulls content j (take ?n (sr_outbinds q) ! j) (outs ! j)) [0..<length outs] @ [], r))"
    using output_values.list_read [OF assms(1) _ ol(1) [symmetric], of L ready content k zero nulls "[]"] assms(2,3) ol few(1) by auto
  have "\<forall>j<length (take ?m (sr_inoutbinds q)). matches_inout j (take ?m (sr_inoutbinds q) ! j) (inouts ! j)"
    using io ol by simp
  then obtain out2 bvs2 k2 where out2: "returnValues (returnInputOutputBindValue B) 0 (take ?m (sr_inoutbinds q)) k1 = Some (out2, bvs2, k2)" "ready k2"
    "\<And>r. iterate (parseBindStep B (getInputOutputResult B zero nulls)) \<lparr>pb_vars = inouts @ [], pb_count = 0,
        pb_input = out2 @ put16 (sockc B) END_BIND_VARS @ r\<rparr> =
      Some (Got (map (\<lambda>j. received_inout zero nulls j (take ?m (sr_inoutbinds q) ! j) (inouts ! j)) [0..<length inouts] @ [], r))"
    using inout_values.list_read [where ready = ready, OF assms(1) out1(2) ol(2) [symmetric], of zero nulls "[]"] ol few(2) by auto
  have v: "\<not> version < 2" using assms(4) by simp
  define q1 where "q1 = q\<lparr>sr_outbinds := bvs1 @ drop ?n (sr_outbinds q)\<rparr>"
  have "returnOutputBindValues B L True q k = Some (out1 @ put16 (sockc B) END_BIND_VARS, q1, k1)"
    using out1(1) by (simp add: returnOutputBindValues_def q1_def)
  moreover have "returnInputOutputBindValues B version True q1 k1 = Some (out2 @ put16 (sockc B) END_BIND_VARS,
      q1\<lparr>sr_inoutbinds := bvs2 @ drop ?m (sr_inoutbinds q)\<rparr>, k2)"
    using out2(1) v by (simp add: returnInputOutputBindValues_def q1_def)
  moreover have "map (\<lambda>j. received_out zero nulls content j (take ?n (sr_outbinds q) ! j) (outs ! j)) [0..<length outs] =
      output_results zero nulls content q outs"
    using o by (auto simp: output_results_def)
  moreover have "map (\<lambda>j. received_inout zero nulls j (take ?m (sr_inoutbinds q) ! j) (inouts ! j)) [0..<length inouts] =
      inout_results zero nulls q inouts"
    using io by (auto simp: inout_results_def)
  ultimately show ?thesis
    using out1(3) out2(2,3) by (simp add: parseOutputBinds_def parseInputOutputBinds_def)
qed

text \<open>
  C8: the values of output and input/output variables arrive in the client's variables in their order:
  strings up to their first zero, numbers, dates with an empty time zone for none, cursors, and large
  objects with all of their segments; null values as the client wants them. Nothing behind them is
  read, and nothing is written outside of the client's memory.
\<close>

theorem output_values_received:
  assumes "bind_sock_ok B" and "lobs_ok L ready content" and "ready k" and "2 \<le> version"
    and "outputs_match content q outs" and "inouts_match q inouts"
  shows "\<exists>bytes1 bytes2 q1 q2 k1 k2.
    returnOutputBindValues B L True q k = Some (bytes1, q1, k1) \<and>
    returnInputOutputBindValues B version True q1 k1 = Some (bytes2, q2, k2) \<and>
    (\<forall>r. parseOutputBinds B zero nulls outs (bytes1 @ bytes2 @ r) =
        Some (Got (output_results zero nulls content q outs, bytes2 @ r)) \<and>
      parseInputOutputBinds B zero nulls inouts (bytes2 @ r) = Some (Got (inout_results zero nulls q inouts, r)))"
  using outputs_read [OF assms] by blast

end
