(* ===== verification/Return_Initial.thy ===== *)
theory Return_Initial
  imports Return_Client
begin

text \<open>
  What the client does with the answer to a query (\<open>processInitialResultSet\<close> of
  \<open>src/api/c++/sqlrcursor.cpp\<close>): the error, or the cursor, the columns, the values of the bind variables
  and the first rows. Result sets from a cache file are left out. The messages of network errors are not
  followed, since \<open>clearResultSet\<close> deletes them.

  \<open>None\<close> is an answer that does not end; \<open>Some None\<close> is no defined behaviour.
\<close>

abbreviation "SUSPENDED_RESULT_SET \<equiv> 1 :: u16"
abbreviation "TIMEOUT_GETTING_ERROR_STATUS \<equiv> 3 :: u16"
abbreviation "SQLR_ERROR_NOCURSORS \<equiv> 900000 :: u64"

record 'd clientcursor =
  cu_client :: clientst
  cu_havecursorid :: bool
  cu_header :: "header option"
  cu_outs :: "'d outvar list"
  cu_inouts :: "'d outvar list"
  cu_lazyfetch :: bool

text \<open>What an earlier query has left in the buffers of the columns.\<close>

record colbuffers =
  bf_columns :: "nat \<Rightarrow> column"
  bf_longdatatype :: "nat \<Rightarrow> bool"
  bf_longest :: "nat \<Rightarrow> u32"

definition getCursorId :: "sockcodec \<Rightarrow> 'd clientcursor \<Rightarrow> bytes \<Rightarrow> bool \<times> 'd clientcursor \<times> bytes" where
  "getCursorId C cu s =
     (case get16 C s of
        None \<Rightarrow> (False, cu, s)
      | Some (i, s) \<Rightarrow> (True, cu\<lparr>cu_client := (cu_client cu)\<lparr>cursorid := i\<rparr>, cu_havecursorid := True\<rparr>, s))"

definition getSuspended :: "sockcodec \<Rightarrow> 'd clientcursor \<Rightarrow> bytes \<Rightarrow> bool \<times> 'd clientcursor \<times> bytes" where
  "getSuspended C cu s =
     (case get16 C s of
        None \<Rightarrow> (False, cu, s)
      | Some (suspended, s) \<Rightarrow>
          if suspended = SUSPENDED_RESULT_SET then
            (case get64 C s of
               None \<Rightarrow> (False, cu, s)
             | Some (row, s) \<Rightarrow> (True, cu\<lparr>cu_client := (cu_client cu)\<lparr>resumedlastrowindex := row\<rparr>\<rparr>, s))
          else (True, cu, s))"

definition takeColumns :: "colbuffers \<Rightarrow> header \<Rightarrow> 'd clientcursor \<Rightarrow> 'd clientcursor" where
  "takeColumns F h cu =
     cu\<lparr>cu_header := Some h,
        cu_client := (cu_client cu)\<lparr>sentcolumninfo := h_sentcolumninfo h, colcount := h_colcount h,
          longdatatype := map (bf_longdatatype F) [0..<unat (h_colcount h)],
          longest := map (\<lambda>i. if h_sentcolumninfo h = SEND_COLUMN_INFO then 0 else bf_longest F i) [0..<unat (h_colcount h)]\<rparr>\<rparr>"

definition clearResultSet :: "'d clientcursor \<Rightarrow> 'd clientcursor" where
  "clearResultSet cu =
     cu\<lparr>cu_header := None,
        cu_client := (cu_client cu)\<lparr>errorno := 0, clienterror := None, sqlstate := [], block := [], colcount := 0,
          longdatatype := [], longest := [], firstrowindex := 0, resumedlastrowindex := 0, rowcount := 0,
          endofresultset := True\<rparr>\<rparr>"

definition endsSession :: "'d clientcursor \<Rightarrow> 'd clientcursor" where
  "endsSession cu = cu\<lparr>cu_client := endSession (cu_client cu)\<rparr>"

text \<open>An answer that cannot be read.\<close>

definition giveUp :: "'d clientcursor \<Rightarrow> bytes \<Rightarrow> (bool \<times> 'd clientcursor \<times> bytes) option option" where
  "giveUp cu s = Some (Some (False, endsSession (clearResultSet cu), s))"

definition parseFirstRows ::
  "sockcodec \<Rightarrow> 'd clientcursor \<Rightarrow> bytes \<Rightarrow> (bool \<times> 'd clientcursor \<times> bytes) option option" where
  "parseFirstRows C cu s =
     (if \<not> cu_lazyfetch cu then
        (case parseResults C (cu_client cu) s of
           None \<Rightarrow> None
         | Some None \<Rightarrow> Some None
         | Some (Some (True, cl, s)) \<Rightarrow> Some (Some (True, cu\<lparr>cu_client := cl\<rparr>, s))
         | Some (Some (False, cl, s)) \<Rightarrow> giveUp (cu\<lparr>cu_client := cl\<rparr>) s)
      else
        (let cl = cu_client cu; row = resumedlastrowindex cl + 1
         in Some (Some (True, if resumedlastrowindex cl \<noteq> 0 then cu\<lparr>cu_client := cl\<lparr>rowcount := row, firstrowindex := row\<rparr>\<rparr>
                              else cu, s))))"

definition parseBinds ::
  "'d bindcodec \<Rightarrow> 'd \<Rightarrow> 'd clientcursor \<Rightarrow> bytes \<Rightarrow> (bool \<times> 'd clientcursor \<times> bytes) option option" where
  "parseBinds B zero cu s =
     (let nulls = returnnulls (cu_client cu) in
      case parseOutputBinds B zero nulls (cu_outs cu) s of
        None \<Rightarrow> None
      | Some Undefined_Reading \<Rightarrow> Some None
      | Some (Broken err) \<Rightarrow> giveUp cu s
      | Some (Got (outs, s)) \<Rightarrow>
          (let cu = cu\<lparr>cu_outs := outs\<rparr> in
           case parseInputOutputBinds B zero nulls (cu_inouts cu) s of
             None \<Rightarrow> None
           | Some Undefined_Reading \<Rightarrow> Some None
           | Some (Broken err) \<Rightarrow> giveUp cu s
           | Some (Got (inouts, s)) \<Rightarrow> parseFirstRows (sockc B) (cu\<lparr>cu_inouts := inouts\<rparr>) s))"

definition parseAnswer ::
  "'d bindcodec \<Rightarrow> 'd \<Rightarrow> (bytes \<Rightarrow> bytes) \<Rightarrow> colbuffers \<Rightarrow> 'd clientcursor \<Rightarrow> bytes \<Rightarrow>
   (bool \<times> 'd clientcursor \<times> bytes) option option" where
  "parseAnswer B zero colcase F cu s =
     (let C = sockc B in
      case getCursorId C cu s of
        (False, cu, s) \<Rightarrow> giveUp cu s
      | (True, cu, s) \<Rightarrow>
          (case getSuspended C cu s of
             (False, cu, s) \<Rightarrow> giveUp cu s
           | (True, cu, s) \<Rightarrow>
               (case parseColumnInfo C colcase (bf_columns F) s of
                  None \<Rightarrow> giveUp cu s
                | Some (h, s) \<Rightarrow> parseBinds B zero (takeColumns F h cu) s)))"

definition processInitialResultSet ::
  "'d bindcodec \<Rightarrow> 'd \<Rightarrow> (bytes \<Rightarrow> bytes) \<Rightarrow> colbuffers \<Rightarrow> 'd clientcursor \<Rightarrow> bytes \<Rightarrow>
   (bool \<times> 'd clientcursor \<times> bytes) option option" where
  "processInitialResultSet B zero colcase F cu s =
     (let C = sockc B in
      case getErrorStatus C (cu_client cu) s of
        (err, cl, s) \<Rightarrow>
          (let cu = cu\<lparr>cu_client := cl\<rparr> in
           if err = NO_ERROR_OCCURRED then parseAnswer B zero colcase F cu s
           else if err = TIMEOUT_GETTING_ERROR_STATUS then Some (Some (False, endsSession cu, s))
           else
             (case getErrorFromServer C cl s of
                (cl, s) \<Rightarrow>
                  (let cu = cu\<lparr>cu_client := cl\<rparr> in
                   case (if errorno cl \<noteq> SQLR_ERROR_NOCURSORS then getCursorId C cu s else (True, cu, s)) of
                     (_, cu, s) \<Rightarrow>
                       Some (Some (False, if err = ERROR_OCCURRED_DISCONNECT then endsSession cu else cu, s))))))"

end
