(* ===== verification/Return_Outcomes.thy ===== *)
theory Return_Outcomes
  imports Return_Rules Return_Initial Result_Session Result_Header
begin

text \<open>
  The answer to a query as a whole: what the server sends when a query has run, and what the client has
  when it has read it.
\<close>

section \<open>The first rows\<close>

lemma first_block:
  assumes "sock_ok C" and "delivers D None before reading" and "before rows k" and "fresh cl"
    and "list_all (row_ok cl) rows" and "length rows < 2 ^ 64" and "protocolversion cs \<noteq> 1"
    and "skip cs = 0" and "fetch cs = rsbuffersize cl"
  shows "\<exists>out k' cl'. sendBlock C D cs k = Some (out, k') \<and> parseResults C cl out = Some (Some (True, cl', [])) \<and>
    same_result cl cl' \<and> sync before rows cl' k'"
proof -
  let ?b = "rsbuffersize cl"
  have sync: "sync before rows cl k" using assms(3-6) by (intro sync_fresh)
  have cl: "cl\<lparr>block := [], rowcount := 0\<rparr> = cl" "\<not> endofresultset cl" "connected cl" "resumedlastrowindex cl = 0" "\<not> cachedest cl"
    using assms(4) by (simp_all add: fresh_def)
  have cs: "cs\<lparr>skip := 0, fetch := ?b\<rparr> = cs" using assms(8,9) by simp
  obtain k' where k': "sendBlock C D cs k = Some (answer C cs None rows, k')" "before (rows_left cs rows) k'"
    using sendBlock_answer [OF assms(2,3)] by blast
  note sent = answer_rows [where k = 0 and n = 0 and m = 0 and f = ?b and rows = rows, OF assms(7), simplified, unfolded cs drop_0]
  obtain cl' where cl': "parseResults C cl (answer C cs None rows) = Some (Some (True, cl', []))"
    "same_result cl cl'" "firstrowindex cl' = 0" "holds_rows rows cl'"
    and counts: "if ?b \<noteq> 0 \<and> unat ?b \<le> length rows then \<not> endofresultset cl' \<and> unat (rowcount cl') = unat ?b
     else endofresultset cl' \<and> unat (rowcount cl') = length rows"
    using block_received [OF assms(1) sync cl(2), of 0 "answer C cs None rows"] sent(1)
    unfolding cl(1) unsigned_0 drop_0 add_0 max_0L by blast
  have "sync before rows cl' k'"
    using assms(5,6) cl cl'(2-4) counts same_result_row_ok [OF cl'(2)] k'(2) sent(2)
    by (auto simp: sync_def same_result_def split: if_splits)
  then show ?thesis using k'(1) cl'(1,2) by blast
qed

section \<open>The whole answer\<close>

text \<open>The header of a query with its values, which the client reads in four steps.\<close>

definition good_rows :: "column list \<Rightarrow> rowvalue list list \<Rightarrow> bool" where
  "good_rows columns rows \<longleftrightarrow> length rows < 2 ^ 64 \<and> length columns < 2 ^ 32 \<and> list_all column_ok columns \<and>
     list_all (\<lambda>row. row \<noteq> [] \<and> length row = length columns \<and> list_all value_ok row) rows"

definition client_header ::
  "(bytes \<Rightarrow> bytes) \<Rightarrow> colbuffers \<Rightarrow> u64 option \<Rightarrow> u64 option \<Rightarrow> bool \<Rightarrow> u16 \<Rightarrow> column list \<Rightarrow> header" where
  "client_header colcase F actual affected sendinfo format columns =
     \<lparr>h_actualrows = actual, h_affectedrows = affected,
      h_sentcolumninfo = (if sendinfo then SEND_COLUMN_INFO else DONT_SEND_COLUMN_INFO),
      h_colcount = of_nat (length columns),
      h_columns = (if sendinfo then map2 (client_column colcase format) (map (bf_columns F) [0..<length columns]) columns
                   else [])\<rparr>"

lemma takeColumns_fresh:
  assumes "fresh (cu_client cu)" and "good_rows columns rows"
    and "cu' = takeColumns F (client_header colcase F actual affected sendinfo format columns)
      (cu\<lparr>cu_client := (cu_client cu)\<lparr>cursorid := i\<rparr>, cu_havecursorid := True\<rparr>)"
  shows "fresh (cu_client cu')" "list_all (row_ok (cu_client cu')) rows"
proof -
  show "fresh (cu_client cu')" using assms(1) by (simp add: assms(3) takeColumns_def fresh_def)
  have "unat (of_nat (length columns) :: u32) = length columns"
    using assms(2) by (intro unat_u32) (simp add: good_rows_def)
  then show "list_all (row_ok (cu_client cu')) rows"
    using assms(2) by (simp add: assms(3) takeColumns_def client_header_def good_rows_def row_ok_def list_all_iff)
qed

lemma answer_parsed:
  assumes "bind_sock_ok B" and "2 \<le> version" and "good_rows columns rows"
    and "parseOutputBinds B zero (returnnulls (cu_client cu)) (cu_outs cu) (outs @ inouts @ r) = Some (Got (new, inouts @ r))"
    and "parseInputOutputBinds B zero (returnnulls (cu_client cu)) (cu_inouts cu) (inouts @ r) = Some (Got (new', r))"
  shows "processInitialResultSet B zero colcase F cu
      (put16 (sockc B) NO_ERROR_OCCURRED @ put16 (sockc B) i @ put16 (sockc B) NO_SUSPENDED_RESULT_SET @
       returnResultSetHeader (sockc B) version actual affected sendinfo format columns @ outs @ inouts @ r) =
    parseFirstRows (sockc B)
      ((takeColumns F (client_header colcase F actual affected sendinfo format columns)
         (cu\<lparr>cu_client := (cu_client cu)\<lparr>cursorid := i\<rparr>, cu_havecursorid := True\<rparr>))
       \<lparr>cu_outs := new, cu_inouts := new'\<rparr>) r"
proof -
  have ok: "sock_ok (sockc B)" using assms(1) by (simp add: bind_sock_ok_def)
  have cols: "length columns < 2 ^ 32" "list_all column_ok columns" using assms(3) by (simp_all add: good_rows_def)
  let ?cu = "cu\<lparr>cu_client := (cu_client cu)\<lparr>cursorid := i\<rparr>, cu_havecursorid := True\<rparr>"
  have head: "parseColumnInfo (sockc B) colcase (bf_columns F)
      (returnResultSetHeader (sockc B) version actual affected sendinfo format columns @ s) =
      Some (client_header colcase F actual affected sendinfo format columns, s)" for s
    using header_parsed [OF ok assms(2) cols, of colcase "bf_columns F" actual affected sendinfo format s]
    by (simp add: client_header_def)
  have binds: "parseBinds B zero (takeColumns F h ?cu) (outs @ inouts @ r) =
      parseFirstRows (sockc B) ((takeColumns F h ?cu)\<lparr>cu_outs := new, cu_inouts := new'\<rparr>) r" for h
    using assms(4,5) by (simp add: parseBinds_def takeColumns_def)
  show ?thesis
    by (simp add: processInitialResultSet_def getErrorStatus_def parseAnswer_def getCursorId_def getSuspended_def
        sock_okD [OF ok] head binds)
qed

text \<open>What the server sends, up to the rows, when the values of the variables are there.\<close>

lemma query_served:
  assumes "bind_sock_ok (re_codec E)" and "mode \<noteq> Run_Bind_Cursor" and "runOnce E mode q k = (True, k1)"
    and "R k1 = (actual, affected, format, columns)"
    and "returnOutputBindValues (re_codec E) L True q k1 = Some (outs, q1, k2)"
    and "returnInputOutputBindValues (re_codec E) (protocolversion cs) True q1 k2 = Some (inouts, q2, k3)"
    and "cs1 = cs\<lparr>lazyfetch := rq_lazyfetch qc, skip := 0, fetch := rq_rsbuffersize qc\<rparr>" and "C = sockc (re_codec E)"
  shows "processQueryOrBindCursor (resultEnv D L R E) mode q [] (initialSkipAndFetch C qc @ r) cs k =
      map_option (\<lambda>(loop, data, cs', k'). (loop, put16 C NO_ERROR_OCCURRED @ put16 C (re_cursorid E) @
        put16 C NO_SUSPENDED_RESULT_SET @
        returnResultSetHeader C (protocolversion cs) actual affected (sr_sendcolumninfo q) format columns @
        outs @ inouts @ data, r, cs', k'))
      (returnResultSetData C D False False [] cs1 k3)"
proof -
  have "sock_ok C" using assms(1,8) by (simp add: bind_sock_ok_def)
  then have "getSkipAndFetch C True (initialSkipAndFetch C qc @ r) cs = Some (cs1, r)"
    using assms(7) by (simp add: getSkipAndFetch_def initialSkipAndFetch_def sock_okD)
  moreover have "sr_sendcolumninfo q2 = sr_sendcolumninfo q" "sr_sendcolumninfo q1 = sr_sendcolumninfo q"
    using assms(5,6) by (auto simp: returnOutputBindValues_def returnInputOutputBindValues_def Let_def split: if_splits)
  moreover have "runOnce (resultEnv D L R E) mode q k = (True, k1)"
    using assms(3) by (simp add: runOnce_def resultEnv_def split: runmode.splits)
  moreover have "re_codec (resultEnv D L R E) = re_codec E" by (simp add: resultEnv_def)
  moreover have "protocolversion cs1 = protocolversion cs" using assms(7) by simp
  ultimately show ?thesis
    using assms(2,4-6,8)
    by (subst processQueryOrBindCursor.simps) (simp add: answerRows_def resultEnv_def returnHeader_def Let_def assms(7))
qed

text \<open>And the client, behind the values.\<close>

lemma rows_received:
  assumes "sock_ok C" and "delivers D None before reading" and "before rows k" and "fresh (cu_client cu)"
    and "list_all (row_ok (cu_client cu)) rows" and "length rows < 2 ^ 64" and "protocolversion cs \<noteq> 1"
    and "skip cs = 0" and "fetch cs = rsbuffersize (cu_client cu)" and "lazyfetch cs = cu_lazyfetch cu"
  shows "\<exists>data k' cl. returnResultSetData C D False False [] cs k = Some (True, data, cs, k') \<and>
    parseFirstRows C cu data = Some (Some (True, cu\<lparr>cu_client := cl\<rparr>, [])) \<and>
    cursorid cl = cursorid (cu_client cu) \<and> sync before rows cl k'"
proof (cases "cu_lazyfetch cu")
  case True
  have "sync before rows (cu_client cu) k" using assms(3-6) by (intro sync_fresh)
  moreover have "resumedlastrowindex (cu_client cu) = 0" using assms(4) by (simp add: fresh_def)
  ultimately show ?thesis
    using True assms(10)
    by (intro exI [of _ "[]"] exI [of _ k] exI [of _ "cu_client cu"])
      (simp add: returnResultSetData_def parseFirstRows_def)
next
  case False
  obtain data k' cl where "sendBlock C D cs k = Some (data, k')"
    "parseResults C (cu_client cu) data = Some (Some (True, cl, []))" "same_result (cu_client cu) cl" "sync before rows cl k'"
    using first_block [where cs = cs and k = k, OF assms(1-9)] by blast
  then show ?thesis
    using False assms(10)
    by (intro exI [of _ data] exI [of _ k'] exI [of _ cl])
      (simp add: returnResultSetData_def parseFirstRows_def same_result_def)
qed

text \<open>
  C3: A query that runs is answered with its result set, and the client that reads the answer has the
  columns, the values of the bind variables, and the first block of the rows, or none with lazy fetching;
  it has read the whole answer, and stands with the server in the list of rows, from where all of its
  requests for fields are answered.
\<close>

theorem query_answered:
  assumes "bind_sock_ok (re_codec E)" and "delivers D None before reading" and "lobs_ok L (before rows) content"
    and "2 \<le> protocolversion cs" and "mode \<noteq> Run_Bind_Cursor" and "runOnce E mode q k = (True, k1)"
    and "before rows k1" and "R k1 = (actual, affected, format, columns)" and "good_rows columns rows"
    and "outputs_match content q (cu_outs cu)" and "inouts_match q (cu_inouts cu)" and "fresh (cu_client cu)"
    and "rq_lazyfetch qc = cu_lazyfetch cu" and "rq_rsbuffersize qc = rsbuffersize (cu_client cu)"
  shows "\<exists>out cs' k' cu'.
    processQueryOrBindCursor (resultEnv D L R E) mode q [] (initialSkipAndFetch (sockc (re_codec E)) qc @ r) cs k =
      Some (True, out, r, cs', k') \<and>
    processInitialResultSet (re_codec E) zero colcase F cu out = Some (Some (True, cu', [])) \<and>
    cu_header cu' = Some (client_header colcase F actual affected (sr_sendcolumninfo q) format columns) \<and>
    cu_outs cu' = output_results zero (returnnulls (cu_client cu)) content q (cu_outs cu) \<and>
    cu_inouts cu' = inout_results zero (returnnulls (cu_client cu)) q (cu_inouts cu) \<and>
    cursorid (cu_client cu') = re_cursorid E \<and> protocolversion cs' = protocolversion cs \<and>
    sync before rows (cu_client cu') k'"
proof -
  let ?B = "re_codec E" and ?C = "sockc (re_codec E)" and ?nulls = "returnnulls (cu_client cu)"
  define cs1 where "cs1 = cs\<lparr>lazyfetch := rq_lazyfetch qc, skip := 0, fetch := rq_rsbuffersize qc\<rparr>"
  have ok: "sock_ok ?C" using assms(1) by (simp add: bind_sock_ok_def)
  obtain outs inouts q1 q2 k2 k3 where sent:
    "returnOutputBindValues ?B L True q k1 = Some (outs, q1, k2)"
    "returnInputOutputBindValues ?B (protocolversion cs) True q1 k2 = Some (inouts, q2, k3)" "before rows k3"
    "\<And>r. parseOutputBinds ?B zero ?nulls (cu_outs cu) (outs @ inouts @ r) =
      Some (Got (output_results zero ?nulls content q (cu_outs cu), inouts @ r))"
    "\<And>r. parseInputOutputBinds ?B zero ?nulls (cu_inouts cu) (inouts @ r) =
      Some (Got (inout_results zero ?nulls q (cu_inouts cu), r))"
    using outputs_read [OF assms(1,3,7,4,10,11)] by blast
  define h where "h = client_header colcase F actual affected (sr_sendcolumninfo q) format columns"
  define cu0 where "cu0 = takeColumns F h (cu\<lparr>cu_client := (cu_client cu)\<lparr>cursorid := re_cursorid E\<rparr>, cu_havecursorid := True\<rparr>)"
  define cu1 where "cu1 = cu0\<lparr>cu_outs := output_results zero ?nulls content q (cu_outs cu),
    cu_inouts := inout_results zero ?nulls q (cu_inouts cu)\<rparr>"
  have client: "fresh (cu_client cu1)" "list_all (row_ok (cu_client cu1)) rows"
    using takeColumns_fresh [OF assms(12,9), of cu0] by (simp_all add: cu1_def cu0_def h_def)
  have cu1: "cu_lazyfetch cu1 = cu_lazyfetch cu" "cursorid (cu_client cu1) = re_cursorid E"
    "rsbuffersize (cu_client cu1) = rsbuffersize (cu_client cu)" "cu_header cu1 = Some h"
    by (simp_all add: cu1_def cu0_def takeColumns_def)
  have "length rows < 2 ^ 64" "protocolversion cs1 \<noteq> 1"
    using assms(4,9) by (auto simp: cs1_def good_rows_def word_le_nat_alt)
  then obtain data k4 cl where block: "returnResultSetData ?C D False False [] cs1 k3 = Some (True, data, cs1, k4)"
    "parseFirstRows ?C cu1 data = Some (Some (True, cu1\<lparr>cu_client := cl\<rparr>, []))" "cursorid cl = re_cursorid E"
    "sync before rows cl k4"
    using rows_received [where cs = cs1 and k = k3 and cu = cu1, OF ok assms(2) sent(3) client] cu1 assms(13,14)
    by (auto simp: cs1_def)
  note served = query_served [where R = R and D = D and r = r, OF assms(1,5,6,8) sent(1,2) cs1_def refl]
  note parsed = answer_parsed [OF assms(1,4,9) sent(4,5), of colcase F "re_cursorid E" actual affected "sr_sendcolumninfo q"
      format data, folded h_def, folded cu0_def, folded cu1_def]
  show ?thesis
    using served parsed block cu1(4)
    by (intro exI [of _ cs1] exI [of _ k4] exI [of _ "cu1\<lparr>cu_client := cl\<rparr>"] exI)
      (simp add: cs1_def h_def cu1_def)
qed

end
