(* ===== verification/Return_Errors.thy ===== *)
theory Return_Errors
  imports Return_Outcomes Request_Samples
begin

text \<open>
  The other answers to a query: an error of the database reaches the client, an answer that breaks off
  leaves no message; values that go to the wrong variable or to no memory; and the theorems on concrete
  queries.
\<close>

section \<open>Errors\<close>

text \<open>
  C18: A query that the database refuses is answered with the error: the client has its number, text and
  state and the number of the cursor, has read the whole answer, and is connected as before; the server
  has taken the whole request, and its session goes on.
\<close>

theorem query_error_told:
  assumes "bind_sock_ok (re_codec E)" and "3 \<le> protocolversion cs" and "runOnce E mode q k = (False, k1)"
    and "re_live E k1" and "error_ok (re_error E k1)" and "err_live (re_error E k1)"
    and "err_number (re_error E k1) \<noteq> SQLR_ERROR_NOCURSORS"
  shows "\<exists>out cu'.
    processQueryOrBindCursor E mode q [] (initialSkipAndFetch (sockc (re_codec E)) qc @ r) cs k = Some (True, out, r, cs, k1) \<and>
    processInitialResultSet (re_codec E) zero colcase F cu out = Some (Some (False, cu', [])) \<and>
    reported (re_error E k1) (cu_client cu') \<and> cursorid (cu_client cu') = re_cursorid E \<and>
    connected (cu_client cu') = connected (cu_client cu)"
proof -
  let ?C = "sockc (re_codec E)" and ?e = "re_error E k1"
  have ok: "sock_ok ?C" using assms(1) by (simp add: bind_sock_ok_def)
  let ?out = "cursorError ?C (protocolversion cs) False ?e (re_cursorid E)"
  have "dropNumber ?C (dropNumber ?C (initialSkipAndFetch ?C qc @ r)) = r"
    by (simp add: dropNumber_def initialSkipAndFetch_def sock_okD [OF ok])
  then have served: "processQueryOrBindCursor E mode q [] (initialSkipAndFetch ?C qc @ r) cs k = Some (True, ?out, r, cs, k1)"
    using assms(3,4) by (subst processQueryOrBindCursor.simps) (simp add: returnError_def Let_def)
  have id: "get16 ?C (put16 ?C i) = Some (i, [])" for i using sock_okD(1) [OF ok, of i "[]"] by simp
  show ?thesis
    using served assms(6,7) getErrorFromServer_sent [OF ok assms(2,5)]
    by (intro exI [of _ ?out] exI conjI)
      (assumption | simp add: processInitialResultSet_def cursorError_def getErrorStatus_def getCursorId_def reported_def
        sock_okD [OF ok] id)+
qed

text \<open>Whatever fails behind the announcement of a result set, the client ends as it does here.\<close>

definition ends_silently :: "(bool \<times> 'd clientcursor \<times> bytes) option option \<Rightarrow> bool" where
  "ends_silently res \<longleftrightarrow> (\<forall>cu' s'. res = Some (Some (False, cu', s')) \<longrightarrow> (\<exists>cu. cu' = endsSession (clearResultSet cu)))"

lemma ends_silently_simps [simp]: "ends_silently None" "ends_silently (Some None)" "ends_silently (giveUp cu s)" "ends_silently (Some (Some (True, cu, s)))"
  by (auto simp: ends_silently_def giveUp_def)

lemma ends_silently_rows: "ends_silently (parseFirstRows C cu s)"
proof (cases "cu_lazyfetch cu")
  case False
  consider "parseResults C (cu_client cu) s = None" | "parseResults C (cu_client cu) s = Some None"
    | ok cl t where "parseResults C (cu_client cu) s = Some (Some (ok, cl, t))"
    by (metis option.exhaust prod_cases3)
  then show ?thesis
  proof cases
    case 3
    then show ?thesis using False by (cases ok) (simp_all add: parseFirstRows_def)
  qed (simp_all add: parseFirstRows_def False)
qed (simp add: parseFirstRows_def Let_def)

lemma ends_silently_binds: "ends_silently (parseBinds B zero cu s)"
  by (simp add: parseBinds_def ends_silently_rows Let_def split: option.split reading.split prod.split)

lemma ends_silently_answer: "ends_silently (parseAnswer B zero colcase F cu s)"
  by (simp add: parseAnswer_def ends_silently_binds Let_def split: option.split prod.split bool.split)

text \<open>
  A client whose answer breaks off or ends with the loss of the database, after the server has
  announced a result set, has no message of it: nothing of an error is left when the session has been ended.
\<close>

theorem broken_answer_without_message:
  assumes "processInitialResultSet B zero colcase F cu s = Some (Some (False, cu', s'))"
    and "fst (getErrorStatus (sockc B) (cu_client cu) s) = NO_ERROR_OCCURRED"
  shows "clienterror (cu_client cu') = None \<and> errorno (cu_client cu') = 0 \<and> \<not> connected (cu_client cu') \<and> cu_header cu' = None"
proof -
  obtain cl t where "getErrorStatus (sockc B) (cu_client cu) s = (NO_ERROR_OCCURRED, cl, t)"
    using assms(2) by (metis prod.collapse)
  then have "parseAnswer B zero colcase F (cu\<lparr>cu_client := cl\<rparr>) t = Some (Some (False, cu', s'))"
    using assms(1) by (simp add: processInitialResultSet_def)
  then obtain cu1 where "cu' = endsSession (clearResultSet cu1)"
    using ends_silently_answer [of B zero colcase F "cu\<lparr>cu_client := cl\<rparr>" t] by (auto simp: ends_silently_def)
  then show ?thesis by (simp add: endsSession_def clearResultSet_def endSession_def)
qed

section \<open>Values without a place\<close>

text \<open>
  An output variable that the client does not send, because the query does not name it, still takes a
  value: that of the variable behind it, which keeps what it had.
\<close>

theorem unsent_variable_takes_value:
  assumes "bind_sock_ok B" and "lobs_ok L ready content" and "ready k" and "\<not> cv_send c0" and "cv_send c1"
    and "sr_outcount q = 1" and "sr_outbinds q = bv # bvs" and "matches_out content 0 bv v0"
  shows "sendOutputBinds B [c0, c1] = sendOutputBinds B [c1]"
    and "\<exists>out q' k'. returnOutputBindValues B L True q k = Some (out, q', k') \<and>
      (\<forall>r. parseOutputBinds B zero nulls [v0, v1] (out @ r) = Some (Got ([received_out zero nulls content 0 bv v0, v1], r)))"
proof -
  show "sendOutputBinds B [c0, c1] = sendOutputBinds B [c1]"
    using assms(4,5) by (simp add: sendOutputBinds_def sendBinds_def)
  have one: "\<forall>j<length [bv]. matches_out content j ([bv] ! j) ([v0] ! j)" using assms(8) by simp
  have ready: "lobs_ok L ready content \<and> ready k" using assms(2,3) by simp
  obtain out bvs' k' where "returnValues (returnOutputBindValue B L) 0 [bv] k = Some (out, bvs', k')"
    "\<And>r. iterate (parseBindStep B (getOutputResult B zero nulls)) \<lparr>pb_vars = [v0] @ [v1], pb_count = 0,
       pb_input = out @ put16 (sockc B) END_BIND_VARS @ r\<rparr> =
     Some (Got (map (\<lambda>j. received_out zero nulls content j ([bv] ! j) ([v0] ! j)) [0..<length [bv]] @ [v1], r))"
    using output_values.list_read [where L = L and ready = ready and content = content and k = k and zero = zero and nulls = nulls
        and rest = "[v1]", OF assms(1) ready _ _ one] by auto
  then show "\<exists>out q' k'. returnOutputBindValues B L True q k = Some (out, q', k') \<and>
      (\<forall>r. parseOutputBinds B zero nulls [v0, v1] (out @ r) = Some (Got ([received_out zero nulls content 0 bv v0, v1], r)))"
    using assms(6,7) by (simp add: returnOutputBindValues_def parseOutputBinds_def)
qed

text \<open>A large object that is longer than its announced length is written beyond the client's buffer.\<close>

theorem longer_lob_overflows:
  assumes "sock_ok C" and "length d < 2 ^ 32" and "unat n + 1 < length d" and "unat n < 2 ^ 63"
  shows "getLobResult C v (put64 C n @ chunk C d @ r) = Some Undefined_Reading"
proof -
  have d: "unat (of_nat (length d) :: u32) = length d" using assms(2) by (intro unat_u32) simp
  have "unat (n + 1) = unat n + 1" using assms(4) by (simp add: unat_word_ariths)
  then have "lobChunkStep C \<lparr>lb_buffer = replicate (unat (n + 1)) None, lb_offset = 0, lb_input = chunk C d @ r\<rparr> =
      Some (Inr Undefined_Reading)"
    using assms(3) d by (simp add: lobChunkStep_def sock_okD [OF assms(1)])
  then show ?thesis by (simp add: getLobResult_def sock_okD [OF assms(1)] iterate_Inr)
qed

text \<open>
  An input/output string that comes back as null, for a client that wants nulls as such, has no memory
  afterwards; the value of the next execution is written to it all the same.
\<close>

theorem string_after_null_has_no_memory:
  assumes "sock_ok (sockc B)" and "ov_type v = BIND_STRING" and "is_string (ov_member v)"
  shows "\<exists>v'. getInputOutputResult B zero True NULL_DATA v s = Some (Got (v', s)) \<and>
    getInputOutputResult B zero True STRING_DATA v' (put32 (sockc B) n @ r) = Some Undefined_Reading"
  using assms
  by (simp add: getInputOutputResult_def nullInputOutput_def withRest_def getStringInto_def orBroken_def
      sock_okD [OF assms(1)] Let_def)

end
