(* ===== verification/Return_Samples.thy ===== *)
theory Return_Samples
  imports Return_Errors
begin

text \<open>A query with values and rows on the way back: the theorems about answers on concrete data.\<close>

section \<open>The sample\<close>

type_synonym rowstate = "rowvalue list list \<times> rowvalue list"

text \<open>Every large object is three bytes in two segments.\<close>

definition sample_lobs :: "rowstate outlobs" where
  "sample_lobs = \<lparr>ob_length = (\<lambda>k i. Some 3),
     ob_segment = (\<lambda>k i offset. if offset = 0 then Some ([1, 2, 9], 2) else if offset = 2 then Some ([3], 1) else None),
     ob_close = (\<lambda>k i. k)\<rparr>"

lemma sample_lobs_ok: "lobs_ok sample_lobs ready (\<lambda>i. Some (3, [[1, 2], [3]]))"
  by (simp add: lobs_ok_def sample_lobs_def word_le_nat_alt)

text \<open>A string, a large object, a null value; and a number that went in and comes out.\<close>

definition answered_request :: "u64 serverrequest" where
  "answered_request = empty_request\<lparr>sr_outcount := 3,
     sr_outbinds := [empty_slot\<lparr>sb_type := BIND_STRING, sb_size := 50, sb_value := S_String [104, 105, 0, 7]\<rparr>,
       empty_slot\<lparr>sb_type := BIND_BLOB\<rparr>, empty_slot\<lparr>sb_type := BIND_INTEGER, sb_isnull := True\<rparr>],
     sr_inoutcount := 1, sr_inoutbinds := [empty_slot\<lparr>sb_type := BIND_INTEGER, sb_value := S_Integer 6\<rparr>, empty_slot],
     sr_sendcolumninfo := True\<rparr>"

abbreviation variable_of :: "bytes \<Rightarrow> u16 \<Rightarrow> u64 member \<Rightarrow> u64 outvar" where
  "variable_of name type m \<equiv> \<lparr>ov_variable = name, ov_type = type, ov_member = m, ov_size = 0, ov_resultsize = 0\<rparr>"

abbreviation "sample_outs \<equiv> [variable_of [97] BIND_STRING (M_String None), variable_of [98] BIND_BLOB (M_Lob None),
  variable_of [99] BIND_INTEGER (M_Integer 8)]"

abbreviation "sample_inouts \<equiv> [variable_of [100] BIND_INTEGER (M_Integer 5)]"

abbreviation "filled_outs \<equiv> [(variable_of [97] BIND_STRING (M_String (Some [104, 105])))\<lparr>ov_resultsize := 2\<rparr>,
  (variable_of [98] BIND_BLOB (M_Lob (Some [Some 1, Some 2, Some 3])))\<lparr>ov_resultsize := 3\<rparr>,
  variable_of [99] BIND_INTEGER (M_Integer 0)]"

abbreviation "filled_inouts \<equiv> [variable_of [100] BIND_INTEGER (M_Integer 6)]"

lemma answered_match:
  "outputs_match (\<lambda>i. Some (3, [[1, 2], [3]])) answered_request sample_outs" "inouts_match answered_request sample_inouts"
  by (simp_all add: outputs_match_def inouts_match_def answered_request_def empty_request_def All_less_Suc2 matches_out_def
      matches_inout_def typed_def plain_value_def cstr_def)

lemma answered_results:
  "output_results 0 True (\<lambda>i. Some (3, [[1, 2], [3]])) answered_request sample_outs = filled_outs"
  "inout_results 0 True answered_request sample_inouts = filled_inouts"
  by (simp_all add: output_results_def inout_results_def answered_request_def empty_request_def received_out_def
      received_inout_def null_result_def plain_result_def cstr_def upt_rec)

section \<open>The theorems on the sample\<close>

theorem output_values_received_witness:
  "\<exists>bytes1 bytes2 q1 q2 k1 k2.
    returnOutputBindValues be_bind sample_lobs True answered_request ([], []) = Some (bytes1, q1, k1) \<and>
    returnInputOutputBindValues be_bind 3 True q1 k1 = Some (bytes2, q2, k2) \<and>
    parseOutputBinds be_bind 0 True sample_outs (bytes1 @ bytes2 @ [42]) = Some (Got (filled_outs, bytes2 @ [42])) \<and>
    parseInputOutputBinds be_bind 0 True sample_inouts (bytes2 @ [42]) = Some (Got (filled_inouts, [42]))"
  using output_values_received [OF be_bind_ok sample_lobs_ok _ _ answered_match, of "\<lambda>k. True" "([], [])" 3 0 True]
  unfolding answered_results by force

text \<open>The controller's state is that of the rows; a query gives two columns and the rows of the sample.\<close>

definition answering_env :: "(u64, rowstate) requestenv" where
  "answering_env = \<lparr>re_codec = be_bind, re_limits = re_limits sample_env, re_format = 58, re_garbage = 0,
     re_newcursor = (\<lambda>k. (Some 4, k)), re_waitfordowndb = False, re_cursorid = 3,
     re_prepareAndExecute = (\<lambda>q k. (sr_outcount q \<noteq> 0, sample_rows, [])), re_executeAgain = (\<lambda>q k. (False, k)),
     re_fetchFromBindCursor = (\<lambda>k. (False, k)), re_live = (\<lambda>k. True),
     re_error = (\<lambda>k. \<lparr>err_number = 942, err_string = [110, 111], err_live = True, err_sqlstate = [52, 50]\<rparr>),
     re_shutdown = (\<lambda>k. False), re_relogin = (\<lambda>k. k), re_header = (\<lambda>version info q k. Some ([], k)),
     re_data = (\<lambda>cs k. Some (True, [], cs, k))\<rparr>"

abbreviation "sample_buffers \<equiv> \<lparr>bf_columns = \<lambda>i. sample_column, bf_longdatatype = \<lambda>i. False, bf_longest = \<lambda>i. 0\<rparr>"

definition sample_cursor :: "u64 clientcursor" where
  "sample_cursor = \<lparr>cu_client = sample_client, cu_havecursorid = False, cu_header = None, cu_outs = sample_outs,
     cu_inouts = sample_inouts, cu_lazyfetch = False\<rparr>"

lemma answering_env_simps [simp]: "re_codec answering_env = be_bind" "re_cursorid answering_env = 3" "sockc be_bind = be_sock"
  by (simp_all add: answering_env_def be_bind_def)

theorem query_answered_witness:
  "\<exists>out cs' k' cu'.
    processQueryOrBindCursor
      (resultEnv (list_source 2 None) sample_lobs (\<lambda>k. (Some 4, None, COLUMN_TYPE_IDS, [sample_column, sample_column])) answering_env)
      Run_New answered_request [] (put64 be_sock 0 @ put64 be_sock 2) sample_session ([], []) = Some (True, out, [], cs', k') \<and>
    processInitialResultSet be_bind 0 id sample_buffers sample_cursor out = Some (Some (True, cu', [])) \<and>
    cu_outs cu' = filled_outs \<and> cu_inouts cu' = filled_inouts \<and>
    sync (\<lambda>rows s. fst s = rows \<and> list_all (plain_row 2) rows) sample_rows (cu_client cu') k'"
proof -
  let ?before = "\<lambda>rows (s :: rowstate). fst s = rows \<and> list_all (plain_row 2) rows"
  have cursor: "cu_outs sample_cursor = sample_outs" "cu_inouts sample_cursor = sample_inouts"
    "cu_client sample_cursor = sample_client" "rsbuffersize sample_client = 2" "cu_lazyfetch sample_cursor = False"
    "returnnulls sample_client"
    by (simp_all add: sample_cursor_def sample_client_def)
  define qc where "qc = sample_query\<lparr>rq_lazyfetch := False, rq_rsbuffersize := 2\<rparr>"
  have qc: "initialSkipAndFetch be_sock qc = put64 be_sock 0 @ put64 be_sock 2" "rq_lazyfetch qc = False" "rq_rsbuffersize qc = 2"
    by (simp_all add: initialSkipAndFetch_def qc_def)
  have run: "runOnce answering_env Run_New answered_request ([], []) = (True, sample_rows, [])"
    by (simp add: runOnce_def answering_env_def answered_request_def)
  have good: "good_rows [sample_column, sample_column] sample_rows"
    by (simp add: good_rows_def column_ok_def)
  have "fresh (cu_client sample_cursor)" using sample_ok(1) cursor by simp
  then show ?thesis
    using query_answered [where E = answering_env and D = "list_source 2 None" and L = sample_lobs and before = ?before
        and R = "\<lambda>k. (Some 4, None, COLUMN_TYPE_IDS, [sample_column, sample_column])" and q = answered_request and cu = sample_cursor
        and qc = qc and rows = sample_rows and cs = sample_session and mode = Run_New and k = "([], [])" and r = "[]"
        and colcase = id and F = sample_buffers and zero = 0 and content = "\<lambda>i. Some (3, [[1, 2], [3]])",
        OF _ list_source_delivers sample_lobs_ok _ _ run _ refl good]
      be_bind_ok answered_match answered_results sample_ok(3) cursor qc by auto
qed

theorem query_error_told_witness:
  "\<exists>out cu'. processQueryOrBindCursor answering_env Run_Again answered_request [] (put64 be_sock 0 @ put64 be_sock 10)
      sample_session ([], []) = Some (True, out, [], sample_session, ([], [])) \<and>
    processInitialResultSet be_bind 0 id sample_buffers sample_cursor out = Some (Some (False, cu', [])) \<and>
    errorno (cu_client cu') = 942 \<and> clienterror (cu_client cu') = Some (Server_Error [110, 111])"
proof -
  have "runOnce answering_env Run_Again answered_request ([], []) = (False, ([], []))" "re_live answering_env ([], [])"
    "error_ok (re_error answering_env ([], []))" "err_live (re_error answering_env ([], []))"
    "err_number (re_error answering_env ([], [])) = 942" "err_string (re_error answering_env ([], [])) = [110, 111]"
    by (simp_all add: runOnce_def answering_env_def error_ok_def)
  moreover have "initialSkipAndFetch be_sock sample_query = put64 be_sock 0 @ put64 be_sock 10"
    by (simp add: initialSkipAndFetch_def sample_query_def)
  ultimately show ?thesis
    using query_error_told [of answering_env sample_session Run_Again answered_request "([], [])" "([], [])" sample_query "[]"
        0 id sample_buffers sample_cursor] be_bind_ok
    by (auto simp: reported_def)
qed

end
