(* ===== verification/Connection_Server.thy ===== *)
theory Connection_Server
  imports Command_Loop Transactions Request_Wire
begin

text \<open>
  The commands on a connection (\<open>src/protocols/sqlrclient.cpp\<close>): they need no cursor. Each reads what
  the client has sent with it, asks the controller, and writes an answer: a status and a value, or the
  error of the controller.

  The controller is the record \<open>connops\<close> over its state \<open>'k\<close>. Texts of the controller are the bytes before
  their zero, and a null pointer is the empty text, except where the code looks for it. A text is cut
  off where its length does not fit in 16 bits. Events, statistics and debug output are left out.
\<close>

abbreviation "FEATURE_COUNT \<equiv> 138 :: nat"
abbreviation "FEATURE_COUNT_V2 \<equiv> 136 :: nat"
abbreviation "SQLR_ERROR_NOTIMPLEMENTED \<equiv> 900019 :: u64"

abbreviation "COMMIT \<equiv> 9 :: u16"
abbreviation "ROLLBACK \<equiv> 10 :: u16"
abbreviation "SET_AUTO_COMMIT \<equiv> 12 :: u16"
abbreviation "DB_VERSION \<equiv> 15 :: u16"
abbreviation "BIND_FORMAT \<equiv> 16 :: u16"
abbreviation "SERVER_VERSION \<equiv> 17 :: u16"
abbreviation "SELECT_DATABASE \<equiv> 21 :: u16"
abbreviation "GET_CURRENT_DATABASE \<equiv> 22 :: u16"
abbreviation "GET_LAST_INSERT_ID \<equiv> 23 :: u16"
abbreviation "BEGIN \<equiv> 24 :: u16"
abbreviation "DB_HOST_NAME \<equiv> 27 :: u16"
abbreviation "DB_IP_ADDRESS \<equiv> 28 :: u16"
abbreviation "GET_CURRENT_SCHEMA \<equiv> 37 :: u16"
abbreviation "NEXT_VAL_FORMAT \<equiv> 40 :: u16"
abbreviation "SELECT_SCHEMA \<equiv> 41 :: u16"
abbreviation "SET_ISOLATION_LEVEL \<equiv> 42 :: u16"
abbreviation "GET_ISOLATION_LEVEL \<equiv> 43 :: u16"
abbreviation "GET_DATABASE_FEATURES \<equiv> 44 :: u16"
abbreviation "GET_AUTO_COMMIT \<equiv> 45 :: u16"
abbreviation "SELECT_CATALOG \<equiv> 47 :: u16"
abbreviation "GET_CURRENT_CATALOG \<equiv> 48 :: u16"
abbreviation "GET_DATABASE_IS_SCHEMA \<equiv> 49 :: u16"
abbreviation "GET_DEFAULT_ISOLATION_LEVEL \<equiv> 51 :: u16"
abbreviation "GET_CURRENT_USER \<equiv> 52 :: u16"
abbreviation "SET_TRANSACTION_MODEL \<equiv> 53 :: u16"
abbreviation "GET_TRANSACTION_MODEL \<equiv> 54 :: u16"
abbreviation "GET_DEFAULT_TRANSACTION_MODEL \<equiv> 55 :: u16"
abbreviation "GET_IN_TRANSACTION \<equiv> 56 :: u16"

section \<open>The controller\<close>

record 'k connops =
  co_ping :: "'k \<Rightarrow> bool \<times> 'k"
  co_reLogIn :: "'k \<Rightarrow> 'k"
  co_dbType :: "'k \<Rightarrow> bytes \<times> 'k"
  co_dbVersion :: "'k \<Rightarrow> bytes \<times> 'k"
  co_bindFormat :: "'k \<Rightarrow> bytes \<times> 'k"
  co_nextvalFormat :: "'k \<Rightarrow> bytes \<times> 'k"
  co_serverVersion :: "'k \<Rightarrow> bytes \<times> 'k" \<comment> \<open>\<open>SQLR_VERSION\<close>\<close>
  co_setAutoCommitOn :: "'k \<Rightarrow> bool \<times> 'k"
  co_setAutoCommitOff :: "'k \<Rightarrow> bool \<times> 'k"
  co_getAutoCommit :: "'k \<Rightarrow> bool"
  co_begin :: "'k \<Rightarrow> bool \<times> 'k"
  co_commit :: "'k \<Rightarrow> bool \<times> 'k"
  co_rollback :: "'k \<Rightarrow> bool \<times> 'k"
  co_getInTransaction :: "'k \<Rightarrow> bool"
  co_selectDatabase :: "bytes \<Rightarrow> 'k \<Rightarrow> bool \<times> 'k"
  co_selectCatalog :: "bytes \<Rightarrow> 'k \<Rightarrow> bool \<times> 'k"
  co_selectSchema :: "bytes \<Rightarrow> 'k \<Rightarrow> bool \<times> 'k"
  co_currentDatabase :: "'k \<Rightarrow> bytes \<times> 'k"
  co_currentCatalog :: "'k \<Rightarrow> bytes \<times> 'k"
  co_currentSchema :: "'k \<Rightarrow> bytes \<times> 'k"
  co_currentUser :: "'k \<Rightarrow> bytes \<times> 'k"
  co_databaseIsSchema :: "'k \<Rightarrow> bool"
  co_lastInsertId :: "'k \<Rightarrow> u64 option \<times> 'k"
  co_hostName :: "'k \<Rightarrow> bytes \<times> 'k"
  co_ipAddress :: "'k \<Rightarrow> bytes \<times> 'k"
  co_setIsolationLevel :: "bytes \<Rightarrow> u16 \<Rightarrow> 'k \<Rightarrow> bool \<times> 'k"
  co_isolationLevel :: "u16 \<Rightarrow> 'k \<Rightarrow> bytes option \<times> 'k"
  co_defaultIsolationLevel :: "u16 \<Rightarrow> 'k \<Rightarrow> bytes option \<times> 'k"
  co_setTransactionModel :: "sqlrtxmodel \<Rightarrow> 'k \<Rightarrow> bool \<times> 'k"
  co_transactionModel :: "'k \<Rightarrow> sqlrtxmodel"
  co_nativeModel :: "'k \<Rightarrow> sqlrtxmodel"
  co_features :: "'k \<Rightarrow> (nat \<Rightarrow> bytes) option \<times> 'k"
  co_setError :: "bytes \<Rightarrow> u64 \<Rightarrow> bool \<Rightarrow> 'k \<Rightarrow> 'k"
  co_getError :: "'k \<Rightarrow> servererror \<times> 'k"

text \<open>What a command writes, what it leaves unread, and the controller behind it.\<close>

type_synonym 'k served = "bytes \<times> bytes \<times> 'k"

section \<open>Answers\<close>

text \<open>\<open>returnError\<close> for a connection.\<close>

definition connectionError :: "sockcodec \<Rightarrow> u16 \<Rightarrow> bool \<Rightarrow> servererror \<Rightarrow> bytes" where
  "connectionError C version forcedisconnect e =
     put16 C (if forcedisconnect \<or> \<not> err_live e then ERROR_OCCURRED_DISCONNECT else ERROR_OCCURRED) @
     put64 C (err_number e) @ put16 C (of_nat (length (err_string e))) @ err_string e @
     sendSqlState C version (err_sqlstate e)"

definition returnConnError :: "sockcodec \<Rightarrow> 'k connops \<Rightarrow> u16 \<Rightarrow> bytes \<Rightarrow> 'k \<Rightarrow> 'k served" where
  "returnConnError C K version r k = (case co_getError K k of (e, k) \<Rightarrow> (connectionError C version False e, r, k))"

definition acknowledge :: "sockcodec \<Rightarrow> 'k connops \<Rightarrow> u16 \<Rightarrow> bytes \<Rightarrow> bool \<times> 'k \<Rightarrow> 'k served" where
  "acknowledge C K version r result =
     (case result of (success, k) \<Rightarrow>
        if success then (put16 C NO_ERROR_OCCURRED, r, k) else returnConnError C K version r k)"

definition sendText :: "sockcodec \<Rightarrow> bytes \<Rightarrow> bytes" where
  "sendText C s = (let n = of_nat (length s) :: u16 in put16 C n @ take (unat n) s)"

definition answerText :: "sockcodec \<Rightarrow> bytes \<Rightarrow> bytes \<times> 'k \<Rightarrow> 'k served" where
  "answerText C r result = (case result of (s, k) \<Rightarrow> (put16 C NO_ERROR_OCCURRED @ sendText C s, r, k))"

section \<open>Ping, identity and formats\<close>

definition pingCommand :: "sockcodec \<Rightarrow> 'k connops \<Rightarrow> u16 \<Rightarrow> bytes \<Rightarrow> 'k \<Rightarrow> 'k served" where
  "pingCommand C K version r k =
     (case co_ping K k of (pingresult, k) \<Rightarrow>
        if pingresult then (put16 C NO_ERROR_OCCURRED, r, k)
        else (case returnConnError C K version r k of (out, r, k) \<Rightarrow> (out, r, co_reLogIn K k)))"

definition identifyCommand :: "sockcodec \<Rightarrow> 'k connops \<Rightarrow> bytes \<Rightarrow> 'k \<Rightarrow> 'k served" where
  "identifyCommand C K r k = answerText C r (co_dbType K k)"

definition dbVersionCommand :: "sockcodec \<Rightarrow> 'k connops \<Rightarrow> bytes \<Rightarrow> 'k \<Rightarrow> 'k served" where
  "dbVersionCommand C K r k = answerText C r (co_dbVersion K k)"

definition bindFormatCommand :: "sockcodec \<Rightarrow> 'k connops \<Rightarrow> bytes \<Rightarrow> 'k \<Rightarrow> 'k served" where
  "bindFormatCommand C K r k = answerText C r (co_bindFormat K k)"

definition getNextvalFormatCommand :: "sockcodec \<Rightarrow> 'k connops \<Rightarrow> bytes \<Rightarrow> 'k \<Rightarrow> 'k served" where
  "getNextvalFormatCommand C K r k = answerText C r (co_nextvalFormat K k)"

definition serverVersionCommand :: "sockcodec \<Rightarrow> 'k connops \<Rightarrow> bytes \<Rightarrow> 'k \<Rightarrow> 'k served" where
  "serverVersionCommand C K r k = answerText C r (co_serverVersion K k)"

definition dbHostNameCommand :: "sockcodec \<Rightarrow> 'k connops \<Rightarrow> bytes \<Rightarrow> 'k \<Rightarrow> 'k served" where
  "dbHostNameCommand C K r k = answerText C r (co_hostName K k)"

definition dbIpAddressCommand :: "sockcodec \<Rightarrow> 'k connops \<Rightarrow> bytes \<Rightarrow> 'k \<Rightarrow> 'k served" where
  "dbIpAddressCommand C K r k = answerText C r (co_ipAddress K k)"

section \<open>Autocommit and transactions\<close>

definition setAutoCommitCommand :: "'d bindcodec \<Rightarrow> 'k connops \<Rightarrow> u16 \<Rightarrow> bytes \<Rightarrow> 'k \<Rightarrow> 'k served" where
  "setAutoCommitCommand B K version r k =
     (case getBool B r of
        None \<Rightarrow> ([], r, k)
      | Some (on, r) \<Rightarrow>
          acknowledge (sockc B) K version r (if on then co_setAutoCommitOn K k else co_setAutoCommitOff K k))"

definition getAutoCommitCommand :: "'d bindcodec \<Rightarrow> 'k connops \<Rightarrow> bytes \<Rightarrow> 'k \<Rightarrow> 'k served" where
  "getAutoCommitCommand B K r k = (put16 (sockc B) NO_ERROR_OCCURRED @ putBool B (co_getAutoCommit K k), r, k)"

definition beginCommand :: "sockcodec \<Rightarrow> 'k connops \<Rightarrow> u16 \<Rightarrow> bytes \<Rightarrow> 'k \<Rightarrow> 'k served" where
  "beginCommand C K version r k = acknowledge C K version r (co_begin K k)"

definition commitCommand :: "sockcodec \<Rightarrow> 'k connops \<Rightarrow> u16 \<Rightarrow> bytes \<Rightarrow> 'k \<Rightarrow> 'k served" where
  "commitCommand C K version r k = acknowledge C K version r (co_commit K k)"

definition rollbackCommand :: "sockcodec \<Rightarrow> 'k connops \<Rightarrow> u16 \<Rightarrow> bytes \<Rightarrow> 'k \<Rightarrow> 'k served" where
  "rollbackCommand C K version r k = acknowledge C K version r (co_rollback K k)"

definition getInTransactionCommand :: "'d bindcodec \<Rightarrow> 'k connops \<Rightarrow> bytes \<Rightarrow> 'k \<Rightarrow> 'k served" where
  "getInTransactionCommand B K r k = (put16 (sockc B) NO_ERROR_OCCURRED @ putBool B (co_getInTransaction K k), r, k)"

section \<open>Names\<close>

text \<open>
  A name behind its length, within the limit, in a buffer that ends with a zero. Where it cannot be had,
  the code answers with one byte, the truth value false, and leaves a name beyond the limit unread.
\<close>

definition refuseName :: "'d bindcodec \<Rightarrow> bytes \<Rightarrow> 'k \<Rightarrow> 'k served" where
  "refuseName B r k = (putBool B False, r, k)"

definition withName ::
  "'d bindcodec \<Rightarrow> u32 \<Rightarrow> (u32 \<times> bytes) option \<Rightarrow> bytes \<Rightarrow> 'k \<Rightarrow> (bytes \<Rightarrow> bytes \<Rightarrow> 'k served) \<Rightarrow> 'k served" where
  "withName B maxquerysize sized r k f =
     (case sized of
        None \<Rightarrow> refuseName B r k
      | Some (n, r) \<Rightarrow>
          if maxquerysize < n then refuseName B r k
          else (case getBytes n r of
                  None \<Rightarrow> refuseName B [] k
                | Some (name, r) \<Rightarrow> f (cstring name) r))"

definition get16wide :: "sockcodec \<Rightarrow> bytes \<Rightarrow> (u32 \<times> bytes) option" where
  "get16wide C r = map_option (\<lambda>(n, r). (ucast n, r)) (get16 C r)"

definition selectDatabaseCommand :: "'d bindcodec \<Rightarrow> 'k connops \<Rightarrow> u32 \<Rightarrow> u16 \<Rightarrow> bytes \<Rightarrow> 'k \<Rightarrow> 'k served" where
  "selectDatabaseCommand B K maxquerysize version r k =
     withName B maxquerysize (get32 (sockc B) r) r k (\<lambda>db r. acknowledge (sockc B) K version r (co_selectDatabase K db k))"

definition selectCatalogCommand :: "'d bindcodec \<Rightarrow> 'k connops \<Rightarrow> u32 \<Rightarrow> u16 \<Rightarrow> bytes \<Rightarrow> 'k \<Rightarrow> 'k served" where
  "selectCatalogCommand B K maxquerysize version r k =
     withName B maxquerysize (get32 (sockc B) r) r k (\<lambda>cat r. acknowledge (sockc B) K version r (co_selectCatalog K cat k))"

definition selectSchemaCommand :: "'d bindcodec \<Rightarrow> 'k connops \<Rightarrow> u32 \<Rightarrow> u16 \<Rightarrow> bytes \<Rightarrow> 'k \<Rightarrow> 'k served" where
  "selectSchemaCommand B K maxquerysize version r k =
     withName B maxquerysize (get32 (sockc B) r) r k (\<lambda>schema r. acknowledge (sockc B) K version r (co_selectSchema K schema k))"

definition getCurrentDatabaseCommand :: "sockcodec \<Rightarrow> 'k connops \<Rightarrow> bytes \<Rightarrow> 'k \<Rightarrow> 'k served" where
  "getCurrentDatabaseCommand C K r k = answerText C r (co_currentDatabase K k)"

definition getCurrentCatalogCommand :: "sockcodec \<Rightarrow> 'k connops \<Rightarrow> bytes \<Rightarrow> 'k \<Rightarrow> 'k served" where
  "getCurrentCatalogCommand C K r k = answerText C r (co_currentCatalog K k)"

definition getCurrentSchemaCommand :: "sockcodec \<Rightarrow> 'k connops \<Rightarrow> bytes \<Rightarrow> 'k \<Rightarrow> 'k served" where
  "getCurrentSchemaCommand C K r k = answerText C r (co_currentSchema K k)"

definition getCurrentUserCommand :: "sockcodec \<Rightarrow> 'k connops \<Rightarrow> bytes \<Rightarrow> 'k \<Rightarrow> 'k served" where
  "getCurrentUserCommand C K r k = answerText C r (co_currentUser K k)"

definition getDatabaseIsSchemaCommand :: "sockcodec \<Rightarrow> 'k connops \<Rightarrow> bytes \<Rightarrow> 'k \<Rightarrow> 'k served" where
  "getDatabaseIsSchemaCommand C K r k =
     (put16 C NO_ERROR_OCCURRED @ put16 C (if co_databaseIsSchema K k then 1 else 0), r, k)"

definition getLastInsertIdCommand :: "sockcodec \<Rightarrow> 'k connops \<Rightarrow> u16 \<Rightarrow> bytes \<Rightarrow> 'k \<Rightarrow> 'k served" where
  "getLastInsertIdCommand C K version r k =
     (case co_lastInsertId K k of
        (Some i, k) \<Rightarrow> (put16 C NO_ERROR_OCCURRED @ put64 C i, r, k)
      | (None, k) \<Rightarrow> returnConnError C K version r k)"

section \<open>Isolation levels and transaction models\<close>

definition setIsolationLevelCommand :: "'d bindcodec \<Rightarrow> 'k connops \<Rightarrow> u32 \<Rightarrow> u16 \<Rightarrow> bytes \<Rightarrow> 'k \<Rightarrow> 'k served" where
  "setIsolationLevelCommand B K maxquerysize version r k =
     (let C = sockc B in
      case get16 C r of
        None \<Rightarrow> refuseName B r k
      | Some (format, r) \<Rightarrow>
          withName B maxquerysize (get16wide C r) r k
            (\<lambda>isolevel r. acknowledge C K version r (co_setIsolationLevel K isolevel format k)))"

definition answerLevel :: "sockcodec \<Rightarrow> 'k connops \<Rightarrow> u16 \<Rightarrow> bytes \<Rightarrow> bytes option \<times> 'k \<Rightarrow> 'k served" where
  "answerLevel C K version r result =
     (case result of
        (Some isolevel, k) \<Rightarrow> answerText C r (isolevel, k)
      | (None, k) \<Rightarrow> returnConnError C K version r k)"

definition getIsolationLevelCommand :: "'d bindcodec \<Rightarrow> 'k connops \<Rightarrow> u16 \<Rightarrow> bytes \<Rightarrow> 'k \<Rightarrow> 'k served" where
  "getIsolationLevelCommand B K version r k =
     (case get16 (sockc B) r of
        None \<Rightarrow> refuseName B r k
      | Some (format, r) \<Rightarrow> answerLevel (sockc B) K version r (co_isolationLevel K format k))"

definition getDefaultIsolationLevelCommand :: "'d bindcodec \<Rightarrow> 'k connops \<Rightarrow> u16 \<Rightarrow> bytes \<Rightarrow> 'k \<Rightarrow> 'k served" where
  "getDefaultIsolationLevelCommand B K version r k =
     (case get16 (sockc B) r of
        None \<Rightarrow> refuseName B r k
      | Some (format, r) \<Rightarrow> answerLevel (sockc B) K version r (co_defaultIsolationLevel K format k))"

definition setTransactionModelCommand :: "'d bindcodec \<Rightarrow> 'k connops \<Rightarrow> u32 \<Rightarrow> u16 \<Rightarrow> bytes \<Rightarrow> 'k \<Rightarrow> 'k served" where
  "setTransactionModelCommand B K maxquerysize version r k =
     (let C = sockc B in
      withName B maxquerysize (get16wide C r) r k
        (\<lambda>txmodelstr r.
           (let txmodel = (if txmodelstr = asciiBytes ''native'' then co_nativeModel K k
                           else stringToTransactionModel (map (char_of \<circ> unat) txmodelstr))
            in if txmodel = TX_Unknown then
                 returnConnError C K version r
                   (co_setError K (asciiBytes ''invalid transaction model: '' @ txmodelstr) SQLR_ERROR_NOTIMPLEMENTED True k)
               else acknowledge C K version r (co_setTransactionModel K txmodel k))))"

definition getTransactionModelCommand :: "sockcodec \<Rightarrow> 'k connops \<Rightarrow> bytes \<Rightarrow> 'k \<Rightarrow> 'k served" where
  "getTransactionModelCommand C K r k =
     answerText C r (asciiBytes (transactionModelToString (co_transactionModel K k)), k)"

definition getDefaultTransactionModelCommand :: "sockcodec \<Rightarrow> 'k connops \<Rightarrow> bytes \<Rightarrow> 'k \<Rightarrow> 'k served" where
  "getDefaultTransactionModelCommand C K r k =
     answerText C r (asciiBytes (transactionModelToString (co_nativeModel K k)), k)"

section \<open>Features\<close>

definition getDatabaseFeaturesCommand :: "sockcodec \<Rightarrow> 'k connops \<Rightarrow> u16 \<Rightarrow> bytes \<Rightarrow> 'k \<Rightarrow> 'k served" where
  "getDatabaseFeaturesCommand C K version r k =
     (case co_features K k of
        (Some features, k) \<Rightarrow>
          (let featurecount = (if version < 3 then FEATURE_COUNT_V2 else FEATURE_COUNT)
           in (put16 C NO_ERROR_OCCURRED @ put16 C (of_nat featurecount) @
               concat (map (\<lambda>i. sendText C (features i)) [0..<featurecount]), r, k))
      | (None, k) \<Rightarrow> returnConnError C K version r k)"

section \<open>All of them\<close>

text \<open>The branches of \<open>clientSession\<close> for these commands, for the field \<open>connectionCommand\<close> of \<open>commandenv\<close>.\<close>

definition connectionCommandOf ::
  "'d bindcodec \<Rightarrow> 'k connops \<Rightarrow> u32 \<Rightarrow> u16 \<Rightarrow> u16 \<Rightarrow> bytes \<Rightarrow> 'k \<Rightarrow> 'k served" where
  "connectionCommandOf B K maxquerysize command version r k =
     (let C = sockc B in
      if command = PING then pingCommand C K version r k
      else if command = IDENTIFY then identifyCommand C K r k
      else if command = SET_AUTO_COMMIT then setAutoCommitCommand B K version r k
      else if command = GET_AUTO_COMMIT then getAutoCommitCommand B K r k
      else if command = BEGIN then beginCommand C K version r k
      else if command = COMMIT then commitCommand C K version r k
      else if command = ROLLBACK then rollbackCommand C K version r k
      else if command = GET_IN_TRANSACTION then getInTransactionCommand B K r k
      else if command = DB_VERSION then dbVersionCommand C K r k
      else if command = BIND_FORMAT then bindFormatCommand C K r k
      else if command = NEXT_VAL_FORMAT then getNextvalFormatCommand C K r k
      else if command = SERVER_VERSION then serverVersionCommand C K r k
      else if command = SELECT_DATABASE then selectDatabaseCommand B K maxquerysize version r k
      else if command = GET_CURRENT_DATABASE then getCurrentDatabaseCommand C K r k
      else if command = GET_DATABASE_IS_SCHEMA then getDatabaseIsSchemaCommand C K r k
      else if command = SELECT_CATALOG then selectCatalogCommand B K maxquerysize version r k
      else if command = GET_CURRENT_CATALOG then getCurrentCatalogCommand C K r k
      else if command = SELECT_SCHEMA then selectSchemaCommand B K maxquerysize version r k
      else if command = GET_CURRENT_SCHEMA then getCurrentSchemaCommand C K r k
      else if command = GET_CURRENT_USER then getCurrentUserCommand C K r k
      else if command = GET_LAST_INSERT_ID then getLastInsertIdCommand C K version r k
      else if command = DB_HOST_NAME then dbHostNameCommand C K r k
      else if command = DB_IP_ADDRESS then dbIpAddressCommand C K r k
      else if command = SET_ISOLATION_LEVEL then setIsolationLevelCommand B K maxquerysize version r k
      else if command = GET_ISOLATION_LEVEL then getIsolationLevelCommand B K version r k
      else if command = GET_DEFAULT_ISOLATION_LEVEL then getDefaultIsolationLevelCommand B K version r k
      else if command = SET_TRANSACTION_MODEL then setTransactionModelCommand B K maxquerysize version r k
      else if command = GET_TRANSACTION_MODEL then getTransactionModelCommand C K r k
      else if command = GET_DEFAULT_TRANSACTION_MODEL then getDefaultTransactionModelCommand C K r k
      else if command = GET_DATABASE_FEATURES then getDatabaseFeaturesCommand C K version r k
      else ([], r, k))"

end
