(* ===== verification/Connection_Client.thy ===== *)
theory Connection_Client
  imports Connection_Server Result_Client
begin

text \<open>
  The connection of a client (\<open>src/api/c++/sqlrconnection.cpp\<close>): what its operations send and what they
  make of the answers.

  The other side is the record \<open>peer\<close>: \<open>net\<close> takes what the client has written and gives the bytes that
  come back, and \<open>connects\<close> is what opening a session does that is not open; \<open>'n\<close> is its state. The
  client keeps what it has not read in \<open>cn_input\<close>. Of the texts that the operations return the code keeps
  a copy. The cursors of the connection, timeouts and debug output are left out. A feature is known by
  its index in \<open>dbfeaturenames\<close>.
\<close>

record connclient =
  cn_connected :: bool
  cn_errorno :: u64
  cn_error :: "clienterror option"
  cn_sqlstate :: bytes
  cn_input :: bytes
  cn_features :: "nat \<Rightarrow> bytes option"

record 'n peer =
  net :: "bytes \<Rightarrow> 'n \<Rightarrow> bytes \<times> 'n"
  connects :: "connclient \<times> 'n \<Rightarrow> bool \<times> connclient \<times> 'n"

text \<open>The client and the other side.\<close>

type_synonym 'n both = "connclient \<times> 'n"

section \<open>Sending and errors\<close>

definition tell :: "'n peer \<Rightarrow> bytes \<Rightarrow> 'n both \<Rightarrow> 'n both" where
  "tell P out st =
     (case st of (cl, n) \<Rightarrow> (case net P out n of (answer, n) \<Rightarrow> (cl\<lparr>cn_input := cn_input cl @ answer\<rparr>, n)))"

definition clearConnError :: "connclient \<Rightarrow> connclient" where
  "clearConnError cl = cl\<lparr>cn_error := None, cn_errorno := 0, cn_sqlstate := []\<rparr>"

definition setConnError :: "string \<Rightarrow> connclient \<Rightarrow> connclient" where
  "setConnError err cl = cl\<lparr>cn_error := Some (Local_Error err), cn_sqlstate := []\<rparr>"

definition connNetworkError :: "string \<Rightarrow> string" where
  "connNetworkError err = err @ CHR 0x0A # ''A network error may have occurred.''"

definition getError :: "sockcodec \<Rightarrow> connclient \<Rightarrow> u16 \<times> connclient" where
  "getError C cl =
     (let cl = clearConnError cl in
      case get16 C (cn_input cl) of
        None \<Rightarrow> (ERROR_OCCURRED, setConnError (connNetworkError ''Failed to get the error status.'') cl)
      | Some (status, s) \<Rightarrow>
          if status = NO_ERROR_OCCURRED then (status, cl\<lparr>cn_input := s\<rparr>)
          else
            (case get64 C s of
               None \<Rightarrow> (status, setConnError (connNetworkError ''Failed to get the error code.'') (cl\<lparr>cn_input := s\<rparr>))
             | Some (number, s) \<Rightarrow>
                 (let cl = cl\<lparr>cn_errorno := number\<rparr> in
                  case get16 C s of
                    None \<Rightarrow> (status, setConnError (connNetworkError ''Failed to get the error size.'') (cl\<lparr>cn_input := s\<rparr>))
                  | Some (n, s) \<Rightarrow>
                      (case getBytes (ucast n) s of
                         None \<Rightarrow> (status, setConnError (connNetworkError ''Failed to get the error string.'') (cl\<lparr>cn_input := []\<rparr>))
                       | Some (message, s) \<Rightarrow>
                           (case getSqlState C s of
                              (state, s) \<Rightarrow>
                                (status, cl\<lparr>cn_error := Some (Server_Error message), cn_sqlstate := state, cn_input := s\<rparr>))))))"

definition closeConnection :: "connclient \<Rightarrow> connclient" where
  "closeConnection cl = cl\<lparr>cn_connected := False, cn_input := []\<rparr>"

definition endConnSession :: "sockcodec \<Rightarrow> 'n peer \<Rightarrow> 'n both \<Rightarrow> 'n both" where
  "endConnSession C P st =
     (if cn_connected (fst st) then
        (case tell P (put16 C END_SESSION) st of (cl, n) \<Rightarrow> (closeConnection cl, n))
      else st)"

definition gotError :: "sockcodec \<Rightarrow> 'n peer \<Rightarrow> 'n both \<Rightarrow> bool \<times> 'n both" where
  "gotError C P st =
     (case st of (cl, n) \<Rightarrow>
        (case getError C cl of (status, cl) \<Rightarrow>
           if status = NO_ERROR_OCCURRED then (False, cl, n)
           else if status = ERROR_OCCURRED_DISCONNECT then (True, endConnSession C P (cl, n))
           else (True, cl, n)))"

definition openSession :: "'n peer \<Rightarrow> 'n both \<Rightarrow> bool \<times> 'n both" where
  "openSession P st = (if cn_connected (fst st) then (True, st) else connects P st)"

section \<open>The shapes of the operations\<close>

text \<open>A request, sent once the session is open and the last error is forgotten; \<open>rest\<close> reads the answer.\<close>

definition request :: "sockcodec \<Rightarrow> 'n peer \<Rightarrow> bytes \<Rightarrow> 'a \<Rightarrow> (connclient \<Rightarrow> 'a \<times> connclient) \<Rightarrow> 'n both \<Rightarrow> 'a \<times> 'n both" where
  "request C P out failed rest st =
     (case openSession P st of
        (False, st) \<Rightarrow> (failed, st)
      | (True, cl, n) \<Rightarrow>
          (case gotError C P (tell P out (clearConnError cl, n)) of
             (True, st) \<Rightarrow> (failed, st)
           | (False, cl, n) \<Rightarrow> (case rest cl of (a, cl) \<Rightarrow> (a, cl, n))))"

definition succeed :: "connclient \<Rightarrow> bool \<times> connclient" where
  "succeed cl = (True, cl)"

definition readText :: "sockcodec \<Rightarrow> string \<Rightarrow> connclient \<Rightarrow> bytes option \<times> connclient" where
  "readText C err cl =
     (case get16 C (cn_input cl) of
        None \<Rightarrow> (None, setConnError (connNetworkError err) cl)
      | Some (n, s) \<Rightarrow>
          (case getBytes (ucast n) s of
             None \<Rightarrow> (None, setConnError (connNetworkError err) (cl\<lparr>cn_input := []\<rparr>))
           | Some (t, s) \<Rightarrow> (Some t, cl\<lparr>cn_input := s\<rparr>)))"

definition readBool :: "'d bindcodec \<Rightarrow> string \<Rightarrow> connclient \<Rightarrow> bool \<times> connclient" where
  "readBool B err cl =
     (case getBool B (cn_input cl) of
        None \<Rightarrow> (False, setConnError (connNetworkError err) cl)
      | Some (b, s) \<Rightarrow> (b, cl\<lparr>cn_input := s\<rparr>))"

section \<open>The operations\<close>

definition ping :: "sockcodec \<Rightarrow> 'n peer \<Rightarrow> 'n both \<Rightarrow> bool \<times> 'n both" where
  "ping C P = request C P (put16 C PING) False succeed"

definition identify :: "sockcodec \<Rightarrow> 'n peer \<Rightarrow> 'n both \<Rightarrow> bytes option \<times> 'n both" where
  "identify C P = request C P (put16 C IDENTIFY) None (readText C ''Failed to identify.'')"

definition dbVersion :: "sockcodec \<Rightarrow> 'n peer \<Rightarrow> 'n both \<Rightarrow> bytes option \<times> 'n both" where
  "dbVersion C P = request C P (put16 C DB_VERSION) None (readText C ''Failed to get DB version.'')"

definition dbHostName :: "sockcodec \<Rightarrow> 'n peer \<Rightarrow> 'n both \<Rightarrow> bytes option \<times> 'n both" where
  "dbHostName C P = request C P (put16 C DB_HOST_NAME) None (readText C ''Failed to get DB host name.'')"

definition dbIpAddress :: "sockcodec \<Rightarrow> 'n peer \<Rightarrow> 'n both \<Rightarrow> bytes option \<times> 'n both" where
  "dbIpAddress C P = request C P (put16 C DB_IP_ADDRESS) None (readText C ''Failed to get DB ip address.'')"

definition serverVersion :: "sockcodec \<Rightarrow> 'n peer \<Rightarrow> 'n both \<Rightarrow> bytes option \<times> 'n both" where
  "serverVersion C P = request C P (put16 C SERVER_VERSION) None (readText C ''Failed to get Server version.'')"

definition bindFormat :: "sockcodec \<Rightarrow> 'n peer \<Rightarrow> 'n both \<Rightarrow> bytes option \<times> 'n both" where
  "bindFormat C P = request C P (put16 C BIND_FORMAT) None (readText C ''Failed to get bind format.'')"

definition nextvalFormat :: "sockcodec \<Rightarrow> 'n peer \<Rightarrow> 'n both \<Rightarrow> bytes option \<times> 'n both" where
  "nextvalFormat C P = request C P (put16 C NEXT_VAL_FORMAT) None (readText C ''Failed to get nextval format.'')"

text \<open>A name that is empty, or a null pointer, is not sent.\<close>

definition selectName :: "sockcodec \<Rightarrow> 'n peer \<Rightarrow> u16 \<Rightarrow> bytes \<Rightarrow> 'n both \<Rightarrow> bool \<times> 'n both" where
  "selectName C P command name st =
     (if name = [] then (True, st)
      else request C P (put16 C command @ put32 C (of_nat (length name)) @ take (unat (of_nat (length name) :: u32)) name)
             False succeed (clearConnError (fst st), snd st))"

definition selectDatabase :: "sockcodec \<Rightarrow> 'n peer \<Rightarrow> bytes \<Rightarrow> 'n both \<Rightarrow> bool \<times> 'n both" where
  "selectDatabase C P = selectName C P SELECT_DATABASE"

definition selectCatalog :: "sockcodec \<Rightarrow> 'n peer \<Rightarrow> bytes \<Rightarrow> 'n both \<Rightarrow> bool \<times> 'n both" where
  "selectCatalog C P = selectName C P SELECT_CATALOG"

definition selectSchema :: "sockcodec \<Rightarrow> 'n peer \<Rightarrow> bytes \<Rightarrow> 'n both \<Rightarrow> bool \<times> 'n both" where
  "selectSchema C P = selectName C P SELECT_SCHEMA"

definition getCurrentDatabase :: "sockcodec \<Rightarrow> 'n peer \<Rightarrow> 'n both \<Rightarrow> bytes option \<times> 'n both" where
  "getCurrentDatabase C P = request C P (put16 C GET_CURRENT_DATABASE) None (readText C ''Failed to get the current database.'')"

definition getCurrentCatalog :: "sockcodec \<Rightarrow> 'n peer \<Rightarrow> 'n both \<Rightarrow> bytes option \<times> 'n both" where
  "getCurrentCatalog C P = request C P (put16 C GET_CURRENT_CATALOG) None (readText C ''Failed to get the current catalog.'')"

definition getCurrentSchema :: "sockcodec \<Rightarrow> 'n peer \<Rightarrow> 'n both \<Rightarrow> bytes option \<times> 'n both" where
  "getCurrentSchema C P = request C P (put16 C GET_CURRENT_SCHEMA) None (readText C ''Failed to get the current schema.'')"

definition getCurrentUser :: "sockcodec \<Rightarrow> 'n peer \<Rightarrow> 'n both \<Rightarrow> bytes option \<times> 'n both" where
  "getCurrentUser C P = request C P (put16 C GET_CURRENT_USER) None (readText C ''Failed to get the current user.'')"

definition getDatabaseIsSchema :: "sockcodec \<Rightarrow> 'n peer \<Rightarrow> 'n both \<Rightarrow> bool \<times> 'n both" where
  "getDatabaseIsSchema C P =
     request C P (put16 C GET_DATABASE_IS_SCHEMA) False (\<lambda>cl.
       case get16 C (cn_input cl) of
         None \<Rightarrow> (False, setConnError (connNetworkError ''Failed to get database is schema.'') cl)
       | Some (result, s) \<Rightarrow> (result \<noteq> 0, cl\<lparr>cn_input := s\<rparr>))"

definition getLastInsertId :: "sockcodec \<Rightarrow> 'n peer \<Rightarrow> 'n both \<Rightarrow> u64 \<times> 'n both" where
  "getLastInsertId C P =
     request C P (put16 C GET_LAST_INSERT_ID) 0 (\<lambda>cl.
       case get64 C (cn_input cl) of
         None \<Rightarrow> (0, setConnError (connNetworkError ''Failed to get the last insert id.'') cl)
       | Some (i, s) \<Rightarrow> (i, cl\<lparr>cn_input := s\<rparr>))"

definition autoCommit :: "'d bindcodec \<Rightarrow> 'n peer \<Rightarrow> bool \<Rightarrow> 'n both \<Rightarrow> bool \<times> 'n both" where
  "autoCommit B P on = request (sockc B) P (put16 (sockc B) SET_AUTO_COMMIT @ putBool B on) False succeed"

definition autoCommitOn :: "'d bindcodec \<Rightarrow> 'n peer \<Rightarrow> 'n both \<Rightarrow> bool \<times> 'n both" where
  "autoCommitOn B P = autoCommit B P True"

definition autoCommitOff :: "'d bindcodec \<Rightarrow> 'n peer \<Rightarrow> 'n both \<Rightarrow> bool \<times> 'n both" where
  "autoCommitOff B P = autoCommit B P False"

definition getAutoCommit :: "'d bindcodec \<Rightarrow> 'n peer \<Rightarrow> 'n both \<Rightarrow> bool \<times> 'n both" where
  "getAutoCommit B P =
     request (sockc B) P (put16 (sockc B) GET_AUTO_COMMIT) False (readBool B ''Failed to get autocommit.'')"

definition begin_client :: "sockcodec \<Rightarrow> 'n peer \<Rightarrow> 'n both \<Rightarrow> bool \<times> 'n both" where
  "begin_client C P = request C P (put16 C BEGIN) False succeed"

definition commit_client :: "sockcodec \<Rightarrow> 'n peer \<Rightarrow> 'n both \<Rightarrow> bool \<times> 'n both" where
  "commit_client C P = request C P (put16 C COMMIT) False succeed"

definition rollback_client :: "sockcodec \<Rightarrow> 'n peer \<Rightarrow> 'n both \<Rightarrow> bool \<times> 'n both" where
  "rollback_client C P = request C P (put16 C ROLLBACK) False succeed"

definition getInTransaction :: "'d bindcodec \<Rightarrow> 'n peer \<Rightarrow> 'n both \<Rightarrow> bool \<times> 'n both" where
  "getInTransaction B P =
     request (sockc B) P (put16 (sockc B) GET_IN_TRANSACTION) False (readBool B ''Failed to get in-transaction state.'')"

text \<open>The length of these texts is sent with 16 bits, the text as far as the length says.\<close>

definition putText :: "sockcodec \<Rightarrow> bytes \<Rightarrow> bytes" where
  "putText C s = (let n = of_nat (length s) :: u16 in put16 C n @ take (unat n) s)"

definition setTransactionModel_client :: "sockcodec \<Rightarrow> 'n peer \<Rightarrow> bytes \<Rightarrow> 'n both \<Rightarrow> bool \<times> 'n both" where
  "setTransactionModel_client C P model st =
     request C P (put16 C SET_TRANSACTION_MODEL @ putText C model) False succeed (clearConnError (fst st), snd st)"

definition getTransactionModel :: "sockcodec \<Rightarrow> 'n peer \<Rightarrow> 'n both \<Rightarrow> bytes option \<times> 'n both" where
  "getTransactionModel C P =
     request C P (put16 C GET_TRANSACTION_MODEL) None (readText C ''Failed to get transaction model.'')"

definition getDefaultTransactionModel :: "sockcodec \<Rightarrow> 'n peer \<Rightarrow> 'n both \<Rightarrow> bytes option \<times> 'n both" where
  "getDefaultTransactionModel C P =
     request C P (put16 C GET_DEFAULT_TRANSACTION_MODEL) None (readText C ''Failed to get default transaction model.'')"

definition setIsolationLevel :: "sockcodec \<Rightarrow> 'n peer \<Rightarrow> bytes \<Rightarrow> u16 \<Rightarrow> 'n both \<Rightarrow> bool \<times> 'n both" where
  "setIsolationLevel C P isolationlevel format st =
     request C P (put16 C SET_ISOLATION_LEVEL @ put16 C format @ putText C isolationlevel) False succeed
       (clearConnError (fst st), snd st)"

definition getIsolationLevel :: "sockcodec \<Rightarrow> 'n peer \<Rightarrow> u16 \<Rightarrow> 'n both \<Rightarrow> bytes option \<times> 'n both" where
  "getIsolationLevel C P format =
     request C P (put16 C GET_ISOLATION_LEVEL @ put16 C format) None (readText C ''Failed to get isolation level.'')"

definition getDefaultIsolationLevel :: "sockcodec \<Rightarrow> 'n peer \<Rightarrow> u16 \<Rightarrow> 'n both \<Rightarrow> bytes option \<times> 'n both" where
  "getDefaultIsolationLevel C P format =
     request C P (put16 C GET_DEFAULT_ISOLATION_LEVEL @ put16 C format) None
       (readText C ''Failed to get default isolation level.'')"

section \<open>Features\<close>

text \<open>
  Those that the client knows go into its dictionary, the others are read and thrown away. What an
  earlier round has put there stays when a later one fails.
\<close>

fun readFeatures :: "sockcodec \<Rightarrow> nat \<Rightarrow> nat \<Rightarrow> connclient \<Rightarrow> bool \<times> connclient" where
  "readFeatures C i 0 cl = (True, cl)"
| "readFeatures C i (Suc count) cl =
     (case readText C ''Failed to get database features.'' cl of
        (None, cl) \<Rightarrow> (False, cl)
      | (Some feature, cl) \<Rightarrow>
          readFeatures C (Suc i) count
            (if i < FEATURE_COUNT then cl\<lparr>cn_features := (cn_features cl)(i \<mapsto> feature)\<rparr> else cl))"

definition getDatabaseFeatures :: "sockcodec \<Rightarrow> 'n peer \<Rightarrow> 'n both \<Rightarrow> bool \<times> 'n both" where
  "getDatabaseFeatures C P =
     request C P (put16 C GET_DATABASE_FEATURES) False (\<lambda>cl.
       case get16 C (cn_input cl) of
         None \<Rightarrow> (False, setConnError (connNetworkError ''Failed to get database features.'') cl)
       | Some (count, s) \<Rightarrow> readFeatures C 0 (unat count) (cl\<lparr>cn_input := s\<rparr>))"

definition getDatabaseFeature :: "sockcodec \<Rightarrow> 'n peer \<Rightarrow> nat \<Rightarrow> 'n both \<Rightarrow> bytes option \<times> 'n both" where
  "getDatabaseFeature C P i st =
     (if \<forall>j<FEATURE_COUNT. cn_features (fst st) j = None then
        (case getDatabaseFeatures C P st of
           (True, st) \<Rightarrow> (cn_features (fst st) i, st)
         | (False, st) \<Rightarrow> (None, st))
      else (cn_features (fst st) i, st))"

end
