(* ===== verification/Connection_Rules.thy ===== *)
theory Connection_Rules
  imports Connection_Client Request_Rules
begin

text \<open>
  The client's connection on the daemon of \<open>Command_Loop\<close>: every operation of the client is answered by one
  round of the server's loop over commands, and gives what the controller gives, or fails with the
  controller's error. The operations are instances of one locale.
\<close>

section \<open>One round of the daemon\<close>

text \<open>The bytes of a request are served, and what comes back is what the round has written.\<close>

definition serveOnce :: "'k commandenv \<Rightarrow> bytes \<Rightarrow> 'k daemon \<Rightarrow> bytes \<times> 'k daemon" where
  "serveOnce E out s =
     (case commandStep E (s\<lparr>received := received s @ out, sent := []\<rparr>) of
        None \<Rightarrow> ([], s)
      | Some (Inl s) \<Rightarrow> (sent s, s)
      | Some (Inr (status, ends, s)) \<Rightarrow> (sent s, s))"

definition runs_on :: "'d bindcodec \<Rightarrow> 'k connops \<Rightarrow> 'k commandenv \<Rightarrow> bool" where
  "runs_on B K E \<longleftrightarrow> bind_sock_ok B \<and> wire E = sockc B \<and> (\<forall>k. \<not> instanceDisabled E k) \<and>
     connectionCommand E = connectionCommandOf B K (fst (snd (maxima E)))"

definition in_session :: "'k daemon \<Rightarrow> bool" where
  "in_session s \<longleftrightarrow> authenticated s \<and> received s = [] \<and> 3 \<le> clientversion s"

definition idle :: "connclient \<Rightarrow> bool" where
  "idle cl \<longleftrightarrow> cn_connected cl \<and> cn_input cl = []"

definition stepped :: "'k daemon \<Rightarrow> u16 \<Rightarrow> bytes \<Rightarrow> 'k \<Rightarrow> 'k daemon" where
  "stepped s command out k =
     s\<lparr>controller := k, sent := out, cmdlog := cmdlog s @ [Connection_Command command]\<rparr>"

lemma in_session_stepped: "in_session s \<Longrightarrow> in_session (stepped s command out k)"
  by (simp add: in_session_def stepped_def)

lemma runs_onD:
  assumes "runs_on B K E"
  shows "bind_sock_ok B" "sock_ok (sockc B)"
  using assms by (simp_all add: runs_on_def bind_sock_ok_def)

lemma command_served:
  assumes "runs_on B K E" and "in_session s" and "command \<in> set connectionCommands"
    and "connectionCommandOf B K (fst (snd (maxima E))) command (clientversion s) args (controller s) = (out, [], k)"
  shows "serveOnce E (put16 (sockc B) command @ args) s = (out, stepped s command out k)"
proof -
  have "sock_ok (wire E)" "wire E = sockc B" "\<not> instanceDisabled E (controller s)"
    "connectionCommand E = connectionCommandOf B K (fst (snd (maxima E)))"
    using assms(1) runs_onD(2) [OF assms(1)] by (simp_all add: runs_on_def)
  moreover have "command \<noteq> SQLRCLIENT_PROTOCOL_VERSION" "\<not> MAX_COMMAND < command" "command \<noteq> AUTH"
    "command \<noteq> SUSPEND_SESSION" "command \<noteq> END_SESSION"
    using assms(3) by (auto simp: connectionCommands_def)
  ultimately show ?thesis
    using assms(2-4)
    by (simp add: serveOnce_def commandStep_def dispatch_def runConnectionCommand_def noteCmd_def reply_def stepped_def
        in_session_def sock_okD Let_def)
qed

section \<open>Errors\<close>

definition conn_error_ok :: "servererror \<Rightarrow> bool" where
  "conn_error_ok e \<longleftrightarrow> err_live e \<and> length (err_string e) < 2 ^ 16 \<and> length (err_sqlstate e) < sqlstatesize"

definition told :: "servererror \<Rightarrow> connclient \<Rightarrow> connclient" where
  "told e cl = cl\<lparr>cn_error := Some (Server_Error (err_string e)), cn_errorno := err_number e, cn_sqlstate := err_sqlstate e\<rparr>"

lemma anySqlState_sent:
  assumes "sock_ok C" and "3 \<le> version" and "length st < sqlstatesize"
  shows "getSqlState C (sendSqlState C version st) = (st, [])"
proof -
  have u: "unat (of_nat (length st) :: u16) = length st" using assms(3) by (simp add: unat_of_nat)
  have "(of_nat (length st) :: u16) = 0 \<longleftrightarrow> st = []"
    using u by (metis length_0_conv unat_0 unat_eq_zero)
  moreover have "get16 C (put16 C n) = Some (n, [])" for n using sock_okD(1) [OF assms(1), of n "[]"] by simp
  ultimately show ?thesis
    using leD [OF assms(2)] assms(3) u
    by (simp add: getSqlState_def sendSqlState_def Let_def sock_okD [OF assms(1)])
qed

lemma getError_told:
  assumes "sock_ok C" and "3 \<le> version" and "conn_error_ok e"
  shows "getError C (cl\<lparr>cn_input := connectionError C version False e\<rparr>) = (ERROR_OCCURRED, told e (cl\<lparr>cn_input := []\<rparr>))"
proof -
  have "length (err_string e) < 65536" using assms(3) by (simp add: conn_error_ok_def)
  then have "getBytes (ucast (of_nat (length (err_string e)) :: u16)) (err_string e @ r) = Some (err_string e, r)" for r
    by (rule getBytes_u16)
  then show ?thesis
    using assms(3) anySqlState_sent [OF assms(1,2), of "err_sqlstate e"]
    by (simp add: getError_def connectionError_def conn_error_ok_def sock_okD [OF assms(1)] clearConnError_def told_def Let_def
        del: getBytes_append)
qed

section \<open>An operation\<close>

text \<open>
  A client's operation, by the number of its command and what is sent with it, and the operation of the
  controller that it stands for: a value, or an error. \<open>fits\<close> are the values that can be sent.
\<close>

locale wire_operation =
  fixes B :: "'d bindcodec" and K :: "'k connops" and maxquerysize :: u32 and command :: u16 and args :: bytes
    and failed :: 'a and rest :: "connclient \<Rightarrow> 'a \<times> connclient"
    and operation :: "'k \<Rightarrow> (servererror + 'a) \<times> 'k" and enc :: "'a \<Rightarrow> bytes" and fits :: "'a \<Rightarrow> bool"
  assumes served: "bind_sock_ok B \<Longrightarrow> 3 \<le> version \<Longrightarrow>
      connectionCommandOf B K maxquerysize command version args k =
      (case operation k of
         (Inr a, k') \<Rightarrow> (put16 (sockc B) NO_ERROR_OCCURRED @ enc a, [], k')
       | (Inl e, k') \<Rightarrow> (connectionError (sockc B) version False e, [], k'))"
    and read_back: "bind_sock_ok B \<Longrightarrow> operation k = (Inr a, k') \<Longrightarrow> fits a \<Longrightarrow>
      rest (cl\<lparr>cn_input := enc a\<rparr>) = (a, cl\<lparr>cn_input := []\<rparr>)"
    and a_command: "command \<in> set connectionCommands"
begin

lemma answered:
  assumes "runs_on B K E" and "fst (snd (maxima E)) = maxquerysize" and "net P = serveOnce E"
    and "in_session s" and "idle cl" and "operation (controller s) = (Inr a, k)" and "fits a"
  shows "\<exists>out. request (sockc B) P (put16 (sockc B) command @ args) failed rest (cl, s) =
    (a, clearConnError cl, stepped s command out k)"
proof -
  let ?C = "sockc B"
  have ok: "bind_sock_ok B" "sock_ok ?C" using runs_onD [OF assms(1)] by simp_all
  have "connectionCommandOf B K maxquerysize command (clientversion s) args (controller s) =
      (put16 ?C NO_ERROR_OCCURRED @ enc a, [], k)"
    using served [OF ok(1), of "clientversion s" "controller s"] assms(4,6) by (simp add: in_session_def)
  then have step: "serveOnce E (put16 ?C command @ args) s =
      (put16 ?C NO_ERROR_OCCURRED @ enc a, stepped s command (put16 ?C NO_ERROR_OCCURRED @ enc a) k)"
    using command_served [OF assms(1,4) a_command] assms(2) by blast
  have cl: "clearConnError cl\<lparr>cn_input := []\<rparr> = clearConnError cl" "cn_input cl = []" "cn_connected cl"
    using assms(5) by (simp_all add: clearConnError_def idle_def)
  have "getError ?C (clearConnError cl\<lparr>cn_input := put16 ?C NO_ERROR_OCCURRED @ enc a\<rparr>) =
      (NO_ERROR_OCCURRED, clearConnError cl\<lparr>cn_input := enc a\<rparr>)"
    by (simp add: getError_def sock_okD [OF ok(2)] clearConnError_def)
  moreover have "cn_input (clearConnError cl) = []" using cl(2) by (simp add: clearConnError_def)
  ultimately show ?thesis
    using step cl read_back [OF ok(1) assms(6,7), of "clearConnError cl"]
    by (simp add: request_def openSession_def gotError_def tell_def assms(3)) blast
qed

lemma refused:
  assumes "runs_on B K E" and "fst (snd (maxima E)) = maxquerysize" and "net P = serveOnce E"
    and "in_session s" and "idle cl" and "operation (controller s) = (Inl e, k)" and "conn_error_ok e"
  shows "\<exists>out. request (sockc B) P (put16 (sockc B) command @ args) failed rest (cl, s) =
    (failed, told e cl, stepped s command out k)"
proof -
  let ?C = "sockc B"
  have ok: "bind_sock_ok B" "sock_ok ?C" and v: "3 \<le> clientversion s"
    using runs_onD [OF assms(1)] assms(4) by (simp_all add: in_session_def)
  let ?out = "connectionError ?C (clientversion s) False e"
  have "connectionCommandOf B K maxquerysize command (clientversion s) args (controller s) = (?out, [], k)"
    using served [OF ok(1) v, of "controller s"] assms(6) by simp
  then have step: "serveOnce E (put16 ?C command @ args) s = (?out, stepped s command ?out k)"
    using command_served [OF assms(1,4) a_command] assms(2) by blast
  have cl: "cn_input (clearConnError cl) = []" "cn_connected cl" "told e (clearConnError cl\<lparr>cn_input := []\<rparr>) = told e cl"
    using assms(5) by (simp_all add: clearConnError_def idle_def told_def)
  then show ?thesis
    using step getError_told [OF ok(2) v assms(7), of "clearConnError cl"]
    by (simp add: request_def openSession_def gotError_def tell_def assms(3)) blast
qed

end

end
