(* ===== verification/Connection_Calls.thy ===== *)
theory Connection_Calls
  imports Connection_Rules Transaction_State
begin

text \<open>
  The operations of the client's connection as instances of \<open>wire_operation\<close>, and those that end and
  begin transactions on the controller of \<open>Transactions\<close>: what a client does with transactions over the
  wire is what the controller does.
\<close>

section \<open>The operations of the controller\<close>

definition fetchError :: "'k connops \<Rightarrow> 'k \<Rightarrow> (servererror + 'a) \<times> 'k" where
  "fetchError K k = (case co_getError K k of (e, k) \<Rightarrow> (Inl e, k))"

definition flagged :: "'k connops \<Rightarrow> bool \<times> 'k \<Rightarrow> (servererror + bool) \<times> 'k" where
  "flagged K r = (case r of (ok, k) \<Rightarrow> if ok then (Inr True, k) else fetchError K k)"

lemma acknowledge_answer:
  "acknowledge C K version [] r =
     (case flagged K r of
        (Inr a, k') \<Rightarrow> (put16 C NO_ERROR_OCCURRED, [], k')
      | (Inl e, k') \<Rightarrow> (connectionError C version False e, [], k'))"
  by (simp add: acknowledge_def flagged_def fetchError_def returnConnError_def split: prod.split)

lemma flag_law:
  assumes "\<And>version k. bind_sock_ok B \<Longrightarrow>
      connectionCommandOf B K q command version args k = acknowledge (sockc B) K version [] (f k)"
    and "command \<in> set connectionCommands"
  shows "wire_operation B K q command args succeed (\<lambda>k. flagged K (f k)) (\<lambda>a. []) (\<lambda>a. True)"
proof
  show "connectionCommandOf B K q command version args k = (case flagged K (f k) of
      (Inr a, k') \<Rightarrow> (put16 (sockc B) NO_ERROR_OCCURRED @ [], [], k')
    | (Inl e, k') \<Rightarrow> (connectionError (sockc B) version False e, [], k'))" if "bind_sock_ok B" for version k
    by (simp only: assms(1) [OF that] acknowledge_answer append_Nil2)
  show "succeed (cl\<lparr>cn_input := []\<rparr>) = (a, cl\<lparr>cn_input := []\<rparr>)" if "flagged K (f k) = (Inr a, k')" for k a k' cl
    using that by (auto simp: flagged_def fetchError_def succeed_def split: prod.splits if_splits)
qed (rule assms(2))

text \<open>A text of the controller.\<close>

definition encText :: "sockcodec \<Rightarrow> bytes option \<Rightarrow> bytes" where
  "encText C t = (case t of None \<Rightarrow> [] | Some t \<Rightarrow> sendText C t)"

definition shortText :: "bytes option \<Rightarrow> bool" where
  "shortText t \<longleftrightarrow> (case t of None \<Rightarrow> False | Some t \<Rightarrow> length t < 65536)"

definition texted :: "bytes \<times> 'k \<Rightarrow> (servererror + bytes option) \<times> 'k" where
  "texted r = (case r of (t, k) \<Rightarrow> (Inr (Some t), k))"

lemma readText_sent:
  assumes "sock_ok C" and "length t < 65536"
  shows "readText C err (cl\<lparr>cn_input := sendText C t @ r\<rparr>) = (Some t, cl\<lparr>cn_input := r\<rparr>)"
proof -
  have "unat (of_nat (length t) :: u16) = length t" using assms(2) by (simp add: unat_of_nat)
  then show ?thesis
    using getBytes_u16 [OF assms(2)] by (simp add: readText_def sendText_def sock_okD [OF assms(1)] Let_def del: getBytes_append)
qed

lemma text_law:
  assumes "\<And>version k. connectionCommandOf B K q command version [] k = answerText (sockc B) [] (f k)"
    and "command \<in> set connectionCommands"
  shows "wire_operation B K q command [] (readText (sockc B) err) (\<lambda>k. texted (f k)) (encText (sockc B)) shortText"
proof
  show "connectionCommandOf B K q command version [] k = (case texted (f k) of
      (Inr a, k') \<Rightarrow> (put16 (sockc B) NO_ERROR_OCCURRED @ encText (sockc B) a, [], k')
    | (Inl e, k') \<Rightarrow> (connectionError (sockc B) version False e, [], k'))" for version k
    by (simp add: assms(1) answerText_def texted_def encText_def split: prod.split)
  show "readText (sockc B) err (cl\<lparr>cn_input := encText (sockc B) a\<rparr>) = (a, cl\<lparr>cn_input := []\<rparr>)"
    if "bind_sock_ok B" "shortText a" for a cl
  proof -
    from that(2) obtain t where "a = Some t" "length t < 65536" by (auto simp: shortText_def split: option.splits)
    then show ?thesis using readText_sent [where C = "sockc B" and t = t and r = "[]"] that(1) by (simp add: encText_def bind_sock_ok_def)
  qed
qed (rule assms(2))

text \<open>A truth value of the controller.\<close>

lemma bool_law:
  assumes "\<And>version k. connectionCommandOf B K q command version [] k = (put16 (sockc B) NO_ERROR_OCCURRED @ putBool B (f k), [], k)"
    and "command \<in> set connectionCommands"
  shows "wire_operation B K q command [] (readBool B err) (\<lambda>k. (Inr (f k), k)) (putBool B) (\<lambda>a. True)"
proof
  show "readBool B err (cl\<lparr>cn_input := putBool B a\<rparr>) = (a, cl\<lparr>cn_input := []\<rparr>)" if "bind_sock_ok B" for a cl
    using bind_sock_okD(4) [OF that, of a "[]"] by (simp add: readBool_def)
qed (simp_all add: assms)

section \<open>Names\<close>

text \<open>A name of the client: within the limit, and without a zero.\<close>

definition name_ok :: "u32 \<Rightarrow> bytes \<Rightarrow> bool" where
  "name_ok q name \<longleftrightarrow> length name \<le> unat q \<and> length name < 2 ^ 31 \<and> 0 \<notin> set name"

lemma cstring_name: "0 \<notin> set name \<Longrightarrow> cstring name = name"
  by (auto simp: cstring_def takeWhile_eq_all_conv)

lemma withName_sent:
  assumes "name_ok q name" and "sized = Some (of_nat (length name), name)"
  shows "withName B q sized r k f = f name []"
proof -
  have "unat (of_nat (length name) :: u32) = length name" using assms(1) by (intro unat_u32) (simp add: name_ok_def)
  moreover from this have "\<not> q < of_nat (length name)" using assms(1) by (simp add: name_ok_def word_less_nat_alt)
  ultimately show ?thesis
    using assms cstring_name [of name] getBytes_append [of "of_nat (length name)" name "[]"]
    by (simp add: withName_def name_ok_def del: getBytes_append)
qed

definition wideName :: "sockcodec \<Rightarrow> bytes \<Rightarrow> bytes" where
  "wideName C name = put32 C (of_nat (length name)) @ take (unat (of_nat (length name) :: u32)) name"

lemma wideName_sized:
  assumes "sock_ok C" and "name_ok q name"
  shows "get32 C (wideName C name) = Some (of_nat (length name), name)"
proof -
  have "unat (of_nat (length name) :: u32) = length name" using assms(2) by (intro unat_u32) (simp add: name_ok_def)
  then show ?thesis by (simp add: wideName_def sock_okD [OF assms(1)])
qed

lemma putText_sized:
  assumes "sock_ok C" and "length name < 65536"
  shows "get16wide C (putText C name) = Some (of_nat (length name), name)"
proof -
  have u: "unat (of_nat (length name) :: u16) = length name" using assms(2) by (simp add: unat_of_nat)
  then have "(ucast (of_nat (length name) :: u16) :: u32) = of_nat (length name)"
    using assms(2) by (intro unat_inj) (simp add: unsigned_ucast_eq take_bit_nat_eq_self unat_u32)
  then show ?thesis using u by (simp add: get16wide_def putText_def sock_okD [OF assms(1)] Let_def)
qed

section \<open>The instances\<close>

lemma in_commands: "command \<in> {BEGIN, COMMIT, ROLLBACK, SET_AUTO_COMMIT, GET_AUTO_COMMIT, GET_IN_TRANSACTION,
    SET_TRANSACTION_MODEL, GET_TRANSACTION_MODEL, SELECT_DATABASE, IDENTIFY, DB_VERSION, GET_CURRENT_DATABASE} \<Longrightarrow>
  command \<in> set connectionCommands"
  by (auto simp: connectionCommands_def)

lemma command_branches:
  "connectionCommandOf B K q BEGIN version r k = beginCommand (sockc B) K version r k"
  "connectionCommandOf B K q COMMIT version r k = commitCommand (sockc B) K version r k"
  "connectionCommandOf B K q ROLLBACK version r k = rollbackCommand (sockc B) K version r k"
  "connectionCommandOf B K q SET_AUTO_COMMIT version r k = setAutoCommitCommand B K version r k"
  "connectionCommandOf B K q GET_AUTO_COMMIT version r k = getAutoCommitCommand B K r k"
  "connectionCommandOf B K q GET_IN_TRANSACTION version r k = getInTransactionCommand B K r k"
  "connectionCommandOf B K q SET_TRANSACTION_MODEL version r k = setTransactionModelCommand B K q version r k"
  "connectionCommandOf B K q GET_TRANSACTION_MODEL version r k = getTransactionModelCommand (sockc B) K r k"
  "connectionCommandOf B K q SELECT_DATABASE version r k = selectDatabaseCommand B K q version r k"
  "connectionCommandOf B K q IDENTIFY version r k = identifyCommand (sockc B) K r k"
  "connectionCommandOf B K q DB_VERSION version r k = dbVersionCommand (sockc B) K r k"
  "connectionCommandOf B K q GET_CURRENT_DATABASE version r k = getCurrentDatabaseCommand (sockc B) K r k"
  by (simp_all add: connectionCommandOf_def)

interpretation wire_begin: wire_operation B K q BEGIN "[]" False succeed "\<lambda>k. flagged K (co_begin K k)" "\<lambda>a. []" "\<lambda>a. True"
  for B K q
  by (rule flag_law) (simp_all add: in_commands command_branches beginCommand_def)

interpretation wire_commit: wire_operation B K q COMMIT "[]" False succeed "\<lambda>k. flagged K (co_commit K k)" "\<lambda>a. []" "\<lambda>a. True"
  for B K q
  by (rule flag_law) (simp_all add: in_commands command_branches commitCommand_def)

interpretation wire_rollback: wire_operation B K q ROLLBACK "[]" False succeed "\<lambda>k. flagged K (co_rollback K k)" "\<lambda>a. []"
  "\<lambda>a. True" for B K q
  by (rule flag_law) (simp_all add: in_commands command_branches rollbackCommand_def)

lemma setAutoCommit_served:
  "bind_sock_ok B \<Longrightarrow> connectionCommandOf B K q SET_AUTO_COMMIT version (putBool B on) k =
    acknowledge (sockc B) K version [] ((if on then co_setAutoCommitOn K else co_setAutoCommitOff K) k)"
  using bind_sock_okD(4) [of B on "[]"] by (simp add: command_branches setAutoCommitCommand_def)

interpretation wire_autocommit: wire_operation B K q SET_AUTO_COMMIT "putBool B on" False succeed
  "\<lambda>k. flagged K ((if on then co_setAutoCommitOn K else co_setAutoCommitOff K) k)" "\<lambda>a. []" "\<lambda>a. True" for B K q on
  by (rule flag_law) (simp_all add: in_commands setAutoCommit_served)

interpretation wire_getautocommit: wire_operation B K q GET_AUTO_COMMIT "[]" False "readBool B err"
  "\<lambda>k. (Inr (co_getAutoCommit K k), k)" "putBool B" "\<lambda>a. True" for B K q err
  by (rule bool_law) (simp_all add: in_commands command_branches getAutoCommitCommand_def)

interpretation wire_intransaction: wire_operation B K q GET_IN_TRANSACTION "[]" False "readBool B err"
  "\<lambda>k. (Inr (co_getInTransaction K k), k)" "putBool B" "\<lambda>a. True" for B K q err
  by (rule bool_law) (simp_all add: in_commands command_branches getInTransactionCommand_def)

text \<open>Which model a text stands for, and what becomes of a text that stands for none.\<close>

definition modelOf :: "'k connops \<Rightarrow> bytes \<Rightarrow> 'k \<Rightarrow> sqlrtxmodel" where
  "modelOf K t k = (if t = asciiBytes ''native'' then co_nativeModel K k else stringToTransactionModel (map (char_of \<circ> unat) t))"

definition setModel :: "'k connops \<Rightarrow> bytes \<Rightarrow> 'k \<Rightarrow> bool \<times> 'k" where
  "setModel K t k =
     (if modelOf K t k = TX_Unknown then
        (False, co_setError K (asciiBytes ''invalid transaction model: '' @ t) SQLR_ERROR_NOTIMPLEMENTED True k)
      else co_setTransactionModel K (modelOf K t k) k)"

lemma setModel_law:
  assumes "name_ok q t" and "length t < 65536"
  shows "wire_operation B K q SET_TRANSACTION_MODEL (putText (sockc B) t) succeed (\<lambda>k. flagged K (setModel K t k))
    (\<lambda>a. []) (\<lambda>a. True)"
proof (rule flag_law)
  fix version k
  assume "bind_sock_ok B"
  then have "get16wide (sockc B) (putText (sockc B) t) = Some (of_nat (length t), t)"
    using putText_sized assms(2) by (simp add: bind_sock_ok_def)
  then show "connectionCommandOf B K q SET_TRANSACTION_MODEL version (putText (sockc B) t) k =
      acknowledge (sockc B) K version [] (setModel K t k)"
    by (simp add: command_branches setTransactionModelCommand_def withName_sent [OF assms(1)] setModel_def modelOf_def
        acknowledge_def Let_def)
qed (simp add: in_commands)

interpretation wire_gettxmodel: wire_operation B K q GET_TRANSACTION_MODEL "[]" None "readText (sockc B) err"
  "\<lambda>k. texted (asciiBytes (transactionModelToString (co_transactionModel K k)), k)" "encText (sockc B)" shortText for B K q err
  by (rule text_law) (simp_all add: in_commands command_branches getTransactionModelCommand_def)

interpretation wire_identify: wire_operation B K q IDENTIFY "[]" None "readText (sockc B) err"
  "\<lambda>k. texted (co_dbType K k)" "encText (sockc B)" shortText for B K q err
  by (rule text_law) (simp_all add: in_commands command_branches identifyCommand_def)

interpretation wire_dbversion: wire_operation B K q DB_VERSION "[]" None "readText (sockc B) err"
  "\<lambda>k. texted (co_dbVersion K k)" "encText (sockc B)" shortText for B K q err
  by (rule text_law) (simp_all add: in_commands command_branches dbVersionCommand_def)

interpretation wire_getdatabase: wire_operation B K q GET_CURRENT_DATABASE "[]" None "readText (sockc B) err"
  "\<lambda>k. texted (co_currentDatabase K k)" "encText (sockc B)" shortText for B K q err
  by (rule text_law) (simp_all add: in_commands command_branches getCurrentDatabaseCommand_def)

lemma selectDatabase_law:
  assumes "name_ok q name"
  shows "wire_operation B K q SELECT_DATABASE (wideName (sockc B) name) succeed
    (\<lambda>k. flagged K (co_selectDatabase K name k)) (\<lambda>a. []) (\<lambda>a. True)"
proof (rule flag_law)
  fix version k
  assume "bind_sock_ok B"
  then have "get32 (sockc B) (wideName (sockc B) name) = Some (of_nat (length name), name)"
    using wideName_sized [OF _ assms] by (simp add: bind_sock_ok_def)
  then show "connectionCommandOf B K q SELECT_DATABASE version (wideName (sockc B) name) k =
      acknowledge (sockc B) K version [] (co_selectDatabase K name k)"
    by (simp add: command_branches selectDatabaseCommand_def withName_sent [OF assms])
qed (simp add: in_commands)

end
