(* ===== verification/Connection_Transactions.thy ===== *)
theory Connection_Transactions
  imports Connection_Calls
begin

text \<open>
  Sequences of calls of a client that begin and end transactions, over the wire, on any controller and on
  that of \<open>Transactions\<close>.
\<close>

section \<open>Calls\<close>

datatype txcall = Call_Begin | Call_Commit | Call_Rollback | Call_Autocommit bool | Call_Model bytes

primrec clientCall :: "'d bindcodec \<Rightarrow> 'n peer \<Rightarrow> txcall \<Rightarrow> 'n both \<Rightarrow> bool \<times> 'n both" where
  "clientCall B P Call_Begin = begin_client (sockc B) P"
| "clientCall B P Call_Commit = commit_client (sockc B) P"
| "clientCall B P Call_Rollback = rollback_client (sockc B) P"
| "clientCall B P (Call_Autocommit on) = (if on then autoCommitOn B P else autoCommitOff B P)"
| "clientCall B P (Call_Model t) = setTransactionModel_client (sockc B) P t"

primrec controllerCall :: "'k connops \<Rightarrow> txcall \<Rightarrow> 'k \<Rightarrow> bool \<times> 'k" where
  "controllerCall K Call_Begin = co_begin K"
| "controllerCall K Call_Commit = co_commit K"
| "controllerCall K Call_Rollback = co_rollback K"
| "controllerCall K (Call_Autocommit on) = (if on then co_setAutoCommitOn K else co_setAutoCommitOff K)"
| "controllerCall K (Call_Model t) = setModel K t"

fun clientCalls :: "'d bindcodec \<Rightarrow> 'n peer \<Rightarrow> txcall list \<Rightarrow> 'n both \<Rightarrow> bool list \<times> 'n both" where
  "clientCalls B P [] st = ([], st)"
| "clientCalls B P (c # cs) st =
     (case clientCall B P c st of (ok, st) \<Rightarrow> (case clientCalls B P cs st of (oks, st) \<Rightarrow> (ok # oks, st)))"

text \<open>The controller's side: the results, and after a failure the error that is fetched.\<close>

fun controllerCalls :: "'k connops \<Rightarrow> txcall list \<Rightarrow> 'k \<Rightarrow> (servererror + bool) list \<times> 'k" where
  "controllerCalls K [] k = ([], k)"
| "controllerCalls K (c # cs) k =
     (case flagged K (controllerCall K c k) of (r, k) \<Rightarrow> (case controllerCalls K cs k of (rs, k) \<Rightarrow> (r # rs, k)))"

definition succeeded :: "'e + bool \<Rightarrow> bool" where
  "succeeded r \<longleftrightarrow> (case r of Inl e \<Rightarrow> False | Inr b \<Rightarrow> b)"

definition sendable :: "u32 \<Rightarrow> txcall \<Rightarrow> bool" where
  "sendable q c \<longleftrightarrow> (case c of Call_Model t \<Rightarrow> name_ok q t \<and> length t < 65536 | _ \<Rightarrow> True)"

definition result_told :: "servererror + bool \<Rightarrow> connclient \<Rightarrow> bool" where
  "result_told r cl \<longleftrightarrow>
     (case r of
        Inr b \<Rightarrow> cn_error cl = None \<and> cn_errorno cl = 0
      | Inl e \<Rightarrow> cn_error cl = Some (Server_Error (err_string e)) \<and> cn_errorno cl = err_number e \<and> cn_sqlstate cl = err_sqlstate e)"

lemma clear_idle: "idle cl \<Longrightarrow> idle (clearConnError cl)" "idle cl \<Longrightarrow> idle (told e cl)"
  by (simp_all add: idle_def clearConnError_def told_def)

lemma flagged_cases:
  obtains (good) k' where "flagged K r = (Inr True, k')" | (bad) e k' where "flagged K r = (Inl e, k')"
  by (cases r; cases "fst r"; cases "co_getError K (snd r)") (auto simp: flagged_def fetchError_def)

text \<open>Any of the instances: one call.\<close>

lemma flag_call:
  assumes "wire_operation B K (fst (snd (maxima E))) command args succeed (\<lambda>k. flagged K (f k)) (\<lambda>a. []) (\<lambda>a. True)"
    and "runs_on B K E" and "net P = serveOnce E" and "in_session s" and "idle cl"
    and "\<And>k. conn_error_ok (fst (co_getError K k))"
  shows "\<exists>out cl'. request (sockc B) P (put16 (sockc B) command @ args) False succeed (cl, s) =
      (succeeded (fst (flagged K (f (controller s)))), cl', stepped s command out (snd (flagged K (f (controller s))))) \<and>
    idle cl' \<and> result_told (fst (flagged K (f (controller s)))) cl'"
proof (cases rule: flagged_cases [of K "f (controller s)"])
  case (good k)
  then obtain out where "request (sockc B) P (put16 (sockc B) command @ args) False succeed (cl, s) =
      (True, clearConnError cl, stepped s command out k)"
    using wire_operation.answered [OF assms(1,2) refl assms(3-5)] by blast
  then show ?thesis
    using good clear_idle(1) [OF assms(5)] by (simp add: succeeded_def result_told_def clearConnError_def) blast
next
  case (bad e k)
  have "conn_error_ok e"
    using bad assms(6) by (auto simp: flagged_def fetchError_def split: prod.splits if_splits) (metis fst_conv)
  then obtain out where "request (sockc B) P (put16 (sockc B) command @ args) False succeed (cl, s) =
      (False, told e cl, stepped s command out k)"
    using wire_operation.refused [OF assms(1,2) refl assms(3-5)] bad by blast
  then show ?thesis
    using bad clear_idle(2) [OF assms(5)] by (simp add: succeeded_def result_told_def told_def) blast
qed

lemma call_served:
  assumes "runs_on B K E" and "net P = serveOnce E" and "in_session s" and "idle cl"
    and "\<And>k. conn_error_ok (fst (co_getError K k))" and "sendable (fst (snd (maxima E))) c"
  shows "\<exists>cl' command out. clientCall B P c (cl, s) =
      (succeeded (fst (flagged K (controllerCall K c (controller s)))), cl',
       stepped s command out (snd (flagged K (controllerCall K c (controller s))))) \<and>
    idle cl' \<and> result_told (fst (flagged K (controllerCall K c (controller s)))) cl'"
proof (cases c)
  case Call_Begin
  then show ?thesis
    using flag_call [OF wire_begin.wire_operation_axioms assms(1-5)] by (simp add: begin_client_def) blast
next
  case Call_Commit
  then show ?thesis
    using flag_call [OF wire_commit.wire_operation_axioms assms(1-5)] by (simp add: commit_client_def) blast
next
  case Call_Rollback
  then show ?thesis
    using flag_call [OF wire_rollback.wire_operation_axioms assms(1-5)] by (simp add: rollback_client_def) blast
next
  case (Call_Autocommit on)
  then show ?thesis
    using flag_call [OF wire_autocommit.wire_operation_axioms [where on = on] assms(1-5)]
    by (cases on) (simp_all add: autoCommitOn_def autoCommitOff_def autoCommit_def, blast+)
next
  case (Call_Model t)
  then have "name_ok (fst (snd (maxima E))) t" "length t < 65536" using assms(6) by (simp_all add: sendable_def)
  then show ?thesis
    using flag_call [OF setModel_law assms(1-3) clear_idle(1) [OF assms(4)] assms(5)] Call_Model
    by (simp add: setTransactionModel_client_def) blast
qed

lemma calls_served:
  assumes "runs_on B K E" and "net P = serveOnce E" and "\<And>k. conn_error_ok (fst (co_getError K k))"
  shows "in_session s \<Longrightarrow> idle cl \<Longrightarrow> list_all (sendable (fst (snd (maxima E)))) cs \<Longrightarrow>
    \<exists>cl' s'. clientCalls B P cs (cl, s) = (map succeeded (fst (controllerCalls K cs (controller s))), cl', s') \<and>
      controller s' = snd (controllerCalls K cs (controller s)) \<and> in_session s' \<and> idle cl' \<and>
      (cs \<noteq> [] \<longrightarrow> result_told (last (fst (controllerCalls K cs (controller s)))) cl')"
proof (induction cs arbitrary: cl s)
  case (Cons c cs)
  define r where "r = flagged K (controllerCall K c (controller s))"
  obtain cl1 command out where 1: "clientCall B P c (cl, s) = (succeeded (fst r), cl1, stepped s command out (snd r))"
    "idle cl1" "result_told (fst r) cl1"
    using call_served [OF assms(1,2) Cons.prems(1,2) assms(3), of c] Cons.prems(3) unfolding r_def by auto
  let ?s1 = "stepped s command out (snd r)"
  have s1: "in_session ?s1" "controller ?s1 = snd r" using in_session_stepped [OF Cons.prems(1)] by (simp_all add: stepped_def)
  obtain cl' s' where 2: "clientCalls B P cs (cl1, ?s1) = (map succeeded (fst (controllerCalls K cs (snd r))), cl', s')"
    "controller s' = snd (controllerCalls K cs (snd r))" "in_session s'" "idle cl'"
    "cs \<noteq> [] \<longrightarrow> result_told (last (fst (controllerCalls K cs (snd r)))) cl'"
    using Cons.IH [OF s1(1) 1(2)] Cons.prems(3) unfolding s1(2) by auto
  have "length (fst (controllerCalls K xs k)) = length xs" for xs k
    by (induction xs arbitrary: k) (simp_all add: split_beta)
  then have "fst (controllerCalls K cs (snd r)) = [] \<longleftrightarrow> cs = []" by (metis length_0_conv)
  then show ?case
    using 1 2 by (cases "cs = []") (simp_all add: r_def [symmetric] split_beta)
qed simp

section \<open>On the controller of transactions\<close>

text \<open>
  The operations of the controller are those of \<open>Transactions\<close>; the error of the connection is kept
  elsewhere by the protocol module, and does not change what they depend on.
\<close>

definition only_error :: "('c txst \<Rightarrow> 'c txst) \<Rightarrow> bool" where
  "only_error f \<longleftrightarrow> (\<forall>s. \<exists>e. f s = s\<lparr>connerror := e\<rparr>)"

definition transacts :: "'c dbconn \<Rightarrow> 'c txst connops \<Rightarrow> bool" where
  "transacts D K \<longleftrightarrow>
     co_setAutoCommitOn K = setAutoCommitOn D \<and> co_setAutoCommitOff K = setAutoCommitOff D \<and>
     co_getAutoCommit K = autocommit \<and> co_begin K = begin_tx D \<and> co_commit K = commit D \<and> co_rollback K = rollback D \<and>
     co_getInTransaction K = intransaction \<and> co_setTransactionModel K = setTransactionModel D \<and>
     co_transactionModel K = txmodel \<and> co_nativeModel K = (\<lambda>s. nativeModel D) \<and>
     (\<forall>message number live. only_error (co_setError K message number live)) \<and> only_error (\<lambda>s. snd (co_getError K s))"

definition in_step :: "'c dbconn \<Rightarrow> ('c \<Rightarrow> bool) \<Rightarrow> ('c \<Rightarrow> bool) \<Rightarrow> 'c txst \<Rightarrow> bool" where
  "in_step D manual opened s \<longleftrightarrow> settled s \<and> agrees D manual opened s"

lemma in_step_error: "only_error f \<Longrightarrow> in_step D manual opened s \<Longrightarrow> in_step D manual opened (f s)"
proof -
  assume "only_error f" and s: "in_step D manual opened s"
  then obtain e where e: "f s = s\<lparr>connerror := e\<rparr>" by (auto simp: only_error_def)
  show ?thesis using s unfolding e in_step_def settled_def agrees_def by auto
qed

text \<open>
  The calls for which the controller and the database stay in agreement: none gives up transactions, and
  none begins one in a model that the controller fakes on top of an autocommit of the database.
\<close>

definition agreeable :: "'c dbconn \<Rightarrow> txcall \<Rightarrow> bool" where
  "agreeable D c \<longleftrightarrow> c \<noteq> Call_Model (asciiBytes ''none'') \<and>
     (c = Call_Begin \<longrightarrow> nativeModel D = TX_Implicit \<or> \<not> supportsAutoCommit D)"

lemma stringToTransactionModel_none: "stringToTransactionModel t = TX_None \<longleftrightarrow> t = ''none''"
  by (simp add: stringToTransactionModel_def)

lemma asciiBytes_chars: "map (char_of \<circ> unat) t = cs \<Longrightarrow> asciiBytes cs = t"
proof -
  have "of_char (char_of (unat b) :: char) = (b :: byte)" for b
  proof -
    have "of_char (char_of (unat b) :: char) = (of_nat (of_char (char_of (unat b) :: char)) :: byte)"
      by (simp only: of_nat_of_char)
    then show ?thesis using unsigned_less [of b, where 'a = nat] by simp
  qed
  then show "map (char_of \<circ> unat) t = cs \<Longrightarrow> asciiBytes cs = t" by (auto simp: asciiBytes_def map_idI)
qed

lemma call_in_step:
  assumes "db_contract D manual opened" and "manageable D" and "transacts D K" and "in_step D manual opened s" and "agreeable D c"
  shows "in_step D manual opened (snd (flagged K (controllerCall K c s)))"
proof -
  note K = assms(3) [unfolded transacts_def]
  have step: "in_step D manual opened s'" if "session_step D (begin_safe D) s s'" for s'
    using agrees_step [OF assms(1,2) _ that] assms(4) by (simp add: in_step_def)
  have error: "in_step D manual opened (snd (co_getError K t))" if "in_step D manual opened t" for t
    using in_step_error [of "\<lambda>s. snd (co_getError K s)" D manual opened t] K that by simp
  have safe: "begin_safe D s" if "c = Call_Begin"
    using assms(5) that by (auto simp: agreeable_def begin_safe_def fakingImplicitTransactions_def)
  have "in_step D manual opened (snd (controllerCall K c s))"
  proof (cases c)
    case (Call_Model t)
    let ?m = "modelOf K t s"
    have "?m \<noteq> TX_None"
      using assms(2,5) Call_Model K asciiBytes_chars [of t "''none''"]
      by (auto simp: modelOf_def stringToTransactionModel_none agreeable_def manageable_def)
    then have model: "in_step D manual opened (snd (setTransactionModel D ?m s))" by (intro step session_step.Model)
    show ?thesis
    proof (cases "?m = TX_Unknown")
      case True
      have "only_error (co_setError K (asciiBytes ''invalid transaction model: '' @ t) SQLR_ERROR_NOTIMPLEMENTED True)"
        using K by blast
      then show ?thesis using Call_Model True in_step_error [OF _ assms(4)] by (simp add: setModel_def)
    next
      case False
      then show ?thesis using Call_Model K model by (simp add: setModel_def)
    qed
  next
    case (Call_Autocommit on)
    have "in_step D manual opened (snd (setAutoCommitOn D s))" "in_step D manual opened (snd (setAutoCommitOff D s))"
      by (rule step [OF session_step.On], rule step [OF session_step.Off])
    then show ?thesis using Call_Autocommit K by (cases on) simp_all
  next
    case Call_Begin
    then show ?thesis using K step [OF session_step.Begin [of "begin_safe D" s D]] safe by simp
  next
    case Call_Commit
    then show ?thesis using K step [OF session_step.Commit] by simp
  next
    case Call_Rollback
    then show ?thesis using K step [OF session_step.Rollback] by simp
  qed
  then show ?thesis
    using error [of "snd (controllerCall K c s)"] by (simp add: flagged_def fetchError_def split_beta)
qed

lemma calls_in_step:
  assumes "db_contract D manual opened" and "manageable D" and "transacts D K"
  shows "in_step D manual opened s \<Longrightarrow> list_all (agreeable D) cs \<Longrightarrow> in_step D manual opened (snd (controllerCalls K cs s))"
proof (induction cs arbitrary: s)
  case (Cons c cs)
  have "in_step D manual opened (snd (flagged K (controllerCall K c s)))"
    using call_in_step [OF assms Cons.prems(1)] Cons.prems(2) by simp
  then show ?case using Cons.IH Cons.prems(2) by (simp split: prod.split) (metis snd_conv)
qed simp


end
