(* ===== verification/Connection_Samples.thy ===== *)
theory Connection_Samples
  imports Connection_Transactions Request_Samples Command_Ends
begin

text \<open>
  Transactions of a concrete client over the wire, and the requests whose answers the client cannot read.
\<close>

section \<open>A connection\<close>

abbreviation "sample_error \<equiv> \<lparr>err_number = 900030, err_string = [116, 120], err_live = True, err_sqlstate = []\<rparr>"

text \<open>A controller over the database \<open>flag_db\<close>; what it has to say of itself is one text.\<close>

definition sample_ops :: "(bool \<times> bool) txst connops" where
  "sample_ops =
     (let D = flag_db TX_Explicit_Deferred False; text = (\<lambda>s. ([80, 71], s)) in
      \<lparr>co_ping = (\<lambda>s. (True, s)), co_reLogIn = (\<lambda>s. s), co_dbType = text, co_dbVersion = text, co_bindFormat = text,
       co_nextvalFormat = text, co_serverVersion = text, co_setAutoCommitOn = setAutoCommitOn D,
       co_setAutoCommitOff = setAutoCommitOff D, co_getAutoCommit = autocommit, co_begin = begin_tx D, co_commit = commit D,
       co_rollback = rollback D, co_getInTransaction = intransaction, co_selectDatabase = (\<lambda>name s. (True, s)),
       co_selectCatalog = (\<lambda>name s. (True, s)), co_selectSchema = (\<lambda>name s. (True, s)), co_currentDatabase = text,
       co_currentCatalog = text, co_currentSchema = text, co_currentUser = text, co_databaseIsSchema = (\<lambda>s. False),
       co_lastInsertId = (\<lambda>s. (Some 1, s)), co_hostName = text, co_ipAddress = text,
       co_setIsolationLevel = (\<lambda>level format s. (True, s)), co_isolationLevel = (\<lambda>format s. (None, s)),
       co_defaultIsolationLevel = (\<lambda>format s. (None, s)), co_setTransactionModel = setTransactionModel D,
       co_transactionModel = txmodel, co_nativeModel = (\<lambda>s. nativeModel D), co_features = (\<lambda>s. (Some (\<lambda>i. [120]), s)),
       co_setError = (\<lambda>message number live s. s\<lparr>connerror := Some Db_Error\<rparr>), co_getError = (\<lambda>s. (sample_error, s))\<rparr>)"

lemma sample_transacts: "transacts (flag_db TX_Explicit_Deferred False) sample_ops"
proof -
  have "\<exists>e. s\<lparr>connerror := Some Db_Error\<rparr> = s\<lparr>connerror := e\<rparr>" "\<exists>e. s = s\<lparr>connerror := e\<rparr>" for s :: "(bool \<times> bool) txst"
    by (blast, rule exI [of _ "connerror s"], simp)
  then show ?thesis by (simp add: transacts_def sample_ops_def Let_def only_error_def)
qed

definition sample_commands :: "(bool \<times> bool) txst commandenv" where
  "sample_commands =
     \<lparr>wire = be_sock, maxima = (1024, 65536, 256, 64), usesKrb = False, usesTls = False, gssInitiator = None, tlsPeer = None,
      secures = (\<lambda>k. True), instanceDisabled = (\<lambda>k. False), authorize = (\<lambda>cred k. (True, k)), startSession = (\<lambda>k. k),
      endsSession = (\<lambda>k. k), suspendsSession = (\<lambda>k. ([], 0, k)),
      connectionCommand = connectionCommandOf be_bind sample_ops 65536,
      cursorCommand = (\<lambda>c v i s k. (False, [], s, k)), cursorById = (\<lambda>i k. (None, k)), newCursorFor = (\<lambda>k. (None, k)),
      absorbed = (\<lambda>n s. s), releaseCursors = (\<lambda>k. k), rollsBack = (\<lambda>k. k)\<rparr>"

definition sample_daemon :: "(bool \<times> bool) txst daemon" where
  "sample_daemon =
     \<lparr>clientversion = 3, authenticated = True, userbuffer = [], passwordbuffer = [], suspendedsession = False,
      resumedsession = False, received = [], sent = [], controller = flag_session TX_Explicit_Deferred True, cmdlog = []\<rparr>"

definition sample_peer :: "(bool \<times> bool) txst daemon peer" where
  "sample_peer = \<lparr>net = serveOnce sample_commands, connects = (\<lambda>st. (False, st))\<rparr>"

definition sample_conn :: connclient where
  "sample_conn = \<lparr>cn_connected = True, cn_errorno = 7, cn_error = None, cn_sqlstate = [], cn_input = [],
     cn_features = (\<lambda>i. None)\<rparr>"

lemma sample_connection:
  "runs_on be_bind sample_ops sample_commands" "net sample_peer = serveOnce sample_commands" "in_session sample_daemon"
  "idle sample_conn" "\<And>k. conn_error_ok (fst (co_getError sample_ops k))" "fst (snd (maxima sample_commands)) = 65536"
  by (simp_all add: runs_on_def be_bind_ok sample_commands_def sample_peer_def in_session_def sample_daemon_def idle_def
      sample_conn_def conn_error_ok_def sample_ops_def Let_def) (simp_all add: be_bind_def)

text \<open>Turning autocommit off, a commit, and a model that there is not.\<close>

abbreviation "sample_calls \<equiv> [Call_Autocommit False, Call_Commit, Call_Model [97]]"


end
