(* ===== verification/Connection_Outcomes.thy ===== *)
theory Connection_Outcomes
  imports Connection_Samples
begin

text \<open>
  The features of the database, names that are refused, and what the commands on a connection leave of the
  input, on which the end of the loop over commands rests.
\<close>

section \<open>What is left of the input\<close>

lemma answers_rest:
  "fst (snd (returnConnError C K version r k)) = r" "fst (snd (acknowledge C K version r result)) = r"
  "fst (snd (answerText C r text)) = r" "fst (snd (answerLevel C K version r level)) = r"
  by (simp_all add: returnConnError_def acknowledge_def answerText_def answerLevel_def split: prod.split option.split)

definition shrinks :: "'d bindcodec \<Rightarrow> bool" where
  "shrinks B \<longleftrightarrow> (\<forall>s x r. get16 (sockc B) s = Some (x, r) \<longrightarrow> length r \<le> length s) \<and>
     (\<forall>s x r. get32 (sockc B) s = Some (x, r) \<longrightarrow> length r \<le> length s) \<and>
     (\<forall>s x r. getBool B s = Some (x, r) \<longrightarrow> length r \<le> length s)"

lemma shrinksD:
  assumes "shrinks B"
  shows "get16 (sockc B) s = Some (x, r) \<Longrightarrow> length r \<le> length s" "get32 (sockc B) s = Some (y, r) \<Longrightarrow> length r \<le> length s"
    "getBool B s = Some (b, r) \<Longrightarrow> length r \<le> length s"
  using assms unfolding shrinks_def by blast+

lemma withName_rest:
  assumes "\<And>n t. sized = Some (n, t) \<Longrightarrow> length t \<le> length r" and "\<And>name t. fst (snd (f name t)) = t"
  shows "length (fst (snd (withName B q sized r k f))) \<le> length r"
proof (cases sized)
  case (Some nt)
  obtain n t where nt: "nt = (n, t)" by (cases nt)
  have t: "length t \<le> length r" using assms(1) Some nt by simp
  have "length (fst (snd (case getBytes n t of None \<Rightarrow> refuseName B [] k | Some (name, s) \<Rightarrow> f (cstring name) s))) \<le> length r"
    using t getBytes_shorter [of n t] assms(2) by (fastforce simp: refuseName_def split: option.split)
  then show ?thesis using Some nt t by (simp add: withName_def refuseName_def)
qed (simp add: withName_def refuseName_def)

lemma get16wide_rest: "shrinks B \<Longrightarrow> get16wide (sockc B) s = Some (n, t) \<Longrightarrow> length t \<le> length s"
  by (auto simp: get16wide_def dest: shrinksD(1))

lemma if_rest: "fst (snd x) = r \<Longrightarrow> fst (snd y) = r \<Longrightarrow> fst (snd (if b then x else y)) = r"
  by simp

lemma names_rest:
  assumes "shrinks B"
  shows "length (fst (snd (selectDatabaseCommand B K q version r k))) \<le> length r"
    "length (fst (snd (selectCatalogCommand B K q version r k))) \<le> length r"
    "length (fst (snd (selectSchemaCommand B K q version r k))) \<le> length r"
    "length (fst (snd (setTransactionModelCommand B K q version r k))) \<le> length r"
  unfolding selectDatabaseCommand_def selectCatalogCommand_def selectSchemaCommand_def setTransactionModelCommand_def Let_def
  by (rule withName_rest, erule shrinksD(2) [OF assms] get16wide_rest [OF assms], (rule answers_rest if_rest)+)+

lemma read_rest:
  assumes "\<And>x t. got = Some (x, t) \<Longrightarrow> length t \<le> length r"
    and "length (fst (snd a)) \<le> length r" and "\<And>x t. length (fst (snd (f x t))) \<le> length t"
  shows "length (fst (snd (case got of None \<Rightarrow> a | Some (x, t) \<Rightarrow> f x t))) \<le> length r"
proof (cases got)
  case (Some p)
  obtain x t where "p = (x, t)" by (cases p)
  then show ?thesis using Some assms(1) [of x t] assms(3) [of x t] by simp
qed (use assms(2) in simp)

lemma levels_rest:
  assumes "shrinks B"
  shows "length (fst (snd (getIsolationLevelCommand B K version r k))) \<le> length r"
    "length (fst (snd (getDefaultIsolationLevelCommand B K version r k))) \<le> length r"
    "length (fst (snd (setAutoCommitCommand B K version r k))) \<le> length r"
    "length (fst (snd (setIsolationLevelCommand B K q version r k))) \<le> length r"
proof -
  note size = read_rest [OF shrinksD(1) [OF assms]] and flag = read_rest [OF shrinksD(3) [OF assms]]
  show "length (fst (snd (getIsolationLevelCommand B K version r k))) \<le> length r"
    "length (fst (snd (getDefaultIsolationLevelCommand B K version r k))) \<le> length r"
    unfolding getIsolationLevelCommand_def getDefaultIsolationLevelCommand_def
    by (rule size, assumption, simp add: refuseName_def, simp add: answers_rest)+
  show "length (fst (snd (setAutoCommitCommand B K version r k))) \<le> length r"
    unfolding setAutoCommitCommand_def by (rule flag, assumption, simp, simp add: answers_rest)
  show "length (fst (snd (setIsolationLevelCommand B K q version r k))) \<le> length r"
    unfolding setIsolationLevelCommand_def Let_def
  proof (rule size)
    show "length (fst (snd (withName B q (get16wide (sockc B) s) s k
        (\<lambda>isolevel r. acknowledge (sockc B) K version r (co_setIsolationLevel K isolevel format k))))) \<le> length s" for s format
      by (rule withName_rest, erule get16wide_rest [OF assms], rule answers_rest)
  qed (simp_all add: refuseName_def)
qed

lemma others_rest:
  "fst (snd (pingCommand C K version r k)) = r" "fst (snd (getLastInsertIdCommand C K version r k)) = r"
  "fst (snd (getDatabaseFeaturesCommand C K version r k)) = r"
  using answers_rest(1) [of C K version r]
  by (auto simp: pingCommand_def getLastInsertIdCommand_def getDatabaseFeaturesCommand_def Let_def split: prod.split option.split)
    (metis fst_conv snd_conv)+

text \<open>No command on a connection puts anything back: the demand of \<open>reads\<close> on the field \<open>connectionCommand\<close>.\<close>

theorem connection_commands_read:
  assumes "shrinks B"
  shows "length (fst (snd (connectionCommandOf B K q command version r k))) \<le> length r"
  unfolding connectionCommandOf_def Let_def
  by (simp add: names_rest [OF assms] levels_rest [OF assms] others_rest answers_rest identifyCommand_def dbVersionCommand_def bindFormatCommand_def getNextvalFormatCommand_def
      serverVersionCommand_def dbHostNameCommand_def dbIpAddressCommand_def beginCommand_def commitCommand_def rollbackCommand_def
      getAutoCommitCommand_def getInTransactionCommand_def getCurrentDatabaseCommand_def getCurrentCatalogCommand_def
      getCurrentSchemaCommand_def getCurrentUserCommand_def getDatabaseIsSchemaCommand_def getTransactionModelCommand_def
      getDefaultTransactionModelCommand_def)

section \<open>Names that are refused\<close>

text \<open>
  A database name beyond the limit is answered with the one byte of a truth value, where the client reads
  a status of two, and is left where the next command is read.
\<close>

theorem long_name_left_as_commands:
  assumes "sock_ok (sockc B)" and "length name < 2 ^ 32" and "unat q < length name"
  shows "connectionCommandOf B K q SELECT_DATABASE version (wideName (sockc B) name) k = (putBool B False, name, k)"
proof -
  have "unat (of_nat (length name) :: u32) = length name" using assms(2) by (intro unat_u32)
  then show ?thesis
    using assms(3)
    by (simp add: command_branches selectDatabaseCommand_def wideName_def withName_def sock_okD [OF assms(1)] refuseName_def
        word_less_nat_alt)
qed

text \<open>What the client makes of that byte.\<close>

theorem truth_value_is_no_status:
  "getError be_sock (sample_conn\<lparr>cn_input := putBool be_bind False\<rparr>) =
    (ERROR_OCCURRED, setConnError (connNetworkError ''Failed to get the error status.'')
       (clearConnError (sample_conn\<lparr>cn_input := [0]\<rparr>)))"
  by (simp add: getError_def be_bind_def be_sock_def be_get_def clearConnError_def Let_def)

section \<open>Features\<close>

definition features_of :: "(nat \<Rightarrow> bytes) \<Rightarrow> nat \<Rightarrow> nat \<Rightarrow> connclient \<Rightarrow> connclient" where
  "features_of f i n cl = cl\<lparr>cn_features := (\<lambda>j. if i \<le> j \<and> j < i + n \<and> j < FEATURE_COUNT then Some (f j) else cn_features cl j)\<rparr>"

lemma input_features: "cl\<lparr>cn_input := b, cn_features := g\<rparr> = cl\<lparr>cn_features := g, cn_input := b\<rparr>"
  by simp

lemma readFeatures_sent:
  assumes "sock_ok C" and "\<And>i. length (f i) < 65536"
  shows "readFeatures C i n (cl\<lparr>cn_input := concat (map (\<lambda>i. sendText C (f i)) [i..<i + n]) @ r\<rparr>) =
    (True, features_of f i n (cl\<lparr>cn_input := r\<rparr>))"
proof (induction n arbitrary: i cl)
  case 0
  then show ?case by (cases cl) (auto simp: features_of_def fun_eq_iff)
next
  case (Suc n)
  define cl' where "cl' = (if i < FEATURE_COUNT then cl\<lparr>cn_features := (cn_features cl)(i \<mapsto> f i)\<rparr> else cl)"
  let ?r = "concat (map (\<lambda>i. sendText C (f i)) [Suc i..<Suc i + n]) @ r"
  have "[i..<i + Suc n] = i # [Suc i..<Suc i + n]" by (simp add: upt_conv_Cons)
  then have "readFeatures C i (Suc n) (cl\<lparr>cn_input := concat (map (\<lambda>i. sendText C (f i)) [i..<i + Suc n]) @ r\<rparr>) =
      readFeatures C (Suc i) n (cl'\<lparr>cn_input := ?r\<rparr>)"
    using readText_sent [where C = C and t = "f i" and r = ?r and cl = cl, OF assms(1,2)] by (simp add: cl'_def input_features del: upt_Suc)
  also have "\<dots> = (True, features_of f (Suc i) n (cl'\<lparr>cn_input := r\<rparr>))" by (rule Suc.IH)
  also have "features_of f (Suc i) n (cl'\<lparr>cn_input := r\<rparr>) = features_of f i (Suc n) (cl\<lparr>cn_input := r\<rparr>)"
    by (cases cl) (auto simp: features_of_def cl'_def fun_eq_iff)
  finally show ?case .
qed

text \<open>
  The features arrive in the client's dictionary, all that a client of its version knows, and no byte of
  the answer is left.
\<close>

theorem features_received:
  assumes "runs_on B K E" and "net P = serveOnce E" and "in_session s" and "idle cl"
    and "co_features K (controller s) = (Some f, k)" and "\<And>i. length (f i) < 65536" and "i < FEATURE_COUNT"
  shows "\<exists>cl' s'. getDatabaseFeatures (sockc B) P (cl, s) = (True, cl', s') \<and> idle cl' \<and> cn_features cl' i = Some (f i)"
proof -
  let ?C = "sockc B"
  let ?data = "put16 ?C (of_nat FEATURE_COUNT) @ concat (map (\<lambda>i. sendText ?C (f i)) [0..<FEATURE_COUNT])"
  have ok: "sock_ok ?C" using runs_onD [OF assms(1)] by simp
  have "\<not> clientversion s < 3" using assms(3) leD by (auto simp: in_session_def)
  then have "connectionCommandOf B K (fst (snd (maxima E))) GET_DATABASE_FEATURES (clientversion s) [] (controller s) =
      (put16 ?C NO_ERROR_OCCURRED @ ?data, [], k)"
    using assms(5) unfolding connectionCommandOf_def getDatabaseFeaturesCommand_def Let_def by (simp del: upt_rec_numeral)
  then have step: "serveOnce E (put16 ?C GET_DATABASE_FEATURES @ []) s = (put16 ?C NO_ERROR_OCCURRED @ ?data,
      stepped s GET_DATABASE_FEATURES (put16 ?C NO_ERROR_OCCURRED @ ?data) k)"
    by (intro command_served [OF assms(1,3)]) (simp_all add: connectionCommands_def)
  have cl: "cn_input (clearConnError cl) = []" "cn_connected cl"
    using assms(4) by (simp_all add: clearConnError_def idle_def)
  have status: "getError ?C (clearConnError cl\<lparr>cn_input := put16 ?C NO_ERROR_OCCURRED @ ?data\<rparr>) =
      (NO_ERROR_OCCURRED, clearConnError cl\<lparr>cn_input := ?data\<rparr>)"
    by (simp add: getError_def sock_okD [OF ok] clearConnError_def del: upt_rec_numeral)
  have "readFeatures ?C 0 FEATURE_COUNT (clearConnError cl\<lparr>cn_input := concat (map (\<lambda>i. sendText ?C (f i)) [0..<FEATURE_COUNT])\<rparr>) =
      (True, features_of f 0 FEATURE_COUNT (clearConnError cl\<lparr>cn_input := []\<rparr>))"
    using readFeatures_sent [where C = ?C and f = f and i = 0 and n = FEATURE_COUNT and r = "[]" and cl = "clearConnError cl", OF ok assms(6)]
    by (simp del: upt_rec_numeral)
  then have "getDatabaseFeatures (sockc B) P (cl, s) = (True, features_of f 0 FEATURE_COUNT (clearConnError cl\<lparr>cn_input := []\<rparr>),
      stepped s GET_DATABASE_FEATURES (put16 ?C NO_ERROR_OCCURRED @ ?data) k)"
    using step cl status
    by (simp add: getDatabaseFeatures_def request_def openSession_def gotError_def tell_def assms(2) sock_okD [OF ok] Let_def del: upt_rec_numeral)
  then show ?thesis
    using assms(4,7) by (simp add: features_of_def idle_def clearConnError_def del: upt_rec_numeral)
qed

text \<open>Once one feature is there, the client does not ask for the others, although they were lost.\<close>

theorem features_not_asked_again:
  assumes "readFeatures C 0 n cl = (False, cl')" and "cn_features cl' 0 = Some v" and "cn_features cl' i = None"
  shows "getDatabaseFeature C P i (cl', s) = (None, cl', s)"
  using assms(2,3) by (auto simp: getDatabaseFeature_def)

end
