(* ===== verification/Spec2Isabelle.thy ===== *)
theory Spec2Isabelle
  imports Transaction_Session Query_Class SDL_Grammar SDL_Slices Wire_Codecs Scaler_Bounds Schedule_Rules Cursor_Clients
    Result_Access Result_Errors Result_Header Bind_Values Query_Outcomes Command_Ends Request_Samples Return_Samples
    Connection_Outcomes
begin

text \<open>
  A verification library of SQL Relay, a database proxy in C++. A pool of connection daemons
  (\<open>sqlr-connection\<close>) stays logged in to a database; clients are handed to one of them, speak
  a wire protocol with it, and have their queries run. The heart of a daemon is the class
  \<open>sqlrservercontroller\<close> (\<open>src/server/sqlrservercontroller.cpp\<close>), which every protocol module
  calls and which calls the driver of the database and the modules that filter, translate and
  log. \<open>sqlr-scaler\<close> starts and reaps the daemons. The development follows these parts.

  \<^bold>\<open>Shared vocabulary.\<close> \<open>Prelude\<close> has the machine integers as words, results as sums, the
  loop \<open>iterate\<close> and the locales \<open>prefix_codec\<close> and \<open>fixed_codec\<close>, the contract of an encoder
  and its decoder: what is read back after a write, with any bytes behind it, and that a
  truncated encoding is refused.

  \<^bold>\<open>Integers on the wire\<close> (\<open>src/server/sqlrprotocol.cpp\<close>). \<open>Platform\<close> describes a host
  by how it lays integers in memory (\<open>platform_ok\<close>); \<open>Wire_Ints\<close> has the readers and writers
  of fixed width in both byte orders, \<open>Wire_Codecs\<close> the length-encoded, length-preceded and
  BER ones. The locale \<open>wire_platform\<close> states the contract for any host, is interpreted on a
  little- and a big-endian one, and has the codec locales as sublocales.

  \<^bold>\<open>Slice descriptions of Firebird\<close> (\<open>src/protocols/firebirdsdl.cpp\<close>). \<open>Firebird_SDL\<close> is the
  parser on the object's state; \<open>SDL_Grammar\<close> has what Firebird's client emits and that it is
  parsed into what it describes; \<open>SDL_Slices\<close> has the outcome for any input and the
  arithmetic of subscripts, with the 32-bit overflow that the code has.

  \<^bold>\<open>Transactions\<close> (controller, \<open>sqlrserverconnection.cpp\<close>). \<open>Transactions\<close> keeps the flags of
  the controller in the record \<open>txst\<close>, with the state of the database inside it as a
  parameter; \<open>dbconn\<close> collects the driver's calls and \<open>db_contract\<close> is what their
  documentation promises. \<open>Transaction_State\<close> proves the invariants \<open>settled\<close> and \<open>agrees\<close>
  over sessions (an inductive step relation), \<open>Transaction_Session\<close> what the end of a session
  restores.

  \<^bold>\<open>Queries.\<close> \<open>Query_Text\<close> and \<open>Query_Class\<close> scan and classify the text of a query
  (controller, \<open>sqlrservercursor.cpp\<close>). \<open>Bind_Scan\<close>, \<open>Bind_Pieces\<close> and \<open>Bind_Values\<close> count,
  rename and replace bind variables (controller, cursor, \<open>src/common/bindvariables.h\<close>): the
  four loops of the code over the text are shown equal to operations on the query cut into
  pieces. \<open>Query_Modules\<close> has the lists of filters, translations, triggers and row block
  translations (\<open>sqlrfilters.cpp\<close>, \<open>filters/patterns.cpp\<close>, \<open>sqlrquerytranslations.cpp\<close>,
  \<open>sqlrtriggers.cpp\<close>, \<open>sqlrresultsetrowblocktranslations.cpp\<close>), and \<open>Module_Rules\<close> what they
  compute. \<open>Query_Pipeline\<close> and \<open>Query_Execute\<close> are \<open>prepareQuery\<close> and \<open>executeQuery\<close>: the
  record \<open>querycursor\<close> is the part of \<open>sqlrservercursor\<close> they use, \<open>querystate\<close> adds the
  controller, the transaction state and the log of what the driver was asked to do, and
  \<open>queryenv\<close> collects the driver and the modules as parameters. \<open>Query_Guard\<close> and
  \<open>Query_Rules\<close> show which texts reach the database, whatever a client does;
  \<open>Query_Outcomes\<close> what comes of each sort of query.

  \<^bold>\<open>Cursors\<close> (controller). \<open>Cursor_Pool\<close> has the array of cursors, \<open>Cursor_Sessions\<close> the
  invariant \<open>pool_ok\<close> and that every operation keeps it, \<open>Cursor_Clients\<close> what a client may
  rely on, through the locale \<open>resource_pool\<close>.

  \<^bold>\<open>Result sets\<close> (\<open>src/protocols/sqlrclient.cpp\<close> on the server, \<open>src/api/c++/sqlrcursor.cpp\<close>
  in the client). \<open>Result_Wire\<close> has the numbers they share, \<open>Result_Server\<close> and
  \<open>Result_Client\<close> the two sides, \<open>Result_Rows\<close> and \<open>Result_Source\<close> what a block of rows is
  on the wire and what is read from it, \<open>Result_Session\<close> the invariant of the two
  together, \<open>Result_Access\<close>, \<open>Result_Errors\<close> and \<open>Result_Header\<close> the theorems on fields,
  errors and column descriptions.

  \<^bold>\<open>Clients and their commands\<close> (\<open>src/protocols/sqlrclient.cpp\<close>, the controller's \<open>listen\<close>).
  \<open>Command_Loop\<close> has the loop of a client's session, the authentication and the daemon that
  serves one client after another; \<open>Command_Rules\<close> and \<open>Command_Ends\<close> show from the record of
  what it did that commands need authentication, that sessions are ended, and that the loop
  ends. The commands themselves are fields of \<open>commandenv\<close>, which the parts below fill.

  \<^bold>\<open>Requests\<close> (\<open>sqlrclient.cpp\<close>, \<open>sqlrcursor.cpp\<close>). \<open>Request_Wire\<close>, \<open>Request_Client\<close> and
  \<open>Request_Server\<close> have the bind variables of the client and the query with them, as it is
  sent and read; \<open>Request_Command\<close> the commands that run a query, with what runs it as the
  record \<open>requestenv\<close>. \<open>Request_Rules\<close> shows that a request arrives, \<open>Request_Outcomes\<close> what
  becomes of refused ones and of a database that is down.

  \<^bold>\<open>Answers\<close> (the same files). \<open>Return_Server\<close> and \<open>Return_Client\<close> have the values of variables on
  their way back, \<open>Return_Initial\<close> what the client makes of a whole answer. \<open>Return_Rules\<close> shows
  through the locale \<open>value_reader\<close> that the values arrive, \<open>Return_Outcomes\<close> puts request,
  header, values and rows together with the invariant \<open>sync\<close> of the result sets, and
  \<open>Return_Errors\<close> has the answers that are errors. \<open>Request_Samples\<close> and \<open>Return_Samples\<close> are
  concrete clients and servers.

  \<^bold>\<open>Commands on a connection\<close> (\<open>sqlrclient.cpp\<close>, \<open>src/api/c++/sqlrconnection.cpp\<close>).
  \<open>Connection_Server\<close> has what a daemon does with the commands that need no cursor, over the
  operations of the controller (\<open>connops\<close>); \<open>connectionCommandOf\<close> is the choice between them
  that fills the field \<open>connectionCommand\<close> of the command loop. \<open>Connection_Client\<close> has the
  operations of the client, over whatever answers it (\<open>peer\<close>). \<open>Connection_Rules\<close> has the
  locale \<open>wire_operation\<close>: an operation of the client and the command that serves it, with what
  it gives where the controller succeeds and where it fails; \<open>Connection_Calls\<close> interprets it
  on the operations one by one. \<open>Connection_Transactions\<close> takes the loop of \<open>Command_Loop\<close> for the
  peer and the controller of \<open>Transactions\<close> for \<open>connops\<close>, so that what a client does with
  transactions is what the controller does. \<open>Connection_Outcomes\<close> has the features of a
  database, refused names and what the commands leave of the input; \<open>Connection_Samples\<close> is a
  concrete client and daemon.

  \<^bold>\<open>Scaling and schedules.\<close> \<open>Scaler\<close> and \<open>Scaler_Bounds\<close> (\<open>src/server/sqlr-scaler.cpp\<close>) have
  the operating system as a parameter. \<open>Schedule\<close> and \<open>Schedule_Rules\<close>
  (\<open>src/server/sqlrschedule.cpp\<close>, \<open>sqlrschedules.cpp\<close>, \<open>schedules/cron_userlist.cpp\<close>) have the
  parsing and the application of rules.

  \<^bold>\<open>Loops.\<close> Loops over data recurse on it or have a measure. A loop that need not
  end is a \<open>partial_function (option)\<close>, and \<open>None\<close> means that it does not return:
  \<open>findCommaOrCloseParen\<close>, \<open>lobLoop\<close>, \<open>outLobLoop\<close>, \<open>rowLoop\<close> and \<open>processQueryOrBindCursor\<close> of the
  server, \<open>iterate\<close> under the client's loops and the loop over commands, \<open>reLogInLoop\<close>, and \<open>reapLoop\<close>, \<open>startOne\<close> and \<open>loop\<close> of the scaler. The theorems about
  them state that the result is \<open>Some\<close>, except where the code does not return, which is then
  a theorem as well (\<open>failed_spawn_never_ends\<close>). No fuel is used. A value \<open>None\<close> of a step of a
  parser stands for a read that fails, which the code reports.

  \<^bold>\<open>Parameters.\<close> Code outside the repository's sources is an argument: the host
  (\<open>platform_ok\<close>), the character functions of Rudiments (\<open>charlib_ok\<close>), its bind and
  pattern libraries (\<open>bindlib\<close>, \<open>textlib\<close>), the socket between server and client (\<open>sock_ok\<close>,
  and \<open>bind_sock_ok\<close> with truth values and doubles), the
  driver of the database (\<open>dbconn\<close>, \<open>cursordb\<close>, \<open>queryenv\<close>; \<open>delivers\<close> for the rows it gives, \<open>lobs_ok\<close>
  for its large objects), the operating system (\<open>sysops\<close>), the SQL parser and the modules (\<open>queryenv\<close>, whose modules are
  \<open>tame_env\<close> where they keep to the cursor they are given), the operations of the controller that only
  ask the driver (\<open>connops\<close>). Each contract is met by a
  concrete instance in the witnesses.

  \<^bold>\<open>Not modelled.\<close> The drivers of the databases are calls of vendor libraries. The
  foreign protocols (Oracle, TDS, Firebird, Teradata, MySQL, PostgreSQL) are not modelled
  apart from the integers they are made of and the slice descriptions. Of the native protocol,
  lists of databases and tables, the opening, suspending and resuming of a session in the
  client, result sets in cache files and custom query cursors are left out. Of the controller, the
  announcement over sockets, statistics in shared memory, column maps and the forwarding of
  metadata queries are left out; listener, loggers, module loading, configuration and the
  command-line programs are input and output around third-party code; the clients in other
  languages and the ODBC driver are glue over the C++ client.
\<close>

end
